(* ===== verification/Prelude.thy ===== *)
theory Prelude
  imports Main "HOL-Library.Word"
begin

text \<open>
  What every component shares: the command type of the model (a computation over an abstract
  world that may panic, exit or never return), the loops over lists, Rust's checked machine
  arithmetic, the clock the waiting loops read, and the lemma collections.

  A command is a function of the world \<^typ>\<open>'w\<close>.  \<open>None\<close> is a computation that never returns,
  \<open>Some (Inl h, w)\<close> one that panics or exits the process in world \<open>w\<close>, and \<open>Some (Inr a, w)\<close>
  one that returns \<open>a\<close>.  A Rust function returning \<open>Result<T, E>\<close> is a command of the sum
  type \<open>'e + 't\<close>, so an \<open>Err\<close> that is returned and a panic stay apart.
\<close>

section \<open>Commands\<close>

datatype halt = Panic string | Exit int

type_synonym ('w, 'a) outcome = "((halt + 'a) \<times> 'w) option"
type_synonym ('w, 'a) cmd = "'w \<Rightarrow> ('w, 'a) outcome"

named_theorems run_simps \<open>symbolic execution of commands\<close>

definition ret :: "'a \<Rightarrow> ('w, 'a) cmd" where
  "ret a = (\<lambda>w. Some (Inr a, w))"

definition halting :: "halt \<Rightarrow> ('w, 'a) cmd" where
  "halting h = (\<lambda>w. Some (Inl h, w))"

abbreviation panicking :: "string \<Rightarrow> ('w, 'a) cmd" where
  "panicking msg \<equiv> halting (Panic msg)"

definition bindM :: "('w, 'a) cmd \<Rightarrow> ('a \<Rightarrow> ('w, 'b) cmd) \<Rightarrow> ('w, 'b) cmd" where
  "bindM m f = (\<lambda>w. case m w of
      None \<Rightarrow> None
    | Some (Inl h, w') \<Rightarrow> Some (Inl h, w')
    | Some (Inr a, w') \<Rightarrow> f a w')"

text \<open>\<open>assert!\<close>, \<open>Option::expect\<close>/\<open>unwrap\<close> and \<open>Result::expect\<close>/\<open>unwrap\<close>.\<close>

definition assertM :: "bool \<Rightarrow> string \<Rightarrow> ('w, unit) cmd" where
  "assertM b msg = (if b then ret () else panicking msg)"

definition expectM :: "string \<Rightarrow> 'a option \<Rightarrow> ('w, 'a) cmd" where
  "expectM msg x = (case x of None \<Rightarrow> panicking msg | Some a \<Rightarrow> ret a)"

definition unwrapM :: "string \<Rightarrow> 'e + 'a \<Rightarrow> ('w, 'a) cmd" where
  "unwrapM msg r = (case r of Inl e \<Rightarrow> panicking msg | Inr a \<Rightarrow> ret a)"

definition UNWRAP :: string where \<comment> \<open>the message of a failed \<open>unwrap\<close>\<close>
  "UNWRAP = ''called `unwrap()` on an `Err` or a `None` value''"

text \<open>The \<open>?\<close> operator: an \<open>Err\<close> is returned from the enclosing function.\<close>

definition tryM :: "('w, 'e + 'a) cmd \<Rightarrow> ('a \<Rightarrow> ('w, 'e + 'b) cmd) \<Rightarrow> ('w, 'e + 'b) cmd" where
  "tryM m f = bindM m (\<lambda>r. case r of Inl e \<Rightarrow> ret (Inl e) | Inr a \<Rightarrow> f a)"

definition map_err :: "('e \<Rightarrow> 'f) \<Rightarrow> 'e + 'a \<Rightarrow> 'f + 'a" where
  "map_err g r = (case r of Inl e \<Rightarrow> Inl (g e) | Inr a \<Rightarrow> Inr a)"

definition mapC :: "('a \<Rightarrow> 'b) \<Rightarrow> ('w, 'a) cmd \<Rightarrow> ('w, 'b) cmd" where
  "mapC g m = bindM m (\<lambda>a. ret (g a))"

text \<open>\<open>for\<close> loops, iterator chains and folds whose closures have effects.\<close>

primrec forM :: "'a list \<Rightarrow> ('a \<Rightarrow> ('w, unit) cmd) \<Rightarrow> ('w, unit) cmd" where
  "forM [] f = ret ()"
| "forM (x # xs) f = bindM (f x) (\<lambda>_. forM xs f)"

primrec mapM :: "('a \<Rightarrow> ('w, 'b) cmd) \<Rightarrow> 'a list \<Rightarrow> ('w, 'b list) cmd" where
  "mapM f [] = ret []"
| "mapM f (x # xs) = bindM (f x) (\<lambda>y. bindM (mapM f xs) (\<lambda>ys. ret (y # ys)))"

primrec foldM :: "('s \<Rightarrow> 'a \<Rightarrow> ('w, 's) cmd) \<Rightarrow> 's \<Rightarrow> 'a list \<Rightarrow> ('w, 's) cmd" where
  "foldM f s [] = ret s"
| "foldM f s (x # xs) = bindM (f s x) (\<lambda>s'. foldM f s' xs)"

primrec allM :: "('a \<Rightarrow> ('w, bool) cmd) \<Rightarrow> 'a list \<Rightarrow> ('w, bool) cmd" where
  "allM f [] = ret True"
| "allM f (x # xs) = bindM (f x) (\<lambda>b. if b then allM f xs else ret False)"

primrec anyM :: "('a \<Rightarrow> ('w, bool) cmd) \<Rightarrow> 'a list \<Rightarrow> ('w, bool) cmd" where
  "anyM f [] = ret False"
| "anyM f (x # xs) = bindM (f x) (\<lambda>b. if b then ret True else anyM f xs)"

primrec filter_mapM :: "('a \<Rightarrow> ('w, 'b option) cmd) \<Rightarrow> 'a list \<Rightarrow> ('w, 'b list) cmd" where
  "filter_mapM f [] = ret []"
| "filter_mapM f (x # xs) = bindM (f x) (\<lambda>y. bindM (filter_mapM f xs)
     (\<lambda>ys. ret (case y of None \<Rightarrow> ys | Some b \<Rightarrow> b # ys)))"

text \<open>A command on a world that is one component of a larger one.\<close>

definition on_env :: "('w, 'a) cmd \<Rightarrow> ('i \<times> 'w, 'a) cmd" where
  "on_env m = (\<lambda>(i, w). case m w of None \<Rightarrow> None | Some (r, w') \<Rightarrow> Some (r, (i, w')))"

text \<open>Indexing panics out of bounds.\<close>

definition indexM :: "'a list \<Rightarrow> nat \<Rightarrow> ('w, 'a) cmd" where
  "indexM xs i = (if i < length xs then ret (xs ! i) else panicking ''index out of bounds'')"

text \<open>A \<open>for\<close> loop whose body uses \<open>?\<close>: the first \<open>Err\<close> leaves the loop and the function.\<close>

primrec forT :: "'a list \<Rightarrow> ('a \<Rightarrow> ('w, 'e + unit) cmd) \<Rightarrow> ('w, 'e + unit) cmd" where
  "forT [] f = ret (Inr ())"
| "forT (x # xs) f = tryM (f x) (\<lambda>_. forT xs f)"

section \<open>Execution lemmas\<close>

lemma ret_run [run_simps]: "ret a w = Some (Inr a, w)"
  by (simp add: ret_def)

lemma halting_run [run_simps]: "halting h w = Some (Inl h, w)"
  by (simp add: halting_def)

lemma bindM_run: "m w = Some (Inr a, w') \<Longrightarrow> bindM m f w = f a w'"
  by (simp add: bindM_def)

lemma bindM_halt: "m w = Some (Inl h, w') \<Longrightarrow> bindM m f w = Some (Inl h, w')"
  by (simp add: bindM_def)

lemma bindM_diverge: "m w = None \<Longrightarrow> bindM m f w = None"
  by (simp add: bindM_def)

declare bindM_run [run_simps] bindM_halt [run_simps] bindM_diverge [run_simps]

lemma bindM_ret [simp]: "bindM (ret a) f = f a"
  by (simp add: bindM_def ret_def)

lemma bindM_halting [simp]: "bindM (halting h) f = halting h"
  by (simp add: bindM_def halting_def fun_eq_iff)

lemma bindM_assoc: "bindM (bindM m f) g = bindM m (\<lambda>a. bindM (f a) g)"
  by (rule ext) (simp add: bindM_def split: option.splits sum.splits prod.splits)

lemma bindM_Inr_iff:
  "bindM m f w = Some (Inr b, w'') \<longleftrightarrow> (\<exists>a w'. m w = Some (Inr a, w') \<and> f a w' = Some (Inr b, w''))"
  by (auto simp: bindM_def split: option.splits sum.splits prod.splits)

lemma bindM_InrE:
  assumes "bindM m f w = Some (Inr b, w'')"
  obtains a w' where "m w = Some (Inr a, w')" "f a w' = Some (Inr b, w'')"
  using assms by (auto simp: bindM_Inr_iff)

lemma on_env_run [run_simps]: "m w = Some (r, w') \<Longrightarrow> on_env m (i, w) = Some (r, (i, w'))"
  by (simp add: on_env_def)

lemma indexM_ok [run_simps]: "i < length xs \<Longrightarrow> indexM xs i = ret (xs ! i)"
  by (simp add: indexM_def)

lemma halting_neq_ret [simp]: "halting h \<noteq> ret a" "ret a \<noteq> halting h"
  by (auto simp: halting_def ret_def fun_eq_iff)

lemma ret_inject [simp]: "ret a = ret b \<longleftrightarrow> a = b"
  by (auto simp: ret_def fun_eq_iff)

lemma assertM_True [simp]: "assertM True msg = ret ()"
  by (simp add: assertM_def)

lemma assertM_False [simp]: "assertM False msg = panicking msg"
  by (simp add: assertM_def)

lemma assertM_Inr_iff: "assertM b msg w = Some (Inr u, w') \<longleftrightarrow> b \<and> w' = w"
  by (auto simp: assertM_def ret_def halting_def)

lemma expectM_Some [simp]: "expectM msg (Some a) = ret a"
  by (simp add: expectM_def)

lemma expectM_None [simp]: "expectM msg None = panicking msg"
  by (simp add: expectM_def)

lemma expectM_Inr_iff: "expectM msg x w = Some (Inr a, w') \<longleftrightarrow> x = Some a \<and> w' = w"
  by (auto simp: expectM_def ret_def halting_def split: option.splits)

lemma unwrapM_Inr [simp]: "unwrapM msg (Inr a) = ret a"
  by (simp add: unwrapM_def)

lemma unwrapM_Inl [simp]: "unwrapM msg (Inl e) = panicking msg"
  by (simp add: unwrapM_def)

lemma ret_Inr_iff: "ret a w = Some (Inr b, w') \<longleftrightarrow> a = b \<and> w' = w"
  by (auto simp: ret_def)

lemma tryM_run_Inr [run_simps]: "m w = Some (Inr (Inr a), w') \<Longrightarrow> tryM m f w = f a w'"
  by (simp add: tryM_def bindM_def)

lemma tryM_run_Inl [run_simps]: "m w = Some (Inr (Inl e), w') \<Longrightarrow> tryM m f w = Some (Inr (Inl e), w')"
  by (simp add: tryM_def bindM_def ret_def)

lemma tryM_ret_Inr [simp]: "tryM (ret (Inr a)) f = f a"
  by (simp add: tryM_def)

lemma tryM_ret_Inl [simp]: "tryM (ret (Inl e)) f = ret (Inl e)"
  by (simp add: tryM_def)

lemma tryM_Inr_iff:
  "tryM m f w = Some (Inr (Inr b), w'') \<longleftrightarrow>
     (\<exists>a w'. m w = Some (Inr (Inr a), w') \<and> f a w' = Some (Inr (Inr b), w''))"
proof -
  have "(case r of Inl e \<Rightarrow> ret (Inl e) | Inr a \<Rightarrow> f a) w' = Some (Inr (Inr b), w'')
      \<longleftrightarrow> (\<exists>a. r = Inr a \<and> f a w' = Some (Inr (Inr b), w''))" for r w'
    by (cases r) (simp_all add: ret_def)
  then show ?thesis
    by (auto simp: tryM_def bindM_Inr_iff)
qed

lemma map_err_simps [simp]: "map_err g (Inl e) = Inl (g e)" "map_err g (Inr a) = Inr a"
  by (simp_all add: map_err_def)

lemma mapC_run [run_simps]: "m w = Some (Inr a, w') \<Longrightarrow> mapC g m w = Some (Inr (g a), w')"
  by (simp add: mapC_def bindM_def ret_def)

lemma mapM_ret: "list_all2 (\<lambda>x y. f x = ret y) xs ys \<Longrightarrow> mapM f xs = ret ys"
  by (induction rule: list_all2_induct) simp_all

lemma forM_append: "forM (xs @ ys) f = bindM (forM xs f) (\<lambda>_. forM ys f)"
  by (induction xs) (simp_all add: bindM_assoc)

lemma tryM_assoc: "tryM (tryM m f) g = tryM m (\<lambda>a. tryM (f a) g)"
  by (rule ext) (simp add: tryM_def bindM_def ret_def split: option.splits sum.splits prod.splits)

lemma forT_append: "forT (xs @ ys) f = tryM (forT xs f) (\<lambda>_. forT ys f)"
  by (induction xs) (simp_all add: tryM_assoc)

text \<open>Commands that only read: the world they return is the one they were given.\<close>

definition reads :: "('w, 'a) cmd \<Rightarrow> 'w \<Rightarrow> 'a \<Rightarrow> bool" where
  "reads m w a \<longleftrightarrow> m w = Some (Inr a, w)"

lemma readsD: "reads m w a \<Longrightarrow> m w = Some (Inr a, w)"
  by (simp add: reads_def)

lemma reads_ret [simp]: "reads (ret a) w b \<longleftrightarrow> a = b"
  by (simp add: reads_def ret_def)

lemma reads_bindM: "reads m w a \<Longrightarrow> reads (f a) w b \<Longrightarrow> reads (bindM m f) w b"
  by (simp add: reads_def bindM_def)

lemma reads_mapM: "(\<And>x. x \<in> set xs \<Longrightarrow> reads (f x) w (g x)) \<Longrightarrow> reads (mapM f xs) w (map g xs)"
  by (induction xs) (simp_all add: reads_def bindM_def ret_def)

lemma reads_allM: "(\<And>x. x \<in> set xs \<Longrightarrow> reads (f x) w (g x)) \<Longrightarrow> reads (allM f xs) w (\<forall>x \<in> set xs. g x)"
  by (induction xs) (auto simp: reads_def bindM_def ret_def)

lemma reads_anyM: "(\<And>x. x \<in> set xs \<Longrightarrow> reads (f x) w (g x)) \<Longrightarrow> reads (anyM f xs) w (\<exists>x \<in> set xs. g x)"
  by (induction xs) (auto simp: reads_def bindM_def ret_def)

lemma reads_filter_mapM:
  "(\<And>x. x \<in> set xs \<Longrightarrow> reads (f x) w (g x)) \<Longrightarrow> reads (filter_mapM f xs) w (List.map_filter g xs)"
  by (induction xs) (auto simp: reads_def bindM_def ret_def List.map_filter_def split: option.splits)

section \<open>Loops\<close>

text \<open>
  A loop that may run forever is a \<^theory_text>\<open>partial_function (option)\<close>; its body is
  built from \<^const>\<open>bindM\<close>, whose monotonicity the package needs.
\<close>

lemma bindM_mono [partial_function_mono]:
  fixes m :: "('p \<Rightarrow> 'q option) \<Rightarrow> ('w, 'a) cmd"
    and k :: "('p \<Rightarrow> 'q option) \<Rightarrow> 'a \<Rightarrow> ('w, 'b) cmd"
  assumes "\<And>w. mono_option (\<lambda>f. m f w)" and "\<And>a w. mono_option (\<lambda>f. k f a w)"
  shows "mono_option (\<lambda>f. bindM (m f) (k f) w)"
proof (rule monotoneI)
  fix f g :: "'p \<Rightarrow> 'q option"
  assume le: "fun_ord option_ord f g"
  have m: "option_ord (m f w) (m g w)" for w
    using assms(1)[of w] le by (rule monotoneD[of _ _ _ f g])
  have k: "option_ord (k f a w) (k g a w)" for a w
    using assms(2)[of a w] le by (rule monotoneD[of _ _ _ f g])
  show "option_ord (bindM (m f) (k f) w) (bindM (m g) (k g) w)"
  proof (cases "m f w = None")
    case True
    then show ?thesis by (simp add: bindM_def flat_ord_def)
  next
    case False
    with m[of w] have eq: "m f w = m g w" by (simp add: flat_ord_def)
    show ?thesis
    proof (cases "\<exists>a w'. m g w = Some (Inr a, w')")
      case True
      then obtain a w' where "m g w = Some (Inr a, w')" by blast
      then show ?thesis using k[of a w'] eq by (simp add: bindM_def)
    next
      case False
      then show ?thesis using eq by (auto simp: bindM_def flat_ord_def split: option.split sum.split)
    qed
  qed
qed

lemma tryM_mono [partial_function_mono]:
  fixes m :: "('p \<Rightarrow> 'q option) \<Rightarrow> ('w, 'e + 'a) cmd"
    and k :: "('p \<Rightarrow> 'q option) \<Rightarrow> 'a \<Rightarrow> ('w, 'e + 'b) cmd"
  assumes "\<And>w. mono_option (\<lambda>f. m f w)" and "\<And>a w. mono_option (\<lambda>f. k f a w)"
  shows "mono_option (\<lambda>f. tryM (m f) (k f) w)"
  unfolding tryM_def
proof (rule bindM_mono[OF assms(1)])
  fix r :: "'e + 'a" and w :: 'w
  show "mono_option (\<lambda>f. (case r of Inl e \<Rightarrow> ret (Inl e) | Inr a \<Rightarrow> k f a) w)"
    by (cases r) (simp_all add: assms(2) option.const_mono)
qed

lemma if_cmd_mono [partial_function_mono]:
  "mono_option (\<lambda>f. m f w) \<Longrightarrow> mono_option (\<lambda>f. k f w) \<Longrightarrow>
     mono_option (\<lambda>f. (if b then m f else k f) w)"
  by (cases b) simp_all

lemma option_cmd_mono [partial_function_mono]:
  "mono_option (\<lambda>f. m f w) \<Longrightarrow> (\<And>a. mono_option (\<lambda>f. k f a w)) \<Longrightarrow>
     mono_option (\<lambda>f. (case x of None \<Rightarrow> m f | Some a \<Rightarrow> k f a) w)"
  by (cases x) simp_all

lemma sum_cmd_mono [partial_function_mono]:
  "(\<And>e. mono_option (\<lambda>f. m f e w)) \<Longrightarrow> (\<And>a. mono_option (\<lambda>f. k f a w)) \<Longrightarrow>
     mono_option (\<lambda>f. (case x of Inl e \<Rightarrow> m f e | Inr a \<Rightarrow> k f a) w)"
  by (cases x) simp_all

lemma prod_cmd_mono [partial_function_mono]:
  "(\<And>a b. mono_option (\<lambda>f. m f a b w)) \<Longrightarrow> mono_option (\<lambda>f. (case x of (a, b) \<Rightarrow> m f a b) w)"
  by (cases x) simp_all

section \<open>Machine arithmetic\<close>

text \<open>
  \<open>u64\<close> and (on the 64-bit targets the tools run on) \<open>usize\<close> values are naturals below
  \<open>2 ^ 64\<close>.  Rust's \<open>+\<close>, \<open>-\<close> and \<open>*\<close> panic on overflow when the profile has overflow checks
  (\<open>cargo build\<close>, \<open>cargo run\<close>) and wrap when it has not (\<open>cargo build --release\<close>); the
  repository builds both ways, so the profile \<open>oc\<close> is a parameter.  Division by zero always
  panics, and \<open>saturating_sub\<close> is subtraction on \<^typ>\<open>nat\<close>.
\<close>

definition u64_lim :: nat where
  "u64_lim = 2 ^ 64"

definition arith_result :: "bool \<Rightarrow> int \<Rightarrow> ('w, nat) cmd" where
  "arith_result oc v =
     (if 0 \<le> v \<and> v < int u64_lim then ret (nat v)
      else if oc then panicking ''arithmetic overflow''
      else ret (nat (v mod int u64_lim)))"

definition u64_add :: "bool \<Rightarrow> nat \<Rightarrow> nat \<Rightarrow> ('w, nat) cmd" where
  "u64_add oc a b = arith_result oc (int a + int b)"

definition u64_sub :: "bool \<Rightarrow> nat \<Rightarrow> nat \<Rightarrow> ('w, nat) cmd" where
  "u64_sub oc a b = arith_result oc (int a - int b)"

definition u64_mul :: "bool \<Rightarrow> nat \<Rightarrow> nat \<Rightarrow> ('w, nat) cmd" where
  "u64_mul oc a b = arith_result oc (int a * int b)"

definition u64_div :: "nat \<Rightarrow> nat \<Rightarrow> ('w, nat) cmd" where
  "u64_div a b = (if b = 0 then panicking ''attempt to divide by zero'' else ret (a div b))"

definition u64_rem :: "nat \<Rightarrow> nat \<Rightarrow> ('w, nat) cmd" where
  "u64_rem a b = (if b = 0 then panicking ''attempt to calculate the remainder with a divisor of zero''
     else ret (a mod b))"

text \<open>\<open>Iterator::sum\<close>.\<close>

definition u64_sum :: "bool \<Rightarrow> nat list \<Rightarrow> ('w, nat) cmd" where
  "u64_sum oc = foldM (u64_add oc) 0"

lemma u64_add_ok [run_simps]: "a + b < u64_lim \<Longrightarrow> u64_add oc a b = ret (a + b)"
  by (simp add: u64_add_def arith_result_def nat_add_distrib)

lemma u64_sub_ok [run_simps]: "b \<le> a \<Longrightarrow> a < u64_lim \<Longrightarrow> u64_sub oc a b = ret (a - b)"
  by (simp add: u64_sub_def arith_result_def nat_diff_distrib)

lemma u64_mul_ok [run_simps]: "a * b < u64_lim \<Longrightarrow> u64_mul oc a b = ret (a * b)"
proof -
  assume "a * b < u64_lim"
  then have "int a * int b < int u64_lim"
    by (metis of_nat_less_iff of_nat_mult)
  then show ?thesis
    by (simp add: u64_mul_def arith_result_def nat_mult_distrib)
qed

lemma u64_div_ok [run_simps]: "b \<noteq> 0 \<Longrightarrow> u64_div a b = ret (a div b)"
  by (simp add: u64_div_def)

lemma u64_rem_ok [run_simps]: "b \<noteq> 0 \<Longrightarrow> u64_rem a b = ret (a mod b)"
  by (simp add: u64_rem_def)

lemma u64_sub_underflow: "a < b \<Longrightarrow> u64_sub True a b = panicking ''arithmetic overflow''"
  by (simp add: u64_sub_def arith_result_def)

lemma foldM_add_ok:
  "s + sum_list xs < u64_lim \<Longrightarrow> foldM (u64_add oc) s xs = ret (s + sum_list xs)"
proof (induction xs arbitrary: s)
  case Nil
  then show ?case by simp
next
  case (Cons x xs)
  then have "s + x < u64_lim" by simp
  then show ?case
    using Cons by (simp add: u64_add_ok add.assoc)
qed

lemma u64_sum_ok [run_simps]: "sum_list xs < u64_lim \<Longrightarrow> u64_sum oc xs = ret (sum_list xs)"
  using foldM_add_ok[of 0 xs oc] by (simp add: u64_sum_def)

section \<open>The clock\<close>

text \<open>
  \<open>Instant::now\<close> reads the monotonic clock of the world, in nanoseconds, and
  \<open>thread::sleep\<close> changes the world.  What the waiting loops rely on is documented in
  \<open>std::thread::sleep\<close>: it never returns before the duration has passed.
\<close>

record 'w clock =
  now :: "'w \<Rightarrow> nat"
  sleep :: "nat \<Rightarrow> 'w \<Rightarrow> 'w"

definition secs :: "nat \<Rightarrow> nat" where
  "secs n = n * 1000000000"

definition millis :: "nat \<Rightarrow> nat" where
  "millis n = n * 1000000"

definition as_millis :: "nat \<Rightarrow> nat" where
  "as_millis d = d div 1000000"

definition sleeping :: "'w clock \<Rightarrow> nat \<Rightarrow> ('w, unit) cmd" where
  "sleeping clk d = (\<lambda>w. Some (Inr (), sleep clk d w))"

definition reading :: "('w \<Rightarrow> 'a) \<Rightarrow> ('w, 'a) cmd" where
  "reading g = (\<lambda>w. Some (Inr (g w), w))"

definition steady_clock :: "'w clock \<Rightarrow> bool" where
  "steady_clock clk \<longleftrightarrow> (\<forall>d w. now clk w + d \<le> now clk (sleep clk d w))"

lemma sleeping_run [run_simps]: "sleeping clk d w = Some (Inr (), sleep clk d w)"
  by (simp add: sleeping_def)

lemma reading_run [run_simps]: "reading g w = Some (Inr (g w), w)"
  by (simp add: reading_def)

lemma as_millis_millis [simp]: "as_millis (millis n) = n"
  by (simp add: as_millis_def millis_def)

lemma steady_clockD: "steady_clock clk \<Longrightarrow> now clk w + d \<le> now clk (sleep clk d w)"
  by (simp add: steady_clock_def)

section \<open>Hash maps\<close>

text \<open>
  A \<open>HashMap\<close> is a finite partial map.  The order in which one is iterated is unspecified: it
  is a parameter \<open>iter\<close> that lists a finite set of keys, each once.
\<close>

type_synonym 'k iter_order = "'k set \<Rightarrow> 'k list"

definition iterates :: "'k iter_order \<Rightarrow> bool" where
  "iterates iter \<longleftrightarrow> (\<forall>A. finite A \<longrightarrow> distinct (iter A) \<and> set (iter A) = A)"

definition hm_keys :: "'k iter_order \<Rightarrow> ('k \<rightharpoonup> 'v) \<Rightarrow> 'k list" where
  "hm_keys iter m = iter (dom m)"

definition hm_values :: "'k iter_order \<Rightarrow> ('k \<rightharpoonup> 'v) \<Rightarrow> 'v list" where
  "hm_values iter m = map (\<lambda>k. the (m k)) (iter (dom m))"

lemma iteratesD: "iterates iter \<Longrightarrow> finite A \<Longrightarrow> distinct (iter A) \<and> set (iter A) = A"
  by (simp add: iterates_def)

lemma set_hm_keys: "iterates iter \<Longrightarrow> finite (dom m) \<Longrightarrow> set (hm_keys iter m) = dom m"
  by (simp add: hm_keys_def iteratesD)

lemma set_hm_values: "iterates iter \<Longrightarrow> finite (dom m) \<Longrightarrow> set (hm_values iter m) = ran m"
  by (force simp: hm_values_def iteratesD ran_def dom_def)

lemma length_hm_keys: "iterates iter \<Longrightarrow> finite (dom m) \<Longrightarrow> length (hm_keys iter m) = card (dom m)"
  unfolding hm_keys_def by (metis distinct_card iteratesD)

lemma length_hm_values: "iterates iter \<Longrightarrow> finite (dom m) \<Longrightarrow> length (hm_values iter m) = card (dom m)"
  using length_hm_keys by (fastforce simp: hm_keys_def hm_values_def)

lemma find_SomeD: "List.find P xs = Some x \<Longrightarrow> x \<in> set xs \<and> P x"
  by (induction xs) (auto split: if_splits)

lemma iterates_sorted: "iterates sorted_list_of_set"
  by (simp add: iterates_def)

end
