(* ===== verification/Compress.thy ===== *)
theory Compress
  imports Prelude
begin

unbundle bit_operations_syntax

text \<open>
  \<open>ckb-testkit/src/connector/compress.rs\<close>: the framing of a p2p message.  One flag byte, then the
  payload, snappy-compressed when the message is long.  The snappy codec (crate \<open>snap\<close>) is the
  parameter \<open>S\<close>; what the round trip relies on is its documented contract \<open>snap_ok\<close>.
\<close>

type_synonym byte = "8 word"
type_synonym bytes = "byte list"

datatype io_error = InvalidData

record snap =
  compress_vec :: "bytes \<Rightarrow> string + bytes"
  decompress_len :: "bytes \<Rightarrow> string + nat"
  snap_decompress :: "bytes \<Rightarrow> nat \<Rightarrow> string + bytes" \<comment> \<open>input, length of the output buffer\<close>

definition snap_ok :: "snap \<Rightarrow> bool" where
  "snap_ok S \<longleftrightarrow>
     (\<forall>x y. compress_vec S x = Inr y \<longrightarrow>
        decompress_len S y = Inr (length x) \<and> snap_decompress S y (length x) = Inr x) \<and>
     (\<forall>y n x. snap_decompress S y n = Inr x \<longrightarrow> length x = n)"

definition COMPRESSION_SIZE_THRESHOLD :: nat where
  "COMPRESSION_SIZE_THRESHOLD = 1024"

definition UNCOMPRESS_FLAG :: byte where
  "UNCOMPRESS_FLAG = 0b00000000"

definition COMPRESS_FLAG :: byte where
  "COMPRESS_FLAG = 0b10000000"

definition MAX_UNCOMPRESSED_LEN :: nat where
  "MAX_UNCOMPRESSED_LEN = 2 ^ 23"

record message =
  inner :: bytes

definition from_raw :: "bytes \<Rightarrow> message" where
  "from_raw data = \<lparr>inner = UNCOMPRESS_FLAG # data\<rparr>"

definition from_compressed :: "bytes \<Rightarrow> message" where
  "from_compressed data = \<lparr>inner = data\<rparr>"

definition set_compress_flag :: "message \<Rightarrow> message" where
  "set_compress_flag m = m\<lparr>inner := (inner m)[0 := COMPRESS_FLAG]\<rparr>"

definition compress_flag :: "message \<Rightarrow> bool" where
  "compress_flag m \<longleftrightarrow> (inner m ! 0) AND COMPRESS_FLAG \<noteq> 0"

definition message_compress :: "snap \<Rightarrow> message \<Rightarrow> bytes" where
  "message_compress S m =
     (if length (inner m) > COMPRESSION_SIZE_THRESHOLD then
        (let input = drop 1 (inner m); m1 = m\<lparr>inner := take 1 (inner m)\<rparr>
         in case compress_vec S input of
              Inr res \<Rightarrow> inner (set_compress_flag (m1\<lparr>inner := inner m1 @ res\<rparr>))
            | Inl e \<Rightarrow> inner (m1\<lparr>inner := inner m1 @ input\<rparr>))
      else inner m)"

definition message_decompress :: "snap \<Rightarrow> message \<Rightarrow> io_error + bytes" where
  "message_decompress S m =
     (if inner m = [] then Inl InvalidData
      else if compress_flag m then
        (case decompress_len S (drop 1 (inner m)) of
           Inr decompressed_bytes_len \<Rightarrow>
             (if decompressed_bytes_len > MAX_UNCOMPRESSED_LEN then Inl InvalidData
              else (case snap_decompress S (drop 1 (inner m)) decompressed_bytes_len of
                      Inr buf \<Rightarrow> Inr buf
                    | Inl e \<Rightarrow> Inl InvalidData))
         | Inl e \<Rightarrow> Inl InvalidData)
      else Inr (drop 1 (inner m)))"

definition compress :: "snap \<Rightarrow> bytes \<Rightarrow> bytes" where
  "compress S src = message_compress S (from_raw src)"

definition decompress :: "snap \<Rightarrow> bytes \<Rightarrow> io_error + bytes" where
  "decompress S src = message_decompress S (from_compressed src)"

lemmas compress_defs =
  compress_def decompress_def message_compress_def message_decompress_def from_raw_def
  from_compressed_def set_compress_flag_def compress_flag_def
  UNCOMPRESS_FLAG_def COMPRESS_FLAG_def

lemma compress_cases:
  "compress S d =
     (if length d < COMPRESSION_SIZE_THRESHOLD then UNCOMPRESS_FLAG # d
      else case compress_vec S d of Inr y \<Rightarrow> COMPRESS_FLAG # y | Inl e \<Rightarrow> UNCOMPRESS_FLAG # d)"
  by (auto simp: compress_defs COMPRESSION_SIZE_THRESHOLD_def split: sum.split)

lemma decompress_raw: "decompress S (UNCOMPRESS_FLAG # d) = Inr d"
  by (simp add: compress_defs)

lemma decompress_flagged:
  "decompress S (COMPRESS_FLAG # y) =
     (case decompress_len S y of
        Inr n \<Rightarrow> (if n > MAX_UNCOMPRESSED_LEN then Inl InvalidData
                  else case snap_decompress S y n of Inr b \<Rightarrow> Inr b | Inl e \<Rightarrow> Inl InvalidData)
      | Inl e \<Rightarrow> Inl InvalidData)"
  by (auto simp: compress_defs split: sum.split)

section \<open>The interface: what a protocol's transformers promise\<close>

text \<open>
  \<open>SimpleProtocolHandler::build\<close> installs a pair of functions around a protocol: one applied
  before a message is sent, one to what is received.  Whoever uses the pair relies on one law:
  a message that fits is received as it was sent.
\<close>

locale wire_transform =
  fixes before_send :: "bytes \<Rightarrow> bytes"
    and before_receive :: "bytes \<Rightarrow> 'e + bytes"
    and fits :: "bytes \<Rightarrow> bool"
  assumes wire: "fits d \<Longrightarrow> before_receive (before_send d) = Inr d"
begin

lemma send_inj: "fits d \<Longrightarrow> fits e \<Longrightarrow> before_send d = before_send e \<Longrightarrow> d = e"
  by (metis wire sum.inject(2))

lemma stream_wire: "list_all fits ds \<Longrightarrow> map (before_receive \<circ> before_send) ds = map Inr ds"
  by (induction ds) (simp_all add: wire)

end

interpretation plain_wire: wire_transform "\<lambda>d. d" "\<lambda>d. Inr d :: io_error + bytes" "\<lambda>_. True"
  by unfold_locales simp

lemma compress_wire:
  assumes "snap_ok S" and "length d \<le> MAX_UNCOMPRESSED_LEN"
  shows "decompress S (compress S d) = Inr d"
proof (cases "compress_vec S d")
  case (Inl e)
  then show ?thesis by (simp add: compress_cases decompress_raw)
next
  case (Inr y)
  then have "decompress_len S y = Inr (length d)" "snap_decompress S y (length d) = Inr d"
    using assms(1) by (auto simp: snap_ok_def)
  then show ?thesis
    using Inr assms(2) by (simp add: compress_cases decompress_raw decompress_flagged)
qed

interpretation snappy_wire: wire_transform "compress S" "decompress S"
    "\<lambda>d. snap_ok S \<and> length d \<le> MAX_UNCOMPRESSED_LEN" for S
  by unfold_locales (simp add: compress_wire)

section \<open>Properties\<close>

text \<open>
  C28.  Round trip: what \<open>compress\<close> sends, \<open>decompress\<close> gives back unchanged, for every payload
  of at most 8 MB and on all three paths (short, compressed, codec error).
\<close>

theorem decompress_compress:
  assumes "snap_ok S" and "length d \<le> MAX_UNCOMPRESSED_LEN"
  shows "decompress S (compress S d) = Inr d"
  using assms by (intro snappy_wire.wire) simp

text \<open>A concrete codec for the witnesses: a copy with no header.\<close>

definition copy_snap :: snap where
  "copy_snap = \<lparr>compress_vec = Inr, decompress_len = (\<lambda>y. Inr (length y)),
     snap_decompress = (\<lambda>y n. if length y = n then Inr y else Inl ''length'')\<rparr>"

lemma snap_ok_copy: "snap_ok copy_snap"
  by (auto simp: snap_ok_def copy_snap_def split: if_splits)

theorem decompress_compress_witness:
  "decompress copy_snap (compress copy_snap (replicate 2000 7)) = Inr (replicate 2000 7)"
  by (rule decompress_compress[OF snap_ok_copy]) (simp add: MAX_UNCOMPRESSED_LEN_def)

text \<open>
  C38.  The receiving side is total and bounded: whatever bytes arrive, \<open>decompress\<close> never yields
  more than 8 MB out of a compressed frame; a compressed payload announced as longer is refused
  before any buffer of that size is filled, and an empty frame is refused.  So a payload above
  the limit that the sender did compress is lost: it comes back as \<open>InvalidData\<close>.
\<close>

theorem decompress_bounded:
  assumes "snap_ok S"
  shows "(decompress S src = Inr out \<longrightarrow> length out \<le> max MAX_UNCOMPRESSED_LEN (length src - 1))
    \<and> decompress S [] = Inl InvalidData
    \<and> (compress_vec S d = Inr y \<and> MAX_UNCOMPRESSED_LEN < length d
         \<longrightarrow> decompress S (compress S d) = Inl InvalidData)"
proof (intro conjI impI)
  assume "decompress S src = Inr out"
  then show "length out \<le> max MAX_UNCOMPRESSED_LEN (length src - 1)"
    using assms by (auto simp: compress_defs snap_ok_def split: if_splits sum.splits)
next
  show "decompress S [] = Inl InvalidData"
    by (simp add: compress_defs)
next
  assume *: "compress_vec S d = Inr y \<and> MAX_UNCOMPRESSED_LEN < length d"
  then have "decompress_len S y = Inr (length d)"
    using assms by (auto simp: snap_ok_def)
  with * show "decompress S (compress S d) = Inl InvalidData"
    by (simp add: compress_cases decompress_flagged MAX_UNCOMPRESSED_LEN_def
        COMPRESSION_SIZE_THRESHOLD_def)
qed

theorem decompress_bounded_witness:
  "decompress copy_snap [0x80, 1, 2] = Inr [1, 2]
    \<and> length [1, 2 :: byte] \<le> max MAX_UNCOMPRESSED_LEN (length [0x80, 1, 2 :: byte] - 1)
    \<and> decompress copy_snap [] = Inl InvalidData"
proof -
  have "decompress copy_snap [0x80, 1, 2] = Inr [1, 2]"
    by (simp add: compress_defs copy_snap_def MAX_UNCOMPRESSED_LEN_def)
  with decompress_bounded[OF snap_ok_copy] show ?thesis by blast
qed

end
