(* ===== verification/RustStr.thy ===== *)
theory RustStr
  imports Prelude "HOL-Library.Sublist"
begin

text \<open>
  The string operations of Rust's standard library that the tools use: \<open>str::contains\<close>,
  \<open>str::replace\<close>, \<open>slice::join\<close> of strings and the decimal formatting of integers.  Strings are
  byte lists (UTF-8), which is how these operations compare them.
\<close>

fun str_contains :: "string \<Rightarrow> string \<Rightarrow> bool" where
  "str_contains pat [] = (pat = [])"
| "str_contains pat (c # cs) = (prefix pat (c # cs) \<or> str_contains pat cs)"

text \<open>
  \<open>str::replace\<close> replaces the non-overlapping matches of the pattern from left to right; the
  empty pattern matches at every boundary.
\<close>

function (sequential) replace_from :: "string \<Rightarrow> string \<Rightarrow> string \<Rightarrow> string" where
  "replace_from pat rep [] = []"
| "replace_from pat rep (c # cs) =
     (if pat \<noteq> [] \<and> prefix pat (c # cs) then rep @ replace_from pat rep (drop (length pat) (c # cs))
      else c # replace_from pat rep cs)"
  by pat_completeness auto
termination
  by (relation "measure (\<lambda>(pat, rep, s). length s)") auto

definition str_replace :: "string \<Rightarrow> string \<Rightarrow> string \<Rightarrow> string" where
  "str_replace pat rep s =
     (if pat = [] then rep @ concat (map (\<lambda>c. c # rep) s) else replace_from pat rep s)"

fun str_join :: "string \<Rightarrow> string list \<Rightarrow> string" where
  "str_join sep [] = []"
| "str_join sep [x] = x"
| "str_join sep (x # y # ys) = x @ sep @ str_join sep (y # ys)"

definition digit_char :: "nat \<Rightarrow> char" where
  "digit_char d = char_of (48 + d)"

fun to_decimal :: "nat \<Rightarrow> string" where
  "to_decimal n = (if n < 10 then [digit_char n] else to_decimal (n div 10) @ [digit_char (n mod 10)])"

declare to_decimal.simps [simp del]

lemma str_contains_iff: "str_contains pat s \<longleftrightarrow> (\<exists>u v. s = u @ pat @ v)"
proof (induction s)
  case Nil
  then show ?case by auto
next
  case (Cons c cs)
  show ?case
  proof
    assume "str_contains pat (c # cs)"
    then show "\<exists>u v. c # cs = u @ pat @ v"
      using Cons by (auto simp: prefix_def intro: exI[of _ "[]"] append_Cons[symmetric])
  next
    assume "\<exists>u v. c # cs = u @ pat @ v"
    then obtain u v where eq: "c # cs = u @ pat @ v" by blast
    show "str_contains pat (c # cs)"
    proof (cases u)
      case Nil
      with eq have "prefix pat (c # cs)" by simp
      then show ?thesis by simp
    next
      case (Cons a u')
      with eq have "cs = u' @ pat @ v" by simp
      with Cons.IH show ?thesis by auto
    qed
  qed
qed

lemma str_contains_refl [simp]: "str_contains s s"
  unfolding str_contains_iff by (metis append_Nil append_Nil2)

lemma str_contains_empty [simp]: "str_contains [] s"
  by (cases s) simp_all

lemma str_contains_self: "str_contains pat (u @ pat @ v)"
  by (auto simp: str_contains_iff)

lemma replace_from_absent: "\<not> str_contains pat s \<Longrightarrow> replace_from pat rep s = s"
  by (induction s) auto

lemma str_contains_drop: "str_contains q (drop n s) \<Longrightarrow> str_contains q s"
  by (metis append_take_drop_id append.assoc str_contains_iff)

text \<open>A string none of whose proper suffixes is one of its prefixes cannot overlap itself.\<close>

definition borderless :: "string \<Rightarrow> bool" where
  "borderless q \<longleftrightarrow> (\<forall>n \<in> set [1..<length q]. \<not> prefix (drop n q) q)"

lemma prefix_replaceD:
  assumes "prefix r (replace_from p q s)" and "length r \<le> length q"
    and "\<And>n. n < length r \<Longrightarrow> \<not> prefix (drop n r) q"
  shows "prefix r s"
  using assms
proof (induction p q s arbitrary: r rule: replace_from.induct)
  case (1 pat rep)
  then show ?case by simp
next
  case (2 pat rep c cs)
  show ?case
  proof (cases "r = []")
    case True
    then show ?thesis by simp
  next
    case False
    show ?thesis
    proof (cases "pat \<noteq> [] \<and> prefix pat (c # cs)")
      case True
      then have "prefix r (rep @ replace_from pat rep (drop (length pat) (c # cs)))"
        using "2.prems"(1) by simp
      then have "prefix r rep"
        using "2.prems"(2) prefix_length_prefix prefixI by blast
      then show ?thesis using "2.prems"(3)[of 0] \<open>r \<noteq> []\<close> by simp
    next
      case False
      then have "replace_from pat rep (c # cs) = c # replace_from pat rep cs"
        by (simp only: replace_from.simps if_False)
      with "2.prems"(1) have "prefix r (c # replace_from pat rep cs)"
        by (simp only:)
      then obtain r' where r: "r = c # r'" "prefix r' (replace_from pat rep cs)"
        using \<open>r \<noteq> []\<close> by (cases r) auto
      have "prefix r' cs"
      proof (rule "2.IH"(2)[OF False r(2)])
        show "length r' \<le> length rep" using "2.prems"(2) r(1) by simp
        show "\<not> prefix (drop n r') rep" if "n < length r'" for n
          using "2.prems"(3)[of "Suc n"] r(1) that by simp
      qed
      then show ?thesis using r(1) by simp
    qed
  qed
qed

text \<open>Replacing back is exact when the replacement was absent and cannot overlap itself.\<close>

lemma replace_from_roundtrip:
  assumes "p \<noteq> []" "q \<noteq> []" "borderless q" "\<not> str_contains q s"
  shows "replace_from q p (replace_from p q s) = s"
  using assms(4)
proof (induction s rule: length_induct)
  case (1 s)
  show ?case
  proof (cases s)
    case Nil
    then show ?thesis by simp
  next
    case (Cons c cs)
    show ?thesis
    proof (cases "prefix p s")
      case True
      define s' where "s' = drop (length p) s"
      have len: "length s' < length s" using assms(1) Cons s'_def by simp
      have absent: "\<not> str_contains q s'"
        using 1(2) str_contains_drop s'_def by blast
      have s: "s = p @ s'" using True by (auto simp: prefix_def s'_def)
      have "replace_from p q s = q @ replace_from p q s'"
        using True assms(1) Cons s'_def by simp
      moreover obtain a q' where "q = a # q'" using assms(2) by (cases q) auto
      ultimately have "replace_from q p (replace_from p q s) = p @ replace_from q p (replace_from p q s')"
        by simp
      then show ?thesis using 1(1) len absent s by simp
    next
      case False
      then have r: "replace_from p q s = c # replace_from p q cs" using Cons by simp
      have "\<not> prefix q (c # replace_from p q cs)"
      proof
        assume "prefix q (c # replace_from p q cs)"
        then obtain q' where q: "q = c # q'" "prefix q' (replace_from p q cs)"
          using assms(2) by (cases q) auto
        have "prefix q' cs"
        proof (rule prefix_replaceD[OF q(2)])
          show "length q' \<le> length q" using q(1) by simp
          show "\<not> prefix (drop n q') q" if "n < length q'" for n
          proof -
            have "Suc n \<in> set [1..<length q]" using that q(1) by auto
            then have "\<not> prefix (drop (Suc n) q) q"
              using assms(3) unfolding borderless_def by blast
            then show ?thesis using q(1) by simp
          qed
        qed
        then have "prefix q s" using q(1) Cons by simp
        then show False using 1(2) Cons by simp
      qed
      then have "replace_from q p (replace_from p q s) = c # replace_from q p (replace_from p q cs)"
        using r by simp
      moreover have "\<not> str_contains q cs" using 1(2) Cons by simp
      ultimately show ?thesis using 1(1) Cons by simp
    qed
  qed
qed

lemma str_replace_roundtrip:
  "p \<noteq> [] \<Longrightarrow> q \<noteq> [] \<Longrightarrow> borderless q \<Longrightarrow> \<not> str_contains q s \<Longrightarrow>
     str_replace q p (str_replace p q s) = s"
  by (simp add: str_replace_def replace_from_roundtrip)

lemma str_replace_absent: "pat \<noteq> [] \<Longrightarrow> \<not> str_contains pat s \<Longrightarrow> str_replace pat rep s = s"
  by (simp add: str_replace_def replace_from_absent)

section \<open>Paths\<close>

text \<open>\<open>Path::join\<close>: an absolute path replaces the base.\<close>

definition path_join :: "string \<Rightarrow> string \<Rightarrow> string" where
  "path_join base p =
     (if p \<noteq> [] \<and> hd p = CHR ''/'' then p
      else if base = [] \<or> last base = CHR ''/'' then base @ p
      else base @ ''/'' @ p)"

end
