(* ===== verification/CkbTypes.thy ===== *)
theory CkbTypes
  imports Compress RustStr
begin

text \<open>
  The data of the chain the tools handle.  The types come from the crates \<open>ckb_types\<close> and
  \<open>ckb_jsonrpc_types\<close>; here they are plain records with the fields the repository reads and
  writes.  Hashes are opaque: how a hash is computed from its contents is a parameter of the
  definitions that need it.
\<close>

type_synonym byte32 = nat

datatype script_hash_type = Data | Type | Data1

datatype dep_type = Code | DepGroup

record script =
  code_hash :: byte32
  hash_type :: script_hash_type
  script_args :: bytes

record out_point =
  op_tx_hash :: byte32
  op_index :: nat

record cell_output =
  co_capacity :: nat
  co_lock :: script
  co_type :: "script option"

record cell_input =
  ci_since :: "64 word"
  ci_previous_output :: out_point

record cell_dep =
  cd_out_point :: out_point
  cd_dep_type :: dep_type

record transaction =
  tx_version :: nat
  tx_cell_deps :: "cell_dep list"
  tx_header_deps :: "byte32 list"
  tx_inputs :: "cell_input list"
  tx_outputs :: "cell_output list"
  tx_outputs_data :: "bytes list"
  tx_witnesses :: "bytes list"

record epoch_ext = \<comment> \<open>\<open>EpochNumberWithFraction\<close>\<close>
  ep_number :: nat
  ep_index :: nat
  ep_length :: nat

record header =
  hd_version :: nat
  hd_compact_target :: nat
  hd_timestamp :: nat
  hd_number :: nat
  hd_epoch :: epoch_ext
  hd_parent_hash :: byte32
  hd_nonce :: nat

record block =
  bk_header :: header
  bk_uncles :: "header list"
  bk_transactions :: "transaction list"
  bk_proposals :: "nat list" \<comment> \<open>short ids\<close>
  bk_extension :: "bytes option"

text \<open>\<open>TransactionInfo\<close> and \<open>CellMeta\<close>: where a live cell was created.\<close>

record transaction_info =
  ti_block_hash :: byte32
  ti_block_number :: nat
  ti_block_epoch :: epoch_ext
  ti_index :: nat

record cell_meta =
  cm_cell_output :: cell_output
  cm_out_point :: out_point
  cm_transaction_info :: "transaction_info option"
  cm_data_bytes :: nat

definition default_script :: script where
  "default_script = \<lparr>code_hash = 0, hash_type = Data, script_args = []\<rparr>"

definition default_epoch :: epoch_ext where
  "default_epoch = \<lparr>ep_number = 0, ep_index = 0, ep_length = 1\<rparr>"

text \<open>\<open>TransactionBuilder::default()\<close> and \<open>CellInput::new\<close>.\<close>

definition empty_transaction :: transaction where
  "empty_transaction = \<lparr>tx_version = 0, tx_cell_deps = [], tx_header_deps = [], tx_inputs = [],
     tx_outputs = [], tx_outputs_data = [], tx_witnesses = []\<rparr>"

definition cell_input_new :: "out_point \<Rightarrow> 64 word \<Rightarrow> cell_input" where
  "cell_input_new out_point since = \<lparr>ci_since = since, ci_previous_output = out_point\<rparr>"

definition capacity_bytes :: "nat \<Rightarrow> nat" where \<comment> \<open>\<open>capacity_bytes!\<close>, shannons\<close>
  "capacity_bytes n = n * 100000000"

section \<open>What the RPC interface answers with\<close>

datatype tx_status = Pending | Proposed | Committed | Unknown | Rejected

record tx_with_status =
  tws_transaction :: "transaction option"
  tws_status :: tx_status

record header_view =
  hv_header :: header
  hv_hash :: byte32

record cell_data =
  cdata_content :: bytes
  cdata_hash :: byte32

record cell_info =
  cinfo_output :: cell_output
  cinfo_data :: "cell_data option"

record cell_with_status =
  cws_cell :: "cell_info option"
  cws_status :: string

record local_node =
  ln_version :: string
  ln_node_id :: string
  ln_addresses :: "string list"
  ln_connections :: nat

record remote_node =
  rn_version :: string
  rn_node_id :: string

record banned_addr =
  ba_address :: string

record epoch_view =
  ev_number :: nat
  ev_start_number :: nat
  ev_length :: nat

record hardfork_feature =
  hf_rfc :: string
  hf_epoch_number :: "nat option"

record consensus =
  cons_cellbase_maturity :: nat \<comment> \<open>an epoch's full value\<close>
  cons_permanent_difficulty_in_dummy :: bool
  cons_median_time_block_count :: nat
  cons_hardfork_features :: "hardfork_feature list"
  cons_id :: string
  cons_genesis_hash :: byte32

record transaction_template =
  tt_hash :: byte32
  tt_data :: transaction

record block_template =
  bt_version :: nat
  bt_current_time :: nat
  bt_number :: nat
  bt_epoch :: epoch_ext
  bt_parent_hash :: byte32
  bt_uncles :: "header list"
  bt_transactions :: "transaction_template list"
  bt_proposals :: "nat list"
  bt_cellbase :: transaction
  bt_dao :: byte32
  bt_extension :: "bytes option"

record chain_info =
  ch_chain :: string
  ch_median_time :: nat

record tx_pool_info =
  tpi_tip_hash :: byte32
  tpi_tip_number :: nat
  tpi_pending :: nat
  tpi_proposed :: nat
  tpi_orphan :: nat
  tpi_total_tx_size :: nat
  tpi_total_tx_cycles :: nat

text \<open>
  The functions of \<open>ckb_types\<close> that compute on these values: hashes, short identifiers and the
  conversion of a template to a block.
\<close>

record chain_lib =
  hash_tx :: "transaction \<Rightarrow> byte32"
  hash_block :: "block \<Rightarrow> byte32"
  hash_header :: "header \<Rightarrow> byte32"
  hash_script :: "script \<Rightarrow> byte32"
  short_id :: "transaction \<Rightarrow> nat"
  template_block :: "block_template \<Rightarrow> block"
  epoch_of_full_value :: "nat \<Rightarrow> epoch_ext"
  serialized_size :: "transaction \<Rightarrow> nat"

end
