(* ===== verification/Util.thy ===== *)
theory Util
  imports RustStr
begin

unbundle bit_operations_syntax

text \<open>
  \<open>ckb-testkit/src/util/mod.rs\<close>: the polling loop \<open>wait_until\<close> that almost every other
  component waits with, the port allocator, and the encodings of a transaction input's
  \<open>since\<close> field.
\<close>

section \<open>Polling\<close>

partial_function (option) wait_loop ::
    "'w clock \<Rightarrow> nat \<Rightarrow> nat \<Rightarrow> ('w, bool) cmd \<Rightarrow> 'w \<Rightarrow> ((halt + bool) \<times> 'w) option" where
  "wait_loop clk timeout start f w =
     (if now clk w - start \<le> timeout
      then bindM f (\<lambda>b w1. if b then Some (Inr True, w1)
             else wait_loop clk timeout start f (sleep clk (secs 1) w1)) w
      else Some (Inr False, w))"

definition wait_until :: "'w clock \<Rightarrow> nat \<Rightarrow> ('w, bool) cmd \<Rightarrow> ('w, bool) cmd" where
  "wait_until clk timeout_secs f =
     (\<lambda>w. wait_loop clk (secs timeout_secs) (now clk w) f w)"

text \<open>A condition that may be polled: it returns, and it does not turn the clock back.\<close>

definition pollable :: "'w clock \<Rightarrow> ('w, bool) cmd \<Rightarrow> bool" where
  "pollable clk f \<longleftrightarrow> (\<forall>w. \<exists>b w'. f w = Some (Inr b, w') \<and> now clk w \<le> now clk w')"

lemma pollableE:
  assumes "pollable clk f"
  obtains b w' where "f w = Some (Inr b, w')" "now clk w \<le> now clk w'"
  using assms unfolding pollable_def by blast

lemma wait_loop_total:
  assumes clk: "steady_clock clk" and f: "pollable clk f" and "start \<le> now clk w"
  shows "\<exists>b w'. wait_loop clk timeout start f w = Some (Inr b, w') \<and>
     (if b then \<exists>v. f v = Some (Inr True, w') else start + timeout < now clk w')"
  using assms(3)
proof (induction "start + timeout + secs 1 - now clk w" arbitrary: w rule: less_induct)
  case less
  show ?case
  proof (cases "now clk w - start \<le> timeout")
    case False
    then have "wait_loop clk timeout start f w = Some (Inr False, w)"
      by (subst wait_loop.simps) simp
    then show ?thesis
      using False by (intro exI[of _ False] exI[of _ w]) simp
  next
    case True
    obtain b w1 where f1: "f w = Some (Inr b, w1)" and le: "now clk w \<le> now clk w1"
      using f by (rule pollableE)
    show ?thesis
    proof (cases b)
      case True
      then show ?thesis
        using f1 \<open>now clk w - start \<le> timeout\<close>
        by (subst wait_loop.simps) (auto simp: run_simps)
    next
      case False
      let ?w2 = "sleep clk (secs 1) w1"
      have adv: "now clk w + secs 1 \<le> now clk ?w2"
        using steady_clockD[OF clk, of w1 "secs 1"] le by simp
      have pos: "secs 1 > 0" by (simp add: secs_def)
      have "wait_loop clk timeout start f w = wait_loop clk timeout start f ?w2"
        using f1 False True by (subst wait_loop.simps) (simp add: run_simps)
      moreover have "start + timeout + secs 1 - now clk ?w2 < start + timeout + secs 1 - now clk w"
        using adv pos True less.prems by linarith
      moreover have "start \<le> now clk ?w2"
        using adv less.prems by linarith
      ultimately show ?thesis
        using less.hyps[of ?w2] by simp
    qed
  qed
qed

lemma wait_loop_True:
  assumes ret: "wait_loop clk timeout start f w = Some (r, w')" and "r = Inr True"
  shows "\<exists>v. f v = Some (Inr True, w')"
proof -
  have "fst (r, w') = Inr True \<longrightarrow> (\<exists>v. f v = Some (Inr True, snd (r, w')))"
  proof (rule wait_loop.raw_induct
      [where P = "\<lambda>clk timeout start f w r. fst r = Inr True \<longrightarrow> (\<exists>v. f v = Some (Inr True, snd r))",
       OF _ ret])
    fix loop :: "'a clock \<Rightarrow> nat \<Rightarrow> nat \<Rightarrow> ('a, bool) cmd \<Rightarrow> 'a \<Rightarrow> ((halt + bool) \<times> 'a) option"
      and clk :: "'a clock" and timeout start :: nat and f :: "('a, bool) cmd" and w :: 'a
      and r :: "(halt + bool) \<times> 'a"
    assume IH: "\<And>clk timeout start f w r. loop clk timeout start f w = Some r \<Longrightarrow>
        fst r = Inr True \<longrightarrow> (\<exists>v. f v = Some (Inr True, snd r))"
      and eq: "(if now clk w - start \<le> timeout
         then bindM f (\<lambda>b w1. if b then Some (Inr True, w1)
                else loop clk timeout start f (sleep clk (secs 1) w1)) w
         else Some (Inr False, w)) = Some r"
    show "fst r = Inr True \<longrightarrow> (\<exists>v. f v = Some (Inr True, snd r))"
    proof
      assume r: "fst r = Inr True"
      then have "bindM f (\<lambda>b w1. if b then Some (Inr True, w1)
                else loop clk timeout start f (sleep clk (secs 1) w1)) w = Some (Inr True, snd r)"
        using eq by (cases r) (auto split: if_splits)
      then show "\<exists>v. f v = Some (Inr True, snd r)"
        using IH r by (auto elim!: bindM_InrE split: if_splits)
    qed
  qed
  then show ?thesis using assms(2) by simp
qed

lemma wait_until_True: "wait_until clk t f w = Some (Inr True, w') \<Longrightarrow> \<exists>v. f v = Some (Inr True, w')"
  unfolding wait_until_def by (rule wait_loop_True) simp_all

text \<open>
  C25.  \<open>wait_until\<close> always returns, provided the condition it polls returns and the clock is
  monotonic: \<open>true\<close> only in a world the condition itself just returned \<open>true\<close> in, and
  \<open>false\<close> only when strictly more than \<open>timeout_secs\<close> seconds have passed since the call.
\<close>

theorem wait_until_total:
  assumes "steady_clock clk" and "pollable clk f"
  shows "\<exists>b w'. wait_until clk timeout_secs f w = Some (Inr b, w') \<and>
     (if b then \<exists>v. f v = Some (Inr True, w') else now clk w + secs timeout_secs < now clk w')"
  using wait_loop_total[OF assms, of "now clk w" w "secs timeout_secs"]
  by (simp add: wait_until_def)

text \<open>The world of the witnesses: a counter of nanoseconds.\<close>

definition tick_clock :: "nat clock" where
  "tick_clock = \<lparr>now = (\<lambda>w. w), sleep = (\<lambda>d w. w + d)\<rparr>"

lemma steady_tick_clock: "steady_clock tick_clock"
  by (simp add: steady_clock_def tick_clock_def)

theorem wait_until_total_witness:
  "\<exists>b w'. wait_until tick_clock 5 (reading (\<lambda>w. 3000000000 \<le> w)) 0 = Some (Inr b, w') \<and>
     (if b then \<exists>v. reading (\<lambda>w. (3000000000::nat) \<le> w) v = Some (Inr True, w')
      else now tick_clock 0 + secs 5 < now tick_clock w')"
  by (rule wait_until_total) (auto simp: steady_tick_clock pollable_def reading_def)

lemma wait_loop_sees:
  assumes P: "P ((sleep clk (secs 1) ^^ k) w)"
    and t: "\<And>j. j \<le> k \<Longrightarrow> now clk ((sleep clk (secs 1) ^^ j) w) - start \<le> timeout"
  shows "\<exists>j \<le> k. wait_loop clk timeout start (reading P) w = Some (Inr True, (sleep clk (secs 1) ^^ j) w)
     \<and> P ((sleep clk (secs 1) ^^ j) w)"
  using assms
proof (induction k arbitrary: w)
  case 0
  then show ?case
    by (subst wait_loop.simps) (simp add: run_simps)
next
  case (Suc k)
  show ?case
  proof (cases "P w")
    case True
    with Suc.prems(2)[of 0] show ?thesis
      by (subst wait_loop.simps) (auto simp: run_simps intro: exI[of _ 0])
  next
    case False
    let ?v = "sleep clk (secs 1) w"
    have shift: "(sleep clk (secs 1) ^^ j) ?v = (sleep clk (secs 1) ^^ Suc j) w" for j
      by (simp add: funpow_swap1)
    have step: "wait_loop clk timeout start (reading P) w = wait_loop clk timeout start (reading P) ?v"
      using Suc.prems(2)[of 0] False by (subst wait_loop.simps) (simp add: run_simps)
    have "\<exists>j \<le> k. wait_loop clk timeout start (reading P) ?v = Some (Inr True, (sleep clk (secs 1) ^^ j) ?v)
       \<and> P ((sleep clk (secs 1) ^^ j) ?v)"
    proof (rule Suc.IH)
      show "P ((sleep clk (secs 1) ^^ k) ?v)"
        unfolding shift by (rule Suc.prems(1))
      show "now clk ((sleep clk (secs 1) ^^ j) ?v) - start \<le> timeout" if "j \<le> k" for j
        unfolding shift using that by (intro Suc.prems(2)) simp
    qed
    then obtain j where "j \<le> k"
      and "wait_loop clk timeout start (reading P) ?v = Some (Inr True, (sleep clk (secs 1) ^^ Suc j) w)"
      and "P ((sleep clk (secs 1) ^^ Suc j) w)"
      unfolding shift by blast
    then show ?thesis
      using step by (intro exI[of _ "Suc j"]) simp
  qed
qed

lemma sleeps_mono:
  assumes "steady_clock clk" and "j \<le> k"
  shows "now clk ((sleep clk d ^^ j) w) \<le> now clk ((sleep clk d ^^ k) w)"
  using assms(2)
proof (induction rule: dec_induct)
  case base
  then show ?case by simp
next
  case (step n)
  then show ?case
    using steady_clockD[OF assms(1), of "(sleep clk d ^^ n) w" d] by simp
qed

text \<open>
  A condition that only reads the world and comes to hold while there is time left is
  seen: if it holds after \<open>k\<close> sleeps of one second and the clock is then still within the
  timeout, \<open>wait_until\<close> answers \<open>true\<close>, at the first such poll or an earlier one.
\<close>

theorem wait_until_sees:
  assumes "steady_clock clk"
    and "P ((sleep clk (secs 1) ^^ k) w)"
    and "now clk ((sleep clk (secs 1) ^^ k) w) - now clk w \<le> secs timeout_secs"
  shows "\<exists>j \<le> k. wait_until clk timeout_secs (reading P) w = Some (Inr True, (sleep clk (secs 1) ^^ j) w)
     \<and> P ((sleep clk (secs 1) ^^ j) w)"
proof -
  have "now clk ((sleep clk (secs 1) ^^ j) w) - now clk w \<le> secs timeout_secs" if "j \<le> k" for j
    using sleeps_mono[OF assms(1) that, of "secs 1" w] assms(3) by linarith
  then show ?thesis
    using wait_loop_sees[where P = P and clk = clk and k = k and w = w and start = "now clk w"
        and timeout = "secs timeout_secs", OF assms(2)]
    by (simp add: wait_until_def)
qed

theorem wait_until_sees_witness:
  "\<exists>j \<le> 3. wait_until tick_clock 5 (reading (\<lambda>w. 3000000000 \<le> w)) 0
       = Some (Inr True, (sleep tick_clock (secs 1) ^^ j) 0)
     \<and> 3000000000 \<le> (sleep tick_clock (secs 1) ^^ j) 0"
  by (rule wait_until_sees[OF steady_tick_clock])
     (simp_all add: tick_clock_def secs_def numeral_3_eq_3)

section \<open>Ports\<close>

text \<open>
  \<open>PORT_COUNTER\<close> is a process-wide \<open>AtomicU16\<close>, here the first component of the world;
  \<open>bind\<close> is \<open>TcpListener::bind\<close> on the loopback address, an effect on the rest.
\<close>

definition PORT_COUNTER_init :: "16 word" where
  "PORT_COUNTER_init = 9000"

primrec port_loop :: "nat \<Rightarrow> (16 word \<Rightarrow> ('w, bool) cmd) \<Rightarrow> (16 word \<times> 'w, 16 word) cmd" where
  "port_loop 0 bind = panicking ''failed to allocate available port''"
| "port_loop (Suc n) bind = (\<lambda>(counter, w).
     case bind counter w of
       None \<Rightarrow> None
     | Some (Inl h, w') \<Rightarrow> Some (Inl h, (counter + 1, w'))
     | Some (Inr ok, w') \<Rightarrow>
         if ok then Some (Inr counter, (counter + 1, w')) else port_loop n bind (counter + 1, w'))"

definition find_available_port :: "(16 word \<Rightarrow> ('w, bool) cmd) \<Rightarrow> (16 word \<times> 'w, 16 word) cmd" where
  "find_available_port bind = port_loop 2000 bind"

lemma port_loop_result:
  assumes "port_loop n bind (c, w) = Some (Inr p, (c', w'))"
  shows "\<exists>k < n. p = c + of_nat k \<and> c' = p + 1 \<and> (\<exists>v. bind p v = Some (Inr True, w'))"
  using assms
proof (induction n arbitrary: c w)
  case 0
  then show ?case by (simp add: halting_def)
next
  case (Suc n)
  from Suc.prems obtain ok w1 where b: "bind c w = Some (Inr ok, w1)"
    by (auto split: option.splits sum.splits prod.splits)
  show ?case
  proof (cases ok)
    case True
    with Suc.prems b show ?thesis by (auto intro!: exI[of _ 0])
  next
    case False
    with Suc.prems b have "port_loop n bind (c + 1, w1) = Some (Inr p, (c', w'))" by simp
    then obtain k where "k < n" "p = c + 1 + of_nat k" "c' = p + 1" "\<exists>v. bind p v = Some (Inr True, w')"
      using Suc.IH by blast
    then show ?thesis by (auto intro!: exI[of _ "Suc k"])
  qed
qed

text \<open>
  The two ports a node is started with (\<open>Node::init\<close> asks twice) are different, and each
  of them was bound successfully by the probe, whatever the counter's value: the counter may
  wrap around at 65535, but two calls take at most 4000 steps.
\<close>

theorem two_ports_distinct:
  assumes "find_available_port bind (c, w) = Some (Inr p, (c1, w1))"
    and "find_available_port bind (c1, w1) = Some (Inr q, (c2, w2))"
  shows "p \<noteq> q \<and> (\<exists>v. bind p v = Some (Inr True, w1)) \<and> (\<exists>v. bind q v = Some (Inr True, w2))"
proof -
  obtain j where p: "c1 = p + 1" "\<exists>v. bind p v = Some (Inr True, w1)"
    using port_loop_result[OF assms(1)[unfolded find_available_port_def]] by blast
  obtain k where q: "k < 2000" "q = c1 + of_nat k" "\<exists>v. bind q v = Some (Inr True, w2)"
    using port_loop_result[OF assms(2)[unfolded find_available_port_def]] by blast
  have "unat (of_nat (Suc k) :: 16 word) = Suc k"
    using q(1) by (simp add: unat_of_nat take_bit_nat_eq_self del: of_nat_Suc)
  then have "(of_nat (Suc k) :: 16 word) \<noteq> 0" by (metis nat.simps(3) unat_0)
  moreover have "q = p + of_nat (Suc k)"
    using p(1) q(2) by (simp add: algebra_simps)
  ultimately have "p \<noteq> q" by simp
  with p q show ?thesis by blast
qed

lemma ports_def:
  "find_available_port bind (c, w) =
     (case bind c w of
       None \<Rightarrow> None
     | Some (Inl h, w') \<Rightarrow> Some (Inl h, (c + 1, w'))
     | Some (Inr ok, w') \<Rightarrow> if ok then Some (Inr c, (c + 1, w'))
         else (case bind (c + 1) w' of
             None \<Rightarrow> None
           | Some (Inl h, w'') \<Rightarrow> Some (Inl h, (c + 1 + 1, w''))
           | Some (Inr ok, w'') \<Rightarrow> if ok then Some (Inr (c + 1), (c + 1 + 1, w''))
               else port_loop 1998 bind (c + 1 + 1, w'')))"
proof -
  have "(2000::nat) = Suc (Suc 1998)" by simp
  then show ?thesis
    unfolding find_available_port_def by (simp only: port_loop.simps prod.case)
qed

theorem two_ports_distinct_witness:
  "let bind = (\<lambda>port::16 word. reading (\<lambda>busy::16 word set. port \<notin> busy))
   in find_available_port bind (65535, {65535}) = Some (Inr 0, (1, {65535}))
    \<and> find_available_port bind (1, {65535}) = Some (Inr 1, (2, {65535})) \<and> (0::16 word) \<noteq> 1"
proof -
  let ?bind = "\<lambda>port::16 word. reading (\<lambda>busy::16 word set. port \<notin> busy)"
  have 1: "find_available_port ?bind (65535, {65535}) = Some (Inr 0, (1, {65535}))"
    by (simp add: ports_def reading_def)
  have 2: "find_available_port ?bind (1, {65535}) = Some (Inr 1, (2, {65535}))"
    by (simp add: ports_def reading_def)
  show ?thesis
    using two_ports_distinct[OF 1 2] 1 2 by (simp add: Let_def)
qed

section \<open>The \<open>since\<close> field\<close>

definition FLAG_SINCE_RELATIVE :: "64 word" where
  "FLAG_SINCE_RELATIVE = 0b1000000000000000000000000000000000000000000000000000000000000000"

definition FLAG_SINCE_BLOCK_NUMBER :: "64 word" where
  "FLAG_SINCE_BLOCK_NUMBER = 0"

definition FLAG_SINCE_EPOCH_NUMBER_WITH_FRACTION :: "64 word" where
  "FLAG_SINCE_EPOCH_NUMBER_WITH_FRACTION =
     0b010000000000000000000000000000000000000000000000000000000000000"

definition FLAG_SINCE_TIMESTAMP :: "64 word" where
  "FLAG_SINCE_TIMESTAMP = 0b100000000000000000000000000000000000000000000000000000000000000"

lemmas since_flags =
  FLAG_SINCE_RELATIVE_def FLAG_SINCE_BLOCK_NUMBER_def
  FLAG_SINCE_EPOCH_NUMBER_WITH_FRACTION_def FLAG_SINCE_TIMESTAMP_def

definition since_from_relative_block_number :: "64 word \<Rightarrow> 64 word" where
  "since_from_relative_block_number block_number =
     FLAG_SINCE_RELATIVE OR FLAG_SINCE_BLOCK_NUMBER OR block_number"

definition since_from_absolute_block_number :: "64 word \<Rightarrow> 64 word" where
  "since_from_absolute_block_number block_number = FLAG_SINCE_BLOCK_NUMBER OR block_number"

text \<open>
  \<open>EpochNumberWithFraction\<close> is \<open>ckb_types\<close>': its \<open>full_value\<close> is the parameter.
\<close>

definition since_from_relative_epoch_number_with_fraction :: "('e \<Rightarrow> 64 word) \<Rightarrow> 'e \<Rightarrow> 64 word" where
  "since_from_relative_epoch_number_with_fraction full_value epoch =
     FLAG_SINCE_RELATIVE OR FLAG_SINCE_EPOCH_NUMBER_WITH_FRACTION OR full_value epoch"

definition since_from_absolute_epoch_number_with_fraction :: "('e \<Rightarrow> 64 word) \<Rightarrow> 'e \<Rightarrow> 64 word" where
  "since_from_absolute_epoch_number_with_fraction full_value epoch =
     FLAG_SINCE_EPOCH_NUMBER_WITH_FRACTION OR full_value epoch"

definition since_from_relative_timestamp :: "64 word \<Rightarrow> 64 word" where
  "since_from_relative_timestamp timestamp = FLAG_SINCE_RELATIVE OR FLAG_SINCE_TIMESTAMP OR timestamp"

definition since_from_absolute_timestamp :: "64 word \<Rightarrow> 64 word" where
  "since_from_absolute_timestamp timestamp = FLAG_SINCE_TIMESTAMP OR timestamp"

text \<open>
  The specification: what the six constructors are meant to say, and the reading of a
  \<open>since\<close> by RFC 17 (bit 63 relative, bits 62 and 61 the metric, the low 56 bits the value).
\<close>

datatype metric = Block_Number | Epoch | Timestamp

fun encode_since :: "bool \<times> metric \<times> 64 word \<Rightarrow> 64 word" where
  "encode_since (True, Block_Number, v) = since_from_relative_block_number v"
| "encode_since (False, Block_Number, v) = since_from_absolute_block_number v"
| "encode_since (True, Epoch, v) = since_from_relative_epoch_number_with_fraction id v"
| "encode_since (False, Epoch, v) = since_from_absolute_epoch_number_with_fraction id v"
| "encode_since (True, Timestamp, v) = since_from_relative_timestamp v"
| "encode_since (False, Timestamp, v) = since_from_absolute_timestamp v"

definition decode_since :: "64 word \<Rightarrow> (bool \<times> metric \<times> 64 word) option" where
  "decode_since s =
     (case (bit s 62, bit s 61) of
        (False, False) \<Rightarrow> Some (bit s 63, Block_Number, take_bit 56 s)
      | (False, True) \<Rightarrow> Some (bit s 63, Epoch, take_bit 56 s)
      | (True, False) \<Rightarrow> Some (bit s 63, Timestamp, take_bit 56 s)
      | (True, True) \<Rightarrow> None)"

lemma high_bits_clear:
  fixes v :: "64 word"
  assumes "take_bit 56 v = v" and "56 \<le> n"
  shows "\<not> bit v n"
  using assms by (metis bit_take_bit_iff not_less)

lemma less_take_bit_56: "(v :: 64 word) < 2 ^ 56 \<Longrightarrow> take_bit 56 v = v"
  by (simp add: take_bit_eq_mod mod_word_less)

text \<open>
  C37.  The six \<open>since\<close> constructors are read back exactly, relative flag, metric and value,
  for every value that fits in the 56 bits the field has for it; so no two of them with
  different arguments can produce the same \<open>since\<close>.
\<close>

theorem since_roundtrip:
  assumes "v < 2 ^ 56"
  shows "decode_since (encode_since (relative, m, v)) = Some (relative, m, v)"
proof -
  have v: "take_bit 56 v = v" using assms by (rule less_take_bit_56)
  have b: "\<not> bit v 61" "\<not> bit v 62" "\<not> bit v 63"
    by (rule high_bits_clear[OF v], simp)+
  show ?thesis
    by (cases relative; cases m)
       (simp_all add: decode_since_def since_flags bit_or_iff take_bit_or v b
          since_from_relative_block_number_def since_from_absolute_block_number_def
          since_from_relative_epoch_number_with_fraction_def
          since_from_absolute_epoch_number_with_fraction_def
          since_from_relative_timestamp_def since_from_absolute_timestamp_def)
qed

theorem since_roundtrip_witness:
  "decode_since (encode_since (True, Timestamp, 1)) = Some (True, Timestamp, 1)"
  by (rule since_roundtrip) simp

section \<open>Temporary paths\<close>

text \<open>
  \<open>temp_path\<close> creates a directory with a random suffix (crate \<open>tempfile\<close>, in the directory that
  \<open>CKB_INTEGRATION_TEST_TMP\<close> names if it is set), closes it, which deletes it, and keeps its path.
\<close>

definition temp_path ::
    "('w, string option) cmd \<Rightarrow> (string option \<Rightarrow> string \<Rightarrow> ('w, string + string) cmd)
      \<Rightarrow> (string \<Rightarrow> ('w, string + unit) cmd) \<Rightarrow> string \<Rightarrow> string \<Rightarrow> ('w, string) cmd" where
  "temp_path tmp_var make_tempdir close_tempdir case_name node_name =
     (let pre = str_join ''-'' [''ckb-it'', case_name, node_name, []] in
      bindM tmp_var (\<lambda>var.
      bindM (make_tempdir var pre) (\<lambda>r.
      bindM (unwrapM ''create tempdir failed'' r) (\<lambda>path.
      bindM (close_tempdir path) (\<lambda>r.
      bindM (unwrapM ''close tempdir failed'' r) (\<lambda>_. ret path))))))"

section \<open>Comparing results\<close>

text \<open>
  The macro \<open>assert_result_eq!\<close> (\<open>util/macros.rs\<close>), on results whose errors are given by their
  text: two errors are accepted when one text contains the other, anything else must be equal.
\<close>

fun results_match :: "string + 'a \<Rightarrow> string + 'a \<Rightarrow> bool" where
  "results_match (Inl l) (Inl r) = (str_contains r l \<or> str_contains l r)"
| "results_match l r = (l = r)"

definition assert_result_eq :: "string + 'a \<Rightarrow> string + 'a \<Rightarrow> ('w, unit) cmd" where
  "assert_result_eq l r = assertM (results_match l r) ''assertion failed: `(left == right)`''"

text \<open>
  What the assertion of the test cases accepts: a success only with the equal success, an
  error only with an error one of whose texts is a part of the other; it is symmetric, but an
  empty error text matches every error, so it is no equivalence.
\<close>

theorem assert_result_eq_spec:
  "(assert_result_eq l r = (ret () :: ('w, unit) cmd) \<longleftrightarrow>
      (\<exists>a. l = Inr a \<and> r = Inr a) \<or>
      (\<exists>e f u v. l = Inl e \<and> r = Inl f \<and> (e = u @ f @ v \<or> f = u @ e @ v)))
   \<and> results_match l r = results_match r l
   \<and> results_match (Inl []) (Inl e)"
  unfolding assert_result_eq_def assertM_def
  by (intro conjI; cases l; cases r) (auto simp: str_contains_iff)

end
