(* ===== verification/Rpc.thy ===== *)
theory Rpc
  imports CkbTypes Util
begin

text \<open>
  \<open>ckb-testkit/src/rpc/\<close>: the JSON-RPC client.  The macro \<open>jsonrpc!\<close> turns a table of method
  signatures into a client (\<open>Inner2019\<close>, \<open>Inner2021\<close>); \<open>RpcClient\<close> chooses between the two and
  converts the items of the older chain version to the newer one by editing their JSON text.
  HTTP (crate \<open>reqwest\<close>) is the parameter \<open>post\<close>, and \<open>serde_json\<close>'s conversions are parameters.
\<close>

section \<open>The macro \<open>jsonrpc!\<close>\<close>

datatype json = JNull | JBool bool | JNum int | JStr string | JArr "json list" | JObj "(string \<times> json) list"

datatype rpc_output = Success json | Failure json

text \<open>\<open>IdGenerator\<close>: an \<open>AtomicU64\<close>, the first component of the world.\<close>

type_synonym id_generator = "64 word"

definition id_generator_new :: id_generator where
  "id_generator_new = 1"

definition next_id :: "(id_generator \<times> 'w, 64 word) cmd" where
  "next_id = (\<lambda>(state, w). Some (Inr state, (state + 1, w)))"

definition method_name :: "string \<Rightarrow> string" where
  "method_name ident = str_replace ''2021'' [] (str_replace ''2019'' [] ident)"

definition serialize_parameters :: "json list \<Rightarrow> json" where
  "serialize_parameters args = (if args = [] then JNull else JArr args)"

definition request_json :: "64 word \<Rightarrow> string \<Rightarrow> json \<Rightarrow> json" where
  "request_json req_id name params = JObj
     [(''id'', JNum (uint req_id)), (''jsonrpc'', JStr ''2.0''), (''method'', JStr name), (''params'', params)]"

text \<open>
  The body of every generated method.  \<open>post\<close> sends a request and reads the response as a
  JSON-RPC output, or fails; \<open>from_value\<close> decodes the result.
\<close>

definition rpc_call ::
    "(json \<Rightarrow> ('w, string + rpc_output) cmd) \<Rightarrow> (json \<Rightarrow> string) \<Rightarrow> (json \<Rightarrow> string + 'a)
      \<Rightarrow> string \<Rightarrow> json list \<Rightarrow> (id_generator \<times> 'w, string + 'a) cmd" where
  "rpc_call post error_text from_value ident args =
     (let method = method_name ident; params = serialize_parameters args in
      bindM next_id (\<lambda>req_id.
      tryM (on_env (post (request_json req_id method params))) (\<lambda>output.
      case output of
        Success result \<Rightarrow> ret (from_value result)
      | Failure err \<Rightarrow> ret (Inl (error_text err)))))"

text \<open>The two tables, as method, parameters and result type.\<close>

definition v2019_methods :: "(string \<times> string list \<times> string) list" where
  "v2019_methods =
    [(''get_block'', [''H256''], ''Option<BlockView>''),
     (''get_fork_block'', [''H256''], ''Option<BlockView>''),
     (''get_block_by_number'', [''BlockNumber''], ''Option<BlockView>''),
     (''get_header'', [''H256''], ''Option<HeaderView>''),
     (''get_header_by_number'', [''BlockNumber''], ''Option<HeaderView>''),
     (''get_transaction'', [''H256''], ''Option<TransactionWithStatus>''),
     (''get_block_hash'', [''BlockNumber''], ''Option<H256>''),
     (''get_tip_header'', [], ''HeaderView''),
     (''get_live_cell'', [''OutPoint'', ''bool''], ''CellWithStatus''),
     (''get_tip_block_number'', [], ''BlockNumber''),
     (''get_current_epoch'', [], ''EpochView''),
     (''get_epoch_by_number'', [''EpochNumber''], ''Option<EpochView>''),
     (''get_consensus'', [], ''Consensus''),
     (''local_node_info'', [], ''LocalNode''),
     (''get_peers'', [], ''Vec<RemoteNode>''),
     (''get_banned_addresses'', [], ''Vec<BannedAddr>''),
     (''set_ban'', [''String'', ''String'', ''Option<Timestamp>'', ''Option<bool>'', ''Option<String>''], ''()''),
     (''get_block_template'', [''Option<Uint64>'', ''Option<Uint64>'', ''Option<Version>''], ''BlockTemplate''),
     (''submit_block'', [''String'', ''Block''], ''H256''),
     (''get_blockchain_info'', [], ''ChainInfo''),
     (''get_block_median_time'', [''H256''], ''Option<Timestamp>''),
     (''dry_run_transaction'', [''Transaction''], ''DryRunResult''),
     (''send_transaction'', [''Transaction'', ''Option<String>''], ''H256''),
     (''tx_pool_info'', [], ''TxPoolInfo''),
     (''send_alert'', [''Alert''], ''()''),
     (''add_node'', [''String'', ''String''], ''()''),
     (''remove_node'', [''String''], ''()''),
     (''process_block_without_verify'', [''Block'', ''bool''], ''Option<H256>''),
     (''truncate'', [''H256''], ''()''),
     (''generate_block'', [''Option<Script>'', ''Option<JsonBytes>''], ''H256''),
     (''generate_block_with_template'', [''BlockTemplate''], ''H256''),
     (''calculate_dao_maximum_withdraw'', [''OutPoint'', ''H256''], ''Capacity'')]"

definition v2021_methods :: "(string \<times> string list \<times> string) list" where
  "v2021_methods =
    [(''get_block'', [''H256''], ''Option<BlockView>''),
     (''get_fork_block'', [''H256''], ''Option<BlockView>''),
     (''get_block_by_number'', [''BlockNumber''], ''Option<BlockView>''),
     (''get_header'', [''H256''], ''Option<HeaderView>''),
     (''get_header_by_number'', [''BlockNumber''], ''Option<HeaderView>''),
     (''get_transaction'', [''H256''], ''Option<TransactionWithStatus>''),
     (''get_block_hash'', [''BlockNumber''], ''Option<H256>''),
     (''get_tip_header'', [], ''HeaderView''),
     (''get_live_cell'', [''OutPoint'', ''bool''], ''CellWithStatus''),
     (''get_tip_block_number'', [], ''BlockNumber''),
     (''get_current_epoch'', [], ''EpochView''),
     (''get_epoch_by_number'', [''EpochNumber''], ''Option<EpochView>''),
     (''get_consensus'', [], ''Consensus''),
     (''local_node_info'', [], ''LocalNode''),
     (''get_peers'', [], ''Vec<RemoteNode>''),
     (''get_banned_addresses'', [], ''Vec<BannedAddr>''),
     (''set_ban'', [''String'', ''String'', ''Option<Timestamp>'', ''Option<bool>'', ''Option<String>''], ''()''),
     (''get_block_template'', [''Option<Uint64>'', ''Option<Uint64>'', ''Option<Version>''], ''BlockTemplate''),
     (''submit_block'', [''String'', ''Block''], ''H256''),
     (''get_blockchain_info'', [], ''ChainInfo''),
     (''get_block_median_time'', [''H256''], ''Option<Timestamp>''),
     (''dry_run_transaction'', [''Transaction''], ''DryRunResult''),
     (''send_transaction'', [''Transaction'', ''Option<String>''], ''H256''),
     (''tx_pool_info'', [], ''TxPoolInfo''),
     (''send_alert'', [''Alert''], ''()''),
     (''add_node'', [''String'', ''String''], ''()''),
     (''remove_node'', [''String''], ''()''),
     (''process_block_without_verify'', [''Block'', ''bool''], ''Option<H256>''),
     (''truncate'', [''H256''], ''()''),
     (''generate_block'', [''Option<Script>'', ''Option<JsonBytes>''], ''H256''),
     (''generate_block_with_template'', [''BlockTemplate''], ''H256''),
     (''calculate_dao_field'', [''BlockTemplate''], ''Byte32''),
     (''get_raw_tx_pool'', [''Option<bool>''], ''RawTxPool''),
     (''calculate_dao_maximum_withdraw'', [''OutPoint'', ''H256''], ''Capacity'')]"

section \<open>Converting items between the chain versions\<close>

text \<open>
  \<open>to_string\<close> is the JSON text of an item, and \<open>from_str\<close> parses one; both are serde's for the
  item's type.
\<close>

definition text_2019_to_2021 :: "string \<Rightarrow> string" where
  "text_2019_to_2021 raw2019 =
     str_replace ''\"permanent_difficulty_in_dummy\":''
       ''\"hardfork_features\":[],\"permanent_difficulty_in_dummy\":''
       (str_replace ''uncles_hash'' ''extra_hash'' raw2019)"

definition text_2021_to_2019 :: "string \<Rightarrow> string" where
  "text_2021_to_2019 raw2021 = str_replace ''extra_hash'' ''uncles_hash'' raw2021"

definition item2019_to_item2021 :: "('a \<Rightarrow> string) \<Rightarrow> (string \<Rightarrow> string + 'b) \<Rightarrow> 'a \<Rightarrow> ('w, 'b) cmd" where
  "item2019_to_item2021 to_string from_str item = unwrapM UNWRAP (from_str (text_2019_to_2021 (to_string item)))"

definition item2021_to_item2019 :: "('a \<Rightarrow> string) \<Rightarrow> (string \<Rightarrow> string + 'b) \<Rightarrow> 'a \<Rightarrow> ('w, 'b) cmd" where
  "item2021_to_item2019 to_string from_str item = unwrapM UNWRAP (from_str (text_2021_to_2019 (to_string item)))"


section \<open>\<open>RpcClient\<close>\<close>

text \<open>
  The generated clients, one field per method of the table: the answer of a node is an effect of
  the environment.  Items of \<open>ckb2019_jsonrpc_types\<close> are held as their JSON text, the only form
  in which \<open>RpcClient\<close> uses them.  A number stands for a \<open>DryRunResult\<close>'s cycles.
\<close>

record 'w inner2021 =
  i21_get_block :: "byte32 \<Rightarrow> ('w, string + (block option)) cmd"
  i21_get_fork_block :: "byte32 \<Rightarrow> ('w, string + (block option)) cmd"
  i21_get_block_by_number :: "nat \<Rightarrow> ('w, string + (block option)) cmd"
  i21_get_header :: "byte32 \<Rightarrow> ('w, string + (header_view option)) cmd"
  i21_get_header_by_number :: "nat \<Rightarrow> ('w, string + (header_view option)) cmd"
  i21_get_transaction :: "byte32 \<Rightarrow> ('w, string + (tx_with_status option)) cmd"
  i21_get_block_hash :: "nat \<Rightarrow> ('w, string + (byte32 option)) cmd"
  i21_get_tip_header :: "('w, string + header_view) cmd"
  i21_get_live_cell :: "out_point \<Rightarrow> bool \<Rightarrow> ('w, string + cell_with_status) cmd"
  i21_get_tip_block_number :: "('w, string + nat) cmd"
  i21_get_current_epoch :: "('w, string + epoch_view) cmd"
  i21_get_epoch_by_number :: "nat \<Rightarrow> ('w, string + (epoch_view option)) cmd"
  i21_get_consensus :: "('w, string + consensus) cmd"
  i21_local_node_info :: "('w, string + local_node) cmd"
  i21_get_peers :: "('w, string + (remote_node list)) cmd"
  i21_get_banned_addresses :: "('w, string + (banned_addr list)) cmd"
  i21_set_ban :: "string \<Rightarrow> string \<Rightarrow> nat option \<Rightarrow> bool option \<Rightarrow> string option \<Rightarrow> ('w, string + unit) cmd"
  i21_get_block_template :: "nat option \<Rightarrow> nat option \<Rightarrow> nat option \<Rightarrow> ('w, string + block_template) cmd"
  i21_submit_block :: "string \<Rightarrow> block \<Rightarrow> ('w, string + byte32) cmd"
  i21_get_blockchain_info :: "('w, string + chain_info) cmd"
  i21_get_block_median_time :: "byte32 \<Rightarrow> ('w, string + (nat option)) cmd"
  i21_dry_run_transaction :: "transaction \<Rightarrow> ('w, string + nat) cmd"
  i21_send_transaction :: "transaction \<Rightarrow> string option \<Rightarrow> ('w, string + byte32) cmd"
  i21_tx_pool_info :: "('w, string + tx_pool_info) cmd"
  i21_send_alert :: "json \<Rightarrow> ('w, string + unit) cmd"
  i21_add_node :: "string \<Rightarrow> string \<Rightarrow> ('w, string + unit) cmd"
  i21_remove_node :: "string \<Rightarrow> ('w, string + unit) cmd"
  i21_process_block_without_verify :: "block \<Rightarrow> bool \<Rightarrow> ('w, string + (byte32 option)) cmd"
  i21_truncate :: "byte32 \<Rightarrow> ('w, string + unit) cmd"
  i21_calculate_dao_field :: "block_template \<Rightarrow> ('w, string + byte32) cmd"
  i21_get_raw_tx_pool :: "bool option \<Rightarrow> ('w, string + json) cmd"
  i21_calculate_dao_maximum_withdraw :: "out_point \<Rightarrow> byte32 \<Rightarrow> ('w, string + nat) cmd"

record 'w inner2019 =
  i19_get_block :: "byte32 \<Rightarrow> ('w, string + string) cmd"
  i19_get_fork_block :: "byte32 \<Rightarrow> ('w, string + string) cmd"
  i19_get_block_by_number :: "nat \<Rightarrow> ('w, string + string) cmd"
  i19_get_header :: "byte32 \<Rightarrow> ('w, string + string) cmd"
  i19_get_header_by_number :: "nat \<Rightarrow> ('w, string + string) cmd"
  i19_get_transaction :: "byte32 \<Rightarrow> ('w, string + string) cmd"
  i19_get_tip_header :: "('w, string + string) cmd"
  i19_get_live_cell :: "string \<Rightarrow> bool \<Rightarrow> ('w, string + string) cmd"
  i19_get_consensus :: "('w, string + string) cmd"
  i19_get_block_template :: "nat option \<Rightarrow> nat option \<Rightarrow> nat option \<Rightarrow> ('w, string + string) cmd"
  i19_submit_block :: "string \<Rightarrow> string \<Rightarrow> ('w, string + byte32) cmd"
  i19_send_transaction :: "string \<Rightarrow> string option \<Rightarrow> ('w, string + byte32) cmd"
  i19_dry_run_transaction :: "string \<Rightarrow> ('w, string + string) cmd"
  i19_process_block_without_verify :: "string \<Rightarrow> bool \<Rightarrow> ('w, string + (byte32 option)) cmd"

text \<open>serde's texts: how a 2021 item is written and read, and which texts a 2019 item has.\<close>

record serde =
  read_block :: "string \<Rightarrow> string + (block option)"
  read_header :: "string \<Rightarrow> string + (header_view option)"
  read_tip_header :: "string \<Rightarrow> string + header_view"
  read_transaction :: "string \<Rightarrow> string + (tx_with_status option)"
  read_live_cell :: "string \<Rightarrow> string + cell_with_status"
  read_consensus :: "string \<Rightarrow> string + consensus"
  read_template :: "string \<Rightarrow> string + block_template"
  read_cycles :: "string \<Rightarrow> string + nat"
  write_block :: "block \<Rightarrow> string"
  write_tx :: "transaction \<Rightarrow> string"
  write_out_point :: "out_point \<Rightarrow> string"
  read_block2019 :: "string \<Rightarrow> string + string"
  read_tx2019 :: "string \<Rightarrow> string + string"
  read_out_point2019 :: "string \<Rightarrow> string + string"

record 'w rpc_client =
  rc_url :: string
  rc_ckb2021 :: bool
  rc_inner2019 :: "'w inner2019"
  rc_inner2021 :: "'w inner2021"
  rc_serde :: serde

text \<open>\<open>expect\<close> on the answer of a call.\<close>

definition expect_rpc :: "string \<Rightarrow> ('w, string + 'a) cmd \<Rightarrow> ('w, 'a) cmd" where
  "expect_rpc name m = bindM m (unwrapM (''rpc call '' @ name))"

definition rpc_get_block :: "'w rpc_client \<Rightarrow> byte32 \<Rightarrow> ('w, block option) cmd" where
  "rpc_get_block C hash =
     (if rc_ckb2021 C then expect_rpc ''get_block'' (i21_get_block (rc_inner2021 C) hash)
      else bindM (expect_rpc ''get_block'' (i19_get_block (rc_inner2019 C) hash))
             (item2019_to_item2021 (\<lambda>t. t) (read_block (rc_serde C))))"

definition rpc_get_fork_block :: "'w rpc_client \<Rightarrow> byte32 \<Rightarrow> ('w, block option) cmd" where
  "rpc_get_fork_block C hash =
     (if rc_ckb2021 C then expect_rpc ''get_fork_block'' (i21_get_fork_block (rc_inner2021 C) hash)
      else bindM (expect_rpc ''get_fork_block'' (i19_get_fork_block (rc_inner2019 C) hash))
             (item2019_to_item2021 (\<lambda>t. t) (read_block (rc_serde C))))"

definition rpc_get_block_by_number :: "'w rpc_client \<Rightarrow> nat \<Rightarrow> ('w, block option) cmd" where
  "rpc_get_block_by_number C number =
     (if rc_ckb2021 C then expect_rpc ''get_block_by_number'' (i21_get_block_by_number (rc_inner2021 C) number)
      else bindM (expect_rpc ''get_block_by_number'' (i19_get_block_by_number (rc_inner2019 C) number))
             (item2019_to_item2021 (\<lambda>t. t) (read_block (rc_serde C))))"

definition rpc_get_header :: "'w rpc_client \<Rightarrow> byte32 \<Rightarrow> ('w, header_view option) cmd" where
  "rpc_get_header C hash =
     (if rc_ckb2021 C then expect_rpc ''get_header'' (i21_get_header (rc_inner2021 C) hash)
      else bindM (expect_rpc ''get_header'' (i19_get_header (rc_inner2019 C) hash))
             (item2019_to_item2021 (\<lambda>t. t) (read_header (rc_serde C))))"

definition rpc_get_header_by_number :: "'w rpc_client \<Rightarrow> nat \<Rightarrow> ('w, header_view option) cmd" where
  "rpc_get_header_by_number C number =
     (if rc_ckb2021 C then expect_rpc ''get_header_by_number'' (i21_get_header_by_number (rc_inner2021 C) number)
      else bindM (expect_rpc ''get_header_by_number'' (i19_get_header_by_number (rc_inner2019 C) number))
             (item2019_to_item2021 (\<lambda>t. t) (read_header (rc_serde C))))"

definition rpc_get_transaction :: "'w rpc_client \<Rightarrow> byte32 \<Rightarrow> ('w, tx_with_status option) cmd" where
  "rpc_get_transaction C hash =
     (if rc_ckb2021 C then expect_rpc ''get_transaction'' (i21_get_transaction (rc_inner2021 C) hash)
      else bindM (expect_rpc ''get_transaction'' (i19_get_transaction (rc_inner2019 C) hash))
             (item2019_to_item2021 (\<lambda>t. t) (read_transaction (rc_serde C))))"

definition rpc_get_tip_header :: "'w rpc_client \<Rightarrow> ('w, header_view) cmd" where
  "rpc_get_tip_header C =
     (if rc_ckb2021 C then expect_rpc ''get_block_hash'' (i21_get_tip_header (rc_inner2021 C))
      else bindM (expect_rpc ''get_block_hash'' (i19_get_tip_header (rc_inner2019 C)))
             (item2019_to_item2021 (\<lambda>t. t) (read_tip_header (rc_serde C))))"

definition rpc_get_consensus :: "'w rpc_client \<Rightarrow> ('w, consensus) cmd" where
  "rpc_get_consensus C =
     (if rc_ckb2021 C then expect_rpc ''get_consensus'' (i21_get_consensus (rc_inner2021 C))
      else bindM (expect_rpc ''get_consensus'' (i19_get_consensus (rc_inner2019 C)))
             (item2019_to_item2021 (\<lambda>t. t) (read_consensus (rc_serde C))))"

definition rpc_get_live_cell :: "'w rpc_client \<Rightarrow> out_point \<Rightarrow> bool \<Rightarrow> ('w, cell_with_status) cmd" where
  "rpc_get_live_cell C out_point with_data =
     (if rc_ckb2021 C then expect_rpc ''get_live_cell'' (i21_get_live_cell (rc_inner2021 C) out_point with_data)
      else bindM (item2019_to_item2021 (write_out_point (rc_serde C)) (read_out_point2019 (rc_serde C)) out_point)
        (\<lambda>out_point2019.
           bindM (expect_rpc ''get_live_cell'' (i19_get_live_cell (rc_inner2019 C) out_point2019 with_data))
             (item2019_to_item2021 (\<lambda>t. t) (read_live_cell (rc_serde C)))))"

definition rpc_get_block_template ::
    "'w rpc_client \<Rightarrow> nat option \<Rightarrow> nat option \<Rightarrow> nat option \<Rightarrow> ('w, block_template) cmd" where
  "rpc_get_block_template C bytes_limit proposals_limit max_version =
     (if rc_ckb2021 C then expect_rpc ''get_block_template2021''
           (i21_get_block_template (rc_inner2021 C) bytes_limit proposals_limit max_version)
      else bindM (expect_rpc ''get_block_template2019''
             (i19_get_block_template (rc_inner2019 C) bytes_limit proposals_limit max_version))
           (item2019_to_item2021 (\<lambda>t. t) (read_template (rc_serde C))))"

definition rpc_submit_block :: "'w rpc_client \<Rightarrow> string \<Rightarrow> block \<Rightarrow> ('w, string + byte32) cmd" where
  "rpc_submit_block C work_id block =
     (if rc_ckb2021 C then i21_submit_block (rc_inner2021 C) work_id block
      else bindM (item2021_to_item2019 (write_block (rc_serde C)) (read_block2019 (rc_serde C)) block)
             (i19_submit_block (rc_inner2019 C) work_id))"

definition rpc_dry_run_transaction :: "'w rpc_client \<Rightarrow> transaction \<Rightarrow> ('w, nat) cmd" where
  "rpc_dry_run_transaction C tx =
     (if rc_ckb2021 C then expect_rpc ''dry_run_transaction'' (i21_dry_run_transaction (rc_inner2021 C) tx)
      else bindM (item2019_to_item2021 (write_tx (rc_serde C)) (read_tx2019 (rc_serde C)) tx) (\<lambda>tx2019.
           bindM (expect_rpc ''dry_run_transaction'' (i19_dry_run_transaction (rc_inner2019 C) tx2019))
             (item2019_to_item2021 (\<lambda>t. t) (read_cycles (rc_serde C)))))"

definition rpc_process_block_without_verify ::
    "'w rpc_client \<Rightarrow> block \<Rightarrow> bool \<Rightarrow> ('w, byte32 option) cmd" where
  "rpc_process_block_without_verify C block should_broadcast =
     (if rc_ckb2021 C then expect_rpc ''process_block_without_verify''
           (i21_process_block_without_verify (rc_inner2021 C) block should_broadcast)
      else bindM (item2021_to_item2019 (write_block (rc_serde C)) (read_block2019 (rc_serde C)) block)
             (\<lambda>block2019. expect_rpc ''process_block_without_verify''
                (i19_process_block_without_verify (rc_inner2019 C) block2019 should_broadcast)))"

definition rpc_get_block_hash :: "'w rpc_client \<Rightarrow> nat \<Rightarrow> ('w, byte32 option) cmd" where
  "rpc_get_block_hash C number = expect_rpc ''get_block_hash'' (i21_get_block_hash (rc_inner2021 C) number)"

definition rpc_get_tip_block_number :: "'w rpc_client \<Rightarrow> ('w, nat) cmd" where
  "rpc_get_tip_block_number C = expect_rpc ''get_tip_block_number'' (i21_get_tip_block_number (rc_inner2021 C))"

definition rpc_get_current_epoch :: "'w rpc_client \<Rightarrow> ('w, epoch_view) cmd" where
  "rpc_get_current_epoch C = expect_rpc ''get_current_epoch'' (i21_get_current_epoch (rc_inner2021 C))"

definition rpc_get_epoch_by_number :: "'w rpc_client \<Rightarrow> nat \<Rightarrow> ('w, epoch_view option) cmd" where
  "rpc_get_epoch_by_number C number = expect_rpc ''get_epoch_by_number'' (i21_get_epoch_by_number (rc_inner2021 C) number)"

definition rpc_local_node_info :: "'w rpc_client \<Rightarrow> ('w, local_node) cmd" where
  "rpc_local_node_info C = expect_rpc ''local_node_info'' (i21_local_node_info (rc_inner2021 C))"

definition rpc_get_peers :: "'w rpc_client \<Rightarrow> ('w, remote_node list) cmd" where
  "rpc_get_peers C = expect_rpc ''get_peers'' (i21_get_peers (rc_inner2021 C))"

definition rpc_get_banned_addresses :: "'w rpc_client \<Rightarrow> ('w, banned_addr list) cmd" where
  "rpc_get_banned_addresses C = expect_rpc ''get_banned_addresses'' (i21_get_banned_addresses (rc_inner2021 C))"

definition rpc_set_ban :: "'w rpc_client \<Rightarrow> string \<Rightarrow> string \<Rightarrow> nat option \<Rightarrow> bool option \<Rightarrow> string option \<Rightarrow> ('w, unit) cmd" where
  "rpc_set_ban C address command ban_time absolute reason = expect_rpc ''set_ban'' (i21_set_ban (rc_inner2021 C) address command ban_time absolute reason)"

definition rpc_get_blockchain_info :: "'w rpc_client \<Rightarrow> ('w, chain_info) cmd" where
  "rpc_get_blockchain_info C = expect_rpc ''get_blockchain_info'' (i21_get_blockchain_info (rc_inner2021 C))"

definition rpc_get_block_median_time :: "'w rpc_client \<Rightarrow> byte32 \<Rightarrow> ('w, nat option) cmd" where
  "rpc_get_block_median_time C hash = expect_rpc ''get_block_median_time'' (i21_get_block_median_time (rc_inner2021 C) hash)"

definition rpc_send_alert :: "'w rpc_client \<Rightarrow> json \<Rightarrow> ('w, unit) cmd" where
  "rpc_send_alert C alert = expect_rpc ''send_alert'' (i21_send_alert (rc_inner2021 C) alert)"

definition rpc_tx_pool_info :: "'w rpc_client \<Rightarrow> ('w, tx_pool_info) cmd" where
  "rpc_tx_pool_info C = expect_rpc ''tx_pool_info'' (i21_tx_pool_info (rc_inner2021 C))"

definition rpc_add_node :: "'w rpc_client \<Rightarrow> string \<Rightarrow> string \<Rightarrow> ('w, unit) cmd" where
  "rpc_add_node C peer_id address = expect_rpc ''add_node'' (i21_add_node (rc_inner2021 C) peer_id address)"

definition rpc_remove_node :: "'w rpc_client \<Rightarrow> string \<Rightarrow> ('w, unit) cmd" where
  "rpc_remove_node C peer_id = expect_rpc ''remove_node'' (i21_remove_node (rc_inner2021 C) peer_id)"

definition rpc_truncate :: "'w rpc_client \<Rightarrow> byte32 \<Rightarrow> ('w, unit) cmd" where
  "rpc_truncate C target_tip_hash = expect_rpc ''truncate'' (i21_truncate (rc_inner2021 C) target_tip_hash)"

definition rpc_calculate_dao_maximum_withdraw :: "'w rpc_client \<Rightarrow> out_point \<Rightarrow> byte32 \<Rightarrow> ('w, nat) cmd" where
  "rpc_calculate_dao_maximum_withdraw C out_point hash = expect_rpc ''calculate_dao_maximum_withdraw'' (i21_calculate_dao_maximum_withdraw (rc_inner2021 C) out_point hash)"

definition rpc_calculate_dao_field :: "'w rpc_client \<Rightarrow> block_template \<Rightarrow> ('w, string + byte32) cmd" where
  "rpc_calculate_dao_field C template =
     bindM (assertM (rc_ckb2021 C) ''assertion failed: self.ckb2021'')
       (\<lambda>_. i21_calculate_dao_field (rc_inner2021 C) template)"

definition rpc_get_raw_tx_pool :: "'w rpc_client \<Rightarrow> bool option \<Rightarrow> ('w, string + json) cmd" where
  "rpc_get_raw_tx_pool C verbose =
     bindM (assertM (rc_ckb2021 C) ''assertion failed: self.ckb2021'')
       (\<lambda>_. i21_get_raw_tx_pool (rc_inner2021 C) verbose)"

text \<open>
  Sending a transaction to a 2021 node: after an accepted transaction the node is polled, with no
  pause, until it knows the transaction or twenty seconds have passed.  The time that passes is
  the time the calls take.
\<close>

partial_function (option) await_status ::
    "'w clock \<Rightarrow> 'w rpc_client \<Rightarrow> nat \<Rightarrow> byte32 \<Rightarrow> 'w \<Rightarrow> ((halt + unit) \<times> 'w) option" where
  "await_status clk C start hash w =
     (if now clk w - start \<le> secs 20
      then bindM (i21_get_transaction (rc_inner2021 C) hash) (\<lambda>r. bindM (unwrapM UNWRAP r) (\<lambda>txstatus.
             if (case txstatus of None \<Rightarrow> False | Some t \<Rightarrow> tws_status t \<noteq> Unknown)
             then ret () else await_status clk C start hash)) w
      else Some (Inr (), w))"

definition rpc_send_transaction_result ::
    "'w clock \<Rightarrow> 'w rpc_client \<Rightarrow> transaction \<Rightarrow> ('w, string + byte32) cmd" where
  "rpc_send_transaction_result clk C tx =
     (if rc_ckb2021 C
      then bindM (i21_send_transaction (rc_inner2021 C) tx (Some ''passthrough'')) (\<lambda>r.
             case r of
               Inr hash \<Rightarrow> bindM (\<lambda>w. await_status clk C (now clk w) hash w) (\<lambda>_. ret (Inr hash))
             | Inl e \<Rightarrow> ret (Inl e))
      else bindM (item2021_to_item2019 (write_tx (rc_serde C)) (read_tx2019 (rc_serde C)) tx)
             (\<lambda>tx2019. i19_send_transaction (rc_inner2019 C) tx2019 (Some ''passthrough'')))"

definition rpc_send_transaction :: "'w clock \<Rightarrow> 'w rpc_client \<Rightarrow> transaction \<Rightarrow> ('w, byte32) cmd" where
  "rpc_send_transaction clk C tx = expect_rpc ''send_transaction'' (rpc_send_transaction_result clk C tx)"

section \<open>Properties\<close>

lemma rpc_call_run:
  assumes "post (request_json i (method_name ident) (serialize_parameters args)) w = Some (Inr r, w')"
  shows "rpc_call post error_text from_value ident args (i, w) = Some
     (Inr (case r of Inl e \<Rightarrow> Inl e
           | Inr (Success v) \<Rightarrow> from_value v
           | Inr (Failure v) \<Rightarrow> Inl (error_text v)), (i + 1, w'))"
  using assms
  by (cases r) (simp_all add: rpc_call_def next_id_def bindM_def tryM_def on_env_def ret_def
      split: rpc_output.split)

text \<open>A transport that records the requests, and answers each with \<open>answer\<close>.\<close>

definition logging_post :: "(json \<Rightarrow> string + rpc_output) \<Rightarrow> json \<Rightarrow> (json list, string + rpc_output) cmd" where
  "logging_post answer req = (\<lambda>log. Some (Inr (answer req), log @ [req]))"

fun request_id :: "json \<Rightarrow> int" where
  "request_id (JObj ((k, JNum i) # _)) = i"
| "request_id _ = -1"

fun request_method :: "json \<Rightarrow> string" where
  "request_method (JObj [_, _, (_, JStr m), _]) = m"
| "request_method _ = []"

fun request_log :: "64 word \<Rightarrow> (string \<times> json list) list \<Rightarrow> json list" where
  "request_log i [] = []"
| "request_log i ((ident, args) # calls) =
     request_json i (method_name ident) (serialize_parameters args) # request_log (i + 1) calls"

lemma calls_logged:
  "\<exists>rs. mapM (\<lambda>(ident, args). rpc_call (logging_post answer) et fv ident args) calls (i, log)
      = Some (Inr rs, (i + of_nat (length calls), log @ request_log i calls))"
proof (induction calls arbitrary: i log)
  case Nil
  then show ?case by (simp add: ret_def)
next
  case (Cons c cs)
  obtain ident args where c: "c = (ident, args)" by fastforce
  let ?req = "request_json i (method_name ident) (serialize_parameters args)"
  obtain r where r: "rpc_call (logging_post answer) et fv ident args (i, log)
      = Some (Inr r, (i + 1, log @ [?req]))"
    using rpc_call_run[of "logging_post answer" i ident args log "answer ?req" "log @ [?req]" et fv]
    by (simp add: logging_post_def)
  obtain rs where rs: "mapM (\<lambda>(ident, args). rpc_call (logging_post answer) et fv ident args) cs
       (i + 1, log @ [?req])
      = Some (Inr rs, (i + 1 + of_nat (length cs), (log @ [?req]) @ request_log (i + 1) cs))"
    using Cons.IH by blast
  let ?f = "\<lambda>(ident, args). rpc_call (logging_post answer) et fv ident args"
  have "mapM ?f (c # cs) (i, log) = bindM (mapM ?f cs) (\<lambda>ys. ret (r # ys)) (i + 1, log @ [?req])"
    by (simp add: c bindM_run r)
  also have "\<dots> = ret (r # rs) (i + 1 + of_nat (length cs), (log @ [?req]) @ request_log (i + 1) cs)"
    using rs by (simp only: bindM_run)
  finally show ?case
    by (simp add: c ret_def add.assoc)
qed

lemma request_json_simps [simp]:
  "request_id (request_json i m p) = uint i" "request_method (request_json i m p) = m"
  by (simp_all add: request_json_def)

lemma request_log_ids:
  "map request_id (request_log i calls) = map (\<lambda>k. uint (i + of_nat k)) [0..<length calls]"
  by (induction i calls rule: request_log.induct)
     (simp_all add: map_upt_Suc algebra_simps del: upt_Suc)

lemma request_log_methods:
  "map request_method (request_log i calls) = map (method_name \<circ> fst) calls"
  by (induction i calls rule: request_log.induct) simp_all

lemma ids_distinct:
  assumes "n \<le> 2 ^ 64"
  shows "distinct (map (\<lambda>k. uint ((i :: 64 word) + of_nat k)) [0..<n])"
proof -
  have "inj_on (\<lambda>k. uint (i + of_nat k)) {0..<n}"
  proof (rule inj_onI)
    fix j k :: nat
    assume jk: "j \<in> {0..<n}" "k \<in> {0..<n}" and "uint (i + of_nat j) = uint (i + of_nat k)"
    then have "i + of_nat j = i + of_nat k" by (simp only: word_uint_eq_iff)
    then have "(of_nat j :: 64 word) = of_nat k" by simp
    then have "take_bit 64 j = take_bit 64 k"
      by (simp add: word_of_nat_eq_iff)
    then show "j = k" using jk assms by (simp add: take_bit_nat_eq_self)
  qed
  then show ?thesis by (simp add: distinct_map)
qed

lemma methods_not_renamed:
  "list_all (\<lambda>m. method_name m = m) (map fst (v2019_methods @ v2021_methods))"
  by code_simp

text \<open>
  For the witnesses: a client whose node answers no call, to be updated with the answers a
  witness needs.
\<close>

definition offline2021 :: "'w inner2021" where
  "offline2021 = \<lparr>i21_get_block = (\<lambda>_. ret (Inl ''offline'')),
     i21_get_fork_block = (\<lambda>_. ret (Inl ''offline'')),
     i21_get_block_by_number = (\<lambda>_. ret (Inl ''offline'')),
     i21_get_header = (\<lambda>_. ret (Inl ''offline'')),
     i21_get_header_by_number = (\<lambda>_. ret (Inl ''offline'')),
     i21_get_transaction = (\<lambda>_. ret (Inl ''offline'')),
     i21_get_block_hash = (\<lambda>_. ret (Inl ''offline'')),
     i21_get_tip_header = ret (Inl ''offline''),
     i21_get_live_cell = (\<lambda>_ _. ret (Inl ''offline'')),
     i21_get_tip_block_number = ret (Inl ''offline''),
     i21_get_current_epoch = ret (Inl ''offline''),
     i21_get_epoch_by_number = (\<lambda>_. ret (Inl ''offline'')),
     i21_get_consensus = ret (Inl ''offline''), i21_local_node_info = ret (Inl ''offline''),
     i21_get_peers = ret (Inl ''offline''), i21_get_banned_addresses = ret (Inl ''offline''),
     i21_set_ban = (\<lambda>_ _ _ _ _. ret (Inl ''offline'')),
     i21_get_block_template = (\<lambda>_ _ _. ret (Inl ''offline'')),
     i21_submit_block = (\<lambda>_ _. ret (Inl ''offline'')),
     i21_get_blockchain_info = ret (Inl ''offline''),
     i21_get_block_median_time = (\<lambda>_. ret (Inl ''offline'')),
     i21_dry_run_transaction = (\<lambda>_. ret (Inl ''offline'')),
     i21_send_transaction = (\<lambda>_ _. ret (Inl ''offline'')),
     i21_tx_pool_info = ret (Inl ''offline''),
     i21_send_alert = (\<lambda>_. ret (Inl ''offline'')),
     i21_add_node = (\<lambda>_ _. ret (Inl ''offline'')),
     i21_remove_node = (\<lambda>_. ret (Inl ''offline'')),
     i21_process_block_without_verify = (\<lambda>_ _. ret (Inl ''offline'')),
     i21_truncate = (\<lambda>_. ret (Inl ''offline'')),
     i21_calculate_dao_field = (\<lambda>_. ret (Inl ''offline'')),
     i21_get_raw_tx_pool = (\<lambda>_. ret (Inl ''offline'')),
     i21_calculate_dao_maximum_withdraw = (\<lambda>_ _. ret (Inl ''offline''))\<rparr>"

definition offline2019 :: "'w inner2019" where
  "offline2019 = \<lparr>i19_get_block = (\<lambda>_. ret (Inl ''offline'')),
     i19_get_fork_block = (\<lambda>_. ret (Inl ''offline'')),
     i19_get_block_by_number = (\<lambda>_. ret (Inl ''offline'')),
     i19_get_header = (\<lambda>_. ret (Inl ''offline'')),
     i19_get_header_by_number = (\<lambda>_. ret (Inl ''offline'')),
     i19_get_transaction = (\<lambda>_. ret (Inl ''offline'')),
     i19_get_tip_header = ret (Inl ''offline''),
     i19_get_live_cell = (\<lambda>_ _. ret (Inl ''offline'')),
     i19_get_consensus = ret (Inl ''offline''),
     i19_get_block_template = (\<lambda>_ _ _. ret (Inl ''offline'')),
     i19_submit_block = (\<lambda>_ _. ret (Inl ''offline'')),
     i19_send_transaction = (\<lambda>_ _. ret (Inl ''offline'')),
     i19_dry_run_transaction = (\<lambda>_. ret (Inl ''offline'')),
     i19_process_block_without_verify = (\<lambda>_ _. ret (Inl ''offline''))\<rparr>"

definition no_serde :: serde where
  "no_serde = \<lparr>read_block = (\<lambda>_. Inl ''no serde''), read_header = (\<lambda>_. Inl ''no serde''),
     read_tip_header = (\<lambda>_. Inl ''no serde''),
     read_transaction = (\<lambda>_. Inl ''no serde''),
     read_live_cell = (\<lambda>_. Inl ''no serde''),
     read_consensus = (\<lambda>_. Inl ''no serde''),
     read_template = (\<lambda>_. Inl ''no serde''), read_cycles = (\<lambda>_. Inl ''no serde''),
     write_block = (\<lambda>_. []), write_tx = (\<lambda>_. []),
     write_out_point = (\<lambda>_. []), read_block2019 = (\<lambda>_. Inl ''no serde''),
     read_tx2019 = (\<lambda>_. Inl ''no serde''),
     read_out_point2019 = (\<lambda>_. Inl ''no serde'')\<rparr>"

definition offline_client :: "'w rpc_client" where
  "offline_client = \<lparr>rc_url = ''http://127.0.0.1:8114/'', rc_ckb2021 = True, rc_inner2019 = offline2019,
     rc_inner2021 = offline2021, rc_serde = no_serde\<rparr>"

text \<open>
  Requests.  A client that makes up to \<open>2 ^ 64\<close> calls of the methods in its table, one
  after the other, sends exactly one request per call, whatever the node answers; the request
  identifiers are pairwise distinct, and each request names the method that was called: removing
  \<open>2019\<close> and \<open>2021\<close> from the identifiers changes none of them.
\<close>

theorem requests_well_formed:
  assumes "length calls \<le> 2 ^ 64"
    and "\<forall>c \<in> set calls. fst c \<in> set (map fst (v2019_methods @ v2021_methods))"
  shows "\<exists>rs i log. mapM (\<lambda>(ident, args). rpc_call (logging_post answer) et fv ident args) calls
        (id_generator_new, []) = Some (Inr rs, (i, log))
     \<and> length log = length calls \<and> distinct (map request_id log)
     \<and> map request_method log = map fst calls"
proof -
  have len: "length (request_log id_generator_new calls) = length calls"
    using request_log_methods[of id_generator_new calls] by (metis length_map)
  have "map (method_name \<circ> fst) calls = map fst calls"
    using assms(2) methods_not_renamed by (auto simp: list_all_iff)
  then show ?thesis
    using calls_logged[of answer et fv calls id_generator_new "[]"] len
      request_log_ids[of id_generator_new calls] request_log_methods[of id_generator_new calls]
      ids_distinct[OF assms(1)]
    by fastforce
qed

theorem requests_well_formed_witness:
  "\<exists>rs i log. mapM (\<lambda>(ident, args). rpc_call (logging_post (\<lambda>_. Inl ''down'')) (\<lambda>_. []) (\<lambda>_. Inr ())
        ident args) [(''get_tip_header'', []), (''get_block'', [JNum 1])]
        (id_generator_new, []) = Some (Inr rs, (i, log))
     \<and> length log = length [(''get_tip_header'', []), (''get_block'', [JNum 1])]
     \<and> distinct (map request_id log)
     \<and> map request_method log = map fst [(''get_tip_header'', []), (''get_block'', [JNum 1])]"
  by (rule requests_well_formed) (simp_all add: v2019_methods_def)

text \<open>
  The two generated clients: the 2019 table is the 2021 table without
  \<open>calculate_dao_field\<close> and \<open>get_raw_tx_pool\<close>, which is why \<open>RpcClient\<close> asserts the 2021 version
  before it calls these two and only these two; no method is declared twice.
\<close>

theorem method_tables_agree:
  "v2019_methods =
     filter (\<lambda>m. fst m \<notin> {''calculate_dao_field'', ''get_raw_tx_pool''}) v2021_methods
   \<and> distinct (map fst v2021_methods)
   \<and> (\<not> rc_ckb2021 C \<longrightarrow>
        rpc_calculate_dao_field C template = panicking ''assertion failed: self.ckb2021'' \<and>
        rpc_get_raw_tx_pool C verbose = panicking ''assertion failed: self.ckb2021'')"
  by (simp add: v2019_methods_def v2021_methods_def rpc_calculate_dao_field_def
      rpc_get_raw_tx_pool_def)

theorem method_tables_agree_witness:
  "let C = offline_client\<lparr>rc_ckb2021 := False\<rparr> :: nat rpc_client
   in rpc_get_raw_tx_pool C None = panicking ''assertion failed: self.ckb2021''"
proof -
  have "\<not> rc_ckb2021 (offline_client\<lparr>rc_ckb2021 := False\<rparr> :: nat rpc_client)" by simp
  then show ?thesis using method_tables_agree unfolding Let_def by blast
qed

lemma borderless_names: "borderless ''uncles_hash''" "borderless ''extra_hash''"
  by code_simp+

abbreviation dummy_field :: string where
  "dummy_field \<equiv> ''\"permanent_difficulty_in_dummy\":''"

lemma to_2019_and_back:
  "\<not> str_contains ''uncles_hash'' t \<Longrightarrow> \<not> str_contains dummy_field t \<Longrightarrow>
     text_2019_to_2021 (text_2021_to_2019 t) = t"
  by (simp add: text_2019_to_2021_def text_2021_to_2019_def str_replace_roundtrip borderless_names
      str_replace_absent)





lemma await_status_run:
  assumes step: "\<And>v. \<exists>s v'. i21_get_transaction (rc_inner2021 C) h v = Some (Inr (Inr s), v') \<and>
      now clk v + d \<le> now clk v'" and d: "0 < d" and "start \<le> now clk w"
  shows "\<exists>w'. await_status clk C start h w = Some (Inr (), w') \<and>
     (start + secs 20 < now clk w' \<or>
      (\<exists>v t. i21_get_transaction (rc_inner2021 C) h v = Some (Inr (Inr (Some t)), w') \<and> tws_status t \<noteq> Unknown))"
  using assms(3)
proof (induction "start + secs 20 + d - now clk w" arbitrary: w rule: less_induct)
  case less
  show ?case
  proof (cases "now clk w - start \<le> secs 20")
    case False
    then have "await_status clk C start h w = Some (Inr (), w)"
      by (subst await_status.simps) simp
    with False show ?thesis by auto
  next
    case True
    obtain s v where v: "i21_get_transaction (rc_inner2021 C) h w = Some (Inr (Inr s), v)"
      "now clk w + d \<le> now clk v" using step by blast
    show ?thesis
    proof (cases "case s of None \<Rightarrow> False | Some t \<Rightarrow> tws_status t \<noteq> Unknown")
      case known: True
      then have "await_status clk C start h w = Some (Inr (), v)"
        using True v by (subst await_status.simps) (simp add: bindM_run ret_run)
      with known v show ?thesis by (auto split: option.splits)
    next
      case False
      then have "await_status clk C start h w = await_status clk C start h v"
        using True v by (subst await_status.simps) (simp add: bindM_run ret_run)
      moreover have "start + secs 20 + d - now clk v < start + secs 20 + d - now clk w"
        using v(2) d True less.prems by linarith
      moreover have "start \<le> now clk v" using v(2) less.prems by linarith
      ultimately show ?thesis using less.hyps by simp
    qed
  qed
qed

text \<open>
  C27.  Sending a transaction to a 2021 node returns, and returns the node's own answer to the
  send, accepted or not: when the calls take time, the polling after an accepted transaction
  ends, and it ends only when the node knows the transaction or twenty seconds have passed.
\<close>

theorem send_transaction_returns:
  assumes "rc_ckb2021 C" and "0 < d"
    and "\<And>h v. \<exists>s v'. i21_get_transaction (rc_inner2021 C) h v = Some (Inr (Inr s), v') \<and>
      now clk v + d \<le> now clk v'"
    and "i21_send_transaction (rc_inner2021 C) tx (Some ''passthrough'') w = Some (Inr r, w1)"
  shows "\<exists>w'. rpc_send_transaction_result clk C tx w = Some (Inr r, w') \<and>
     (case r of Inl e \<Rightarrow> w' = w1
      | Inr h \<Rightarrow> now clk w1 + secs 20 < now clk w' \<or>
          (\<exists>v t. i21_get_transaction (rc_inner2021 C) h v = Some (Inr (Inr (Some t)), w')
             \<and> tws_status t \<noteq> Unknown))"
proof (cases r)
  case (Inl e)
  with assms(1,4) show ?thesis
    by (simp add: rpc_send_transaction_result_def bindM_run ret_def)
next
  case (Inr h)
  obtain w' where "await_status clk C (now clk w1) h w1 = Some (Inr (), w')"
    "now clk w1 + secs 20 < now clk w' \<or>
      (\<exists>v t. i21_get_transaction (rc_inner2021 C) h v = Some (Inr (Inr (Some t)), w') \<and> tws_status t \<noteq> Unknown)"
    using await_status_run[OF assms(3,2) order_refl] by blast
  with assms(1,4) Inr show ?thesis
    by (simp add: rpc_send_transaction_result_def bindM_run ret_run)
qed

theorem send_transaction_returns_witness:
  "let C = offline_client\<lparr>rc_inner2021 := offline2021\<lparr>
         i21_send_transaction := (\<lambda>_ _. ret (Inr 5)),
         i21_get_transaction := (\<lambda>_ v. Some (Inr (Inr None), v + 1000))\<rparr>\<rparr>
   in \<exists>w'. rpc_send_transaction_result tick_clock C empty_transaction 0 = Some (Inr (Inr 5), w')
        \<and> secs 20 < w'"
proof -
  let ?C = "offline_client\<lparr>rc_inner2021 := offline2021\<lparr>
         i21_send_transaction := (\<lambda>_ _. ret (Inr 5)),
         i21_get_transaction := (\<lambda>_ v. Some (Inr (Inr None), v + 1000))\<rparr>\<rparr>"
  have "\<exists>w'. rpc_send_transaction_result tick_clock ?C empty_transaction 0 = Some (Inr (Inr 5), w') \<and>
     (case Inr 5 :: string + byte32 of Inl e \<Rightarrow> w' = 0
      | Inr h \<Rightarrow> now tick_clock 0 + secs 20 < now tick_clock w' \<or>
          (\<exists>v t. i21_get_transaction (rc_inner2021 ?C) h v = Some (Inr (Inr (Some t)), w')
             \<and> tws_status t \<noteq> Unknown))"
    by (rule send_transaction_returns[where d = 1000])
       (simp_all add: offline_client_def ret_def tick_clock_def)
  then show ?thesis by (simp add: Let_def tick_clock_def)
qed

end
