(* ===== verification/Node.thy ===== *)
theory Node
  imports Rpc
begin

text \<open>
  \<open>ckb-testkit/src/node/\<close>: \<open>node.rs\<close> (a node: its options, its process and what is known of it
  once it runs), \<open>rpc.rs\<close> (reading the chain, waiting for the pool), \<open>mining.rs\<close>, \<open>p2p.rs\<close>,
  \<open>get_transaction.rs\<close>, \<open>get_transaction_cycles.rs\<close> and \<open>genesis_block_info.rs\<close>.  The operating
  system, the child process and the indexer (crate \<open>ckb_indexer\<close>) are records of the operations
  the code calls.
\<close>

section \<open>The state of a node\<close>

record node_options =
  no_node_name :: string
  no_ckb_binary :: string
  no_initial_database :: string
  no_chain_spec :: string
  no_app_config :: string

record live_cell_detail =
  lc_block_number :: nat
  lc_block_hash :: byte32
  lc_tx_index :: nat
  lc_cell_output :: cell_output
  lc_cell_data :: bytes

record 'w indexer =
  ix_tip :: "('w, string + (nat \<times> byte32) option) cmd"
  ix_append :: "block \<Rightarrow> ('w, string + unit) cmd"
  ix_rollback :: "('w, string + unit) cmd"
  ix_get_live_cells_by_lock_script :: "script \<Rightarrow> ('w, string + out_point list) cmd"
  ix_get_detailed_live_cell :: "out_point \<Rightarrow> ('w, string + live_cell_detail option) cmd"

record 'w child =
  ch_try_wait :: "('w, string + int option option) cmd" \<comment> \<open>exited, and with which code\<close>
  ch_kill :: "('w, string + unit) cmd"
  ch_wait :: "('w, string + int option) cmd"

record 'w os =
  os_clock :: "'w clock"
  os_bind :: "16 word \<Rightarrow> ('w, bool) cmd"
  os_tmp_var :: "('w, string option) cmd"
  os_make_tempdir :: "string option \<Rightarrow> string \<Rightarrow> ('w, string + string) cmd"
  os_close_tempdir :: "string \<Rightarrow> ('w, string + unit) cmd"
  os_create_dir_all :: "string \<Rightarrow> ('w, string + unit) cmd"
  os_copy_dir :: "string \<Rightarrow> string \<Rightarrow> ('w, string + unit) cmd" \<comment> \<open>contents only\<close>
  os_read_to_string :: "string \<Rightarrow> ('w, string + string) cmd"
  os_write :: "string \<Rightarrow> string \<Rightarrow> ('w, string + unit) cmd"
  os_spawn :: "string \<Rightarrow> string list \<Rightarrow> ('w, string + 'w child) cmd"
  os_connect_rpc :: "string \<Rightarrow> bool \<Rightarrow> ('w, 'w rpc_client) cmd" \<comment> \<open>\<open>RpcClient::new\<close>: panics on a bad URL\<close>
  os_open_indexer :: "string \<Rightarrow> ('w, 'w indexer) cmd"
  os_version_ge :: "string \<Rightarrow> string \<Rightarrow> bool option"
  os_url_host :: "string \<Rightarrow> string + string option"

record 'w node =
  nd_node_options :: node_options
  nd_working_dir :: string
  nd_rpc_client :: "'w rpc_client"
  nd_p2p_address :: "string option"
  nd_consensus :: "consensus option"
  nd_genesis_block :: "block option"
  nd_node_id :: "string option"
  nd_indexer :: "'w indexer option"
  nd_guard :: "'w child option"

definition node_clone :: "'w node \<Rightarrow> 'w node" where
  "node_clone nd = \<lparr>nd_node_options = nd_node_options nd, nd_working_dir = nd_working_dir nd,
     nd_rpc_client = nd_rpc_client nd, nd_p2p_address = nd_p2p_address nd,
     nd_consensus = nd_consensus nd, nd_genesis_block = nd_genesis_block nd,
     nd_node_id = nd_node_id nd, nd_indexer = nd_indexer nd, nd_guard = None\<rparr>"

section \<open>Accessors\<close>

definition node_name :: "'w node \<Rightarrow> string" where
  "node_name nd = no_node_name (nd_node_options nd)"

definition log_path :: "'w node \<Rightarrow> string" where
  "log_path nd = path_join (nd_working_dir nd) ''data/logs/run.log''"

definition p2p_address :: "'w node \<Rightarrow> ('w, string) cmd" where
  "p2p_address nd = expectM UNWRAP (nd_p2p_address nd)"

definition node_id :: "'w node \<Rightarrow> ('w, string) cmd" where
  "node_id nd = expectM ''uninitialized node_id'' (nd_node_id nd)"

definition p2p_address_with_node_id :: "'w node \<Rightarrow> ('w, string) cmd" where
  "p2p_address_with_node_id nd =
     bindM (p2p_address nd) (\<lambda>a. bindM (node_id nd) (\<lambda>i. ret (a @ ''/p2p/'' @ i)))"

definition get_consensus :: "'w node \<Rightarrow> ('w, consensus) cmd" where
  "get_consensus nd = expectM ''uninitialized consensus'' (nd_consensus nd)"

definition genesis_block :: "'w node \<Rightarrow> ('w, block) cmd" where
  "genesis_block nd = expectM ''uninitialized genesis_block'' (nd_genesis_block nd)"

definition indexer_unchecked :: "'w node \<Rightarrow> ('w, 'w indexer) cmd" where
  "indexer_unchecked nd = expectM ''uninitialized indexer'' (nd_indexer nd)"

text \<open>\<open>genesis_block_info.rs\<close>.\<close>

definition genesis_cellbase_hash :: "chain_lib \<Rightarrow> 'w node \<Rightarrow> ('w, byte32) cmd" where
  "genesis_cellbase_hash L nd =
     bindM (genesis_block nd) (\<lambda>b. bindM (indexM (bk_transactions b) 0) (\<lambda>tx. ret (hash_tx L tx)))"

definition dep_group_tx_hash :: "chain_lib \<Rightarrow> 'w node \<Rightarrow> ('w, byte32) cmd" where
  "dep_group_tx_hash L nd =
     bindM (genesis_block nd) (\<lambda>b. bindM (indexM (bk_transactions b) 1) (\<lambda>tx. ret (hash_tx L tx)))"

section \<open>Reading the chain: \<open>rpc.rs\<close>, \<open>get_transaction.rs\<close>, \<open>get_transaction_cycles.rs\<close>\<close>

definition submit_transaction :: "'w clock \<Rightarrow> 'w node \<Rightarrow> transaction \<Rightarrow> ('w, byte32) cmd" where
  "submit_transaction clk nd tx = rpc_send_transaction clk (nd_rpc_client nd) tx"

definition get_tip_block_number :: "'w node \<Rightarrow> ('w, nat) cmd" where
  "get_tip_block_number nd = rpc_get_tip_block_number (nd_rpc_client nd)"

definition get_tip_block :: "'w node \<Rightarrow> ('w, block) cmd" where
  "get_tip_block nd =
     bindM (rpc_get_tip_block_number (nd_rpc_client nd)) (\<lambda>tip_number.
     bindM (rpc_get_block_by_number (nd_rpc_client nd) tip_number) (\<lambda>b.
     expectM ''tip block exists'' b))"

definition get_block :: "'w node \<Rightarrow> byte32 \<Rightarrow> ('w, block) cmd" where
  "get_block nd hash = bindM (rpc_get_block (nd_rpc_client nd) hash) (expectM ''block exists'')"

definition get_block_by_number :: "'w node \<Rightarrow> nat \<Rightarrow> ('w, block) cmd" where
  "get_block_by_number nd number =
     bindM (rpc_get_block_by_number (nd_rpc_client nd) number) (expectM ''block exists'')"

definition get_header_by_number :: "'w node \<Rightarrow> nat \<Rightarrow> ('w, header) cmd" where
  "get_header_by_number nd number =
     bindM (rpc_get_header_by_number (nd_rpc_client nd) number) (\<lambda>h.
     bindM (expectM ''header exists'' h) (\<lambda>hv. ret (hv_header hv)))"

definition has_status :: "tx_status \<Rightarrow> chain_lib \<Rightarrow> 'w node \<Rightarrow> transaction \<Rightarrow> ('w, bool) cmd" where
  "has_status s L nd tx = bindM (rpc_get_transaction (nd_rpc_client nd) (hash_tx L tx))
     (\<lambda>r. ret (case r of None \<Rightarrow> False | Some txstatus \<Rightarrow> tws_status txstatus = s))"

definition is_transaction_pending :: "chain_lib \<Rightarrow> 'w node \<Rightarrow> transaction \<Rightarrow> ('w, bool) cmd" where
  "is_transaction_pending = has_status Pending"

definition is_transaction_proposed :: "chain_lib \<Rightarrow> 'w node \<Rightarrow> transaction \<Rightarrow> ('w, bool) cmd" where
  "is_transaction_proposed = has_status Proposed"

definition is_transaction_committed :: "chain_lib \<Rightarrow> 'w node \<Rightarrow> transaction \<Rightarrow> ('w, bool) cmd" where
  "is_transaction_committed = has_status Committed"

definition is_transaction_unknown :: "chain_lib \<Rightarrow> 'w node \<Rightarrow> transaction \<Rightarrow> ('w, bool) cmd" where
  "is_transaction_unknown L nd tx =
     bindM (rpc_get_transaction (nd_rpc_client nd) (hash_tx L tx)) (\<lambda>r. ret (r = None))"

definition get_transaction_cycles :: "'w node \<Rightarrow> transaction \<Rightarrow> ('w, nat) cmd" where
  "get_transaction_cycles nd tx = rpc_dry_run_transaction (nd_rpc_client nd) tx"

section \<open>Waiting for the pool\<close>

text \<open>
  The loops poll the node; time passes in the calls and in \<open>sleep\<close>.  \<open>Instant::elapsed\<close> is the
  clock's distance from the start.
\<close>

partial_function (option) tip_tx_pool_loop ::
    "'w clock \<Rightarrow> 'w rpc_client \<Rightarrow> nat \<Rightarrow> byte32 \<Rightarrow> 'w \<Rightarrow> ((halt + tx_pool_info) \<times> 'w) option" where
  "tip_tx_pool_loop clk C start tip_hash w =
     (if now clk w - start < secs 10
      then bindM (rpc_tx_pool_info C) (\<lambda>info.
             if tpi_tip_hash info = tip_hash then ret info
             else tip_tx_pool_loop clk C start tip_hash) w
      else panicking ''timeout to get_tip_tx_pool_info'' w)"

definition get_tip_tx_pool_info :: "'w clock \<Rightarrow> 'w node \<Rightarrow> ('w, tx_pool_info) cmd" where
  "get_tip_tx_pool_info clk nd =
     bindM (rpc_get_tip_header (nd_rpc_client nd)) (\<lambda>tip_header.
     bindM (reading (now clk)) (\<lambda>start.
     tip_tx_pool_loop clk (nd_rpc_client nd) start (hv_hash tip_header)))"

partial_function (option) tx_pool_loop ::
    "'w clock \<Rightarrow> 'w rpc_client \<Rightarrow> nat \<Rightarrow> tx_pool_info \<Rightarrow> 'w \<Rightarrow> ((halt + unit) \<times> 'w) option" where
  "tx_pool_loop clk C start tx_pool_tip w =
     (if now clk w - start < secs 10
      then bindM (sleeping clk (secs 1)) (\<lambda>_.
           bindM (rpc_get_tip_header C) (\<lambda>chain_tip.
           bindM (rpc_tx_pool_info C) (\<lambda>new_tip.
             if hv_hash chain_tip = tpi_tip_hash new_tip then ret ()
             else if tpi_tip_hash tx_pool_tip \<noteq> tpi_tip_hash new_tip
                     \<and> tpi_tip_number new_tip < hd_number (hv_header chain_tip)
             then bindM (reading (now clk)) (\<lambda>instant. tx_pool_loop clk C instant new_tip)
             else tx_pool_loop clk C start new_tip))) w
      else panicking ''timeout to wait for tx pool'' w)"

definition wait_for_tx_pool :: "'w clock \<Rightarrow> 'w node \<Rightarrow> ('w, unit) cmd" where
  "wait_for_tx_pool clk nd =
     bindM (rpc_get_tip_header (nd_rpc_client nd)) (\<lambda>chain_tip.
     bindM (rpc_tx_pool_info (nd_rpc_client nd)) (\<lambda>tx_pool_tip.
       if hv_hash chain_tip = tpi_tip_hash tx_pool_tip then ret ()
       else bindM (reading (now clk)) (\<lambda>instant.
              tx_pool_loop clk (nd_rpc_client nd) instant tx_pool_tip)))"

definition submit_block :: "'w clock \<Rightarrow> 'w node \<Rightarrow> block \<Rightarrow> ('w, byte32) cmd" where
  "submit_block clk nd block =
     bindM (rpc_submit_block (nd_rpc_client nd) [] block) (\<lambda>r.
     bindM (unwrapM UNWRAP r) (\<lambda>hash.
     bindM (wait_for_tx_pool clk nd) (\<lambda>_. ret hash)))"

section \<open>Mining: \<open>mining.rs\<close>\<close>

primrec mine :: "chain_lib \<Rightarrow> 'w clock \<Rightarrow> 'w node \<Rightarrow> nat \<Rightarrow> ('w, unit) cmd" where
  "mine L clk nd 0 = ret ()"
| "mine L clk nd (Suc n_blocks) =
     bindM (rpc_get_block_template (nd_rpc_client nd) None None None) (\<lambda>template.
     bindM (submit_block clk nd (template_block L template)) (\<lambda>_.
     mine L clk nd n_blocks))"

definition mine_to :: "chain_lib \<Rightarrow> 'w clock \<Rightarrow> 'w node \<Rightarrow> nat \<Rightarrow> ('w, unit) cmd" where
  "mine_to L clk nd target_height =
     bindM (get_tip_block_number nd) (\<lambda>tip_number.
     if tip_number < target_height then mine L clk nd (target_height - tip_number) else ret ())"

section \<open>Peers: \<open>p2p.rs\<close>\<close>

definition is_p2p_connected :: "'w node \<Rightarrow> 'w node \<Rightarrow> ('w, bool) cmd" where
  "is_p2p_connected self other =
     bindM (rpc_get_peers (nd_rpc_client self))
       (anyM (\<lambda>peer. bindM (node_id other) (\<lambda>i. ret (rn_node_id peer = i))))"

definition p2p_connect_uncheck :: "'w node \<Rightarrow> 'w node \<Rightarrow> ('w, unit) cmd" where
  "p2p_connect_uncheck self other =
     bindM (node_id other) (\<lambda>other_node_id. bindM (p2p_address other) (\<lambda>other_p2p_address.
     rpc_add_node (nd_rpc_client self) other_node_id other_p2p_address))"

definition p2p_connect :: "'w clock \<Rightarrow> 'w node \<Rightarrow> 'w node \<Rightarrow> ('w, unit) cmd" where
  "p2p_connect clk self other =
     bindM (p2p_connect_uncheck self other) (\<lambda>_.
     bindM (wait_until clk 20 (is_p2p_connected self other)) (\<lambda>connected.
     if connected then ret () else panicking ''timeout to connect outbound peer''))"

definition not_peer :: "'w node \<Rightarrow> 'w node \<Rightarrow> ('w, bool) cmd" where
  "not_peer self other =
     bindM (rpc_get_peers (nd_rpc_client self))
       (allM (\<lambda>peer. bindM (node_id other) (\<lambda>i. ret (rn_node_id peer \<noteq> i))))"

definition p2p_disconnect :: "'w clock \<Rightarrow> 'w node \<Rightarrow> 'w node \<Rightarrow> ('w, unit) cmd" where
  "p2p_disconnect clk self other =
     bindM (node_id other) (\<lambda>other_node_id.
     bindM (rpc_remove_node (nd_rpc_client self) other_node_id) (\<lambda>_.
     bindM (wait_until clk 5 (bindM (not_peer self other) (\<lambda>b.
              if b then not_peer other self else ret False))) (\<lambda>disconnected.
     if disconnected then ret () else panicking ''timeout to disconnect peer'')))"

definition p2p_connect_and_wait_ban :: "'w clock \<Rightarrow> 'w node \<Rightarrow> 'w node \<Rightarrow> ('w, unit) cmd" where
  "p2p_connect_and_wait_ban clk self other =
     (let C = nd_rpc_client self in
      bindM (node_id other) (\<lambda>other_node_id.
      bindM (p2p_address other) (\<lambda>other_p2p_address.
      bindM (rpc_get_banned_addresses C) (\<lambda>before.
      bindM (assertM (before = []) ''banned addresses should be empty'') (\<lambda>_.
      bindM (rpc_add_node C other_node_id other_p2p_address) (\<lambda>_.
      bindM (wait_until clk 10 (bindM (rpc_get_banned_addresses C) (\<lambda>b. ret (b \<noteq> [])))) (\<lambda>banned.
      if banned
      then bindM (rpc_get_banned_addresses C) (\<lambda>banned_addresses.
             forM banned_addresses (\<lambda>b. rpc_set_ban C (ba_address b) ''delete'' None None None))
      else panicking ''timeout to connect_and_wait_ban peer'')))))))"

section \<open>Starting and stopping: \<open>node.rs\<close>\<close>

partial_function (option) node_up_loop ::
    "'w clock \<Rightarrow> 'w rpc_client \<Rightarrow> 'w child \<Rightarrow> nat \<Rightarrow> 'w \<Rightarrow> ((halt + local_node) \<times> 'w) option" where
  "node_up_loop clk C child start w =
     (if now clk w - start \<le> secs 60
      then bindM (i21_local_node_info (rc_inner2021 C)) (\<lambda>r. case r of
             Inr info \<Rightarrow> bindM (rpc_tx_pool_info C) (\<lambda>_. ret info)
           | Inl _ \<Rightarrow> bindM (ch_try_wait child) (\<lambda>s. case s of
               Inl _ \<Rightarrow> halting (Exit 255)
             | Inr status \<Rightarrow> (case status of
                 None \<Rightarrow> bindM (sleeping clk (secs 1)) (\<lambda>_. node_up_loop clk C child start)
               | Some code \<Rightarrow> bindM (expectM UNWRAP code) (\<lambda>c. halting (Exit c))))) w
      else panicking ''timeout to start node process'' w)"

definition wait_for_node_up :: "'w clock \<Rightarrow> 'w node \<Rightarrow> 'w child \<Rightarrow> ('w, local_node) cmd" where
  "wait_for_node_up clk nd child = (\<lambda>w. node_up_loop clk (nd_rpc_client nd) child (now clk w) w)"

text \<open>\<open>ProcessGuard\<close>: dropping it kills the process and waits for it, ignoring errors.\<close>

definition drop_guard :: "'w child option \<Rightarrow> ('w, unit) cmd" where
  "drop_guard guard = (case guard of
     None \<Rightarrow> ret ()
   | Some child \<Rightarrow> bindM (ch_kill child) (\<lambda>_. bindM (ch_wait child) (\<lambda>_. ret ())))"

definition node_start :: "'w os \<Rightarrow> 'w node \<Rightarrow> ('w, 'w node) cmd" where
  "node_start os nd =
     bindM (os_spawn os (no_ckb_binary (nd_node_options nd))
              [''-C'', nd_working_dir nd, ''run'', ''--ba-advanced'', ''--overwrite-spec'']) (\<lambda>r.
     bindM (unwrapM ''failed to start ckb process'' r) (\<lambda>child_process.
     bindM (wait_for_node_up (os_clock os) nd child_process) (\<lambda>local_node_info.
     bindM (rpc_get_consensus (nd_rpc_client nd)) (\<lambda>consensus.
     bindM (get_block_by_number nd 0) (\<lambda>genesis.
     bindM (os_open_indexer os (path_join (nd_working_dir nd) ''indexer'')) (\<lambda>indexer.
     bindM (drop_guard (nd_guard nd)) (\<lambda>_.
     bindM (indexM (ln_addresses local_node_info) 0) (\<lambda>address.
     ret (nd\<lparr>nd_consensus := Some consensus, nd_genesis_block := Some genesis,
             nd_guard := Some child_process, nd_node_id := Some (ln_node_id local_node_info),
             nd_p2p_address := Some address, nd_indexer := Some indexer\<rparr>)))))))))"

definition node_stop :: "'w node \<Rightarrow> ('w, 'w node) cmd" where
  "node_stop nd = bindM (drop_guard (nd_guard nd)) (\<lambda>_. ret (nd\<lparr>nd_guard := None\<rparr>))"

definition copy_into :: "'w os \<Rightarrow> string \<Rightarrow> string \<Rightarrow> ('w, unit) cmd" where
  "copy_into os source target = bindM (os_copy_dir os source target) (unwrapM (''failed to copy '' @ source))"

definition substitute_ports :: "16 word \<Rightarrow> 16 word \<Rightarrow> string \<Rightarrow> string" where
  "substitute_ports rpc_port p2p_port content =
     str_replace ''__P2P_PORT__'' (to_decimal (unat p2p_port))
       (str_replace ''__RPC_PORT__'' (to_decimal (unat rpc_port)) content)"

definition prepare_working_dir :: "'w os \<Rightarrow> string \<Rightarrow> node_options \<Rightarrow> 16 word \<Rightarrow> 16 word \<Rightarrow> ('w, string) cmd" where
  "prepare_working_dir os case_name options rpc_port p2p_port =
     bindM (temp_path (os_tmp_var os) (os_make_tempdir os) (os_close_tempdir os)
              case_name (no_node_name options)) (\<lambda>working_dir.
     let target_database = path_join working_dir ''data/db'';
         app_config = path_join working_dir ''ckb.toml'' in
     bindM (os_create_dir_all os target_database) (\<lambda>r.
     bindM (unwrapM ''failed to create dir'' r) (\<lambda>_.
     bindM (copy_into os (no_initial_database options) target_database) (\<lambda>_.
     bindM (copy_into os (no_chain_spec options) working_dir) (\<lambda>_.
     bindM (copy_into os (no_app_config options) working_dir) (\<lambda>_.
     bindM (os_read_to_string os app_config) (\<lambda>r.
     bindM (unwrapM ''failed to read'' r) (\<lambda>content.
     bindM (os_write os app_config (substitute_ports rpc_port p2p_port content)) (\<lambda>r.
     bindM (unwrapM ''failed to write'' r) (\<lambda>_.
     ret working_dir))))))))))"

definition node_init :: "'w os \<Rightarrow> string \<Rightarrow> node_options \<Rightarrow> bool \<Rightarrow> (16 word \<times> 'w, 'w node) cmd" where
  "node_init os case_name options is_ckb2021 =
     bindM (find_available_port (os_bind os)) (\<lambda>rpc_port.
     bindM (find_available_port (os_bind os)) (\<lambda>p2p_port.
     on_env (
       bindM (prepare_working_dir os case_name options rpc_port p2p_port) (\<lambda>working_dir.
       bindM (os_connect_rpc os (''http://127.0.0.1:'' @ to_decimal (unat rpc_port) @ ''/'') is_ckb2021)
         (\<lambda>client.
       ret \<lparr>nd_node_options = options, nd_working_dir = working_dir, nd_rpc_client = client,
            nd_p2p_address = None, nd_consensus = None, nd_genesis_block = None,
            nd_node_id = None, nd_indexer = None, nd_guard = None\<rparr>)))))"

definition node_init_from_url :: "'w os \<Rightarrow> string \<Rightarrow> string \<Rightarrow> ('w, 'w node) cmd" where
  "node_init_from_url os rpc_url working_dir =
     bindM (os_connect_rpc os rpc_url True) (\<lambda>client.
     bindM (rpc_local_node_info client) (\<lambda>info.
     let is_ckb2021 = (case os_version_ge os (ln_version info) ''0.44.0'' of None \<Rightarrow> True | Some b \<Rightarrow> b) in
     bindM (if \<not> is_ckb2021 then os_connect_rpc os rpc_url is_ckb2021 else ret client) (\<lambda>client.
     bindM (rpc_get_consensus client) (\<lambda>consensus.
     bindM (rpc_get_block_by_number client 0) (\<lambda>b.
     bindM (expectM ''get genesis block'' b) (\<lambda>genesis.
     bindM (indexM (ln_addresses info) 0) (\<lambda>listened_address.
     bindM (unwrapM ''rpc_url is checked'' (os_url_host os rpc_url)) (\<lambda>host.
     bindM (expectM ''rpc_url has host'' host) (\<lambda>host_str.
     bindM (if working_dir = [] then ret None
            else mapC Some (os_open_indexer os (path_join working_dir ''indexer''))) (\<lambda>indexer.
     ret \<lparr>nd_node_options = \<lparr>no_node_name = rpc_url, no_ckb_binary = [], no_initial_database = [],
            no_chain_spec = [], no_app_config = []\<rparr>,
          nd_working_dir = working_dir, nd_rpc_client = client,
          nd_p2p_address = Some (str_replace ''0.0.0.0'' host_str listened_address),
          nd_consensus = Some consensus, nd_genesis_block = Some genesis,
          nd_node_id = Some (ln_node_id info), nd_indexer = indexer, nd_guard = None\<rparr>))))))))))"

end
