(* ===== verification/NodeFacts.thy ===== *)
theory NodeFacts
  imports Node
begin

text \<open>
  What \<open>Node\<close>'s operations guarantee: the life cycle of a node, the outcomes of waiting for it,
  mining to a height, connecting peers, and the configuration it is started with.
\<close>

section \<open>Coming up\<close>

text \<open>
  The environment of a start: the calls return and do not turn the clock back.
\<close>

definition answers :: "'w clock \<Rightarrow> ('w, 'a) cmd \<Rightarrow> bool" where
  "answers clk m \<longleftrightarrow> (\<forall>w. \<exists>a w'. m w = Some (Inr a, w') \<and> now clk w \<le> now clk w')"

lemma answersE:
  assumes "answers clk m"
  obtains a w' where "m w = Some (Inr a, w')" "now clk w \<le> now clk w'"
  using assms unfolding answers_def by blast

lemma answers_ret [simp]: "answers clk (ret a)"
  by (simp add: answers_def ret_def)

lemma answers_bindM: "answers clk m \<Longrightarrow> (\<And>a. answers clk (f a)) \<Longrightarrow> answers clk (bindM m f)"
  unfolding answers_def by (metis bindM_run le_trans)

lemma answers_anyM: "(\<And>x. answers clk (f x)) \<Longrightarrow> answers clk (anyM f xs)"
  by (induction xs) (auto intro!: answers_bindM)

lemma answers_allM: "(\<And>x. answers clk (f x)) \<Longrightarrow> answers clk (allM f xs)"
  by (induction xs) (auto intro!: answers_bindM)

lemma answers_pollable: "answers clk m \<Longrightarrow> pollable clk m"
  unfolding answers_def pollable_def by blast

fun up_outcome :: "'w clock \<Rightarrow> 'w rpc_client \<Rightarrow> 'w child \<Rightarrow> nat \<Rightarrow> ((halt + local_node) \<times> 'w) \<Rightarrow> bool" where
  "up_outcome clk C child start (Inr info, w') \<longleftrightarrow>
     (\<exists>v v'. i21_local_node_info (rc_inner2021 C) v = Some (Inr (Inr info), v'))"
| "up_outcome clk C child start (Inl (Exit c), w') \<longleftrightarrow>
     (\<exists>v v'. ch_try_wait child v = Some (Inr (Inr (Some (Some c))), v')) \<or>
     (c = 255 \<and> (\<exists>v v' e. ch_try_wait child v = Some (Inr (Inl e), v')))"
| "up_outcome clk C child start (Inl (Panic msg), w') \<longleftrightarrow>
     start + secs 60 < now clk w' \<or> (\<exists>v. ch_try_wait child v = Some (Inr (Inr (Some None)), w'))"

lemma node_up_loop_total:
  assumes clk: "steady_clock clk"
    and "answers clk (i21_local_node_info (rc_inner2021 C))" "answers clk (rpc_tx_pool_info C)"
      "answers clk (ch_try_wait child)"
    and "start \<le> now clk w"
  shows "\<exists>r. node_up_loop clk C child start w = Some r \<and> up_outcome clk C child start r"
  using assms(5)
proof (induction "start + secs 60 + secs 1 - now clk w" arbitrary: w rule: less_induct)
  case less
  show ?case
  proof (cases "now clk w - start \<le> secs 60")
    case False
    then have "node_up_loop clk C child start w
        = Some (Inl (Panic ''timeout to start node process''), w)"
      by (subst node_up_loop.simps) (simp add: halting_run)
    moreover have "start + secs 60 < now clk w" using False by linarith
    ultimately show ?thesis by simp
  next
    case True
    obtain r w1 where r: "i21_local_node_info (rc_inner2021 C) w = Some (Inr r, w1)" "now clk w \<le> now clk w1"
      using assms(2) by (rule answersE)
    show ?thesis
    proof (cases r)
      case (Inr info)
      obtain a w2 where "rpc_tx_pool_info C w1 = Some (Inr a, w2)"
        using assms(3) by (rule answersE)
      then have "node_up_loop clk C child start w = Some (Inr info, w2)"
        using True r Inr by (subst node_up_loop.simps) (simp add: bindM_run ret_run)
      then show ?thesis using r Inr by auto
    next
      case (Inl e)
      obtain s w2 where s: "ch_try_wait child w1 = Some (Inr s, w2)" "now clk w1 \<le> now clk w2"
        using assms(4) by (rule answersE)
      show ?thesis
      proof (cases "s = Inr None")
        case running: True
        let ?w3 = "sleep clk (secs 1) w2"
        have adv: "now clk w + secs 1 \<le> now clk ?w3"
          using steady_clockD[OF clk, of w2 "secs 1"] r(2) s(2) by simp
        have "secs 1 > 0" by (simp add: secs_def)
        moreover have "node_up_loop clk C child start w = node_up_loop clk C child start ?w3"
          using True r Inl s running by (subst node_up_loop.simps) (simp add: bindM_run sleeping_run)
        moreover have "start + secs 60 + secs 1 - now clk ?w3 < start + secs 60 + secs 1 - now clk w"
          using adv \<open>secs 1 > 0\<close> True less.prems by linarith
        moreover have "start \<le> now clk ?w3" using adv less.prems by linarith
        ultimately show ?thesis using less.hyps[of ?w3] by simp
      next
        case False
        then consider (err) e where "s = Inl e" | (signal) "s = Inr (Some None)"
          | (code) c where "s = Inr (Some (Some c))"
          by (cases s) (auto, metis not_None_eq)
        then show ?thesis
        proof cases
          case err
          then have "node_up_loop clk C child start w = Some (Inl (Exit 255), w2)"
            using True r Inl s by (subst node_up_loop.simps) (simp add: bindM_run halting_run)
          with err s show ?thesis by auto
        next
          case signal
          then have "node_up_loop clk C child start w = Some (Inl (Panic UNWRAP), w2)"
            using True r Inl s by (subst node_up_loop.simps) (simp add: bindM_run halting_run)
          with signal s show ?thesis by auto
        next
          case code
          then have "node_up_loop clk C child start w = Some (Inl (Exit c), w2)"
            using True r Inl s by (subst node_up_loop.simps) (simp add: bindM_run halting_run)
          with code s show ?thesis by auto
        qed
      qed
    qed
  qed
qed

text \<open>
  C26.  Waiting for a started node always ends: with the information the node itself answered;
  by exiting with the child's own exit code when the process has ended (255 when its state cannot
  be read); or by a panic after more than sixty seconds, or when the process was killed by a
  signal and has no exit code.
\<close>

theorem wait_for_node_up_total:
  assumes "steady_clock clk"
    and "answers clk (i21_local_node_info (rc_inner2021 (nd_rpc_client nd)))"
    and "answers clk (rpc_tx_pool_info (nd_rpc_client nd))" and "answers clk (ch_try_wait child)"
  shows "\<exists>r. wait_for_node_up clk nd child w = Some r \<and>
     up_outcome clk (nd_rpc_client nd) child (now clk w) r"
  using node_up_loop_total[OF assms, of "now clk w" w] by (simp add: wait_for_node_up_def)

definition offline_node :: "string \<Rightarrow> 'w node" where
  "offline_node name = \<lparr>nd_node_options = \<lparr>no_node_name = name, no_ckb_binary = ''ckb'',
       no_initial_database = ''db'', no_chain_spec = ''spec'', no_app_config = ''config''\<rparr>,
     nd_working_dir = ''/tmp/'' @ name, nd_rpc_client = offline_client, nd_p2p_address = None,
     nd_consensus = None, nd_genesis_block = None, nd_node_id = None, nd_indexer = None,
     nd_guard = None\<rparr>"

definition pool_at :: "byte32 \<Rightarrow> nat \<Rightarrow> tx_pool_info" where
  "pool_at hash number = \<lparr>tpi_tip_hash = hash, tpi_tip_number = number, tpi_pending = 0,
     tpi_proposed = 0, tpi_orphan = 0, tpi_total_tx_size = 0, tpi_total_tx_cycles = 0\<rparr>"

theorem wait_for_node_up_total_witness:
  "let child = \<lparr>ch_try_wait = ret (Inr (Some (Some 70))), ch_kill = ret (Inr ()), ch_wait = ret (Inr (Some 70))\<rparr>;
       nd = offline_node ''n''\<lparr>nd_rpc_client := offline_client\<lparr>rc_inner2021 :=
              offline2021\<lparr>i21_tx_pool_info := ret (Inr (pool_at 0 0))\<rparr>\<rparr>\<rparr>
   in \<exists>r. wait_for_node_up tick_clock nd child 0 = Some r \<and>
        up_outcome tick_clock (nd_rpc_client nd) child (now tick_clock 0) r"
  unfolding Let_def
  by (rule wait_for_node_up_total)
     (simp_all add: steady_tick_clock offline_client_def offline2021_def rpc_tx_pool_info_def expect_rpc_def)

section \<open>Waiting for the pool\<close>

lemma tx_pool_loop_outcome:
  assumes "tx_pool_loop clk C start tip w = Some (r, w')" and "r = Inr ()"
  shows "\<exists>v1 v2 h i. rpc_get_tip_header C v1 = Some (Inr h, v2) \<and> rpc_tx_pool_info C v2 = Some (Inr i, w')
     \<and> hv_hash h = tpi_tip_hash i"
proof -
  let ?P = "\<lambda>clk C start tip w r. fst r = Inr () \<longrightarrow> (\<exists>v1 v2 h i. rpc_get_tip_header C v1 = Some (Inr h, v2)
     \<and> rpc_tx_pool_info C v2 = Some (Inr i, snd r) \<and> hv_hash h = tpi_tip_hash i)"
  have "?P clk C start tip w (r, w')"
  proof (rule tx_pool_loop.raw_induct[where P = ?P, OF _ assms(1)])
    fix loop and clk :: "'a clock" and C :: "'a rpc_client" and start :: nat and tip :: tx_pool_info
      and w :: 'a and r :: "(halt + unit) \<times> 'a"
    assume IH: "\<And>clk C start tip w r. loop clk C start tip w = Some r \<Longrightarrow> ?P clk C start tip w r"
      and eq: "(if now clk w - start < secs 10
      then bindM (sleeping clk (secs 1)) (\<lambda>_.
           bindM (rpc_get_tip_header C) (\<lambda>chain_tip.
           bindM (rpc_tx_pool_info C) (\<lambda>new_tip.
             if hv_hash chain_tip = tpi_tip_hash new_tip then ret ()
             else if tpi_tip_hash tip \<noteq> tpi_tip_hash new_tip
                     \<and> tpi_tip_number new_tip < hd_number (hv_header chain_tip)
             then bindM (reading (now clk)) (\<lambda>instant. loop clk C instant new_tip)
             else loop clk C start new_tip))) w
      else panicking ''timeout to wait for tx pool'' w) = Some r"
    show "?P clk C start tip w r"
    proof
      assume r: "fst r = Inr ()"
      then have "bindM (sleeping clk (secs 1)) (\<lambda>_.
           bindM (rpc_get_tip_header C) (\<lambda>chain_tip.
           bindM (rpc_tx_pool_info C) (\<lambda>new_tip.
             if hv_hash chain_tip = tpi_tip_hash new_tip then ret ()
             else if tpi_tip_hash tip \<noteq> tpi_tip_hash new_tip
                     \<and> tpi_tip_number new_tip < hd_number (hv_header chain_tip)
             then bindM (reading (now clk)) (\<lambda>instant. loop clk C instant new_tip)
             else loop clk C start new_tip))) w = Some (Inr (), snd r)"
        using eq by (cases r) (auto simp: halting_def split: if_splits)
      then show "\<exists>v1 v2 h i. rpc_get_tip_header C v1 = Some (Inr h, v2)
          \<and> rpc_tx_pool_info C v2 = Some (Inr i, snd r) \<and> hv_hash h = tpi_tip_hash i"
        using IH r by (auto simp: reading_def ret_def bindM_Inr_iff split: if_splits)
    qed
  qed
  then show ?thesis using assms(2) by simp
qed

lemmas tx_pool_loop_caught_up = tx_pool_loop_outcome[OF _ refl]

text \<open>
  \<open>wait_for_tx_pool\<close> (which follows every submitted block) returns only when two
  consecutive answers of the node, its chain's tip and then its pool's, agreed.
\<close>

theorem wait_for_tx_pool_caught_up:
  assumes "wait_for_tx_pool clk nd w = Some (Inr (), w')"
  shows "\<exists>v1 v2 h i. rpc_get_tip_header (nd_rpc_client nd) v1 = Some (Inr h, v2)
     \<and> rpc_tx_pool_info (nd_rpc_client nd) v2 = Some (Inr i, w') \<and> hv_hash h = tpi_tip_hash i"
proof -
  let ?C = "nd_rpc_client nd"
  obtain h v1 i v2 where *: "rpc_get_tip_header ?C w = Some (Inr h, v1)" "rpc_tx_pool_info ?C v1 = Some (Inr i, v2)"
    and r: "(if hv_hash h = tpi_tip_hash i then ret ()
       else bindM (reading (now clk)) (\<lambda>instant. tx_pool_loop clk ?C instant i)) v2 = Some (Inr (), w')"
    using assms by (auto simp: wait_for_tx_pool_def bindM_Inr_iff)
  show ?thesis
  proof (cases "hv_hash h = tpi_tip_hash i")
    case True
    with r * show ?thesis by (auto simp: ret_def)
  next
    case False
    with r have "tx_pool_loop clk ?C (now clk v2) i v2 = Some (Inr (), w')"
      by (simp add: bindM_run reading_run)
    then show ?thesis by (rule tx_pool_loop_caught_up)
  qed
qed

text \<open>
  A node whose pool follows its chain: a world with the chain's tip and the lag of the pool
  behind it, the clock in nanoseconds; each poll of the pool catches up one block.
\<close>

record toy_world =
  toy_time :: nat
  toy_tip :: nat
  toy_lag :: nat

definition header_at :: "nat \<Rightarrow> header_view" where
  "header_at n = \<lparr>hv_header = \<lparr>hd_version = 0, hd_compact_target = 0, hd_timestamp = 0, hd_number = n,
     hd_epoch = default_epoch, hd_parent_hash = n - 1, hd_nonce = 0\<rparr>, hv_hash = n\<rparr>"

definition block_at :: "nat \<Rightarrow> block" where
  "block_at n = \<lparr>bk_header = hv_header (header_at n), bk_uncles = [],
     bk_transactions = [empty_transaction, empty_transaction], bk_proposals = [], bk_extension = None\<rparr>"

definition template_at :: "nat \<Rightarrow> block_template" where
  "template_at n = \<lparr>bt_version = 0, bt_current_time = 0, bt_number = n, bt_epoch = default_epoch,
     bt_parent_hash = n - 1, bt_uncles = [], bt_transactions = [], bt_proposals = [],
     bt_cellbase = empty_transaction, bt_dao = 0, bt_extension = None\<rparr>"

definition toy_clock :: "toy_world clock" where
  "toy_clock = \<lparr>now = toy_time, sleep = (\<lambda>d w. w\<lparr>toy_time := toy_time w + d\<rparr>)\<rparr>"

definition toy_lib :: chain_lib where
  "toy_lib = \<lparr>hash_tx = (\<lambda>tx. length (tx_inputs tx)), hash_block = (\<lambda>b. hd_number (bk_header b)),
     hash_header = hd_number, hash_script = code_hash, short_id = (\<lambda>tx. length (tx_inputs tx)),
     template_block = (\<lambda>t. block_at (bt_number t)),
     epoch_of_full_value = (\<lambda>v. \<lparr>ep_number = v, ep_index = 0, ep_length = 1\<rparr>),
     serialized_size = (\<lambda>tx. 100 * length (tx_inputs tx))\<rparr>"

definition toy_inner :: "toy_world inner2021" where
  "toy_inner = offline2021\<lparr>
     i21_get_tip_block_number := reading (\<lambda>w. Inr (toy_tip w)),
     i21_get_tip_header := reading (\<lambda>w. Inr (header_at (toy_tip w))),
     i21_get_block_by_number := (\<lambda>n. reading (\<lambda>w. Inr (if n \<le> toy_tip w then Some (block_at n) else None))),
     i21_get_block_hash := (\<lambda>n. reading (\<lambda>w. Inr (if n \<le> toy_tip w then Some n else None))),
     i21_get_block_template := (\<lambda>_ _ _. reading (\<lambda>w. Inr (template_at (Suc (toy_tip w))))),
     i21_calculate_dao_field := (\<lambda>_. ret (Inr 0)),
     i21_submit_block := (\<lambda>_ b w. if hd_number (bk_header b) = Suc (toy_tip w)
        then Some (Inr (Inr (Suc (toy_tip w))), w\<lparr>toy_tip := Suc (toy_tip w), toy_lag := Suc (toy_lag w)\<rparr>)
        else Some (Inr (Inl ''invalid''), w)),
     i21_tx_pool_info := (\<lambda>w. Some (Inr (Inr (pool_at (toy_tip w - toy_lag w) (toy_tip w - toy_lag w))),
        w\<lparr>toy_lag := toy_lag w - 1\<rparr>))\<rparr>"

definition toy_node :: "toy_world node" where
  "toy_node = (offline_node ''toy'')\<lparr>nd_rpc_client := offline_client\<lparr>rc_inner2021 := toy_inner\<rparr>\<rparr>"

lemmas toy_defs =
  toy_node_def toy_inner_def toy_clock_def toy_lib_def offline_node_def offline_client_def
  expect_rpc_def header_at_def pool_at_def template_at_def block_at_def reading_def


text \<open>
  The contract of a node that works alone: its pool follows its chain block by block, a poll at a
  time, and a block made from its own template is accepted and becomes the tip.
\<close>

definition pool_follows ::
    "'w clock \<Rightarrow> 'w rpc_client \<Rightarrow> (nat \<Rightarrow> byte32) \<Rightarrow> ('w \<Rightarrow> nat) \<Rightarrow> ('w \<Rightarrow> nat) \<Rightarrow> ('w \<Rightarrow> bool) \<Rightarrow> bool" where
  "pool_follows clk C chain tip lag ok \<longleftrightarrow> inj chain \<and> (\<forall>w. ok w \<longrightarrow> lag w \<le> tip w
     \<and> (\<exists>h. rpc_get_tip_header C w = Some (Inr h, w) \<and> hd_number (hv_header h) = tip w
          \<and> hv_hash h = chain (tip w))
     \<and> (\<exists>i w'. rpc_tx_pool_info C w = Some (Inr i, w') \<and> ok w' \<and> tip w' = tip w
          \<and> tpi_tip_number i = tip w - lag w \<and> tpi_tip_hash i = chain (tip w - lag w) \<and> lag w' = lag w - 1)
     \<and> (\<forall>d. ok (sleep clk d w) \<and> tip (sleep clk d w) = tip w \<and> lag (sleep clk d w) = lag w))"

definition solo_miner ::
    "chain_lib \<Rightarrow> 'w rpc_client \<Rightarrow> ('w \<Rightarrow> nat) \<Rightarrow> ('w \<Rightarrow> bool) \<Rightarrow> bool" where
  "solo_miner L C tip ok \<longleftrightarrow> (\<forall>w. ok w \<longrightarrow> rpc_get_tip_block_number C w = Some (Inr (tip w), w)
     \<and> (\<exists>t h w'. rpc_get_block_template C None None None w = Some (Inr t, w)
          \<and> rpc_submit_block C [] (template_block L t) w = Some (Inr (Inr h), w')
          \<and> ok w' \<and> tip w' = Suc (tip w)))"

lemma pool_pollE:
  assumes "pool_follows clk C chain tip lag ok" and "ok w"
  obtains h i w' where "rpc_get_tip_header C w = Some (Inr h, w)" "hd_number (hv_header h) = tip w"
    "hv_hash h = chain (tip w)" "rpc_tx_pool_info C w = Some (Inr i, w')" "ok w'" "tip w' = tip w"
    "tpi_tip_number i = tip w - lag w" "tpi_tip_hash i = chain (tip w - lag w)" "lag w' = lag w - 1"
    "lag w \<le> tip w"
  using assms unfolding pool_follows_def by blast

lemma chain_eq_iff:
  "pool_follows clk C chain tip lag ok \<Longrightarrow> chain a = chain b \<longleftrightarrow> a = b"
  unfolding pool_follows_def by (auto dest: injD)

lemma pool_sleep:
  assumes "pool_follows clk C chain tip lag ok" and "ok w"
  shows "ok (sleep clk d w)" "tip (sleep clk d w) = tip w" "lag (sleep clk d w) = lag w"
  using assms unfolding pool_follows_def by blast+

lemma tx_pool_loop_returns:
  assumes P: "pool_follows clk C chain tip lag ok" and "ok w" and "now clk w = start"
    and "tpi_tip_hash prev = chain (tip w - Suc (lag w))" and "Suc (lag w) \<le> tip w"
  shows "\<exists>w'. tx_pool_loop clk C start prev w = Some (Inr (), w') \<and> ok w' \<and> tip w' = tip w"
  using assms(2-)
proof (induction "lag w" arbitrary: w start prev)
  case 0
  let ?v = "sleep clk (secs 1) w"
  note v = pool_sleep[OF P 0(2), of "secs 1"]
  obtain h i w1 where "rpc_get_tip_header C ?v = Some (Inr h, ?v)" "hv_hash h = chain (tip ?v)"
    "rpc_tx_pool_info C ?v = Some (Inr i, w1)" "ok w1" "tip w1 = tip ?v"
    "tpi_tip_hash i = chain (tip ?v - lag ?v)"
    by (rule pool_pollE[OF P v(1)])
  then have "tx_pool_loop clk C start prev w = Some (Inr (), w1) \<and> ok w1 \<and> tip w1 = tip w"
    using 0 v by (subst tx_pool_loop.simps) (simp add: bindM_run sleeping_run ret_run secs_def)
  then show ?case by blast
next
  case (Suc n)
  let ?v = "sleep clk (secs 1) w"
  note v = pool_sleep[OF P Suc.prems(1), of "secs 1"]
  obtain h i w1 where *: "rpc_get_tip_header C ?v = Some (Inr h, ?v)" "hd_number (hv_header h) = tip ?v"
    "hv_hash h = chain (tip ?v)" "rpc_tx_pool_info C ?v = Some (Inr i, w1)" "ok w1" "tip w1 = tip ?v"
    "tpi_tip_number i = tip ?v - lag ?v" "tpi_tip_hash i = chain (tip ?v - lag ?v)" "lag w1 = lag ?v - 1"
    by (rule pool_pollE[OF P v(1)])
  have lag: "lag w = Suc n" "lag w1 = n" "tip w1 = tip w" using Suc.hyps(2) v * by simp_all
  have neq: "chain (tip w) \<noteq> chain (tip w - Suc n)" "chain (tip w - Suc (Suc n)) \<noteq> chain (tip w - Suc n)"
    using chain_eq_iff[OF P] Suc.prems(4) lag(1) by auto
  have "tx_pool_loop clk C start prev w = tx_pool_loop clk C (now clk w1) i w1"
    using Suc.prems * v lag neq
    by (subst tx_pool_loop.simps) (simp add: bindM_run sleeping_run reading_run secs_def)
  moreover have "\<exists>w'. tx_pool_loop clk C (now clk w1) i w1 = Some (Inr (), w') \<and> ok w' \<and> tip w' = tip w1"
    by (rule Suc.hyps(1)) (use * v lag Suc.prems in simp_all)
  ultimately show ?case using lag by simp
qed

lemma wait_for_tx_pool_returns:
  assumes P: "pool_follows clk (nd_rpc_client nd) chain tip lag ok" and "ok w"
  shows "\<exists>w'. wait_for_tx_pool clk nd w = Some (Inr (), w') \<and> ok w' \<and> tip w' = tip w"
proof -
  obtain h i w1 where *: "rpc_get_tip_header (nd_rpc_client nd) w = Some (Inr h, w)"
    "hv_hash h = chain (tip w)" "rpc_tx_pool_info (nd_rpc_client nd) w = Some (Inr i, w1)" "ok w1"
    "tip w1 = tip w" "tpi_tip_hash i = chain (tip w - lag w)" "lag w1 = lag w - 1" "lag w \<le> tip w"
    by (rule pool_pollE[OF assms])
  show ?thesis
  proof (cases "lag w = 0")
    case True
    with * show ?thesis by (simp add: wait_for_tx_pool_def bindM_run ret_run)
  next
    case False
    then have "chain (tip w) \<noteq> chain (tip w - lag w)"
      using chain_eq_iff[OF P] *(8) by auto
    then show ?thesis
      using tx_pool_loop_returns[OF P *(4) refl, of i] * False
      by (simp add: wait_for_tx_pool_def bindM_run reading_run)
  qed
qed

lemma mine_advances:
  assumes P: "pool_follows clk (nd_rpc_client nd) chain tip lag ok"
    and M: "solo_miner L (nd_rpc_client nd) tip ok" and "ok w"
  shows "\<exists>w'. mine L clk nd n w = Some (Inr (), w') \<and> ok w' \<and> tip w' = tip w + n"
  using assms(3)
proof (induction n arbitrary: w)
  case 0
  then show ?case by (simp add: ret_def)
next
  case (Suc n)
  obtain t h w1 where t: "rpc_get_block_template (nd_rpc_client nd) None None None w = Some (Inr t, w)"
    "rpc_submit_block (nd_rpc_client nd) [] (template_block L t) w = Some (Inr (Inr h), w1)"
    "ok w1" "tip w1 = Suc (tip w)"
    using M Suc.prems unfolding solo_miner_def by blast
  obtain w2 where w2: "wait_for_tx_pool clk nd w1 = Some (Inr (), w2)" "ok w2" "tip w2 = tip w1"
    using wait_for_tx_pool_returns[OF P t(3)] by blast
  have "submit_block clk nd (template_block L t) w = Some (Inr h, w2)"
    using t w2 by (simp add: submit_block_def bindM_run ret_run)
  then show ?case
    using Suc.IH[OF w2(2)] t w2 by (simp add: bindM_run)
qed

text \<open>
  C2.  Mining to a height: with a node that accepts the blocks built from its own templates and
  whose pool follows its chain, however far behind, \<open>mine_to\<close> returns with the chain at the
  target height, or where it was if that is higher; waiting for the pool after each block never
  times out, because every poll that sees progress restarts the ten seconds.
\<close>

theorem mine_to_reaches:
  assumes "pool_follows clk (nd_rpc_client nd) chain tip lag ok"
    and "solo_miner L (nd_rpc_client nd) tip ok" and "ok w"
  shows "\<exists>w'. mine_to L clk nd target_height w = Some (Inr (), w') \<and> ok w' \<and>
     tip w' = max (tip w) target_height"
proof -
  have "rpc_get_tip_block_number (nd_rpc_client nd) w = Some (Inr (tip w), w)"
    using assms(2,3) unfolding solo_miner_def by blast
  then show ?thesis
    using mine_advances[OF assms, of "target_height - tip w"] assms(3)
    by (auto simp: mine_to_def get_tip_block_number_def bindM_run ret_run max_def)
qed

lemma toy_pool_follows:
  "pool_follows toy_clock (nd_rpc_client toy_node) (\<lambda>n. n) toy_tip toy_lag (\<lambda>w. toy_lag w \<le> toy_tip w)"
  by (auto simp: pool_follows_def toy_defs rpc_get_tip_header_def rpc_tx_pool_info_def bindM_def ret_def)

lemma toy_solo_miner:
  "solo_miner toy_lib (nd_rpc_client toy_node) toy_tip (\<lambda>w. toy_lag w \<le> toy_tip w)"
  by (auto simp: solo_miner_def toy_defs rpc_get_tip_block_number_def rpc_get_block_template_def
      rpc_submit_block_def bindM_def ret_def)

theorem mine_to_reaches_witness:
  "\<exists>w'. mine_to toy_lib toy_clock toy_node 7 \<lparr>toy_time = 0, toy_tip = 2, toy_lag = 2\<rparr> = Some (Inr (), w')
     \<and> toy_lag w' \<le> toy_tip w' \<and> toy_tip w' = max (toy_tip \<lparr>toy_time = 0, toy_tip = 2, toy_lag = 2\<rparr>) 7"
  by (rule mine_to_reaches[OF toy_pool_follows toy_solo_miner]) simp

theorem wait_for_tx_pool_caught_up_witness:
  "\<exists>w' v1 v2 h i. wait_for_tx_pool toy_clock toy_node \<lparr>toy_time = 0, toy_tip = 2, toy_lag = 0\<rparr> = Some (Inr (), w')
     \<and> rpc_get_tip_header (nd_rpc_client toy_node) v1 = Some (Inr h, v2)
     \<and> rpc_tx_pool_info (nd_rpc_client toy_node) v2 = Some (Inr i, w') \<and> hv_hash h = tpi_tip_hash i"
proof -
  obtain w' where "wait_for_tx_pool toy_clock toy_node \<lparr>toy_time = 0, toy_tip = 2, toy_lag = 0\<rparr> = Some (Inr (), w')"
    using wait_for_tx_pool_returns[OF toy_pool_follows] by (metis le0 select_convs(3))
  with wait_for_tx_pool_caught_up[OF this] show ?thesis by fast
qed

section \<open>Peers\<close>

lemma wait_until_answers:
  assumes "steady_clock clk" and "answers clk f"
  shows "\<exists>b w'. wait_until clk t f w = Some (Inr b, w') \<and>
     (if b then \<exists>v. f v = Some (Inr True, w') else now clk w + secs t < now clk w')"
  using wait_loop_total[OF assms(1) answers_pollable[OF assms(2)], of "now clk w" w "secs t"]
  by (simp add: wait_until_def)

lemma node_id_started: "nd_node_id nd = Some i \<Longrightarrow> node_id nd = ret i"
  by (simp add: node_id_def)

lemma p2p_address_started: "nd_p2p_address nd = Some a \<Longrightarrow> p2p_address nd = ret a"
  by (simp add: p2p_address_def)

lemma anyM_pure [simp]: "anyM (\<lambda>x. ret (P x)) = (\<lambda>xs. ret (list_ex P xs))"
proof
  show "anyM (\<lambda>x. ret (P x)) xs = ret (list_ex P xs)" for xs
    by (induction xs) auto
qed

lemma allM_pure [simp]: "allM (\<lambda>x. ret (P x)) = (\<lambda>xs. ret (list_all P xs))"
proof
  show "allM (\<lambda>x. ret (P x)) xs = ret (list_all P xs)" for xs
    by (induction xs) auto
qed

lemma is_p2p_connected_started:
  "nd_node_id b = Some i \<Longrightarrow> is_p2p_connected a b =
     bindM (rpc_get_peers (nd_rpc_client a)) (\<lambda>ps. ret (list_ex (\<lambda>p. rn_node_id p = i) ps))"
  by (simp add: is_p2p_connected_def node_id_started)

lemma not_peer_started:
  "nd_node_id b = Some i \<Longrightarrow> not_peer a b =
     bindM (rpc_get_peers (nd_rpc_client a)) (\<lambda>ps. ret (list_all (\<lambda>p. rn_node_id p \<noteq> i) ps))"
  by (simp add: not_peer_def node_id_started)

text \<open>
  C35.  Connecting two started nodes always ends within its bound: it returns only when the node
  lists the other one among its peers at that moment, and otherwise panics, after more than
  twenty seconds of polling.
\<close>

theorem p2p_connect_total:
  assumes "steady_clock clk" and "nd_node_id other = Some i" and "nd_p2p_address other = Some a"
    and "answers clk (rpc_add_node (nd_rpc_client self) i a)"
    and "answers clk (rpc_get_peers (nd_rpc_client self))"
  shows "\<exists>r w'. p2p_connect clk self other w = Some (r, w') \<and>
     (r = Inr () \<and> (\<exists>v peers. rpc_get_peers (nd_rpc_client self) v = Some (Inr peers, w')
          \<and> (\<exists>p \<in> set peers. rn_node_id p = i)) \<or>
      (\<exists>msg. r = Inl (Panic msg)) \<and> now clk w + secs 20 < now clk w')"
proof -
  obtain w1 where w1: "rpc_add_node (nd_rpc_client self) i a w = Some (Inr (), w1)" "now clk w \<le> now clk w1"
    using assms(4) by (rule answersE) simp
  have "answers clk (is_p2p_connected self other)"
    unfolding is_p2p_connected_started[OF assms(2)]
    by (intro answers_bindM assms(5)) simp
  then obtain b w' where b: "wait_until clk 20 (is_p2p_connected self other) w1 = Some (Inr b, w')"
    "if b then \<exists>v. is_p2p_connected self other v = Some (Inr True, w') else now clk w1 + secs 20 < now clk w'"
    using wait_until_answers[OF assms(1)] by blast
  have run: "p2p_connect clk self other w
      = (if b then ret () else panicking ''timeout to connect outbound peer'') w'"
    using w1 b assms(2,3)
    by (simp add: p2p_connect_def p2p_connect_uncheck_def node_id_started p2p_address_started bindM_run)
  show ?thesis
  proof (cases b)
    case True
    with b(2) obtain v peers where "rpc_get_peers (nd_rpc_client self) v = Some (Inr peers, w')"
      "list_ex (\<lambda>p. rn_node_id p = i) peers"
      by (auto simp: is_p2p_connected_started[OF assms(2)] bindM_Inr_iff ret_def)
    with run True show ?thesis by (auto simp: ret_def list_ex_iff)
  next
    case False
    with run b(2) w1(2) show ?thesis by (simp add: halting_def)
  qed
qed

theorem p2p_connect_total_witness:
  "\<exists>r w'. p2p_connect tick_clock
       ((offline_node ''a'')\<lparr>nd_rpc_client := offline_client\<lparr>rc_inner2021 := offline2021
          \<lparr>i21_add_node := (\<lambda>_ _. ret (Inr ())), i21_get_peers := ret (Inr [])\<rparr>\<rparr>\<rparr>)
       ((offline_node ''b'')\<lparr>nd_node_id := Some ''Qm'', nd_p2p_address := Some ''/ip4/127.0.0.1''\<rparr>) 5
     = Some (r, w') \<and> r \<noteq> Inr ()"
proof -
  let ?a = "(offline_node ''a'' :: nat node)\<lparr>nd_rpc_client := offline_client\<lparr>rc_inner2021 := offline2021
          \<lparr>i21_add_node := (\<lambda>_ _. ret (Inr ())), i21_get_peers := ret (Inr [])\<rparr>\<rparr>\<rparr>"
  let ?b = "(offline_node ''b'')\<lparr>nd_node_id := Some ''Qm'', nd_p2p_address := Some ''/ip4/127.0.0.1''\<rparr>"
  have peers: "rpc_get_peers (nd_rpc_client ?a) = ret []"
    by (simp add: rpc_get_peers_def expect_rpc_def)
  have "\<exists>r w'. p2p_connect tick_clock ?a ?b 5 = Some (r, w') \<and>
     (r = Inr () \<and> (\<exists>v peers. rpc_get_peers (nd_rpc_client ?a) v = Some (Inr peers, w')
          \<and> (\<exists>p \<in> set peers. rn_node_id p = ''Qm'')) \<or>
      (\<exists>msg. r = Inl (Panic msg)) \<and> now tick_clock 5 + secs 20 < now tick_clock w')"
    by (rule p2p_connect_total[where a = "''/ip4/127.0.0.1''"])
       (simp_all add: steady_tick_clock rpc_get_peers_def rpc_add_node_def expect_rpc_def)
  then show ?thesis unfolding peers by (auto simp: ret_def)
qed

text \<open>
  C36.  Disconnecting is checked on both sides: when it returns, the node did not list the other
  one, and right after that the other one did not list the node.
\<close>

theorem p2p_disconnect_both_sides:
  assumes "nd_node_id self = Some i" and "nd_node_id other = Some j"
    and "p2p_disconnect clk self other w = Some (Inr (), w')"
  shows "\<exists>v1 v2 ps qs. rpc_get_peers (nd_rpc_client self) v1 = Some (Inr ps, v2)
     \<and> rpc_get_peers (nd_rpc_client other) v2 = Some (Inr qs, w')
     \<and> (\<forall>p \<in> set ps. rn_node_id p \<noteq> j) \<and> (\<forall>q \<in> set qs. rn_node_id q \<noteq> i)"
proof -
  let ?f = "bindM (not_peer self other) (\<lambda>b. if b then not_peer other self else ret False)"
  obtain w1 where "bindM (wait_until clk 5 ?f) (\<lambda>d. if d then ret ()
      else panicking ''timeout to disconnect peer'') w1 = Some (Inr (), w')"
    using assms(3)[unfolded p2p_disconnect_def node_id_started[OF assms(2)] bindM_ret]
    by (rule bindM_InrE)
  then obtain d w2 where "wait_until clk 5 ?f w1 = Some (Inr d, w2)"
    and "(if d then ret () else panicking ''timeout to disconnect peer'') w2 = Some (Inr (), w')"
    by (rule bindM_InrE)
  then have "wait_until clk 5 ?f w1 = Some (Inr True, w')"
    by (cases d) (simp_all add: ret_def halting_def)
  then have "\<exists>v. ?f v = Some (Inr True, w')"
    by (rule wait_until_True)
  then obtain v where "?f v = Some (Inr True, w')" ..
  then obtain b v2 where "not_peer self other v = Some (Inr b, v2)"
    and "(if b then not_peer other self else ret False) v2 = Some (Inr True, w')"
    by (rule bindM_InrE)
  then have "not_peer self other v = Some (Inr True, v2)" "not_peer other self v2 = Some (Inr True, w')"
    by (cases b; simp add: ret_def)+
  then show ?thesis
    unfolding not_peer_started[OF assms(1)] not_peer_started[OF assms(2)]
    by (auto simp: bindM_Inr_iff ret_Inr_iff list_all_iff)
qed


text \<open>A node without peers, for the witnesses.\<close>

definition lonely_node :: "string \<Rightarrow> nat node" where
  "lonely_node name = (offline_node name)\<lparr>nd_node_id := Some name, nd_p2p_address := Some name,
     nd_rpc_client := offline_client\<lparr>rc_inner2021 := offline2021\<lparr>i21_get_peers := ret (Inr []),
        i21_remove_node := (\<lambda>_. ret (Inr ())), i21_add_node := (\<lambda>_ _. ret (Inr ())),
        i21_get_banned_addresses := ret (Inr [])\<rparr>\<rparr>\<rparr>"

lemma lonely_node_simps [simp]:
  "nd_node_id (lonely_node n) = Some n" "nd_p2p_address (lonely_node n) = Some n"
  "rpc_get_peers (nd_rpc_client (lonely_node n)) = ret []"
  "rpc_remove_node (nd_rpc_client (lonely_node n)) i = ret ()"
  by (simp_all add: lonely_node_def rpc_get_peers_def rpc_remove_node_def expect_rpc_def)

theorem p2p_disconnect_both_sides_witness:
  "p2p_disconnect tick_clock (lonely_node ''a'') (lonely_node ''b'') 0 = Some (Inr (), 0)
   \<and> (\<exists>v1 v2 ps qs. rpc_get_peers (nd_rpc_client (lonely_node ''a'')) v1 = Some (Inr ps, v2)
     \<and> rpc_get_peers (nd_rpc_client (lonely_node ''b'')) v2 = Some (Inr qs, 0)
     \<and> (\<forall>p \<in> set ps. rn_node_id p \<noteq> ''b'') \<and> (\<forall>q \<in> set qs. rn_node_id q \<noteq> ''a''))"
proof -
  have "p2p_disconnect tick_clock (lonely_node ''a'') (lonely_node ''b'') 0 = Some (Inr (), 0)"
    by (simp add: p2p_disconnect_def node_id_started not_peer_started wait_until_def tick_clock_def
        bindM_def ret_def)
       (subst wait_loop.simps, simp add: bindM_def ret_def)
  with p2p_disconnect_both_sides[OF _ _ this] show ?thesis by simp
qed

section \<open>The life cycle of a node\<close>

definition same_setup :: "'w node \<Rightarrow> 'w node \<Rightarrow> bool" where
  "same_setup a b \<longleftrightarrow> nd_node_options a = nd_node_options b \<and> nd_working_dir a = nd_working_dir b
     \<and> nd_rpc_client a = nd_rpc_client b"

definition started :: "'w node \<Rightarrow> bool" where
  "started nd \<longleftrightarrow> nd_p2p_address nd \<noteq> None \<and> nd_consensus nd \<noteq> None \<and> nd_genesis_block nd \<noteq> None
     \<and> nd_node_id nd \<noteq> None \<and> nd_indexer nd \<noteq> None"

lemma bindM_InrD: "bindM m f w = Some (Inr b, w'') \<Longrightarrow> \<exists>a w'. m w = Some (Inr a, w') \<and> f a w' = Some (Inr b, w'')"
  by (simp add: bindM_Inr_iff)

lemma node_start_result:
  assumes "node_start os nd w = Some (Inr nd', w')"
  shows "started nd' \<and> nd_guard nd' \<noteq> None \<and> same_setup nd' nd"
  using assms unfolding node_start_def
  by (elim bindM_InrE) (auto simp: ret_def started_def same_setup_def)

lemma on_env_Inr_iff:
  "on_env m (i, w) = Some (Inr a, (i', w')) \<longleftrightarrow> m w = Some (Inr a, w') \<and> i' = i"
  by (auto simp: on_env_def split: option.splits)



text \<open>An operating system in which everything works, for the witnesses.\<close>

definition up_client :: "nat rpc_client" where
  "up_client = offline_client\<lparr>rc_inner2021 := offline2021\<lparr>
     i21_local_node_info := ret (Inr \<lparr>ln_version = ''0.100.0'', ln_node_id = ''Qm'',
        ln_addresses = [''/ip4/0.0.0.0/tcp/9001''], ln_connections = 0\<rparr>),
     i21_tx_pool_info := ret (Inr (pool_at 0 0)),
     i21_get_consensus := ret (Inr \<lparr>cons_cellbase_maturity = 4, cons_permanent_difficulty_in_dummy = True,
        cons_median_time_block_count = 37, cons_hardfork_features = [], cons_id = ''ckb_dev'', cons_genesis_hash = 0\<rparr>),
     i21_get_block_by_number := (\<lambda>n. ret (Inr (Some (block_at n))))\<rparr>\<rparr>"

definition empty_indexer :: "'w indexer" where
  "empty_indexer = \<lparr>ix_tip = ret (Inr None), ix_append = (\<lambda>_. ret (Inr ())), ix_rollback = ret (Inr ()),
     ix_get_live_cells_by_lock_script = (\<lambda>_. ret (Inr [])),
     ix_get_detailed_live_cell = (\<lambda>_. ret (Inr None))\<rparr>"

definition good_child :: "nat child" where
  "good_child = \<lparr>ch_try_wait = ret (Inr None), ch_kill = ret (Inr ()), ch_wait = ret (Inr None)\<rparr>"

definition good_os :: "nat os" where
  "good_os = \<lparr>os_clock = tick_clock, os_bind = (\<lambda>_. ret True), os_tmp_var = ret None,
     os_make_tempdir = (\<lambda>_ p. ret (Inr (''/tmp/'' @ p))), os_close_tempdir = (\<lambda>_. ret (Inr ())),
     os_create_dir_all = (\<lambda>_. ret (Inr ())), os_copy_dir = (\<lambda>_ _. ret (Inr ())),
     os_read_to_string = (\<lambda>_. ret (Inr [])), os_write = (\<lambda>_ _. ret (Inr ())),
     os_spawn = (\<lambda>_ _. ret (Inr good_child)),
     os_connect_rpc = (\<lambda>_ _. ret up_client), os_open_indexer = (\<lambda>_. ret empty_indexer),
     os_version_ge = (\<lambda>_ _. Some True), os_url_host = (\<lambda>_. Inr (Some ''127.0.0.1''))\<rparr>"

definition some_options :: node_options where
  "some_options = \<lparr>no_node_name = ''n'', no_ckb_binary = ''ckb'', no_initial_database = ''db'',
     no_chain_spec = ''spec'', no_app_config = ''config''\<rparr>"

lemma good_init: "\<exists>nd w1. node_init good_os ''case'' some_options True (9000, 0) = Some (Inr nd, (w1, 0))
     \<and> nd_rpc_client nd = up_client"
  by (simp add: node_init_def good_os_def bindM_def ports_def ret_def on_env_def prepare_working_dir_def
      temp_path_def copy_into_def unwrapM_def)

lemma good_start:
  assumes "nd_rpc_client nd = up_client" and "nd_guard nd = None"
  shows "\<exists>nd'. node_start good_os nd 0 = Some (Inr nd', 0) \<and> nd_guard nd' = Some good_child"
  using assms
  by (simp add: node_start_def good_os_def bindM_def ret_def wait_for_node_up_def unwrapM_def
      up_client_def rpc_get_consensus_def rpc_get_block_by_number_def get_block_by_number_def
      expect_rpc_def drop_guard_def indexM_def offline_client_def expectM_def)
     (subst node_up_loop.simps, simp add: bindM_def rpc_tx_pool_info_def expect_rpc_def
      offline2021_def tick_clock_def ret_def)


section \<open>The configuration\<close>

lemma replace_from_first:
  assumes "pat \<noteq> []" and "\<not> str_contains pat (u @ butlast pat)"
  shows "replace_from pat rep (u @ pat @ v) = u @ rep @ replace_from pat rep v"
  using assms(2)
proof (induction u)
  case Nil
  from assms(1) show ?case by (cases pat) simp_all
next
  case (Cons c u)
  have "\<not> prefix pat (c # u @ pat @ v)"
  proof
    assume p: "prefix pat (c # u @ pat @ v)"
    have "pat = butlast pat @ [last pat]" using assms(1) by simp
    then have "c # u @ pat @ v = (c # u @ butlast pat) @ [last pat] @ v" by simp
    then have "prefix (c # u @ butlast pat) (c # u @ pat @ v)" by (metis prefixI)
    moreover have "length pat \<le> length (c # u @ butlast pat)" by simp
    ultimately have "prefix pat (c # u @ butlast pat)"
      using p prefix_length_prefix by blast
    with Cons.prems show False by simp
  qed
  then have "replace_from pat rep ((c # u) @ pat @ v) = c # replace_from pat rep (u @ pat @ v)"
    by simp
  moreover have "\<not> str_contains pat (u @ butlast pat)" using Cons.prems by simp
  ultimately show ?case using Cons.IH by simp
qed

text \<open>
  The configuration a node is started with: in a template that holds each placeholder once,
  exactly the two placeholders are replaced, by the decimal numbers of the node's two ports, and
  every other character is kept.
\<close>

theorem configured_ports:
  assumes "content = a @ ''__RPC_PORT__'' @ b @ ''__P2P_PORT__'' @ c"
    and "\<not> str_contains ''__RPC_PORT__'' (a @ butlast ''__RPC_PORT__'')"
    and "\<not> str_contains ''__RPC_PORT__'' (b @ ''__P2P_PORT__'' @ c)"
    and "\<not> str_contains ''__P2P_PORT__'' ((a @ to_decimal (unat rpc_port) @ b) @ butlast ''__P2P_PORT__'')"
    and "\<not> str_contains ''__P2P_PORT__'' c"
  shows "substitute_ports rpc_port p2p_port content =
     a @ to_decimal (unat rpc_port) @ b @ to_decimal (unat p2p_port) @ c"
proof -
  have "str_replace ''__RPC_PORT__'' (to_decimal (unat rpc_port)) content
      = a @ to_decimal (unat rpc_port) @ b @ ''__P2P_PORT__'' @ c"
    using replace_from_first[OF _ assms(2), of "to_decimal (unat rpc_port)" "b @ ''__P2P_PORT__'' @ c"]
      replace_from_absent[OF assms(3)]
    by (simp only: str_replace_def assms(1)) simp
  then show ?thesis
    using replace_from_first[OF _ assms(4), of "to_decimal (unat p2p_port)" c]
      replace_from_absent[OF assms(5)]
    by (simp only: substitute_ports_def str_replace_def) simp
qed

theorem configured_ports_witness:
  "substitute_ports 9000 9001 ''[__RPC_PORT__][__P2P_PORT__]''
     = ''['' @ to_decimal (unat (9000 :: 16 word)) @ ''][''
       @ to_decimal (unat (9001 :: 16 word)) @ '']''"
  by (rule configured_ports) (simp_all add: to_decimal.simps digit_char_def)

end
