(* ===== verification/NodeIndexer.thy ===== *)
theory NodeIndexer
  imports NodeFacts
begin

text \<open>
  \<open>ckb-testkit/src/node/indexer.rs\<close> and \<open>always_success.rs\<close>: bringing the node's local index of
  live cells up to its chain, and the cells and transactions under the always-success lock.
\<close>

section \<open>Synchronising the index\<close>

partial_function (option) sync_loop ::
    "chain_lib \<Rightarrow> 'w rpc_client \<Rightarrow> 'w indexer \<Rightarrow> 'w \<Rightarrow> ((halt + unit) \<times> 'w) option" where
  "sync_loop L C ix w =
     bindM (ix_tip ix) (\<lambda>r. bindM (unwrapM ''indexer tip'' r) (\<lambda>tip. case tip of
       Some (tip_number, tip_hash) \<Rightarrow>
         bindM (rpc_get_block_by_number C (tip_number + 1)) (\<lambda>block_opt. case block_opt of
           Some block \<Rightarrow>
             (if hd_parent_hash (bk_header block) \<noteq> tip_hash
              then bindM (ix_rollback ix) (\<lambda>r. bindM (unwrapM ''indexer rollback'' r) (\<lambda>_. sync_loop L C ix))
              else bindM (ix_append ix block) (\<lambda>r. bindM (unwrapM ''indexer append'' r) (\<lambda>_. sync_loop L C ix)))
         | None \<Rightarrow>
             bindM (rpc_get_block_hash C tip_number) (\<lambda>block_hash_opt.
             if block_hash_opt \<noteq> Some tip_hash
             then bindM (ix_rollback ix) (\<lambda>r. bindM (unwrapM ''indexer rollback'' r) (\<lambda>_. sync_loop L C ix))
             else ret ()))
     | None \<Rightarrow>
         bindM (rpc_get_block_by_number C 0) (\<lambda>b. bindM (expectM ''rpc get genesis block'' b) (\<lambda>block.
         bindM (ix_append ix block) (\<lambda>r. bindM (unwrapM ''indexer append genesis block'' r) (\<lambda>_.
         sync_loop L C ix)))))) w"

definition wait_for_indexer_synced :: "chain_lib \<Rightarrow> 'w node \<Rightarrow> ('w, unit) cmd" where
  "wait_for_indexer_synced L nd = bindM (indexer_unchecked nd) (\<lambda>ix. sync_loop L (nd_rpc_client nd) ix)"

definition synced_indexer :: "chain_lib \<Rightarrow> 'w node \<Rightarrow> ('w, 'w indexer) cmd" where
  "synced_indexer L nd = bindM (wait_for_indexer_synced L nd) (\<lambda>_. indexer_unchecked nd)"

section \<open>Cells\<close>

definition get_cell_meta :: "'w node \<Rightarrow> out_point \<Rightarrow> ('w, cell_meta option) cmd" where
  "get_cell_meta nd out_point =
     bindM (indexer_unchecked nd) (\<lambda>ix.
     bindM (ix_get_detailed_live_cell ix out_point) (\<lambda>r.
     bindM (unwrapM ''indexer get_detailed_live_cell'' r) (\<lambda>d. case d of
       None \<Rightarrow> ret None
     | Some detail \<Rightarrow>
         let block_epoch = \<lparr>ep_number = 0, ep_index = 0, ep_length = 0\<rparr>;
             txinfo = \<lparr>ti_block_hash = lc_block_hash detail, ti_block_number = lc_block_number detail,
                       ti_block_epoch = block_epoch, ti_index = lc_tx_index detail\<rparr>
         in ret (Some \<lparr>cm_cell_output = lc_cell_output detail, cm_out_point = out_point,
              cm_transaction_info = Some txinfo, cm_data_bytes = length (lc_cell_data detail)\<rparr>))))"

definition SYSTEM_CELL_ALWAYS_SUCCESS_INDEX :: nat where
  "SYSTEM_CELL_ALWAYS_SUCCESS_INDEX = 5"

definition always_success_script :: "chain_lib \<Rightarrow> 'w node \<Rightarrow> ('w, script) cmd" where
  "always_success_script L nd =
     bindM (genesis_cellbase_hash L nd) (\<lambda>hash.
     bindM (rpc_get_live_cell (nd_rpc_client nd)
              \<lparr>op_tx_hash = hash, op_index = SYSTEM_CELL_ALWAYS_SUCCESS_INDEX\<rparr> False) (\<lambda>cell.
     bindM (expectM ''genesis always cell must be live'' (cws_cell cell)) (\<lambda>cell_info.
     bindM (expectM ''genesis always success cell should have type_=type-id script''
              (co_type (cinfo_output cell_info))) (\<lambda>type_script.
     ret (default_script\<lparr>code_hash := hash_script L type_script, hash_type := Type\<rparr>)))))"

definition always_success_cell_dep :: "chain_lib \<Rightarrow> 'w node \<Rightarrow> ('w, cell_dep) cmd" where
  "always_success_cell_dep L nd =
     bindM (genesis_cellbase_hash L nd) (\<lambda>hash.
     ret \<lparr>cd_out_point = \<lparr>op_tx_hash = hash, op_index = SYSTEM_CELL_ALWAYS_SUCCESS_INDEX\<rparr>,
          cd_dep_type = Code\<rparr>)"

definition always_success_transaction :: "chain_lib \<Rightarrow> 'w node \<Rightarrow> cell_meta \<Rightarrow> ('w, transaction) cmd" where
  "always_success_transaction L nd cell =
     bindM (always_success_cell_dep L nd) (\<lambda>dep.
     ret (empty_transaction\<lparr>
       tx_inputs := [cell_input_new (cm_out_point cell) 0],
       tx_outputs := [\<lparr>co_capacity = co_capacity (cm_cell_output cell),
          co_lock = co_lock (cm_cell_output cell), co_type = co_type (cm_cell_output cell)\<rparr>],
       tx_outputs_data := [[]],
       tx_cell_deps := [dep]\<rparr>))"

definition get_spendable_always_success_cells :: "chain_lib \<Rightarrow> 'w node \<Rightarrow> ('w, cell_meta list) cmd" where
  "get_spendable_always_success_cells L nd =
     bindM (synced_indexer L nd) (\<lambda>ix.
     bindM (always_success_script L nd) (\<lambda>script.
     bindM (ix_get_live_cells_by_lock_script ix script) (\<lambda>r.
     bindM (unwrapM ''indexer get_live_cells_by_lock_script'' r) (\<lambda>live_out_points.
     filter_mapM (\<lambda>out_point. bindM (get_cell_meta nd out_point) (\<lambda>m. ret (case m of
         None \<Rightarrow> None
       | Some cell_meta \<Rightarrow> if cm_data_bytes cell_meta = 0 then Some cell_meta else None)))
       live_out_points))))"

section \<open>Synchronising reaches the chain\<close>

text \<open>
  The index is a stack of blocks (\<open>ixs\<close>), the documented contract of \<open>ckb_indexer\<close>: \<open>tip\<close> is its
  last block, \<open>append\<close> pushes and \<open>rollback\<close> pops.  The node serves a fixed chain \<open>bs\<close>.
\<close>

definition tip_of :: "chain_lib \<Rightarrow> block list \<Rightarrow> (nat \<times> byte32) option" where
  "tip_of L xs = (if xs = [] then None else Some (length xs - 1, hash_block L (last xs)))"

definition index_ok :: "chain_lib \<Rightarrow> 'w indexer \<Rightarrow> ('w \<Rightarrow> block list) \<Rightarrow> bool" where
  "index_ok L ix ixs \<longleftrightarrow> (\<forall>w. ix_tip ix w = Some (Inr (Inr (tip_of L (ixs w))), w)
     \<and> (\<forall>b. \<exists>w'. ix_append ix b w = Some (Inr (Inr ()), w') \<and> ixs w' = ixs w @ [b])
     \<and> (ixs w \<noteq> [] \<longrightarrow> (\<exists>w'. ix_rollback ix w = Some (Inr (Inr ()), w') \<and> ixs w' = butlast (ixs w))))"

definition serves :: "chain_lib \<Rightarrow> 'w rpc_client \<Rightarrow> block list \<Rightarrow> bool" where
  "serves L C bs \<longleftrightarrow> (\<forall>n w. rpc_get_block_by_number C n w
        = Some (Inr (if n < length bs then Some (bs ! n) else None), w)
     \<and> rpc_get_block_hash C n w
        = Some (Inr (if n < length bs then Some (hash_block L (bs ! n)) else None), w))"

definition linked :: "chain_lib \<Rightarrow> block list \<Rightarrow> bool" where
  "linked L xs \<longleftrightarrow> (\<forall>i. Suc i < length xs \<longrightarrow> hd_parent_hash (bk_header (xs ! Suc i)) = hash_block L (xs ! i))"

lemma prefix_take: "prefix xs ys \<Longrightarrow> length xs \<le> length ys \<and> take (length xs) ys = xs"
  by (auto simp: prefix_def)

lemma linked_take: "linked L xs \<Longrightarrow> linked L (take n xs)"
  by (simp add: linked_def)

lemma linked_same_tip:
  assumes "linked L xs" "linked L ys" "inj_on (hash_block L) (set xs \<union> set ys)"
    and "n < length xs" "n < length ys" "xs ! n = ys ! n"
  shows "take (Suc n) xs = take (Suc n) ys"
  using assms(4-)
proof (induction n)
  case 0
  then show ?case by (simp add: take_Suc_conv_app_nth)
next
  case (Suc n)
  then have "hash_block L (xs ! n) = hash_block L (ys ! n)"
    using assms(1,2) unfolding linked_def by metis
  moreover have "xs ! n \<in> set xs \<union> set ys" "ys ! n \<in> set xs \<union> set ys"
    using Suc.prems by simp_all
  ultimately have "xs ! n = ys ! n"
    using assms(3) unfolding inj_on_def by blast
  then have "take (Suc n) xs = take (Suc n) ys" using Suc by simp
  then show ?case using Suc.prems by (simp add: take_Suc_conv_app_nth[of "Suc n"])
qed

text \<open>How much is left to do: the rollbacks to the common prefix first, then the appends.\<close>

definition left_to_do :: "block list \<Rightarrow> block list \<Rightarrow> nat" where
  "left_to_do bs xs = (if prefix xs bs then length bs - length xs else length bs + 1 + length xs)"

lemma left_to_do_butlast:
  assumes "\<not> prefix xs bs"
  shows "left_to_do bs (butlast xs) < left_to_do bs xs"
proof -
  have "xs \<noteq> []" using assms by auto
  then show ?thesis using assms by (cases xs rule: rev_cases) (auto simp: left_to_do_def)
qed

lemma left_to_do_append:
  assumes "prefix xs bs" and "length xs < length bs"
  shows "left_to_do bs (xs @ [bs ! length xs]) < left_to_do bs xs \<and> prefix (xs @ [bs ! length xs]) bs"
proof -
  have "xs @ [bs ! length xs] = take (Suc (length xs)) bs"
    using assms by (metis append_eq_conv_conj prefix_def take_Suc_conv_app_nth)
  then have "prefix (xs @ [bs ! length xs]) bs" by (metis take_is_prefix)
  then show ?thesis using assms by (simp add: left_to_do_def)
qed

lemma sync_loop_reaches:
  assumes ix: "index_ok L ix ixs" and C: "serves L C bs" and "bs \<noteq> []" and lbs: "linked L bs"
    and "linked L (ixs w)" and "inj_on (hash_block L) (set (ixs w) \<union> set bs)"
  shows "\<exists>w'. sync_loop L C ix w = Some (Inr (), w') \<and> ixs w' = bs"
  using assms(5,6)
proof (induction "left_to_do bs (ixs w)" arbitrary: w rule: less_induct)
  case less
  let ?xs = "ixs w"
  note tip = ix[unfolded index_ok_def, rule_format, of w, THEN conjunct1]
  have get: "rpc_get_block_by_number C n v = Some (Inr (if n < length bs then Some (bs ! n) else None), v)"
    and get_hash: "rpc_get_block_hash C n v = Some (Inr (if n < length bs then Some (hash_block L (bs ! n)) else None), v)"
    for n v using C unfolding serves_def by blast+
  have append: "\<exists>w'. ix_append ix b w = Some (Inr (Inr ()), w') \<and> ixs w' = ?xs @ [b]" for b
    using ix unfolding index_ok_def by blast
  show ?case
  proof (cases "?xs = []")
    case True
    obtain w1 where w1: "ix_append ix (bs ! 0) w = Some (Inr (Inr ()), w1)" "ixs w1 = [bs ! 0]"
      using append[of "bs ! 0"] True by auto
    have step: "sync_loop L C ix w = sync_loop L C ix w1"
      using tip True assms(3) w1 by (subst sync_loop.simps) (simp add: bindM_run tip_of_def get)
    have "left_to_do bs (ixs w1) < left_to_do bs ?xs"
      using left_to_do_append[of ?xs bs] True assms(3) w1 by simp
    moreover have "linked L (ixs w1)" "inj_on (hash_block L) (set (ixs w1) \<union> set bs)"
      using w1 less.prems(2) assms(3) by (auto simp: linked_def True insert_absorb)
    ultimately show ?thesis using less.hyps step by simp
  next
    case False
    define n where "n = length ?xs - 1"
    have n: "length ?xs = Suc n" "last ?xs = ?xs ! n" using False by (simp_all add: n_def last_conv_nth)
    have tip': "ix_tip ix w = Some (Inr (Inr (Some (n, hash_block L (?xs ! n)))), w)"
      using tip False n by (simp add: tip_of_def)
    obtain w1 where w1: "ix_rollback ix w = Some (Inr (Inr ()), w1)" "ixs w1 = butlast ?xs"
      using ix False unfolding index_ok_def by blast
    have agree: "prefix ?xs bs" if "n < length bs" "hash_block L (bs ! n) = hash_block L (?xs ! n)"
    proof -
      have "?xs ! n = bs ! n"
        using that less.prems(2) n(1) unfolding inj_on_def
        by (metis Un_iff lessI nth_mem)
      then have "take (Suc n) ?xs = take (Suc n) bs"
        by (intro linked_same_tip[OF less.prems(1) lbs less.prems(2)]) (simp_all add: n(1) that(1))
      then show ?thesis using n(1) by (metis order_refl take_all take_is_prefix)
    qed
    have rollback: "\<exists>w'. sync_loop L C ix w1 = Some (Inr (), w') \<and> ixs w' = bs" if "\<not> prefix ?xs bs"
    proof (rule less.hyps)
      show "left_to_do bs (ixs w1) < left_to_do bs ?xs"
        unfolding w1(2) using that by (rule left_to_do_butlast)
      show "linked L (ixs w1)" unfolding w1(2) butlast_conv_take by (rule linked_take[OF less.prems(1)])
      show "inj_on (hash_block L) (set (ixs w1) \<union> set bs)"
        unfolding w1(2) by (rule inj_on_subset[OF less.prems(2)]) (auto dest: in_set_butlastD)
    qed
    consider (grow) "Suc n < length bs" "hash_block L (bs ! n) = hash_block L (?xs ! n)"
      | (fork) "Suc n < length bs" "hash_block L (bs ! n) \<noteq> hash_block L (?xs ! n)"
      | (finished) "Suc n = length bs" "hash_block L (bs ! n) = hash_block L (?xs ! n)"
      | (stale) "length bs \<le> Suc n" "\<not> (Suc n = length bs \<and> hash_block L (bs ! n) = hash_block L (?xs ! n))"
      by linarith
    then show ?thesis
    proof cases
      case grow
      then have parent: "hd_parent_hash (bk_header (bs ! Suc n)) = hash_block L (?xs ! n)"
        using lbs unfolding linked_def by simp
      obtain w2 where w2: "ix_append ix (bs ! Suc n) w = Some (Inr (Inr ()), w2)" "ixs w2 = ?xs @ [bs ! Suc n]"
        using append by blast
      have "sync_loop L C ix w = sync_loop L C ix w2"
        using grow parent tip' w2 by (subst sync_loop.simps) (simp add: bindM_run get)
      moreover have pre: "left_to_do bs (ixs w2) < left_to_do bs ?xs \<and> prefix (ixs w2) bs"
        using left_to_do_append[of ?xs bs] agree grow n w2 by simp
      moreover have "linked L (ixs w2)"
        using pre linked_take[OF lbs] by (metis prefix_def append_eq_conv_conj)
      moreover have "inj_on (hash_block L) (set (ixs w2) \<union> set bs)"
        using pre less.prems(2) by (intro inj_on_subset[OF less.prems(2)]) (auto dest: set_mono_prefix)
      ultimately show ?thesis using less.hyps by simp
    next
      case fork
      then have "hd_parent_hash (bk_header (bs ! Suc n)) \<noteq> hash_block L (?xs ! n)"
        using lbs unfolding linked_def by simp
      then have "sync_loop L C ix w = sync_loop L C ix w1"
        using fork tip' w1 by (subst sync_loop.simps) (simp add: bindM_run get)
      moreover have "\<not> prefix ?xs bs"
        using fork n(1) prefix_take by (metis lessI nth_take)
      ultimately show ?thesis using rollback by simp
    next
      case finished
      then have "sync_loop L C ix w = Some (Inr (), w)"
        using tip' by (subst sync_loop.simps) (simp add: bindM_run get get_hash ret_run)
      moreover have "?xs = bs"
      proof -
        obtain zs where zs: "bs = ?xs @ zs"
          using agree finished(1,2) unfolding prefix_def by auto
        then have "length bs = length ?xs + length zs" by (metis length_append)
        then have "zs = []" using finished(1) n(1) by simp
        with zs show ?thesis by simp
      qed
      ultimately show ?thesis by simp
    next
      case stale
      then have "sync_loop L C ix w = sync_loop L C ix w1"
        using tip' w1 by (subst sync_loop.simps) (auto simp: bindM_run get get_hash)
      moreover have "\<not> prefix ?xs bs"
      proof
        assume "prefix ?xs bs"
        then have pre: "length ?xs \<le> length bs" "take (length ?xs) bs = ?xs"
          using prefix_take by blast+
        then have "bs ! n = ?xs ! n" using n(1) by (metis lessI nth_take)
        with pre(1) show False using stale n(1) by simp
      qed
      ultimately show ?thesis using rollback by simp
    qed
  qed
qed


text \<open>
  C5.  Bringing the index up to date always ends, with the index equal to the node's chain,
  whatever it held before: nothing, an older part of the chain, a fork of it, or a longer chain
  that was since truncated.  (Block hashes identify the blocks involved.)
\<close>

theorem indexer_synced:
  assumes "nd_indexer nd = Some ix" and "index_ok L ix ixs" and "serves L (nd_rpc_client nd) bs"
    and "bs \<noteq> []" and "linked L bs" and "linked L (ixs w)"
    and "inj_on (hash_block L) (set (ixs w) \<union> set bs)"
  shows "\<exists>w'. wait_for_indexer_synced L nd w = Some (Inr (), w') \<and> ixs w' = bs"
  using sync_loop_reaches[OF assms(2-7)]
  by (simp add: wait_for_indexer_synced_def indexer_unchecked_def assms(1))

text \<open>A stack of blocks as the index, for the witness: the node is at height 2, the index on a fork.\<close>

definition stack_indexer :: "chain_lib \<Rightarrow> block list indexer" where
  "stack_indexer L = \<lparr>ix_tip = reading (\<lambda>xs. Inr (tip_of L xs)),
     ix_append = (\<lambda>b xs. Some (Inr (Inr ()), xs @ [b])),
     ix_rollback = (\<lambda>xs. Some (Inr (Inr ()), butlast xs)),
     ix_get_live_cells_by_lock_script = (\<lambda>_. ret (Inr [])),
     ix_get_detailed_live_cell = (\<lambda>_. ret (Inr None))\<rparr>"

lemma stack_indexer_ok: "index_ok L (stack_indexer L) (\<lambda>xs. xs)"
  by (simp add: index_ok_def stack_indexer_def reading_def)

definition serving_client :: "chain_lib \<Rightarrow> block list \<Rightarrow> 'w rpc_client" where
  "serving_client L bs = offline_client\<lparr>rc_inner2021 := offline2021\<lparr>
     i21_get_block_by_number := (\<lambda>n. ret (Inr (if n < length bs then Some (bs ! n) else None))),
     i21_get_block_hash := (\<lambda>n. ret (Inr (if n < length bs then Some (hash_block L (bs ! n)) else None)))\<rparr>\<rparr>"

lemma serving_client_serves: "serves L (serving_client L bs) bs"
  by (auto simp: serves_def serving_client_def offline_client_def rpc_get_block_by_number_def
      rpc_get_block_hash_def expect_rpc_def ret_run)

definition fork_at :: "nat \<Rightarrow> nat \<Rightarrow> block" where
  "fork_at n parent = (block_at n)\<lparr>bk_header := (hv_header (header_at n))\<lparr>hd_number := n + 100, hd_parent_hash := parent\<rparr>\<rparr>"

theorem indexer_synced_witness:
  "let bs = [block_at 0, block_at 1, block_at 2];
       nd = (offline_node ''n'')\<lparr>nd_indexer := Some (stack_indexer toy_lib), nd_rpc_client := serving_client toy_lib bs\<rparr>
   in \<exists>w'. wait_for_indexer_synced toy_lib nd [block_at 0, fork_at 1 0, fork_at 2 101] = Some (Inr (), w') \<and> w' = bs"
  unfolding Let_def
  by (rule indexer_synced[OF _ stack_indexer_ok])
     (auto simp: serving_client_serves linked_def toy_lib_def block_at_def fork_at_def header_at_def
       less_Suc_eq numeral_2_eq_2 inj_on_def)

text \<open>
  An always-success transaction spends the one cell it is given into one cell with the same
  lock, type and capacity, so it pays no fee; its dependency is output 5 of the genesis cellbase,
  and it can only be built once the node's genesis block is known.
\<close>

theorem always_success_transaction_shape:
  assumes "nd_genesis_block nd = Some b" and "bk_transactions b = cellbase # rest"
  shows "\<exists>tx. always_success_transaction L nd cell = ret tx
    \<and> map ci_previous_output (tx_inputs tx) = [cm_out_point cell] \<and> tx_outputs tx = [cm_cell_output cell]
    \<and> length (tx_outputs_data tx) = length (tx_outputs tx)
    \<and> tx_cell_deps tx = [\<lparr>cd_out_point = \<lparr>op_tx_hash = hash_tx L cellbase, op_index = 5\<rparr>, cd_dep_type = Code\<rparr>]"
proof -
  have "genesis_cellbase_hash L nd = (ret (hash_tx L cellbase) :: ('a, byte32) cmd)"
    by (simp add: genesis_cellbase_hash_def genesis_block_def assms indexM_def)
  then show ?thesis
    by (simp add: always_success_transaction_def always_success_cell_dep_def cell_input_new_def
        SYSTEM_CELL_ALWAYS_SUCCESS_INDEX_def)
qed

theorem always_success_transaction_shape_witness:
  "let nd = (offline_node ''n'' :: nat node)\<lparr>nd_genesis_block := Some (block_at 0)\<rparr>;
       cell = \<lparr>cm_cell_output = \<lparr>co_capacity = 61, co_lock = default_script, co_type = None\<rparr>,
         cm_out_point = \<lparr>op_tx_hash = 9, op_index = 0\<rparr>, cm_transaction_info = None, cm_data_bytes = 0\<rparr>
   in \<exists>tx. always_success_transaction toy_lib nd cell = ret tx \<and> tx_outputs tx = [cm_cell_output cell]"
proof -
  let ?nd = "(offline_node ''n'' :: nat node)\<lparr>nd_genesis_block := Some (block_at 0)\<rparr>"
  have "nd_genesis_block ?nd = Some (block_at 0)" by simp
  moreover have "bk_transactions (block_at 0) = empty_transaction # [empty_transaction]"
    by (simp add: block_at_def)
  ultimately show ?thesis
    using always_success_transaction_shape[of ?nd] by (fastforce simp: Let_def)
qed

end
