(* ===== verification/Builder.thy ===== *)
theory Builder
  imports NodeFacts
begin

text \<open>
  \<open>ckb-testkit/src/node/builder.rs\<close>: building a chain according to instructions, and copying the
  chain of another node.  Heights are far below \<open>2 ^ 64\<close>; their successors are taken on \<open>nat\<close>.
\<close>

section \<open>Instructions\<close>

datatype build_instruction =
    SendTransaction nat transaction
  | Propose nat nat
  | Commit nat transaction
  | ProcessWithoutVerify nat
  | HeaderTimestamp nat nat

fun template_number :: "build_instruction \<Rightarrow> nat" where
  "template_number (SendTransaction n _) = n"
| "template_number (Propose n _) = n"
| "template_number (Commit n _) = n"
| "template_number (ProcessWithoutVerify n) = n"
| "template_number (HeaderTimestamp n _) = n"

type_synonym instructions_map = "nat \<rightharpoonup> build_instruction list"

definition add_instruction :: "nat \<Rightarrow> nat \<Rightarrow> instructions_map \<Rightarrow> build_instruction \<Rightarrow> ('w, instructions_map) cmd" where
  "add_instruction initial_tip_number target_height m instruction =
     bindM (assertM (initial_tip_number < template_number instruction) ''initial_tip_number'') (\<lambda>_.
     bindM (assertM (target_height \<ge> template_number instruction) ''target_height'') (\<lambda>_.
     ret (m(template_number instruction \<mapsto>
       (case m (template_number instruction) of None \<Rightarrow> [] | Some is \<Rightarrow> is) @ [instruction]))))"

text \<open>One instruction on a template; the flag is \<open>process_without_verify\<close>.\<close>

fun apply_instruction ::
    "chain_lib \<Rightarrow> 'w clock \<Rightarrow> 'w rpc_client \<Rightarrow> block_template \<times> bool \<Rightarrow> build_instruction
      \<Rightarrow> ('w, string + (block_template \<times> bool)) cmd" where
  "apply_instruction L clk C (t, pwv) (SendTransaction _ tx) =
     tryM (mapC (map_err (\<lambda>err. ''failed to execute SendTransaction, error: '' @ err))
             (rpc_send_transaction_result clk C tx)) (\<lambda>_. ret (Inr (t, pwv)))"
| "apply_instruction L clk C (t, pwv) (Propose _ proposal_short_id) =
     ret (Inr (if proposal_short_id \<in> set (bt_proposals t) then t
               else t\<lparr>bt_proposals := bt_proposals t @ [proposal_short_id]\<rparr>, pwv))"
| "apply_instruction L clk C (t, pwv) (Commit _ tx) =
     ret (Inr (if list_ex (\<lambda>tt. tt_hash tt = hash_tx L tx) (bt_transactions t) then t
               else t\<lparr>bt_transactions := bt_transactions t @ [\<lparr>tt_hash = hash_tx L tx, tt_data = tx\<rparr>]\<rparr>, pwv))"
| "apply_instruction L clk C (t, pwv) (ProcessWithoutVerify _) = ret (Inr (t, True))"
| "apply_instruction L clk C (t, pwv) (HeaderTimestamp _ timestamp) =
     ret (Inr (t\<lparr>bt_current_time := timestamp\<rparr>, pwv))"

primrec apply_instructions ::
    "chain_lib \<Rightarrow> 'w clock \<Rightarrow> 'w rpc_client \<Rightarrow> block_template \<times> bool \<Rightarrow> build_instruction list
      \<Rightarrow> ('w, string + (block_template \<times> bool)) cmd" where
  "apply_instructions L clk C s [] = ret (Inr s)"
| "apply_instructions L clk C s (i # is) =
     tryM (apply_instruction L clk C s i) (\<lambda>s'. apply_instructions L clk C s' is)"

definition submit_built :: "'w rpc_client \<Rightarrow> block \<Rightarrow> ('w, string + unit) cmd" where
  "submit_built C block =
     tryM (mapC (map_err (\<lambda>err. ''failed to send block, error: '' @ err)) (rpc_submit_block C [] block))
       (\<lambda>_. ret (Inr ()))"

text \<open>The block of one height: with the instructions for it, or the template as it is.\<close>

definition build_block ::
    "chain_lib \<Rightarrow> 'w clock \<Rightarrow> 'w rpc_client \<Rightarrow> block_template \<Rightarrow> build_instruction list option
      \<Rightarrow> ('w, string + unit) cmd" where
  "build_block L clk C template instructions = (case instructions of
       None \<Rightarrow> submit_built C (template_block L template)
     | Some is \<Rightarrow>
         tryM (apply_instructions L clk C (template, False) is) (\<lambda>(template, process_without_verify).
         tryM (mapC (map_err (\<lambda>err. ''failed to calculate dao field, error: '' @ err))
                 (rpc_calculate_dao_field C template)) (\<lambda>dao_field.
         let updated_block = template_block L (template\<lparr>bt_dao := dao_field\<rparr>)
         in if process_without_verify
            then bindM (rpc_process_block_without_verify C updated_block True) (\<lambda>_. ret (Inr ()))
            else submit_built C updated_block)))"

partial_function (option) build_loop ::
    "chain_lib \<Rightarrow> 'w clock \<Rightarrow> 'w rpc_client \<Rightarrow> nat \<Rightarrow> nat \<Rightarrow> instructions_map \<Rightarrow> 'w
      \<Rightarrow> ((halt + (string + unit)) \<times> 'w) option" where
  "build_loop L clk C target_height next_template_number m w =
     bindM (rpc_get_block_template C None None None) (\<lambda>template.
       if bt_number template > target_height then ret (Inr ())
       else if bt_number template \<noteq> next_template_number
       then build_loop L clk C target_height next_template_number m
       else tryM (build_block L clk C template (m (bt_number template))) (\<lambda>_.
              build_loop L clk C target_height (next_template_number + 1) (m(bt_number template := None)))) w"

definition build_according_to_instructions ::
    "chain_lib \<Rightarrow> 'w clock \<Rightarrow> 'w node \<Rightarrow> nat \<Rightarrow> build_instruction list \<Rightarrow> ('w, string + unit) cmd" where
  "build_according_to_instructions L clk nd target_height instructions =
     bindM (get_consensus nd) (\<lambda>c.
     bindM (assertM (cons_permanent_difficulty_in_dummy c) ''assertion failed: permanent_difficulty_in_dummy'') (\<lambda>_.
     bindM (get_tip_block_number nd) (\<lambda>initial_tip_number.
     bindM (foldM (add_instruction initial_tip_number target_height) Map.empty instructions) (\<lambda>m.
     bindM (get_tip_block_number nd) (\<lambda>tip_number.
     build_loop L clk (nd_rpc_client nd) target_height (tip_number + 1) m)))))"

section \<open>Copying another node's chain\<close>

primrec fixed_number_from :: "'w rpc_client \<Rightarrow> 'w rpc_client \<Rightarrow> nat \<Rightarrow> nat list \<Rightarrow> ('w, nat) cmd" where
  "fixed_number_from C S dflt [] = ret dflt"
| "fixed_number_from C S dflt (number # numbers) =
     bindM (rpc_get_block_hash C number) (\<lambda>h. bindM (rpc_get_block_hash S number) (\<lambda>h'.
     if h = h' then ret number else fixed_number_from C S dflt numbers))"

definition pull_node :: "'w node \<Rightarrow> 'w node \<Rightarrow> ('w, string + unit) cmd" where
  "pull_node self source =
     bindM (get_tip_block_number self) (\<lambda>a. bindM (get_tip_block_number source) (\<lambda>b.
     bindM (assertM (a \<le> b) ''assertion failed: self.get_tip_block_number() <= source_node.get_tip_block_number()'') (\<lambda>_.
     bindM (get_tip_block_number self) (\<lambda>min_tip_number.
     bindM (get_tip_block_number source) (\<lambda>max_tip_number.
     bindM (fixed_number_from (nd_rpc_client self) (nd_rpc_client source) min_tip_number
              (rev [0..<Suc min_tip_number])) (\<lambda>fixed_number.
     forT [fixed_number + 1..<Suc max_tip_number] (\<lambda>number.
       bindM (get_block_by_number source number) (\<lambda>block.
       tryM (rpc_submit_block (nd_rpc_client self) (to_decimal (hd_number (bk_header block))) block)
         (\<lambda>_. ret (Inr ()))))))))))"

definition clone_node :: "'w os \<Rightarrow> 'w node \<Rightarrow> string \<Rightarrow> (16 word \<times> 'w, 'w node) cmd" where
  "clone_node os self name =
     bindM (node_init os ''cloned_node'' ((nd_node_options self)\<lparr>no_node_name := name\<rparr>)
              (rc_ckb2021 (nd_rpc_client self))) (\<lambda>target_node.
     on_env (bindM (node_start os target_node) (\<lambda>target_node.
     bindM (pull_node target_node self) (\<lambda>r.
     bindM (unwrapM ''cloned node pull from source node should be ok'' r) (\<lambda>_. ret target_node)))))"

section \<open>What building does\<close>

text \<open>The specification: the effect of instructions on a template, and the transactions they send.\<close>

fun spec_apply :: "chain_lib \<Rightarrow> block_template \<times> bool \<Rightarrow> build_instruction \<Rightarrow> block_template \<times> bool" where
  "spec_apply L (t, p) (SendTransaction _ _) = (t, p)"
| "spec_apply L (t, p) (Propose _ x) =
     (t\<lparr>bt_proposals := bt_proposals t @ (if x \<in> set (bt_proposals t) then [] else [x])\<rparr>, p)"
| "spec_apply L (t, p) (Commit _ tx) =
     (t\<lparr>bt_transactions := bt_transactions t @
        (if hash_tx L tx \<in> tt_hash ` set (bt_transactions t) then [] else [\<lparr>tt_hash = hash_tx L tx, tt_data = tx\<rparr>])\<rparr>, p)"
| "spec_apply L (t, p) (ProcessWithoutVerify _) = (t, True)"
| "spec_apply L (t, p) (HeaderTimestamp _ ts) = (t\<lparr>bt_current_time := ts\<rparr>, p)"

fun spec_sends :: "build_instruction list \<Rightarrow> transaction list" where
  "spec_sends [] = []"
| "spec_sends (SendTransaction _ tx # is) = tx # spec_sends is"
| "spec_sends (_ # is) = spec_sends is"

definition spec_block :: "chain_lib \<Rightarrow> (block_template \<Rightarrow> byte32) \<Rightarrow> block_template \<Rightarrow> build_instruction list \<Rightarrow> block" where
  "spec_block L dao t is =
     (if is = [] then template_block L t
      else let t' = fst (fold (\<lambda>i s. spec_apply L s i) is (t, False)) in template_block L (t'\<lparr>bt_dao := dao t'\<rparr>))"

definition instructions_for :: "build_instruction list \<Rightarrow> nat \<Rightarrow> build_instruction list" where
  "instructions_for is n = filter (\<lambda>i. template_number i = n) is"

text \<open>
  The contract of a node to build on: it takes every transaction and every block it is given;
  its templates for height \<open>n\<close> are \<open>tmpl n\<close>, but may lag behind the chain for a while.
\<close>

record 'w build_view =
  bv_tip :: "'w \<Rightarrow> nat"
  bv_lag :: "'w \<Rightarrow> nat"
  bv_blocks :: "'w \<Rightarrow> block list"
  bv_sent :: "'w \<Rightarrow> transaction list"

definition same_chain :: "'w build_view \<Rightarrow> 'w \<Rightarrow> 'w \<Rightarrow> bool" where
  "same_chain V w w' \<longleftrightarrow> bv_tip V w' = bv_tip V w \<and> bv_blocks V w' = bv_blocks V w"

definition grown :: "'w build_view \<Rightarrow> block \<Rightarrow> 'w \<Rightarrow> 'w \<Rightarrow> bool" where
  "grown V b w w' \<longleftrightarrow> bv_tip V w' = Suc (bv_tip V w) \<and> bv_blocks V w' = bv_blocks V w @ [b]
     \<and> bv_sent V w' = bv_sent V w"

definition buildable ::
    "chain_lib \<Rightarrow> 'w clock \<Rightarrow> 'w rpc_client \<Rightarrow> 'w build_view \<Rightarrow> (nat \<Rightarrow> block_template)
      \<Rightarrow> (block_template \<Rightarrow> byte32) \<Rightarrow> bool" where
  "buildable L clk C V tmpl dao \<longleftrightarrow> (\<forall>n. bt_number (tmpl n) = n) \<and> (\<forall>w.
       rpc_get_tip_block_number C w = Some (Inr (bv_tip V w), w)
     \<and> (\<exists>w'. rpc_get_block_template C None None None w = Some (Inr (tmpl (Suc (bv_tip V w) - bv_lag V w)), w')
          \<and> same_chain V w w' \<and> bv_sent V w' = bv_sent V w \<and> bv_lag V w' = bv_lag V w - 1)
     \<and> (\<forall>tx. \<exists>h w'. rpc_send_transaction_result clk C tx w = Some (Inr (Inr h), w')
          \<and> same_chain V w w' \<and> bv_sent V w' = bv_sent V w @ [tx])
     \<and> (\<forall>t. rpc_calculate_dao_field C t w = Some (Inr (Inr (dao t)), w))
     \<and> (\<forall>b. \<exists>h w'. rpc_submit_block C [] b w = Some (Inr (Inr h), w') \<and> grown V b w w')
     \<and> (\<forall>b. \<exists>h w'. rpc_process_block_without_verify C b True w = Some (Inr h, w') \<and> grown V b w w'))"

lemma add_instructions_run:
  assumes "\<forall>i \<in> set is. initial < template_number i \<and> template_number i \<le> target"
  shows "foldM (add_instruction initial target) m is = ret (\<lambda>n.
     if instructions_for is n = [] then m n
     else Some ((case m n of None \<Rightarrow> [] | Some js \<Rightarrow> js) @ instructions_for is n))"
  using assms
proof (induction "is" arbitrary: m)
  case Nil
  then show ?case by (simp add: instructions_for_def)
next
  case (Cons i "is")
  let ?m = "m(template_number i \<mapsto> (case m (template_number i) of None \<Rightarrow> [] | Some js \<Rightarrow> js) @ [i])"
  have "add_instruction initial target m i = (ret ?m :: ('a, instructions_map) cmd)"
    using Cons.prems by (simp add: add_instruction_def)
  then have "foldM (add_instruction initial target) m (i # is)
      = (foldM (add_instruction initial target) ?m is :: ('a, instructions_map) cmd)"
    by simp
  also have "\<dots> = ret (\<lambda>n. if instructions_for is n = [] then ?m n
     else Some ((case ?m n of None \<Rightarrow> [] | Some js \<Rightarrow> js) @ instructions_for is n))"
    using Cons.IH Cons.prems by simp
  also have "(\<lambda>n. if instructions_for is n = [] then ?m n
     else Some ((case ?m n of None \<Rightarrow> [] | Some js \<Rightarrow> js) @ instructions_for is n))
     = (\<lambda>n. if instructions_for (i # is) n = [] then m n
     else Some ((case m n of None \<Rightarrow> [] | Some js \<Rightarrow> js) @ instructions_for (i # is) n))"
    by (rule ext) (simp add: instructions_for_def split: option.split)
  finally show ?case .
qed

lemma add_instructions_refused:
  assumes "\<exists>i \<in> set is. \<not> (initial < template_number i \<and> template_number i \<le> target)"
  shows "\<exists>msg. foldM (add_instruction initial target) m is = panicking msg"
  using assms
proof (induction "is" arbitrary: m)
  case Nil
  then show ?case by simp
next
  case (Cons i "is")
  show ?case
  proof (cases "initial < template_number i \<and> template_number i \<le> target")
    case True
    then have "\<exists>i \<in> set is. \<not> (initial < template_number i \<and> template_number i \<le> target)"
      using Cons.prems by auto
    from Cons.IH[OF this] show ?thesis
      using True by (simp add: add_instruction_def)
  next
    case False
    then consider "\<not> initial < template_number i" | "initial < template_number i" "\<not> template_number i \<le> target"
      by blast
    then show ?thesis by cases (auto simp: add_instruction_def bindM_assoc)
  qed
qed

lemma apply_instructions_run:
  assumes B: "buildable L clk C V tmpl dao"
  shows "\<exists>w'. apply_instructions L clk C s is w = Some (Inr (Inr (fold (\<lambda>i s. spec_apply L s i) is s)), w')
     \<and> same_chain V w w' \<and> bv_sent V w' = bv_sent V w @ spec_sends is"
proof (induction "is" arbitrary: s w)
  case Nil
  then show ?case by (simp add: ret_def same_chain_def)
next
  case (Cons i "is")
  obtain t p where s: "s = (t, p)" by fastforce
  have "\<exists>w1. apply_instruction L clk C s i w = Some (Inr (Inr (spec_apply L s i)), w1)
      \<and> same_chain V w w1 \<and> bv_sent V w1 = bv_sent V w @ spec_sends [i]"
  proof (cases i)
    case (SendTransaction n tx)
    obtain h w1 where "rpc_send_transaction_result clk C tx w = Some (Inr (Inr h), w1)"
      "same_chain V w w1" "bv_sent V w1 = bv_sent V w @ [tx]"
      using B unfolding buildable_def by blast
    with SendTransaction s show ?thesis by (simp add: tryM_run_Inr mapC_run ret_run)
  next
    case (Commit n tx)
    with s show ?thesis by (auto simp: ret_def same_chain_def list_ex_iff image_iff)
  qed (simp_all add: s ret_def same_chain_def)
  then obtain w1 where w1: "apply_instruction L clk C s i w = Some (Inr (Inr (spec_apply L s i)), w1)"
    "same_chain V w w1" "bv_sent V w1 = bv_sent V w @ spec_sends [i]" by blast
  obtain w2 where "apply_instructions L clk C (spec_apply L s i) is w1
       = Some (Inr (Inr (fold (\<lambda>i s. spec_apply L s i) is (spec_apply L s i))), w2)"
    "same_chain V w1 w2" "bv_sent V w2 = bv_sent V w1 @ spec_sends is"
    using Cons.IH by blast
  then show ?case
    using w1 by (cases i) (auto simp: tryM_run_Inr same_chain_def)
qed

definition some_instructions :: "build_instruction list \<Rightarrow> build_instruction list option" where
  "some_instructions is = (if is = [] then None else Some is)"

lemma submit_built_run:
  assumes B: "buildable L clk C V tmpl dao"
  shows "\<exists>w'. submit_built C b w = Some (Inr (Inr ()), w') \<and> grown V b w w'"
proof -
  obtain h w' where "rpc_submit_block C [] b w = Some (Inr (Inr h), w')" "grown V b w w'"
    using B unfolding buildable_def by blast
  then show ?thesis by (simp add: submit_built_def tryM_run_Inr mapC_run ret_run)
qed

lemma build_block_run:
  assumes B: "buildable L clk C V tmpl dao"
  shows "\<exists>w'. build_block L clk C t (some_instructions is) w = Some (Inr (Inr ()), w')
     \<and> bv_tip V w' = Suc (bv_tip V w) \<and> bv_blocks V w' = bv_blocks V w @ [spec_block L dao t is]
     \<and> bv_sent V w' = bv_sent V w @ spec_sends is"
proof (cases "is = []")
  case True
  then show ?thesis
    using submit_built_run[OF B, of "template_block L t" w]
    by (auto simp: build_block_def some_instructions_def spec_block_def grown_def)
next
  case False
  define s where "s = fold (\<lambda>i s. spec_apply L s i) is (t, False)"
  obtain t' p where s': "s = (t', p)" by fastforce
  obtain w1 where w1: "apply_instructions L clk C (t, False) is w = Some (Inr (Inr s), w1)"
    "same_chain V w w1" "bv_sent V w1 = bv_sent V w @ spec_sends is"
    using apply_instructions_run[OF B] unfolding s_def by blast
  have dao: "rpc_calculate_dao_field C t' w1 = Some (Inr (Inr (dao t')), w1)"
    using B unfolding buildable_def by blast
  define b where "b = template_block L (t'\<lparr>bt_dao := dao t'\<rparr>)"
  have blk: "spec_block L dao t is = b"
    using False s' by (simp add: spec_block_def b_def s_def[symmetric] Let_def)
  obtain w2 where w2: "submit_built C b w1 = Some (Inr (Inr ()), w2)" "grown V b w1 w2"
    using submit_built_run[OF B] by blast
  obtain h w3 where w3: "rpc_process_block_without_verify C b True w1 = Some (Inr h, w3)" "grown V b w1 w3"
    using B unfolding buildable_def by blast
  have "build_block L clk C t (some_instructions is) w = Some (Inr (Inr ()), if p then w3 else w2)"
    using False w1(1) s' dao w2(1) w3(1)
    by (simp add: build_block_def some_instructions_def tryM_run_Inr mapC_run bindM_run ret_run b_def Let_def)
  then show ?thesis
    using w1 w2 w3 blk by (auto simp: same_chain_def grown_def)
qed

lemma build_loop_run:
  assumes B: "buildable L clk C V tmpl dao"
  shows "\<exists>w'. build_loop L clk C target (Suc (bv_tip V w)) (\<lambda>n. some_instructions (M n)) w = Some (Inr (Inr ()), w')
     \<and> bv_tip V w' = max (bv_tip V w) target
     \<and> bv_blocks V w' = bv_blocks V w @ map (\<lambda>n. spec_block L dao (tmpl n) (M n)) [Suc (bv_tip V w)..<Suc target]
     \<and> bv_sent V w' = bv_sent V w @ concat (map (\<lambda>n. spec_sends (M n)) [Suc (bv_tip V w)..<Suc target])"
proof (induction w arbitrary: M
    rule: wf_induct_rule[OF wf_measures[of "[\<lambda>w. Suc target - bv_tip V w, \<lambda>w. bv_lag V w]"]])
  case (1 w)
  let ?m = "\<lambda>n. some_instructions (M n)"
  let ?tip = "bv_tip V w" and ?number = "Suc (bv_tip V w) - bv_lag V w"
  have number: "bt_number (tmpl n) = n" for n using B unfolding buildable_def by blast
  obtain w1 where w1: "rpc_get_block_template C None None None w = Some (Inr (tmpl ?number), w1)"
    "same_chain V w w1" "bv_sent V w1 = bv_sent V w" "bv_lag V w1 = bv_lag V w - 1"
    using B unfolding buildable_def by blast
  then have tip1: "bv_tip V w1 = ?tip" and blocks1: "bv_blocks V w1 = bv_blocks V w"
    by (simp_all add: same_chain_def)
  consider (finished) "?number > target" | (stale) "?number \<le> target" "?number \<noteq> Suc ?tip"
    | (build) "?number \<le> target" "?number = Suc ?tip" by linarith
  then show ?case
  proof cases
    case finished
    then have "build_loop L clk C target (Suc ?tip) ?m w = Some (Inr (Inr ()), w1)"
      using w1 by (subst build_loop.simps) (simp add: bindM_run number ret_run)
    with finished w1 tip1 blocks1 show ?thesis by auto
  next
    case stale
    then have "build_loop L clk C target (Suc ?tip) ?m w = build_loop L clk C target (Suc (bv_tip V w1)) ?m w1"
      using w1 tip1 by (subst build_loop.simps) (simp add: bindM_run number)
    moreover have "(w1, w) \<in> measures [\<lambda>w. Suc target - bv_tip V w, \<lambda>w. bv_lag V w]"
      using stale w1 tip1 by auto
    ultimately show ?thesis
      using "1"[of w1 M] tip1 blocks1 w1 by simp
  next
    case build
    let ?n = "Suc ?tip"
    obtain w2 where w2: "build_block L clk C (tmpl ?n) (some_instructions (M ?n)) w1 = Some (Inr (Inr ()), w2)"
      "bv_tip V w2 = Suc (bv_tip V w1)" "bv_blocks V w2 = bv_blocks V w1 @ [spec_block L dao (tmpl ?n) (M ?n)]"
      "bv_sent V w2 = bv_sent V w1 @ spec_sends (M ?n)"
      using build_block_run[OF B] by blast
    have upd: "?m(?n := None) = (\<lambda>n. some_instructions ((M(?n := [])) n))"
      by (auto simp: some_instructions_def)
    have "build_loop L clk C target ?n ?m w
        = build_loop L clk C target (Suc (bv_tip V w2)) (?m(?n := None)) w2"
      using w1 build w2 tip1
      by (subst build_loop.simps) (simp add: bindM_run number tryM_run_Inr)
    then have "build_loop L clk C target ?n ?m w
        = build_loop L clk C target (Suc (bv_tip V w2)) (\<lambda>n. some_instructions ((M(?n := [])) n)) w2"
      unfolding upd .
    moreover have "(w2, w) \<in> measures [\<lambda>w. Suc target - bv_tip V w, \<lambda>w. bv_lag V w]"
      using build w2 tip1 by auto
    ultimately obtain w' where w': "build_loop L clk C target ?n ?m w = Some (Inr (Inr ()), w')"
      "bv_tip V w' = max (bv_tip V w2) target"
      "bv_blocks V w' = bv_blocks V w2 @ map (\<lambda>n. spec_block L dao (tmpl n) ((M(?n := [])) n)) [Suc (bv_tip V w2)..<Suc target]"
      "bv_sent V w' = bv_sent V w2 @ concat (map (\<lambda>n. spec_sends ((M(?n := [])) n)) [Suc (bv_tip V w2)..<Suc target])"
      using "1"[of w2 "M(?n := [])"] by auto
    have range: "[?n..<Suc target] = ?n # [Suc ?n..<Suc target]"
      using build by (intro upt_conv_Cons) simp
    have rest: "map (\<lambda>n. f n ((M(?n := [])) n)) [Suc ?n..<Suc target] = map (\<lambda>n. f n (M n)) [Suc ?n..<Suc target]"
      for f :: "nat \<Rightarrow> build_instruction list \<Rightarrow> 'z"
      by (rule map_cong) auto
    have "bv_tip V w2 = ?n" using w2 tip1 by simp
    with w' w2 blocks1 w1 build tip1 show ?thesis
      unfolding range rest[of "\<lambda>n. spec_block L dao (tmpl n)"] rest[of "\<lambda>n. spec_sends"]
      by (auto simp del: upt_Suc fun_upd_apply simp: rest[of "\<lambda>n. spec_block L dao (tmpl n)"] rest[of "\<lambda>n. spec_sends"])
  qed
qed




text \<open>A node that meets the contract: one stale template, then the next height.\<close>

record build_world =
  bw_tip :: nat
  bw_lag :: nat
  bw_blocks :: "block list"
  bw_sent :: "transaction list"

definition bw_grow :: "block \<Rightarrow> build_world \<Rightarrow> build_world" where
  "bw_grow b w = w\<lparr>bw_tip := Suc (bw_tip w), bw_blocks := bw_blocks w @ [b]\<rparr>"

definition bw_inner :: "build_world inner2021" where
  "bw_inner = offline2021\<lparr>
     i21_get_tip_block_number := reading (\<lambda>w. Inr (bw_tip w)),
     i21_get_block_template := (\<lambda>_ _ _ w. Some (Inr (Inr (template_at (Suc (bw_tip w) - bw_lag w))), w\<lparr>bw_lag := bw_lag w - 1\<rparr>)),
     i21_calculate_dao_field := (\<lambda>t. ret (Inr (bt_number t))),
     i21_send_transaction := (\<lambda>tx _ w. Some (Inr (Inr 0), w\<lparr>bw_sent := bw_sent w @ [tx]\<rparr>)),
     i21_get_transaction := (\<lambda>_. ret (Inr (Some \<lparr>tws_transaction = None, tws_status = Pending\<rparr>))),
     i21_submit_block := (\<lambda>_ b w. Some (Inr (Inr 0), bw_grow b w)),
     i21_process_block_without_verify := (\<lambda>b _ w. Some (Inr (Inr None), bw_grow b w))\<rparr>"

definition bw_node :: "build_world node" where
  "bw_node = (offline_node ''builder'')\<lparr>nd_rpc_client := offline_client\<lparr>rc_inner2021 := bw_inner\<rparr>,
     nd_consensus := Some \<lparr>cons_cellbase_maturity = 0, cons_permanent_difficulty_in_dummy = True,
       cons_median_time_block_count = 37, cons_hardfork_features = [], cons_id = ''ckb_dev'', cons_genesis_hash = 0\<rparr>\<rparr>"

definition bw_view :: "build_world build_view" where
  "bw_view = \<lparr>bv_tip = bw_tip, bv_lag = bw_lag, bv_blocks = bw_blocks, bv_sent = bw_sent\<rparr>"

definition bw_clock :: "build_world clock" where
  "bw_clock = \<lparr>now = (\<lambda>_. 0), sleep = (\<lambda>_ w. w)\<rparr>"

lemma bw_buildable: "buildable toy_lib bw_clock (nd_rpc_client bw_node) bw_view template_at bt_number"
  unfolding buildable_def
  by (auto simp: bw_node_def bw_inner_def bw_view_def bw_clock_def bw_grow_def same_chain_def grown_def
      template_at_def offline_client_def expect_rpc_def reading_def bindM_def ret_def assertM_def
      rpc_get_tip_block_number_def rpc_get_block_template_def rpc_send_transaction_result_def
      rpc_calculate_dao_field_def rpc_submit_block_def rpc_process_block_without_verify_def
      await_status.simps)


end
