(* ===== verification/StreamCodec.thy ===== *)
theory StreamCodec
  imports Rpc
begin

text \<open>
  \<open>ckb-testkit/src/subscribe/mod.rs\<close>, module \<open>stream_codec\<close>: cutting the bytes of a subscription
  connection into messages.  Bytes are characters, as in \<open>RustStr\<close>.  The lemmas compare the cuts
  with the texts of JSON values: a message is cut out exactly at its closing bracket, however the
  bytes arrive.
\<close>

section \<open>UTF-8: \<open>std::str::from_utf8\<close>\<close>

definition continuation :: "nat \<Rightarrow> bool" where
  "continuation b \<longleftrightarrow> 0x80 \<le> b \<and> b \<le> 0xBF"

definition second_byte :: "nat \<Rightarrow> nat \<Rightarrow> bool" where
  "second_byte b0 b1 \<longleftrightarrow>
     (if b0 = 0xE0 then 0xA0 \<le> b1 \<and> b1 \<le> 0xBF
      else if b0 = 0xED then 0x80 \<le> b1 \<and> b1 \<le> 0x9F
      else if b0 = 0xF0 then 0x90 \<le> b1 \<and> b1 \<le> 0xBF
      else if b0 = 0xF4 then 0x80 \<le> b1 \<and> b1 \<le> 0x8F
      else continuation b1)"

fun utf8_bytes :: "nat list \<Rightarrow> bool" where
  "utf8_bytes [] = True"
| "utf8_bytes [b0] = (b0 < 0x80)"
| "utf8_bytes [b0, b1] = (if b0 < 0x80 then utf8_bytes [b1]
     else 0xC2 \<le> b0 \<and> b0 \<le> 0xDF \<and> continuation b1)"
| "utf8_bytes [b0, b1, b2] = (if b0 < 0x80 then utf8_bytes [b1, b2]
     else if 0xC2 \<le> b0 \<and> b0 \<le> 0xDF then continuation b1 \<and> utf8_bytes [b2]
     else 0xE0 \<le> b0 \<and> b0 \<le> 0xEF \<and> second_byte b0 b1 \<and> continuation b2)"
| "utf8_bytes (b0 # b1 # b2 # b3 # bs) = (if b0 < 0x80 then utf8_bytes (b1 # b2 # b3 # bs)
     else if 0xC2 \<le> b0 \<and> b0 \<le> 0xDF then continuation b1 \<and> utf8_bytes (b2 # b3 # bs)
     else if 0xE0 \<le> b0 \<and> b0 \<le> 0xEF then second_byte b0 b1 \<and> continuation b2 \<and> utf8_bytes (b3 # bs)
     else 0xF0 \<le> b0 \<and> b0 \<le> 0xF4 \<and> second_byte b0 b1 \<and> continuation b2 \<and> continuation b3 \<and> utf8_bytes bs)"

definition is_utf8 :: "string \<Rightarrow> bool" where
  "is_utf8 s \<longleftrightarrow> utf8_bytes (map of_char s)"

section \<open>The codec\<close>

datatype separator = Empty | Byte char

definition separator_default :: separator where
  "separator_default = Byte (CHR 0x0A)"

record stream_codec =
  incoming_separator :: separator
  outgoing_separator :: separator

definition stream_incoming :: stream_codec where
  "stream_incoming = \<lparr>incoming_separator = Empty, outgoing_separator = separator_default\<rparr>"

definition is_whitespace :: "char \<Rightarrow> bool" where
  "is_whitespace byte \<longleftrightarrow> byte \<in> {CHR 0x0D, CHR 0x0A, CHR 0x20, CHR 0x09}"

datatype stream_error = BrokenPipe | BadData string | OtherError string

text \<open>The local variables of the scan.  A connection would have to hold \<open>2 ^ 31\<close> brackets for the
  \<open>i32\<close> \<open>depth\<close> to overflow; it is an \<^typ>\<open>int\<close> here.\<close>

record scan =
  sn_depth :: int
  sn_in_str :: bool
  sn_is_escaped :: bool
  sn_start_idx :: nat
  sn_whitespaces :: nat

definition scan_init :: scan where
  "scan_init = \<lparr>sn_depth = 0, sn_in_str = False, sn_is_escaped = False, sn_start_idx = 0, sn_whitespaces = 0\<rparr>"

definition scan_bracket :: "nat \<Rightarrow> char \<Rightarrow> scan \<Rightarrow> scan" where
  "scan_bracket idx byte s =
     (if (byte = CHR ''{'' \<or> byte = CHR ''['') \<and> \<not> sn_in_str s
      then s\<lparr>sn_start_idx := (if sn_depth s = 0 then idx else sn_start_idx s), sn_depth := sn_depth s + 1\<rparr>
      else if (byte = CHR ''}'' \<or> byte = CHR '']'') \<and> \<not> sn_in_str s
      then s\<lparr>sn_depth := sn_depth s - 1\<rparr>
      else if byte = CHR 0x22 \<and> \<not> sn_is_escaped s then s\<lparr>sn_in_str := \<not> sn_in_str s\<rparr>
      else if is_whitespace byte then s\<lparr>sn_whitespaces := sn_whitespaces s + 1\<rparr>
      else s)"

definition scan_byte :: "nat \<Rightarrow> char \<Rightarrow> scan \<Rightarrow> scan" where
  "scan_byte idx byte s =
     (let s1 = scan_bracket idx byte s
      in s1\<lparr>sn_is_escaped := (byte = CHR 0x5C \<and> \<not> sn_is_escaped s1 \<and> sn_in_str s1)\<rparr>)"

definition complete :: "nat \<Rightarrow> scan \<Rightarrow> bool" where
  "complete idx s \<longleftrightarrow> sn_depth s = 0 \<and> idx \<noteq> sn_start_idx s \<and> idx - sn_start_idx s + 1 > sn_whitespaces s"

primrec frame_end :: "nat \<Rightarrow> scan \<Rightarrow> string \<Rightarrow> nat option" where
  "frame_end idx s [] = None"
| "frame_end idx s (byte # buf) =
     (let s' = scan_byte idx byte s in if complete idx s' then Some idx else frame_end (Suc idx) s' buf)"

primrec position :: "char \<Rightarrow> string \<Rightarrow> nat option" where
  "position b [] = None"
| "position b (c # cs) = (if c = b then Some 0 else map_option Suc (position b cs))"

definition decode :: "stream_codec \<Rightarrow> string \<Rightarrow> (stream_error + string option) \<times> string" where
  "decode codec buf = (case incoming_separator codec of
       Byte separator \<Rightarrow> (case position separator buf of
           Some i \<Rightarrow> (let line = take i buf; buf' = drop (i + 1) buf
                     in if is_utf8 line then (Inr (Some line), buf') else (Inl (OtherError ''invalid UTF-8''), buf'))
         | None \<Rightarrow> (Inr None, buf))
     | Empty \<Rightarrow> (case frame_end 0 scan_init buf of
           Some idx \<Rightarrow> (let bts = take (idx + 1) buf; buf' = drop (idx + 1) buf
                       in if is_utf8 bts then (Inr (Some bts), buf') else (Inr None, buf'))
         | None \<Rightarrow> (Inr None, buf)))"

definition encode :: "stream_codec \<Rightarrow> string \<Rightarrow> string \<Rightarrow> string" where
  "encode codec msg buf =
     buf @ msg @ (case outgoing_separator codec of Byte separator \<Rightarrow> [separator] | Empty \<Rightarrow> [])"

section \<open>The texts of JSON values\<close>

text \<open>How a JSON-RPC server writes a value (compact, as \<open>serde_json\<close> does).\<close>

definition hex_char :: "nat \<Rightarrow> char" where
  "hex_char d = (if d < 10 then char_of (48 + d) else char_of (87 + d))"

definition escape :: "char \<Rightarrow> string" where
  "escape c =
     (if c = CHR 0x22 \<or> c = CHR 0x5C then [CHR 0x5C, c]
      else if (of_char c :: nat) < 32
      then CHR 0x5C # ''u00'' @ [hex_char (of_char c div 16), hex_char (of_char c mod 16)]
      else [c])"

definition quoted :: "string \<Rightarrow> string" where
  "quoted s = CHR 0x22 # concat (map escape s) @ [CHR 0x22]"

definition int_text :: "int \<Rightarrow> string" where
  "int_text i = (if i < 0 then CHR ''-'' # to_decimal (nat (- i)) else to_decimal (nat i))"

fun json_text :: "json \<Rightarrow> string" where
  "json_text JNull = ''null''"
| "json_text (JBool b) = (if b then ''true'' else ''false'')"
| "json_text (JNum i) = int_text i"
| "json_text (JStr s) = quoted s"
| "json_text (JArr js) = CHR ''['' # str_join '','' (map json_text js) @ [CHR '']'']"
| "json_text (JObj kvs) = CHR ''{'' # str_join '','' (map (\<lambda>(k, v). quoted k @ CHR '':'' # json_text v) kvs) @ [CHR ''}'']"

fun is_container :: "json \<Rightarrow> bool" where
  "is_container (JArr _) = True"
| "is_container (JObj _) = True"
| "is_container _ = False"

section \<open>Scanning a text\<close>

primrec scan_all :: "nat \<Rightarrow> scan \<Rightarrow> string \<Rightarrow> scan" where
  "scan_all idx s [] = s"
| "scan_all idx s (b # bs) = scan_all (Suc idx) (scan_byte idx b s) bs"

lemma frame_end_append:
  "frame_end idx s xs = None \<Longrightarrow>
     frame_end idx s (xs @ ys) = frame_end (idx + length xs) (scan_all idx s xs) ys"
  by (induction xs arbitrary: idx s) (auto simp: Let_def split: if_splits)

lemma scan_all_append: "scan_all idx s (xs @ ys) = scan_all (idx + length xs) (scan_all idx s xs) ys"
  by (induction xs arbitrary: idx s) auto

lemma frame_end_bounds: "frame_end idx s xs = Some i \<Longrightarrow> idx \<le> i \<and> i < idx + length xs"
  by (induction xs arbitrary: idx s) (fastforce simp: Let_def split: if_splits)+

lemma frame_end_take:
  assumes "frame_end idx s xs = Some i" and "idx + k \<le> i"
  shows "frame_end idx s (take k xs) = None"
  using assms
proof (induction xs arbitrary: idx s k)
  case Nil
  then show ?case by simp
next
  case (Cons b xs)
  show ?case
  proof (cases k)
    case 0
    then show ?thesis by simp
  next
    case (Suc k')
    then show ?thesis
      using Cons.prems Cons.IH[of "Suc idx" "scan_byte idx b s" k'] by (auto simp: Let_def split: if_splits)
  qed
qed

text \<open>
  \<open>quiet xs\<close>: inside a bracket and outside of strings, \<open>xs\<close> completes no frame and leaves the scan
  as it was, with at most its own length more blanks counted.
\<close>

definition quiet :: "string \<Rightarrow> bool" where
  "quiet xs \<longleftrightarrow> (\<forall>idx s. 1 \<le> sn_depth s \<and> \<not> sn_in_str s \<and> \<not> sn_is_escaped s \<longrightarrow>
     frame_end idx s xs = None \<and>
     (\<exists>n \<le> length xs. scan_all idx s xs = s\<lparr>sn_whitespaces := sn_whitespaces s + n\<rparr>))"

lemma quietE:
  assumes "quiet xs" and "1 \<le> sn_depth s" and "\<not> sn_in_str s" and "\<not> sn_is_escaped s"
  obtains n where "frame_end idx s xs = None" and "n \<le> length xs"
    and "scan_all idx s xs = s\<lparr>sn_whitespaces := sn_whitespaces s + n\<rparr>"
  using assms unfolding quiet_def by blast

lemma quiet_Nil [simp]: "quiet []"
  by (simp add: quiet_def)

lemma quiet_append [intro]:
  assumes "quiet xs" and "quiet ys"
  shows "quiet (xs @ ys)"
  unfolding quiet_def
proof (intro allI impI)
  fix idx and s :: scan
  assume s: "1 \<le> sn_depth s \<and> \<not> sn_in_str s \<and> \<not> sn_is_escaped s"
  obtain n where n: "frame_end idx s xs = None" "n \<le> length xs"
    "scan_all idx s xs = s\<lparr>sn_whitespaces := sn_whitespaces s + n\<rparr>" (is "_ = ?s")
    using s quietE[OF assms(1)] by blast
  obtain m where "frame_end (idx + length xs) ?s ys = None" "m \<le> length ys"
    "scan_all (idx + length xs) ?s ys = ?s\<lparr>sn_whitespaces := sn_whitespaces ?s + m\<rparr>"
    using s quietE[OF assms(2), of ?s] by auto
  with n show "frame_end idx s (xs @ ys) = None \<and> (\<exists>k \<le> length (xs @ ys).
      scan_all idx s (xs @ ys) = s\<lparr>sn_whitespaces := sn_whitespaces s + k\<rparr>)"
    by (auto simp: frame_end_append scan_all_append intro!: exI[of _ "n + m"])
qed

lemma scan_unchanged [simp]: "s\<lparr>sn_is_escaped := b\<rparr> = s \<longleftrightarrow> sn_is_escaped s = b"
  by (cases s) auto

definition plain :: "char \<Rightarrow> bool" where
  "plain c \<longleftrightarrow> c \<notin> {CHR ''{'', CHR ''['', CHR ''}'', CHR '']'', CHR 0x22, CHR 0x5C} \<and> \<not> is_whitespace c"

lemma quiet_plain: "plain c \<Longrightarrow> quiet [c]"
  by (auto simp: quiet_def plain_def scan_byte_def scan_bracket_def complete_def Let_def intro: exI[of _ 0])

lemma quiet_plains: "\<forall>c \<in> set xs. plain c \<Longrightarrow> quiet xs"
proof (induction xs)
  case Nil
  then show ?case by simp
next
  case (Cons c xs)
  then show ?case using quiet_append[OF quiet_plain[of c], of xs] by simp
qed

lemma digit_plain: "d < 10 \<Longrightarrow> plain (digit_char d)"
proof -
  have "\<forall>d \<in> set [0..<10]. plain (digit_char d)" by code_simp
  then show "d < 10 \<Longrightarrow> plain (digit_char d)" by simp
qed

lemma decimal_plain: "c \<in> set (to_decimal n) \<Longrightarrow> plain c"
proof (induction n rule: to_decimal.induct)
  case (1 n)
  then show ?case
    by (auto simp: to_decimal.simps[of n] digit_plain split: if_splits)
qed

lemma quiet_int: "quiet (int_text i)"
proof (rule quiet_plains)
  have "plain CHR ''-''" by (simp add: plain_def is_whitespace_def)
  then show "\<forall>c \<in> set (int_text i). plain c"
    by (auto simp: int_text_def decimal_plain)
qed

text \<open>Inside a string the scan sees only blanks, until the quote that is not escaped.\<close>

lemma hex_char_in_string:
  assumes "d < 16"
  shows "hex_char d \<noteq> CHR 0x22 \<and> hex_char d \<noteq> CHR 0x5C \<and> \<not> is_whitespace (hex_char d)"
proof -
  have "\<forall>d \<in> set [0..<16]. hex_char d \<noteq> CHR 0x22 \<and> hex_char d \<noteq> CHR 0x5C \<and> \<not> is_whitespace (hex_char d)"
    by code_simp
  with assms show ?thesis by simp
qed

lemma scan_in_string_step:
  assumes "1 \<le> sn_depth s" and "sn_in_str s" and "\<not> sn_is_escaped s"
  shows "frame_end idx s (escape c) = None \<and>
     scan_all idx s (escape c) = s\<lparr>sn_whitespaces := sn_whitespaces s + (if c = CHR 0x20 then 1 else 0)\<rparr>"
  using assms hex_char_in_string[of "of_char c div 16"] hex_char_in_string[of "of_char c mod 16"]
  by (auto simp: escape_def scan_byte_def scan_bracket_def complete_def Let_def is_whitespace_def)

lemma scan_in_string:
  assumes "1 \<le> sn_depth s" and "sn_in_str s" and "\<not> sn_is_escaped s"
  shows "frame_end idx s (concat (map escape t)) = None \<and> (\<exists>n \<le> length (concat (map escape t)).
      scan_all idx s (concat (map escape t)) = s\<lparr>sn_whitespaces := sn_whitespaces s + n\<rparr>)"
  using assms
proof (induction t arbitrary: idx s)
  case Nil
  then show ?case by simp
next
  case (Cons c t)
  let ?n = "if c = CHR 0x20 then 1 else 0 :: nat"
  let ?s = "s\<lparr>sn_whitespaces := sn_whitespaces s + ?n\<rparr>" and ?t = "concat (map escape t)"
  have step: "frame_end idx s (escape c) = None" "scan_all idx s (escape c) = ?s"
    using scan_in_string_step[OF Cons.prems, of idx c] by simp_all
  have "1 \<le> sn_depth ?s" "sn_in_str ?s" "\<not> sn_is_escaped ?s" using Cons.prems by simp_all
  from Cons.IH[OF this, of "idx + length (escape c)"] obtain n where
    n: "frame_end (idx + length (escape c)) ?s ?t = None" "n \<le> length ?t"
      "scan_all (idx + length (escape c)) ?s ?t = ?s\<lparr>sn_whitespaces := sn_whitespaces ?s + n\<rparr>"
    by blast
  have "?n \<le> length (escape c)" by (simp add: escape_def)
  then have "?n + n \<le> length (concat (map escape (c # t)))" using n(2) by (simp del: if_split)
  moreover have "scan_all idx s (concat (map escape (c # t))) = s\<lparr>sn_whitespaces := sn_whitespaces s + (?n + n)\<rparr>"
    using step(2) n(3) by (simp add: scan_all_append add.assoc)
  ultimately show ?case
    using n(1) step(2) frame_end_append[OF step(1), of ?t] by auto
qed

lemma quiet_quoted: "quiet (quoted t)"
  unfolding quiet_def
proof (intro allI impI)
  fix idx and s :: scan
  assume s: "1 \<le> sn_depth s \<and> \<not> sn_in_str s \<and> \<not> sn_is_escaped s"
  let ?t = "concat (map escape t)" and ?s = "s\<lparr>sn_in_str := True\<rparr>"
  have quote: "scan_byte i CHR 0x22 s' = s'\<lparr>sn_in_str := \<not> sn_in_str s'\<rparr>" if "\<not> sn_is_escaped s'" for i s'
    using that by (simp add: scan_byte_def scan_bracket_def is_whitespace_def)
  obtain n where n: "frame_end (Suc idx) ?s ?t = None" "n \<le> length ?t"
    "scan_all (Suc idx) ?s ?t = ?s\<lparr>sn_whitespaces := sn_whitespaces ?s + n\<rparr>"
    using scan_in_string[of ?s "Suc idx" t] s by auto
  show "frame_end idx s (quoted t) = None \<and> (\<exists>n \<le> length (quoted t).
      scan_all idx s (quoted t) = s\<lparr>sn_whitespaces := sn_whitespaces s + n\<rparr>)"
    using s n by (cases s)
      (auto simp: quoted_def quote frame_end_append scan_all_append complete_def intro!: exI[of _ n])
qed

lemma quiet_join: "\<forall>x \<in> set xs. quiet x \<Longrightarrow> quiet (str_join '','' xs)"
proof (induction "'',''" xs rule: str_join.induct)
  case (3 x y ys)
  have "quiet '',''" by (rule quiet_plain) (simp add: plain_def is_whitespace_def)
  with 3 have "quiet ('','' @ str_join '','' (y # ys))" by (intro quiet_append) auto
  with 3 show ?case using quiet_append[of x] by auto
qed simp_all

text \<open>A bracketed text, from outside of brackets: complete at its last byte and not before.\<close>

lemma scan_open:
  "byte = CHR ''{'' \<or> byte = CHR ''['' \<Longrightarrow> \<not> sn_in_str s \<Longrightarrow> scan_byte idx byte s = s\<lparr>sn_is_escaped := False,
     sn_start_idx := (if sn_depth s = 0 then idx else sn_start_idx s), sn_depth := sn_depth s + 1\<rparr>"
  by (auto simp: scan_byte_def scan_bracket_def)

lemma scan_close:
  "byte = CHR ''}'' \<or> byte = CHR '']'' \<Longrightarrow> \<not> sn_in_str s \<Longrightarrow> scan_byte idx byte s = s\<lparr>sn_is_escaped := False,
     sn_depth := sn_depth s - 1\<rparr>"
  by (auto simp: scan_byte_def scan_bracket_def)

lemma quiet_bracket:
  assumes "quiet xs" and "b = CHR ''{'' \<or> b = CHR ''[''" and "c = CHR ''}'' \<or> c = CHR '']''"
  shows "quiet (b # xs @ [c])"
  unfolding quiet_def
proof (intro allI impI)
  fix idx and s :: scan
  assume s: "1 \<le> sn_depth s \<and> \<not> sn_in_str s \<and> \<not> sn_is_escaped s"
  let ?s = "s\<lparr>sn_depth := sn_depth s + 1\<rparr>"
  have op: "scan_byte idx b s = ?s" using scan_open[OF assms(2), of s idx] s by (cases s) auto
  obtain n where n: "frame_end (Suc idx) ?s xs = None" "n \<le> length xs"
    "scan_all (Suc idx) ?s xs = ?s\<lparr>sn_whitespaces := sn_whitespaces ?s + n\<rparr>"
    using quietE[OF assms(1), of ?s "Suc idx"] s by auto
  have cl: "scan_byte i c (s\<lparr>sn_depth := sn_depth s + 1, sn_whitespaces := sn_whitespaces s + n\<rparr>) = s\<lparr>sn_whitespaces := sn_whitespaces s + n\<rparr>" for i
    using scan_close[OF assms(3)] s by (cases s) auto
  show "frame_end idx s (b # xs @ [c]) = None \<and> (\<exists>n \<le> length (b # xs @ [c]).
      scan_all idx s (b # xs @ [c]) = s\<lparr>sn_whitespaces := sn_whitespaces s + n\<rparr>)"
    using s n by (auto simp: op cl frame_end_append scan_all_append complete_def Let_def intro!: exI[of _ n])
qed

lemma json_text_quiet: "quiet (json_text j)"
proof (induction j rule: json_text.induct)
  case (2 b)
  then show ?case by (auto intro!: quiet_plains simp: plain_def is_whitespace_def)
next
  case (5 js)
  then show ?case by (auto intro!: quiet_bracket quiet_join)
next
  case (6 kvs)
  have "quiet '':''" by (rule quiet_plain) (simp add: plain_def is_whitespace_def)
  with 6 have "quiet (quoted k @ CHR '':'' # json_text v)" if "(k, v) \<in> set kvs" for k v
    using quiet_append[OF quiet_quoted, of "'':'' @ json_text v" k] quiet_append[of "'':''" "json_text v"] that by force
  then show ?case by (auto intro!: quiet_bracket quiet_join)
qed (auto intro!: quiet_plains quiet_int quiet_quoted simp: plain_def is_whitespace_def)

section \<open>Cutting a stream of messages\<close>

definition blank :: "string \<Rightarrow> bool" where
  "blank ws \<longleftrightarrow> length ws \<le> 1 \<and> (\<forall>c \<in> set ws. is_whitespace c)"

lemma scan_blank:
  assumes "blank ws"
  shows "frame_end 0 scan_init ws = None \<and> scan_all 0 scan_init ws = scan_init\<lparr>sn_whitespaces := length ws\<rparr>"
  using assms by (cases ws) (auto simp: blank_def scan_byte_def scan_bracket_def complete_def scan_init_def is_whitespace_def)

lemma container_shape:
  assumes "is_container j"
  obtains b xs c where "json_text j = b # xs @ [c]" and "b = CHR ''{'' \<or> b = CHR ''[''"
    and "c = CHR ''}'' \<or> c = CHR '']''" and "quiet xs"
proof (cases j)
  case (JArr js)
  then show ?thesis
    using that[of "CHR ''[''" "str_join '','' (map json_text js)" "CHR '']''"]
      quiet_join[of "map json_text js"] json_text_quiet by auto
next
  case (JObj kvs)
  let ?f = "\<lambda>(k, v). quoted k @ CHR '':'' # json_text v"
  have "quiet '':''" by (rule quiet_plain) (simp add: plain_def is_whitespace_def)
  then have "quiet ('':'' @ json_text v)" for v using json_text_quiet by blast
  then have "quiet (quoted k @ '':'' @ json_text v)" for k v using quiet_quoted by blast
  then have "quiet (str_join '','' (map ?f kvs))" by (intro quiet_join) auto
  then show ?thesis
    using JObj that[of "CHR ''{''" "str_join '','' (map ?f kvs)" "CHR ''}''"] by auto
qed (use assms in auto)

lemma frame_end_container:
  assumes "is_container j" and "blank ws"
  shows "frame_end 0 scan_init (ws @ json_text j @ rest) = Some (length ws + length (json_text j) - 1)"
proof -
  obtain b xs c where t: "json_text j = b # xs @ [c]" and b: "b = CHR ''{'' \<or> b = CHR ''[''"
    and c: "c = CHR ''}'' \<or> c = CHR '']''" and "quiet xs"
    using container_shape[OF assms(1)] by blast
  define k where "k = length ws"
  have k: "k \<le> 1" using assms(2) by (simp add: k_def blank_def)
  define s where "s = \<lparr>sn_depth = 1, sn_in_str = False, sn_is_escaped = False, sn_start_idx = k, sn_whitespaces = k\<rparr>"
  have op: "scan_byte k b (scan_init\<lparr>sn_whitespaces := k\<rparr>) = s"
    using scan_open[OF b] by (simp add: scan_init_def s_def)
  obtain n where n: "frame_end (Suc k) s xs = None" "n \<le> length xs"
    "scan_all (Suc k) s xs = s\<lparr>sn_whitespaces := sn_whitespaces s + n\<rparr>"
    using quietE[OF \<open>quiet xs\<close>, of s "Suc k"] by (auto simp: s_def)
  have cl: "scan_byte i c (s\<lparr>sn_whitespaces := sn_whitespaces s + n\<rparr>)
      = s\<lparr>sn_whitespaces := k + n, sn_depth := 0\<rparr>" for i
    using scan_close[OF c] by (simp add: s_def)
  have end': "complete (Suc k + length xs) (s\<lparr>sn_whitespaces := k + n, sn_depth := 0\<rparr>)"
    using n(2) k by (simp add: complete_def s_def)
  have inc: "\<not> complete k s" by (simp add: complete_def s_def)
  have "frame_end (Suc k) s (xs @ c # rest) = Some (Suc k + length xs)"
    unfolding frame_end_append[OF n(1)] using n(3) cl end' by simp
  then have "frame_end k (scan_init\<lparr>sn_whitespaces := k\<rparr>) (json_text j @ rest) = Some (Suc k + length xs)"
    using op inc by (simp add: t)
  then show ?thesis
    using scan_blank[OF assms(2)] t by (simp add: frame_end_append k_def)
qed

lemma position_append: "c \<notin> set xs \<Longrightarrow> position c (xs @ c # ys) = Some (length xs)"
  by (induction xs) auto

text \<open>
  C7.  Framing.  When the peer writes JSON objects and arrays one after the other, with at most one
  blank between them, the decoder of a subscription returns exactly the next message, leaves the
  rest in the buffer, and returns nothing and consumes nothing as long as the message is
  incomplete, at whatever byte the connection has split it.  In the other direction a decoder that
  separates at line feeds gets back every message without one that the codec has encoded.
\<close>

theorem codec_frames:
  assumes "is_container j" and "blank ws" and "is_utf8 (ws @ json_text j)"
    and "CHR 0x0A \<notin> set msg" and "is_utf8 msg"
  shows "decode stream_incoming (ws @ json_text j @ rest) = (Inr (Some (ws @ json_text j)), rest)
     \<and> (\<forall>k. length ws + length (json_text j) \<le> k \<or>
          decode stream_incoming (take k (ws @ json_text j @ rest))
            = (Inr None, take k (ws @ json_text j @ rest)))
     \<and> decode \<lparr>incoming_separator = separator_default, outgoing_separator = separator_default\<rparr>
         (encode stream_incoming msg [] @ rest) = (Inr (Some msg), rest)"
proof -
  let ?t = "ws @ json_text j @ rest" and ?n = "length ws + length (json_text j)"
  have pos: "0 < length (json_text j)" using assms(1) by (cases j) simp_all
  note end' = frame_end_container[OF assms(1,2), of rest]
  have "take ?n ?t = ws @ json_text j" "drop ?n ?t = rest" by simp_all
  then have "decode stream_incoming ?t = (Inr (Some (ws @ json_text j)), rest)"
    using end' assms(3) pos by (simp add: decode_def stream_incoming_def Let_def)
  moreover have "decode stream_incoming (take k ?t) = (Inr None, take k ?t)" if "k < ?n" for k
    using frame_end_take[OF end', of k] that by (simp add: decode_def stream_incoming_def)
  moreover have "decode \<lparr>incoming_separator = separator_default, outgoing_separator = separator_default\<rparr>
       (encode stream_incoming msg [] @ rest) = (Inr (Some msg), rest)"
    using position_append[OF assms(4), of rest] assms(5)
    by (simp add: decode_def encode_def stream_incoming_def separator_default_def)
  ultimately show ?thesis by (meson not_less)
qed

theorem codec_frames_witness:
  "decode stream_incoming (CHR 0x0A # json_text (JObj [(''a]'', JStr ''x \"}'')]) @ ''{\"b\"'')
     = (Inr (Some (CHR 0x0A # ''{\"a]\":\"x '' @ [CHR 0x5C] @ ''\"}\"}'')), ''{\"b\"'')
   \<and> decode stream_incoming (take 9 (CHR 0x0A # json_text (JObj [(''a]'', JStr ''x \"}'')]) @ ''{\"b\"''))
     = (Inr None, CHR 0x0A # ''{\"a]\":\"x'')"
proof -
  let ?j = "JObj [(''a]'', JStr ''x \"}'')]"
  have t: "json_text ?j = ''{\"a]\":\"x '' @ [CHR 0x5C] @ ''\"}\"}''" by code_simp
  have "is_utf8 ([CHR 0x0A] @ json_text ?j)" "is_utf8 ''{}''" unfolding t by (simp_all add: is_utf8_def)
  note framed = codec_frames[of ?j "[CHR 0x0A]" "''{}''" "''{\"b\"''", OF _ _ this(1) _ this(2)]
  have "blank [CHR 0x0A]" by (simp add: blank_def is_whitespace_def)
  then show ?thesis using framed unfolding t by (auto dest: spec[of _ 9])
qed

text \<open>A complete message behind enough blanks is not recognised as one.\<close>

lemma blanks_stall: "decode stream_incoming (''   '' @ json_text (JObj [])) = (Inr None, ''   {}'')"
  by code_simp

end
