(* ===== verification/PubSub.thy ===== *)
theory PubSub
  imports StreamCodec "HOL-Library.Multiset" "HOL-Library.Char_ord" "HOL-Library.List_Lexorder"
begin

text \<open>
  \<open>ckb-testkit/src/subscribe/mod.rs\<close> and \<open>node/subscribe.rs\<close>: subscriptions to a node's topics
  over one connection, on which notifications and the answers to requests arrive interleaved.
  \<open>Framed\<close> (crate \<open>tokio_util\<close>) is the record of the three operations used, and
  \<open>serde_json\<close>'s decoders are parameters.
\<close>

section \<open>The connection\<close>

datatype 'a poll = PollReady 'a | PollPending

record 'w framed =
  fr_send :: "string \<Rightarrow> ('w, stream_error + unit) cmd"
  fr_next :: "('w, (stream_error + string) option) cmd"
  fr_poll :: "('w, (stream_error + string) option poll) cmd"

text \<open>
  \<open>parse_output\<close> is \<open>from_slice::<Output>\<close>, which accepts exactly the answers to requests;
  \<open>parse_id\<close> is \<open>from_value::<String>\<close>; \<open>parse_notification\<close> is \<open>from_slice::<Notification>\<close>
  followed by \<open>params.parse::<Message>()\<close>.
\<close>

record sub_message =
  sm_result :: string
  sm_subscription :: string

record decoders =
  parse_output :: "string \<Rightarrow> rpc_output option"
  parse_id :: "json \<Rightarrow> string option"
  parse_notification :: "string \<Rightarrow> sub_message option"
  error_text :: "json \<Rightarrow> string"

type_synonym topic_list = "string \<rightharpoonup> string"

record 'w sub_client =
  sc_inner :: "'w framed"
  sc_rpc_id :: "64 word"

record 'w sub_handle =
  sh_inner :: "'w framed"
  sh_topic_list :: topic_list
  sh_rpc_id :: "64 word"
  sh_pending_recv :: "string list"

definition request_text :: "64 word \<Rightarrow> string \<Rightarrow> string \<Rightarrow> string" where
  "request_text req_id method param =
     ''{\"id\": '' @ to_decimal (unat req_id) @ '', \"jsonrpc\": \"2.0\", \"method\": \"'' @ method
       @ ''\", \"params\": [\"'' @ param @ ''\"]}''"

section \<open>Subscribing\<close>

text \<open>Reading until an answer to a request comes; what comes before it is kept.\<close>

partial_function (option) await_output ::
    "decoders \<Rightarrow> 'w framed \<Rightarrow> string list \<Rightarrow> 'w \<Rightarrow> ((halt + (stream_error \<times> string list) + (rpc_output \<times> string list)) \<times> 'w) option" where
  "await_output D io pending_recv w =
     bindM (fr_next io) (\<lambda>resp. case resp of
       None \<Rightarrow> ret (Inl (BrokenPipe, pending_recv))
     | Some r \<Rightarrow> (case r of
         Inl e \<Rightarrow> ret (Inl (e, pending_recv))
       | Inr frame \<Rightarrow> (case parse_output D frame of
           Some output \<Rightarrow> ret (Inr (output, pending_recv))
         | None \<Rightarrow> await_output D io (pending_recv @ [frame])))) w"

definition subscribe ::
    "decoders \<Rightarrow> 'w framed \<Rightarrow> 64 word \<Rightarrow> string \<Rightarrow> topic_list \<Rightarrow> string list
      \<Rightarrow> ('w, stream_error + (topic_list \<times> string list)) cmd" where
  "subscribe D io req_id topic topic_list pending_recv =
     tryM (fr_send io (request_text req_id ''subscribe'' topic)) (\<lambda>_.
     tryM (mapC (map_err fst) (await_output D io pending_recv)) (\<lambda>(output, pending_recv).
     case output of
       Success result \<Rightarrow> bindM (expectM UNWRAP (parse_id D result)) (\<lambda>res.
         ret (Inr (topic_list(res \<mapsto> topic), pending_recv)))
     | Failure e \<Rightarrow> ret (Inl (BadData (error_text D e)))))"

definition client_new :: "'w framed \<Rightarrow> 'w sub_client" where
  "client_new io = \<lparr>sc_inner = io, sc_rpc_id = 0\<rparr>"

definition client_subscribe :: "decoders \<Rightarrow> 'w sub_client \<Rightarrow> string \<Rightarrow> ('w, stream_error + 'w sub_handle) cmd" where
  "client_subscribe D self name =
     tryM (subscribe D (sc_inner self) (sc_rpc_id self) name Map.empty []) (\<lambda>(topic_list, pending_recv).
     ret (Inr \<lparr>sh_inner = sc_inner self, sh_topic_list = topic_list, sh_rpc_id = sc_rpc_id self + 1,
       sh_pending_recv = pending_recv\<rparr>))"

primrec subscribe_each ::
    "decoders \<Rightarrow> 'w framed \<Rightarrow> string list \<Rightarrow> 64 word \<Rightarrow> topic_list \<Rightarrow> string list
      \<Rightarrow> ('w, stream_error + (64 word \<times> topic_list \<times> string list)) cmd" where
  "subscribe_each D io [] req_id topic_list pending_recv = ret (Inr (req_id, topic_list, pending_recv))"
| "subscribe_each D io (topic # topics) req_id topic_list pending_recv =
     tryM (subscribe D io req_id topic topic_list pending_recv) (\<lambda>(topic_list, pending_recv).
     subscribe_each D io topics (req_id + 1) topic_list pending_recv)"

definition client_subscribe_list ::
    "decoders \<Rightarrow> 'w sub_client \<Rightarrow> string list \<Rightarrow> ('w, stream_error + 'w sub_handle) cmd" where
  "client_subscribe_list D self name_list =
     tryM (subscribe_each D (sc_inner self) name_list (sc_rpc_id self) Map.empty [])
       (\<lambda>(req_id, topic_list, pending_recv).
     ret (Inr \<lparr>sh_inner = sc_inner self, sh_topic_list = topic_list, sh_rpc_id = req_id,
       sh_pending_recv = pending_recv\<rparr>))"

section \<open>Handles\<close>

definition handle_ids :: "string iter_order \<Rightarrow> 'w sub_handle \<Rightarrow> string list" where
  "handle_ids iter self = hm_keys iter (sh_topic_list self)"

definition handle_topics :: "string iter_order \<Rightarrow> 'w sub_handle \<Rightarrow> string list" where
  "handle_topics iter self = hm_values iter (sh_topic_list self)"

definition handle_try_into :: "'w sub_handle \<Rightarrow> 'w sub_handle + 'w sub_client" where
  "handle_try_into self =
     (if sh_topic_list self = Map.empty then Inr \<lparr>sc_inner = sh_inner self, sc_rpc_id = sh_rpc_id self\<rparr>
      else Inl self)"

definition handle_subscribe ::
    "decoders \<Rightarrow> string iter_order \<Rightarrow> 'w sub_handle \<Rightarrow> string \<Rightarrow> ('w, stream_error + 'w sub_handle) cmd" where
  "handle_subscribe D iter self topic =
     (if list_ex (\<lambda>v. v = topic) (hm_values iter (sh_topic_list self)) then ret (Inr self)
      else tryM (subscribe D (sh_inner self) (sh_rpc_id self) topic (sh_topic_list self) (sh_pending_recv self))
        (\<lambda>(topic_list, pending_recv).
        ret (Inr (self\<lparr>sh_topic_list := topic_list, sh_pending_recv := pending_recv,
                       sh_rpc_id := sh_rpc_id self + 1\<rparr>))))"

text \<open>\<open>unsubscribe\<close> keeps the handle, changed, whether it succeeds or not.\<close>

definition handle_unsubscribe ::
    "decoders \<Rightarrow> string iter_order \<Rightarrow> 'w sub_handle \<Rightarrow> string \<Rightarrow> ('w, (stream_error + unit) \<times> 'w sub_handle) cmd" where
  "handle_unsubscribe D iter self topic =
     (case List.find (\<lambda>k. sh_topic_list self k = Some topic) (hm_keys iter (sh_topic_list self)) of
       None \<Rightarrow> ret (Inr (), self)
     | Some sub_id \<Rightarrow>
         let req_json = request_text (sh_rpc_id self) ''unsubscribe'' sub_id;
             self = self\<lparr>sh_rpc_id := sh_rpc_id self + 1\<rparr>
         in bindM (fr_send (sh_inner self) req_json) (\<lambda>sent. case sent of
              Inl e \<Rightarrow> ret (Inl e, self)
            | Inr _ \<Rightarrow> bindM (await_output D (sh_inner self) (sh_pending_recv self)) (\<lambda>r. case r of
                Inl (e, pending_recv) \<Rightarrow> ret (Inl e, self\<lparr>sh_pending_recv := pending_recv\<rparr>)
              | Inr (output, pending_recv) \<Rightarrow> (case output of
                  Success _ \<Rightarrow> ret (Inr (), self\<lparr>sh_pending_recv := pending_recv,
                                                sh_topic_list := (sh_topic_list self)(sub_id := None)\<rparr>)
                | Failure e \<Rightarrow> ret (Inl (BadData (error_text D e)), self\<lparr>sh_pending_recv := pending_recv\<rparr>)))))"

primrec unsubscribe_each ::
    "decoders \<Rightarrow> string iter_order \<Rightarrow> string list \<Rightarrow> 'w sub_handle \<Rightarrow> ('w, stream_error + 'w sub_handle) cmd" where
  "unsubscribe_each D iter [] self = ret (Inr self)"
| "unsubscribe_each D iter (topic # topics) self =
     bindM (handle_unsubscribe D iter self topic) (\<lambda>(r, self). case r of
       Inl e \<Rightarrow> ret (Inl e)
     | Inr _ \<Rightarrow> unsubscribe_each D iter topics self)"

definition handle_unsubscribe_all ::
    "decoders \<Rightarrow> string iter_order \<Rightarrow> 'w sub_handle \<Rightarrow> ('w, stream_error + 'w sub_client) cmd" where
  "handle_unsubscribe_all D iter self =
     tryM (unsubscribe_each D iter (hm_values iter (sh_topic_list self)) self) (\<lambda>self.
     ret (Inr \<lparr>sc_inner = sh_inner self, sc_rpc_id = sh_rpc_id self\<rparr>))"

text \<open>One notification: its topic and its payload, decoded by \<open>from_str\<close>.\<close>

definition parse_frame ::
    "decoders \<Rightarrow> (string \<Rightarrow> 'f option) \<Rightarrow> topic_list \<Rightarrow> string \<Rightarrow> ('w, stream_error + (string \<times> 'f)) cmd" where
  "parse_frame D from_str topic_list data =
     bindM (expectM ''must parse to notification'' (parse_notification D data)) (\<lambda>message.
     case from_str (sm_result message) of
       Some r \<Rightarrow> bindM (expectM UNWRAP (topic_list (sm_subscription message))) (\<lambda>topic. ret (Inr (topic, r)))
     | None \<Rightarrow> ret (Inl (BadData [])))"

definition handle_poll_next ::
    "decoders \<Rightarrow> (string \<Rightarrow> 'f option) \<Rightarrow> 'w sub_handle
      \<Rightarrow> ('w, (stream_error + (string \<times> 'f)) option poll \<times> 'w sub_handle) cmd" where
  "handle_poll_next D from_str self = (case sh_pending_recv self of
       data # pending_recv \<Rightarrow>
         bindM (parse_frame D from_str (sh_topic_list self) data) (\<lambda>r.
         ret (PollReady (Some r), self\<lparr>sh_pending_recv := pending_recv\<rparr>))
     | [] \<Rightarrow> bindM (fr_poll (sh_inner self)) (\<lambda>p. case p of
         PollPending \<Rightarrow> ret (PollPending, self)
       | PollReady item \<Rightarrow> (case item of
           None \<Rightarrow> ret (PollReady None, self)
         | Some r \<Rightarrow> (case r of
             Inl err \<Rightarrow> ret (PollReady (Some (Inl err)), self)
           | Inr frame \<Rightarrow> bindM (parse_frame D from_str (sh_topic_list self) frame) (\<lambda>r.
               ret (PollReady (Some r), self))))))"

section \<open>The topics of a node\<close>

definition NOT_A_SUBSCRIBE_PORT :: string where
  "NOT_A_SUBSCRIBE_PORT =
     ''not a subscribe port, please set ckb `tcp_listen_address` to use subscribe rpc feature''"

definition subscribe_topic ::
    "(string \<Rightarrow> ('w, stream_error + 'w framed) cmd) \<Rightarrow> decoders \<Rightarrow> string \<Rightarrow> string \<Rightarrow> ('w, stream_error + 'w sub_handle) cmd" where
  "subscribe_topic tcp_connect D topic addr =
     tryM (tcp_connect addr) (\<lambda>io.
     mapC (map_err (\<lambda>_. BadData NOT_A_SUBSCRIBE_PORT)) (client_subscribe_list D (client_new io) [topic]))"

definition subscribe_new_tip_block ::
    "(string \<Rightarrow> ('w, stream_error + 'w framed) cmd) \<Rightarrow> decoders \<Rightarrow> string \<Rightarrow> ('w, stream_error + 'w sub_handle) cmd" where
  "subscribe_new_tip_block tcp_connect D = subscribe_topic tcp_connect D ''new_tip_block''"

definition subscribe_new_tip_header ::
    "(string \<Rightarrow> ('w, stream_error + 'w framed) cmd) \<Rightarrow> decoders \<Rightarrow> string \<Rightarrow> ('w, stream_error + 'w sub_handle) cmd" where
  "subscribe_new_tip_header tcp_connect D = subscribe_topic tcp_connect D ''new_tip_header''"

definition subscribe_new_transaction ::
    "(string \<Rightarrow> ('w, stream_error + 'w framed) cmd) \<Rightarrow> decoders \<Rightarrow> string \<Rightarrow> ('w, stream_error + 'w sub_handle) cmd" where
  "subscribe_new_transaction tcp_connect D = subscribe_topic tcp_connect D ''new_transaction''"

definition subscribe_proposed_transaction ::
    "(string \<Rightarrow> ('w, stream_error + 'w framed) cmd) \<Rightarrow> decoders \<Rightarrow> string \<Rightarrow> ('w, stream_error + 'w sub_handle) cmd" where
  "subscribe_proposed_transaction tcp_connect D = subscribe_topic tcp_connect D ''proposed_transaction''"

definition subscribe_rejected_transaction ::
    "(string \<Rightarrow> ('w, stream_error + 'w framed) cmd) \<Rightarrow> decoders \<Rightarrow> string \<Rightarrow> ('w, stream_error + 'w sub_handle) cmd" where
  "subscribe_rejected_transaction tcp_connect D = subscribe_topic tcp_connect D ''rejected_transaction''"

text \<open>\<open>node/subscribe.rs\<close>: a node keeps one handle per topic; an error panics.\<close>

record 'w subscribers =
  new_tip_block_subscriber :: "'w sub_handle option"
  new_tip_header_subscriber :: "'w sub_handle option"
  new_transaction_subscriber :: "'w sub_handle option"
  proposed_transaction_subscriber :: "'w sub_handle option"
  rejected_transaction_subscriber :: "'w sub_handle option"

definition node_subscribe_new_tip_block ::
    "(string \<Rightarrow> ('w, stream_error + 'w framed) cmd) \<Rightarrow> decoders \<Rightarrow> 'w subscribers \<Rightarrow> string \<Rightarrow> ('w, 'w subscribers) cmd" where
  "node_subscribe_new_tip_block tcp_connect D self addr =
     bindM (bindM (subscribe_new_tip_block tcp_connect D addr) (unwrapM UNWRAP)) (\<lambda>handle.
     ret (self\<lparr>new_tip_block_subscriber := Some handle\<rparr>))"

definition node_subscribe_new_tip_header ::
    "(string \<Rightarrow> ('w, stream_error + 'w framed) cmd) \<Rightarrow> decoders \<Rightarrow> 'w subscribers \<Rightarrow> string \<Rightarrow> ('w, 'w subscribers) cmd" where
  "node_subscribe_new_tip_header tcp_connect D self addr =
     bindM (bindM (subscribe_new_tip_header tcp_connect D addr) (unwrapM UNWRAP)) (\<lambda>handle.
     ret (self\<lparr>new_tip_header_subscriber := Some handle\<rparr>))"

definition node_subscribe_new_transaction ::
    "(string \<Rightarrow> ('w, stream_error + 'w framed) cmd) \<Rightarrow> decoders \<Rightarrow> 'w subscribers \<Rightarrow> string \<Rightarrow> ('w, 'w subscribers) cmd" where
  "node_subscribe_new_transaction tcp_connect D self addr =
     bindM (bindM (subscribe_new_transaction tcp_connect D addr) (unwrapM UNWRAP)) (\<lambda>handle.
     ret (self\<lparr>new_transaction_subscriber := Some handle\<rparr>))"

definition node_subscribe_proposed_transaction ::
    "(string \<Rightarrow> ('w, stream_error + 'w framed) cmd) \<Rightarrow> decoders \<Rightarrow> 'w subscribers \<Rightarrow> string \<Rightarrow> ('w, 'w subscribers) cmd" where
  "node_subscribe_proposed_transaction tcp_connect D self addr =
     bindM (bindM (subscribe_proposed_transaction tcp_connect D addr) (unwrapM UNWRAP)) (\<lambda>handle.
     ret (self\<lparr>proposed_transaction_subscriber := Some handle\<rparr>))"

definition node_subscribe_rejected_transaction ::
    "(string \<Rightarrow> ('w, stream_error + 'w framed) cmd) \<Rightarrow> decoders \<Rightarrow> 'w subscribers \<Rightarrow> string \<Rightarrow> ('w, 'w subscribers) cmd" where
  "node_subscribe_rejected_transaction tcp_connect D self addr =
     bindM (bindM (subscribe_rejected_transaction tcp_connect D addr) (unwrapM UNWRAP)) (\<lambda>handle.
     ret (self\<lparr>rejected_transaction_subscriber := Some handle\<rparr>))"

text \<open>The handle of a topic; asking for one that was never subscribed to panics.\<close>

definition node_new_tip_block_subscriber :: "'w subscribers \<Rightarrow> ('w, 'w sub_handle) cmd" where
  "node_new_tip_block_subscriber self = expectM UNWRAP (new_tip_block_subscriber self)"

definition node_new_tip_header_subscriber :: "'w subscribers \<Rightarrow> ('w, 'w sub_handle) cmd" where
  "node_new_tip_header_subscriber self = expectM UNWRAP (new_tip_header_subscriber self)"

definition node_new_transaction_subscriber :: "'w subscribers \<Rightarrow> ('w, 'w sub_handle) cmd" where
  "node_new_transaction_subscriber self = expectM UNWRAP (new_transaction_subscriber self)"

definition node_proposed_transaction_subscriber :: "'w subscribers \<Rightarrow> ('w, 'w sub_handle) cmd" where
  "node_proposed_transaction_subscriber self = expectM UNWRAP (proposed_transaction_subscriber self)"

definition node_rejected_transaction_subscriber :: "'w subscribers \<Rightarrow> ('w, 'w sub_handle) cmd" where
  "node_rejected_transaction_subscriber self = expectM UNWRAP (rejected_transaction_subscriber self)"

section \<open>One queue\<close>

text \<open>
  The contract of a connection: every frame that will still arrive is in \<open>pv_inbox\<close>, reading takes
  them in order and finds the end of the stream after the last, sending appends to \<open>pv_outbox\<close>.
\<close>

record 'w pipe_view =
  pv_inbox :: "'w \<Rightarrow> string list"
  pv_outbox :: "'w \<Rightarrow> string list"

definition pipe :: "'w framed \<Rightarrow> 'w pipe_view \<Rightarrow> bool" where
  "pipe io V \<longleftrightarrow> (\<forall>w.
     (\<forall>msg. \<exists>w'. fr_send io msg w = Some (Inr (Inr ()), w')
        \<and> pv_inbox V w' = pv_inbox V w \<and> pv_outbox V w' = pv_outbox V w @ [msg])
     \<and> (\<exists>w'. fr_next io w = Some (Inr (case pv_inbox V w of [] \<Rightarrow> None | f # _ \<Rightarrow> Some (Inr f)), w')
        \<and> pv_inbox V w' = tl (pv_inbox V w) \<and> pv_outbox V w' = pv_outbox V w)
     \<and> (\<exists>w'. fr_poll io w = Some (Inr (PollReady (case pv_inbox V w of [] \<Rightarrow> None | f # _ \<Rightarrow> Some (Inr f))), w')
        \<and> pv_inbox V w' = tl (pv_inbox V w) \<and> pv_outbox V w' = pv_outbox V w))"

lemma pipe_send:
  assumes "pipe io V"
  obtains w' where "fr_send io msg w = Some (Inr (Inr ()), w')" "pv_inbox V w' = pv_inbox V w"
    "pv_outbox V w' = pv_outbox V w @ [msg]"
  using assms unfolding pipe_def by blast

lemma pipe_next:
  assumes "pipe io V"
  obtains w' where "fr_next io w = Some (Inr (case pv_inbox V w of [] \<Rightarrow> None | f # _ \<Rightarrow> Some (Inr f)), w')"
    "pv_inbox V w' = tl (pv_inbox V w)" "pv_outbox V w' = pv_outbox V w"
  using assms unfolding pipe_def by blast

lemma pipe_poll:
  assumes "pipe io V"
  obtains w' where "fr_poll io w = Some (Inr (PollReady (case pv_inbox V w of [] \<Rightarrow> None | f # _ \<Rightarrow> Some (Inr f))), w')"
    "pv_inbox V w' = tl (pv_inbox V w)" "pv_outbox V w' = pv_outbox V w"
  using assms unfolding pipe_def by blast

definition is_notif :: "decoders \<Rightarrow> string \<Rightarrow> bool" where
  "is_notif D f \<longleftrightarrow> parse_output D f = None"

text \<open>
  The specification: a handle is one queue of frames, the kept ones before those still to come.  A
  request takes its answer out of the middle of the queue and leaves every notification in place.
\<close>

definition queue :: "'w pipe_view \<Rightarrow> 'w sub_handle \<Rightarrow> 'w \<Rightarrow> string list" where
  "queue V h w = sh_pending_recv h @ pv_inbox V w"

definition take_answer :: "decoders \<Rightarrow> string list \<Rightarrow> (stream_error + rpc_output) \<times> string list" where
  "take_answer D q = (case dropWhile (is_notif D) q of
       [] \<Rightarrow> (Inl BrokenPipe, q)
     | a # rest \<Rightarrow> (Inr (the (parse_output D a)), takeWhile (is_notif D) q @ rest))"

definition kept_ok :: "decoders \<Rightarrow> 'w sub_handle \<Rightarrow> bool" where
  "kept_ok D h \<longleftrightarrow> (\<forall>f \<in> set (sh_pending_recv h). is_notif D f)"

lemma await_output_run:
  assumes "pipe io V"
  shows "\<exists>w'. await_output D io kept w = Some (Inr (case dropWhile (is_notif D) (pv_inbox V w) of
         [] \<Rightarrow> Inl (BrokenPipe, kept @ pv_inbox V w)
       | a # rest \<Rightarrow> Inr (the (parse_output D a), kept @ takeWhile (is_notif D) (pv_inbox V w))), w')
     \<and> pv_inbox V w' = tl (dropWhile (is_notif D) (pv_inbox V w)) \<and> pv_outbox V w' = pv_outbox V w"
proof (induction "pv_inbox V w" arbitrary: w kept)
  case Nil
  then have inbox: "pv_inbox V w = []" by simp
  obtain w' where "fr_next io w = Some (Inr None, w')" "pv_inbox V w' = []" "pv_outbox V w' = pv_outbox V w"
    using pipe_next[OF assms, of w] inbox by force
  then show ?case
    by (subst await_output.simps) (simp add: bindM_run ret_run inbox)
next
  case (Cons f fs)
  then have inbox: "pv_inbox V w = f # fs" by simp
  obtain w1 where w1: "fr_next io w = Some (Inr (Some (Inr f)), w1)" "pv_inbox V w1 = fs" "pv_outbox V w1 = pv_outbox V w"
    using pipe_next[OF assms, of w] inbox by force
  show ?case
  proof (cases "parse_output D f")
    case None
    have "await_output D io kept w = await_output D io (kept @ [f]) w1"
      using w1 None by (subst await_output.simps) (simp add: bindM_run)
    moreover have "is_notif D f" using None by (simp add: is_notif_def)
    ultimately show ?thesis
      unfolding inbox using Cons.hyps(1)[of w1 "kept @ [f]"] w1 by (simp cong: list.case_cong)
  next
    case (Some out)
    then have "await_output D io kept w = Some (Inr (Inr (out, kept)), w1)"
      using w1 by (subst await_output.simps) (simp add: bindM_run ret_run)
    with w1 Some show ?thesis by (simp add: is_notif_def inbox)
  qed
qed

lemma take_answer_kept:
  assumes "kept_ok D h"
  shows "take_answer D (queue V h w) = (case dropWhile (is_notif D) (pv_inbox V w) of
     [] \<Rightarrow> (Inl BrokenPipe, queue V h w)
   | a # rest \<Rightarrow> (Inr (the (parse_output D a)), sh_pending_recv h @ takeWhile (is_notif D) (pv_inbox V w) @ rest))"
proof -
  have dw: "dropWhile (is_notif D) (queue V h w) = dropWhile (is_notif D) (pv_inbox V w)"
    and tw: "takeWhile (is_notif D) (queue V h w) = sh_pending_recv h @ takeWhile (is_notif D) (pv_inbox V w)"
    using assms by (simp_all add: queue_def kept_ok_def)
  show ?thesis unfolding take_answer_def dw tw append_assoc ..
qed

text \<open>A request whose message is sent: the answer leaves the queue, and nothing else does.\<close>

lemma request_run:
  assumes "pipe io V" and "kept_ok D h" and "take_answer D (queue V h w) = (r, q)"
  shows "\<exists>w1 w2 kept. fr_send io msg w = Some (Inr (Inr ()), w1)
     \<and> await_output D io (sh_pending_recv h) w1
         = Some (Inr (case r of Inl e \<Rightarrow> Inl (e, kept) | Inr out \<Rightarrow> Inr (out, kept)), w2)
     \<and> kept @ pv_inbox V w2 = q \<and> (\<forall>f \<in> set kept. is_notif D f)
     \<and> pv_outbox V w2 = pv_outbox V w @ [msg]"
proof -
  obtain w1 where w1: "fr_send io msg w = Some (Inr (Inr ()), w1)" "pv_inbox V w1 = pv_inbox V w"
    "pv_outbox V w1 = pv_outbox V w @ [msg]"
    using pipe_send[OF assms(1)] by blast
  have kept: "\<forall>f \<in> set (sh_pending_recv h @ takeWhile (is_notif D) (pv_inbox V w)). is_notif D f"
    using assms(2) by (auto simp: kept_ok_def dest: set_takeWhileD)
  show ?thesis
  proof (cases "dropWhile (is_notif D) (pv_inbox V w)")
    case Nil
    then have tw: "takeWhile (is_notif D) (pv_inbox V w) = pv_inbox V w"
      by (metis append_Nil2 takeWhile_dropWhile_id)
    have rq: "r = Inl BrokenPipe" "q = queue V h w"
      using assms(3) unfolding take_answer_kept[OF assms(2)] Nil by simp_all
    obtain w2 where "await_output D io (sh_pending_recv h) w1
        = Some (Inr (Inl (BrokenPipe, sh_pending_recv h @ pv_inbox V w)), w2)"
      "pv_inbox V w2 = []" "pv_outbox V w2 = pv_outbox V w1"
      using await_output_run[OF assms(1), of D "sh_pending_recv h" w1] unfolding w1(2) Nil by auto
    with w1 kept tw rq show ?thesis by (auto simp: queue_def)
  next
    case (Cons a rest)
    have rq: "r = Inr (the (parse_output D a))"
      "q = sh_pending_recv h @ takeWhile (is_notif D) (pv_inbox V w) @ rest"
      using assms(3) unfolding take_answer_kept[OF assms(2)] Cons by simp_all
    obtain w2 where "await_output D io (sh_pending_recv h) w1
        = Some (Inr (Inr (the (parse_output D a), sh_pending_recv h @ takeWhile (is_notif D) (pv_inbox V w))), w2)"
      "pv_inbox V w2 = rest" "pv_outbox V w2 = pv_outbox V w1"
      using await_output_run[OF assms(1), of D "sh_pending_recv h" w1] unfolding w1(2) Cons by auto
    with w1 kept rq show ?thesis by auto
  qed
qed

lemma subscribe_run:
  assumes "pipe io V" and "kept_ok D h" and "take_answer D (queue V h w) = (Inr (Success v), q)"
    and "parse_id D v = Some res"
  shows "\<exists>w' kept. subscribe D io i topic T (sh_pending_recv h) w = Some (Inr (Inr (T(res \<mapsto> topic), kept)), w')
     \<and> kept @ pv_inbox V w' = q \<and> (\<forall>f \<in> set kept. is_notif D f)
     \<and> pv_outbox V w' = pv_outbox V w @ [request_text i ''subscribe'' topic]"
proof -
  obtain w1 w2 kept where r: "fr_send io (request_text i ''subscribe'' topic) w = Some (Inr (Inr ()), w1)"
    "await_output D io (sh_pending_recv h) w1 = Some (Inr (Inr (Success v, kept)), w2)"
    "kept @ pv_inbox V w2 = q" "\<forall>f \<in> set kept. is_notif D f"
    "pv_outbox V w2 = pv_outbox V w @ [request_text i ''subscribe'' topic]"
    using request_run[OF assms(1-3), of "request_text i ''subscribe'' topic"] by auto
  then show ?thesis
    using assms(4) by (auto simp: subscribe_def tryM_run_Inr mapC_run ret_run)
qed

lemma find_subscription:
  assumes "iterates iter" and "finite (dom T)" and "t \<in> ran T"
  obtains k where "List.find (\<lambda>k. T k = Some t) (hm_keys iter T) = Some k" and "T k = Some t"
proof -
  obtain k where "T k = Some t" using assms(3) by (auto simp: ran_def)
  then have "List.find (\<lambda>k. T k = Some t) (hm_keys iter T) \<noteq> None"
    using set_hm_keys[OF assms(1,2)] by (auto simp: find_None_iff)
  then show ?thesis using that by (auto dest: find_SomeD)
qed

text \<open>\<open>unsubscribe_all\<close>: every answer that will come, in turn, is a success.\<close>

definition successes :: "decoders \<Rightarrow> nat \<Rightarrow> string list \<Rightarrow> bool" where
  "successes D n q \<longleftrightarrow> n \<le> length (filter (\<lambda>f. \<not> is_notif D f) q)
     \<and> (\<forall>f \<in> set (take n (filter (\<lambda>f. \<not> is_notif D f) q)). \<exists>v. parse_output D f = Some (Success v))"

primrec unsubscribe_requests :: "64 word \<Rightarrow> string list \<Rightarrow> string list" where
  "unsubscribe_requests i [] = []"
| "unsubscribe_requests i (sub_id # ids) = request_text i ''unsubscribe'' sub_id # unsubscribe_requests (i + 1) ids"

lemma take_answer_success:
  assumes "successes D (Suc n) q"
  obtains v q' where "take_answer D q = (Inr (Success v), q')" and "successes D n q'"
    and "filter (is_notif D) q' = filter (is_notif D) q"
proof -
  let ?no = "\<lambda>f. \<not> is_notif D f"
  have "filter ?no q \<noteq> []" using assms by (auto simp: successes_def)
  then have "dropWhile (is_notif D) q \<noteq> []" by (auto simp: filter_empty_conv dropWhile_eq_Nil_conv)
  then obtain a rest where d: "dropWhile (is_notif D) q = a # rest" by (meson neq_Nil_conv)
  let ?pre = "takeWhile (is_notif D) q"
  have q: "q = ?pre @ a # rest" using d by (metis takeWhile_dropWhile_id)
  have pre: "\<forall>x \<in> set ?pre. is_notif D x" by (auto dest: set_takeWhileD)
  have a: "\<not> is_notif D a" using d by (metis hd_dropWhile list.sel(1) list.distinct(1))
  have fpre: "filter ?no ?pre = []" using pre by (auto simp: filter_empty_conv)
  have fq: "filter ?no q = a # filter ?no rest" using fpre a by (subst q) simp
  obtain v where v: "parse_output D a = Some (Success v)" using assms by (auto simp: successes_def fq)
  show ?thesis
  proof (rule that[of v "?pre @ rest"])
    show "take_answer D q = (Inr (Success v), ?pre @ rest)" by (simp add: take_answer_def d v)
    show "successes D n (?pre @ rest)" using assms fpre by (auto simp: successes_def fq)
    show "filter (is_notif D) (?pre @ rest) = filter (is_notif D) q" using a by (subst (2) q) simp
  qed
qed

lemma unsubscribe_run:
  assumes "pipe (sh_inner h) V" and "kept_ok D h" and "iterates iter" and "finite (dom (sh_topic_list h))"
    and "take_answer D (queue V h w) = (Inr (Success v), q)" and "topic \<in> ran (sh_topic_list h)"
  shows "\<exists>k h' w'. handle_unsubscribe D iter h topic w = Some (Inr (Inr (), h'), w')
     \<and> queue V h' w' = q \<and> kept_ok D h' \<and> sh_topic_list h k = Some topic
     \<and> sh_topic_list h' = (sh_topic_list h)(k := None) \<and> sh_inner h' = sh_inner h
     \<and> sh_rpc_id h' = sh_rpc_id h + 1
     \<and> pv_outbox V w' = pv_outbox V w @ [request_text (sh_rpc_id h) ''unsubscribe'' k]"
proof -
  obtain k where k: "List.find (\<lambda>k. sh_topic_list h k = Some topic) (hm_keys iter (sh_topic_list h)) = Some k"
    "sh_topic_list h k = Some topic"
    using find_subscription[OF assms(3,4,6)] by blast
  let ?msg = "request_text (sh_rpc_id h) ''unsubscribe'' k"
  obtain w1 w2 kept where r: "fr_send (sh_inner h) ?msg w = Some (Inr (Inr ()), w1)"
    "await_output D (sh_inner h) (sh_pending_recv h) w1 = Some (Inr (Inr (Success v, kept)), w2)"
    "kept @ pv_inbox V w2 = q" "\<forall>f \<in> set kept. is_notif D f" "pv_outbox V w2 = pv_outbox V w @ [?msg]"
    using request_run[OF assms(1,2,5), of ?msg] by auto
  then show ?thesis
    using k by (intro exI[of _ k]) (auto simp: handle_unsubscribe_def Let_def bindM_run ret_run queue_def kept_ok_def)
qed

text \<open>
  C6.  The notifications a handle keeps while it waits for an answer are invisible: seen from
  outside a handle is a single queue of frames.  Polling delivers the oldest frame under the topic it was
  subscribed as; subscribing to a further topic and unsubscribing send one request, take exactly
  its answer out of the queue, and lose, repeat and reorder no notification.  Subscribing to a
  topic twice sends nothing.
\<close>

theorem handle_is_queue:
  assumes "pipe (sh_inner h) V" and "kept_ok D h" and "iterates iter" and "finite (dom (sh_topic_list h))"
    and "take_answer D (queue V h w) = (Inr (Success v), q)" and "parse_id D v = Some res"
    and "queue V h w0 = f # later"
    and "parse_notification D f = Some m" and "from_str (sm_result m) = Some x"
    and "sh_topic_list h (sm_subscription m) = Some topic"
  shows "(if new_topic \<in> ran (sh_topic_list h)
      then handle_subscribe D iter h new_topic w = Some (Inr (Inr h), w)
      else \<exists>h' w'. handle_subscribe D iter h new_topic w = Some (Inr (Inr h'), w')
        \<and> queue V h' w' = q \<and> kept_ok D h' \<and> sh_topic_list h' = (sh_topic_list h)(res \<mapsto> new_topic)
        \<and> pv_outbox V w' = pv_outbox V w @ [request_text (sh_rpc_id h) ''subscribe'' new_topic])
   \<and> (\<exists>k h' w'. handle_unsubscribe D iter h topic w = Some (Inr (Inr (), h'), w')
        \<and> queue V h' w' = q \<and> kept_ok D h' \<and> sh_topic_list h k = Some topic
        \<and> sh_topic_list h' = (sh_topic_list h)(k := None)
        \<and> pv_outbox V w' = pv_outbox V w @ [request_text (sh_rpc_id h) ''unsubscribe'' k])
   \<and> (\<exists>h' w'. handle_poll_next D from_str h w0 = Some (Inr (PollReady (Some (Inr (topic, x))), h'), w')
        \<and> queue V h' w' = later \<and> kept_ok D h' \<and> sh_topic_list h' = sh_topic_list h)"
proof (intro conjI)
  show "if new_topic \<in> ran (sh_topic_list h)
      then handle_subscribe D iter h new_topic w = Some (Inr (Inr h), w)
      else \<exists>h' w'. handle_subscribe D iter h new_topic w = Some (Inr (Inr h'), w')
        \<and> queue V h' w' = q \<and> kept_ok D h' \<and> sh_topic_list h' = (sh_topic_list h)(res \<mapsto> new_topic)
        \<and> pv_outbox V w' = pv_outbox V w @ [request_text (sh_rpc_id h) ''subscribe'' new_topic]"
    using subscribe_run[OF assms(1,2,5,6), of "sh_rpc_id h" new_topic "sh_topic_list h"]
    by (auto simp: handle_subscribe_def list_ex_iff set_hm_values[OF assms(3,4)] ret_run tryM_run_Inr
        queue_def kept_ok_def)
  have "topic \<in> ran (sh_topic_list h)" using assms(10) by (auto simp: ran_def)
  from unsubscribe_run[OF assms(1-5) this]
  show "\<exists>k h' w'. handle_unsubscribe D iter h topic w = Some (Inr (Inr (), h'), w')
        \<and> queue V h' w' = q \<and> kept_ok D h' \<and> sh_topic_list h k = Some topic
        \<and> sh_topic_list h' = (sh_topic_list h)(k := None)
        \<and> pv_outbox V w' = pv_outbox V w @ [request_text (sh_rpc_id h) ''unsubscribe'' k]"
    by blast
  have parsed: "parse_frame D from_str (sh_topic_list h) f = (ret (Inr (topic, x))
      :: ('a, stream_error + (string \<times> 'b)) cmd)"
    using assms(8-10) by (simp add: parse_frame_def)
  show "\<exists>h' w'. handle_poll_next D from_str h w0 = Some (Inr (PollReady (Some (Inr (topic, x))), h'), w')
        \<and> queue V h' w' = later \<and> kept_ok D h' \<and> sh_topic_list h' = sh_topic_list h"
  proof (cases "sh_pending_recv h")
    case (Cons f' kept)
    then show ?thesis
      using assms(2,7) parsed by (auto simp: handle_poll_next_def queue_def kept_ok_def ret_run)
  next
    case Nil
    then have inbox: "pv_inbox V w0 = f # later" using assms(7) by (simp add: queue_def)
    obtain w' where "fr_poll (sh_inner h) w0 = Some (Inr (PollReady (Some (Inr f))), w')" "pv_inbox V w' = later"
      using pipe_poll[OF assms(1), of w0] unfolding inbox by auto
    then show ?thesis
      using Nil parsed assms(2) by (auto simp: handle_poll_next_def queue_def bindM_run ret_run)
  qed
qed

text \<open>A connection with a list of frames to come, and a protocol simple enough to read.\<close>

definition list_pipe :: "(string list \<times> string list) framed" where
  "list_pipe = \<lparr>fr_send = (\<lambda>msg (ins, outs). Some (Inr (Inr ()), (ins, outs @ [msg]))),
     fr_next = (\<lambda>(ins, outs). Some (Inr (case ins of [] \<Rightarrow> None | f # _ \<Rightarrow> Some (Inr f)), (tl ins, outs))),
     fr_poll = (\<lambda>(ins, outs). Some (Inr (PollReady (case ins of [] \<Rightarrow> None | f # _ \<Rightarrow> Some (Inr f))), (tl ins, outs)))\<rparr>"

definition list_view :: "(string list \<times> string list) pipe_view" where
  "list_view = \<lparr>pv_inbox = fst, pv_outbox = snd\<rparr>"

definition toy_decoders :: decoders where
  "toy_decoders = \<lparr>
     parse_output = (\<lambda>f. if take 1 f = ''r'' then Some (Success (JStr (drop 1 f))) else None),
     parse_id = (\<lambda>j. case j of JStr s \<Rightarrow> Some s | _ \<Rightarrow> None),
     parse_notification = (\<lambda>f. Some \<lparr>sm_result = drop 1 f, sm_subscription = take 1 f\<rparr>),
     error_text = (\<lambda>_. [])\<rparr>"

lemma list_pipe_ok: "pipe list_pipe list_view"
  by (auto simp: pipe_def list_pipe_def list_view_def split: list.split)

definition toy_handle :: "(string list \<times> string list) sub_handle" where
  "toy_handle = \<lparr>sh_inner = list_pipe, sh_topic_list = [''7'' \<mapsto> ''new_tip_header''], sh_rpc_id = 1, sh_pending_recv = [''7one'']\<rparr>"

theorem handle_is_queue_witness:
  "let D = toy_decoders; V = list_view; h = toy_handle; w = ([''7two'', ''r8'', ''7three''], []); q = [''7one'', ''7two'', ''7three'']
   in (\<exists>h' w'. handle_subscribe D sorted_list_of_set h ''new_transaction'' w = Some (Inr (Inr h'), w')
        \<and> queue V h' w' = q \<and> kept_ok D h'
        \<and> sh_topic_list h' = [''7'' \<mapsto> ''new_tip_header'', ''8'' \<mapsto> ''new_transaction''])
    \<and> (\<exists>h' w'. handle_poll_next D Some h w = Some (Inr (PollReady (Some (Inr (''new_tip_header'', ''one''))), h'), w')
        \<and> queue V h' w' = [''7two'', ''r8'', ''7three''])"
proof -
  let ?w = "([''7two'', ''r8'', ''7three''], []) :: string list \<times> string list"
  have h: "pipe (sh_inner toy_handle) list_view" "kept_ok toy_decoders toy_handle"
    "finite (dom (sh_topic_list toy_handle))"
    by (simp_all add: toy_handle_def list_pipe_ok kept_ok_def is_notif_def toy_decoders_def)
  have q: "take_answer toy_decoders (queue list_view toy_handle ?w)
      = (Inr (Success (JStr ''8'')), [''7one'', ''7two'', ''7three''])"
    "parse_id toy_decoders (JStr ''8'') = Some ''8''"
    "queue list_view toy_handle ?w = ''7one'' # [''7two'', ''r8'', ''7three'']"
    "parse_notification toy_decoders ''7one'' = Some \<lparr>sm_result = ''one'', sm_subscription = ''7''\<rparr>"
    "Some (sm_result \<lparr>sm_result = ''one'', sm_subscription = ''7''\<rparr>) = Some ''one''"
    "sh_topic_list toy_handle (sm_subscription \<lparr>sm_result = ''one'', sm_subscription = ''7''\<rparr>) = Some ''new_tip_header''"
    by (simp_all add: take_answer_def queue_def list_view_def toy_handle_def is_notif_def toy_decoders_def)
  show ?thesis
    using handle_is_queue[where from_str = Some and x = "''one''" and new_topic = "''new_transaction''",
        OF h(1,2) iterates_sorted h(3) q]
    by (auto simp: toy_handle_def Let_def)
qed

lemma unsubscribe_each_run:
  assumes "iterates iter" and "pipe (sh_inner h) V" and "kept_ok D h" and "finite (dom (sh_topic_list h))"
    and "mset topics = image_mset (\<lambda>k. the (sh_topic_list h k)) (mset_set (dom (sh_topic_list h)))"
    and "successes D (length topics) (queue V h w)"
  shows "\<exists>h' w' ids. unsubscribe_each D iter topics h w = Some (Inr (Inr h'), w')
     \<and> sh_inner h' = sh_inner h \<and> sh_topic_list h' = Map.empty \<and> sh_rpc_id h' = sh_rpc_id h + of_nat (length topics)
     \<and> distinct ids \<and> set ids = dom (sh_topic_list h)
     \<and> pv_outbox V w' = pv_outbox V w @ unsubscribe_requests (sh_rpc_id h) ids"
  using assms(2-)
proof (induction topics arbitrary: h w)
  case Nil
  then have "dom (sh_topic_list h) = {}" by (simp add: mset_set_empty_iff)
  then show ?case by (auto simp: ret_run intro: exI[of _ "[]"])
next
  case (Cons topic topics)
  let ?T = "sh_topic_list h"
  have "topic \<in># image_mset (\<lambda>k. the (?T k)) (mset_set (dom ?T))"
    using Cons.prems(4) by (metis list.set_intros(1) set_mset_mset)
  then have ran: "topic \<in> ran ?T" using Cons.prems(3) by (auto simp: ran_def)
  obtain v q where q: "take_answer D (queue V h w) = (Inr (Success v), q)" "successes D (length topics) q"
    by (rule take_answer_success[of D "length topics" "queue V h w"]) (use Cons.prems(5) in simp_all)
  obtain k h1 w1 where step: "handle_unsubscribe D iter h topic w = Some (Inr (Inr (), h1), w1)"
    "queue V h1 w1 = q" "kept_ok D h1" "?T k = Some topic" "sh_topic_list h1 = ?T(k := None)"
    "sh_inner h1 = sh_inner h" "sh_rpc_id h1 = sh_rpc_id h + 1"
    "pv_outbox V w1 = pv_outbox V w @ [request_text (sh_rpc_id h) ''unsubscribe'' k]"
    using unsubscribe_run[OF Cons.prems(1,2) assms(1) Cons.prems(3) q(1) ran] by blast
  have k: "k \<in> dom ?T" using step(4) by auto
  have dom1: "dom (sh_topic_list h1) = dom ?T - {k}" using step(5) by auto
  have "image_mset (\<lambda>k. the (?T k)) (mset_set (dom ?T))
      = {#topic#} + image_mset (\<lambda>k. the (?T k)) (mset_set (dom ?T - {k}))"
    using mset_set.remove[OF Cons.prems(3) k] step(4) by simp
  moreover have "image_mset (\<lambda>k. the (?T k)) (mset_set (dom ?T - {k}))
      = image_mset (\<lambda>k. the (sh_topic_list h1 k)) (mset_set (dom ?T - {k}))"
    using Cons.prems(3) step(5) by (intro image_mset_cong) auto
  ultimately have m: "mset topics = image_mset (\<lambda>k. the (sh_topic_list h1 k)) (mset_set (dom (sh_topic_list h1)))"
    using Cons.prems(4) dom1 by simp
  obtain h' w' ids where rest: "unsubscribe_each D iter topics h1 w1 = Some (Inr (Inr h'), w')"
    "sh_inner h' = sh_inner h1" "sh_topic_list h' = Map.empty" "sh_rpc_id h' = sh_rpc_id h1 + of_nat (length topics)"
    "distinct ids" "set ids = dom (sh_topic_list h1)"
    "pv_outbox V w' = pv_outbox V w1 @ unsubscribe_requests (sh_rpc_id h1) ids"
  proof -
    have "pipe (sh_inner h1) V" "finite (dom (sh_topic_list h1))" "successes D (length topics) (queue V h1 w1)"
      using Cons.prems(1,3) q(2) step(2,6) dom1 by simp_all
    from Cons.IH[OF this(1) step(3) this(2) m this(3)] show thesis using that by blast
  qed
  have "unsubscribe_each D iter (topic # topics) h w = Some (Inr (Inr h'), w')"
    using step(1) rest(1) by (simp add: bindM_run)
  moreover have "distinct (k # ids)" "set (k # ids) = dom ?T" using rest(5,6) dom1 k by auto
  moreover have "pv_outbox V w' = pv_outbox V w @ unsubscribe_requests (sh_rpc_id h) (k # ids)"
    using rest(7) step(7,8) by simp
  ultimately show ?case
    using rest(2-4) step(6,7) by (intro exI[of _ h'] exI[of _ w'] exI[of _ "k # ids"]) (simp add: add.assoc)
qed

text \<open>
  Unsubscribing from everything sends exactly one request per subscription, each naming a
  different subscription and under its own request number, also where a topic has several, and
  gives the connection back as a client with no subscription left; it always returns when the node answers.
\<close>

theorem unsubscribe_all_clean:
  assumes "pipe (sh_inner h) V" and "kept_ok D h" and "iterates iter" and "finite (dom (sh_topic_list h))"
    and "successes D (card (dom (sh_topic_list h))) (queue V h w)"
  shows "\<exists>c w' ids. handle_unsubscribe_all D iter h w = Some (Inr (Inr c), w') \<and> sc_inner c = sh_inner h
     \<and> sc_rpc_id c = sh_rpc_id h + of_nat (card (dom (sh_topic_list h)))
     \<and> distinct ids \<and> set ids = dom (sh_topic_list h)
     \<and> pv_outbox V w' = pv_outbox V w @ unsubscribe_requests (sh_rpc_id h) ids"
proof -
  let ?T = "sh_topic_list h" and ?topics = "hm_values iter (sh_topic_list h)"
  have ids: "distinct (iter (dom ?T))" "set (iter (dom ?T)) = dom ?T" using iteratesD[OF assms(3,4)] by simp_all
  then have "mset (iter (dom ?T)) = mset_set (dom ?T)" by (metis mset_set_set)
  then have m: "mset ?topics = image_mset (\<lambda>k. the (?T k)) (mset_set (dom ?T))"
    by (simp add: hm_values_def)
  have len: "length ?topics = card (dom ?T)" using length_hm_values[OF assms(3,4)] .
  show ?thesis
    using unsubscribe_each_run[OF assms(3,1,2,4) m, of w] assms(5) unfolding len
    by (auto simp: handle_unsubscribe_all_def tryM_run_Inr ret_run)
qed

definition two_topics :: "(string list \<times> string list) sub_handle" where
  "two_topics = toy_handle\<lparr>sh_topic_list := [''7'' \<mapsto> ''new_tip_header'', ''9'' \<mapsto> ''new_tip_header'']\<rparr>"

theorem unsubscribe_all_clean_witness:
  "\<exists>c w' ids. handle_unsubscribe_all toy_decoders sorted_list_of_set two_topics ([''rtrue'', ''7two'', ''rtrue''], [])
       = Some (Inr (Inr c), w') \<and> sc_rpc_id c = 3 \<and> distinct ids \<and> set ids = {''7'', ''9''}
     \<and> snd w' = unsubscribe_requests 1 ids"
proof -
  have dom: "dom (sh_topic_list two_topics) = {''7'', ''9''}" by (auto simp: two_topics_def)
  have h: "pipe (sh_inner two_topics) list_view" "kept_ok toy_decoders two_topics"
    by (simp_all add: two_topics_def toy_handle_def list_pipe_ok kept_ok_def is_notif_def toy_decoders_def)
  have s: "successes toy_decoders (card (dom (sh_topic_list two_topics)))
      (queue list_view two_topics ([''rtrue'', ''7two'', ''rtrue''], []))"
    unfolding dom by (simp add: successes_def is_notif_def toy_decoders_def queue_def two_topics_def toy_handle_def list_view_def)
  have "finite (dom (sh_topic_list two_topics))" unfolding dom by simp
  from unsubscribe_all_clean[OF h iterates_sorted this s] show ?thesis
    unfolding dom by (auto simp: two_topics_def toy_handle_def list_view_def)
qed

end
