(* ===== verification/SupportProtocols.thy ===== *)
theory SupportProtocols
  imports CkbTypes
begin

text \<open>
  \<open>ckb-testkit/src/connector/support_protocols.rs\<close>: the protocols of CKB's network, with the
  identifiers, names, versions, frame limits and blocking flags they are registered with.
  \<open>BlockingFlag\<close> and \<open>MetaBuilder\<close> are tentacle's: a flag is the four callbacks it blocks on,
  and a meta the values the builder was given.
\<close>

datatype support_protocols =
    Ping | Discovery | Identify | Feeler | DisconnectMessage
  | Sync | Relay | RelayV2 | Time | Alert

fun protocol_id :: "support_protocols \<Rightarrow> nat" where
  "protocol_id Ping = 0"
| "protocol_id Discovery = 1"
| "protocol_id Identify = 2"
| "protocol_id Feeler = 3"
| "protocol_id DisconnectMessage = 4"
| "protocol_id Sync = 100"
| "protocol_id Relay = 101"
| "protocol_id Time = 102"
| "protocol_id RelayV2 = 103"
| "protocol_id Alert = 110"

fun protocol_name :: "support_protocols \<Rightarrow> string" where
  "protocol_name Ping = ''/ckb/ping''"
| "protocol_name Discovery = ''/ckb/discovery''"
| "protocol_name Identify = ''/ckb/identify''"
| "protocol_name Feeler = ''/ckb/flr''"
| "protocol_name DisconnectMessage = ''/ckb/disconnectmsg''"
| "protocol_name Sync = ''/ckb/syn''"
| "protocol_name Relay = ''/ckb/rel''"
| "protocol_name RelayV2 = ''/ckb/relay''"
| "protocol_name Time = ''/ckb/tim''"
| "protocol_name Alert = ''/ckb/alt''"

fun support_versions :: "support_protocols \<Rightarrow> string list" where
  "support_versions Ping = [''0.0.1'', ''2'']"
| "support_versions Discovery = [''0.0.1'', ''2'']"
| "support_versions Identify = [''0.0.1'', ''2'']"
| "support_versions Feeler = [''0.0.1'', ''2'']"
| "support_versions DisconnectMessage = [''0.0.1'', ''2'']"
| "support_versions Sync = [''1'', ''2'']"
| "support_versions Relay = [''1'']"
| "support_versions Time = [''1'', ''2'']"
| "support_versions Alert = [''1'', ''2'']"
| "support_versions RelayV2 = [''2'']"

fun max_frame_length :: "support_protocols \<Rightarrow> nat" where
  "max_frame_length Ping = 1024"
| "max_frame_length Discovery = 512 * 1024"
| "max_frame_length Identify = 2 * 1024"
| "max_frame_length Feeler = 1024"
| "max_frame_length DisconnectMessage = 1024"
| "max_frame_length Sync = 2 * 1024 * 1024"
| "max_frame_length Relay = 4 * 1024 * 1024"
| "max_frame_length RelayV2 = 4 * 1024 * 1024"
| "max_frame_length Time = 1024"
| "max_frame_length Alert = 128 * 1024"

text \<open>tentacle's \<open>BlockingFlag\<close>: by default every callback blocks.\<close>

record blocking_flag =
  blocks_connected :: bool
  blocks_disconnected :: bool
  blocks_received :: bool
  blocks_notify :: bool

definition default_flag :: blocking_flag where
  "default_flag = \<lparr>blocks_connected = True, blocks_disconnected = True,
     blocks_received = True, blocks_notify = True\<rparr>"

definition disable_all :: "blocking_flag \<Rightarrow> blocking_flag" where
  "disable_all f = f\<lparr>blocks_connected := False, blocks_disconnected := False,
     blocks_received := False, blocks_notify := False\<rparr>"

fun protocol_flag :: "support_protocols \<Rightarrow> blocking_flag" where
  "protocol_flag p =
     (case p of
        Ping \<Rightarrow> disable_all default_flag
      | Discovery \<Rightarrow> disable_all default_flag
      | Identify \<Rightarrow> disable_all default_flag
      | Feeler \<Rightarrow> disable_all default_flag
      | DisconnectMessage \<Rightarrow> disable_all default_flag
      | Time \<Rightarrow> disable_all default_flag
      | Alert \<Rightarrow> disable_all default_flag
      | _ \<Rightarrow> default_flag\<lparr>blocks_connected := False\<rparr>
             \<lparr>blocks_disconnected := False\<rparr>\<lparr>blocks_notify := False\<rparr>)"

text \<open>What \<open>From<SupportProtocols> for MetaBuilder\<close> registers, with the wire transformers.\<close>

record protocol_meta =
  meta_id :: nat
  meta_name :: string
  meta_versions :: "string list"
  meta_flag :: blocking_flag
  meta_max_frame :: nat
  meta_before_send :: "bytes \<Rightarrow> bytes"
  meta_before_receive :: "bytes \<Rightarrow> io_error + bytes"

definition meta_builder :: "support_protocols \<Rightarrow> protocol_meta" where
  "meta_builder p = \<lparr>meta_id = protocol_id p, meta_name = protocol_name p,
     meta_versions = support_versions p, meta_flag = protocol_flag p,
     meta_max_frame = max_frame_length p,
     meta_before_send = (\<lambda>d. d), meta_before_receive = Inr\<rparr>"

instantiation support_protocols :: linorder
begin

definition less_eq_support_protocols :: "support_protocols \<Rightarrow> support_protocols \<Rightarrow> bool" where
  "less_eq_support_protocols p q \<longleftrightarrow> protocol_id p \<le> protocol_id q"

definition less_support_protocols :: "support_protocols \<Rightarrow> support_protocols \<Rightarrow> bool" where
  "less_support_protocols p q \<longleftrightarrow> protocol_id p < protocol_id q"

lemma protocol_id_inj: "protocol_id p = protocol_id q \<Longrightarrow> p = q"
  by (cases p; cases q) simp_all

instance
  by standard (auto simp: less_eq_support_protocols_def less_support_protocols_def
      intro: protocol_id_inj)

end

lemma protocol_name_inj: "protocol_name p = protocol_name q \<Longrightarrow> p = q"
  by (cases p; cases q) simp_all

text \<open>A peer and this node can speak a protocol when they share a version of it.\<close>

definition speaks :: "support_protocols \<Rightarrow> string list \<Rightarrow> bool" where
  "speaks p versions \<longleftrightarrow> list_ex (\<lambda>v. v \<in> set versions) (support_versions p)"

text \<open>
  The protocol table is unambiguous: two protocols with one identifier, or with one name,
  are the same protocol, and the relay protocols of the two chain versions share neither
  identifier nor version, so a session can never mix them up.
\<close>

theorem protocols_unambiguous:
  "(protocol_id p = protocol_id q \<longleftrightarrow> p = q) \<and> (protocol_name p = protocol_name q \<longleftrightarrow> p = q)
   \<and> \<not> speaks Relay (support_versions RelayV2) \<and> \<not> speaks RelayV2 (support_versions Relay)"
  using protocol_id_inj protocol_name_inj by (auto simp: speaks_def)

text \<open>
  Frames: no protocol accepts frames above 4 MB, hence below the 8 MB that
  \<open>decompress\<close> accepts for a decompressed payload, and the callbacks of a protocol block the
  service exactly when it is one of sync and relay, and then only on received messages.
\<close>

theorem frames_and_flags:
  "max_frame_length p \<le> 4 * 1024 * 1024 \<and> max_frame_length p < MAX_UNCOMPRESSED_LEN \<and>
   (blocks_received (protocol_flag p) \<longleftrightarrow> p \<in> {Sync, Relay, RelayV2}) \<and>
   \<not> blocks_connected (protocol_flag p) \<and> \<not> blocks_disconnected (protocol_flag p) \<and>
   \<not> blocks_notify (protocol_flag p)"
  by (cases p) (simp_all add: default_flag_def disable_all_def MAX_UNCOMPRESSED_LEN_def)

end
