(* ===== verification/Messages.thy ===== *)
theory Messages
  imports SupportProtocols
begin

text \<open>
  \<open>ckb-testkit/src/connector/message.rs\<close>: the messages a connector sends.  The message types are
  generated from CKB's molecule schemas (crate \<open>ckb_types\<close>); they appear as the plain values
  that the builders set.  \<open>to_vec\<close> is \<open>Multiaddr::to_vec\<close> and \<open>address_from_slice\<close> molecule's
  \<open>packed::Address::from_slice\<close>, which checks that a byte string is the encoding of an address.
\<close>

type_synonym multiaddr = string

record packed_address =
  pa_bytes :: bytes

record identify_payload =
  id_name :: string
  id_client_version :: string
  id_flag :: "64 word"

record identify_message =
  im_identify :: bytes
  im_listen_addrs :: "packed_address list"
  im_observed_addr :: packed_address

datatype relay_message =
    RelayTransactions "(transaction \<times> nat) list"
  | RelayTransactionHashes "byte32 list"

datatype discovery_message =
    GetNodes "16 word option" "32 word" "32 word" \<comment> \<open>listen port, count, version\<close>
  | DiscoveryNodes bool "bytes list list" \<comment> \<open>announce, the addresses of each node\<close>

datatype p2p_message =
    IdentifyMsg identify_message
  | RelayMsg relay_message
  | DiscoveryMsg discovery_message

definition FLAG_FULL_NODE :: "64 word" where
  "FLAG_FULL_NODE = 1"

definition build_identify_message ::
    "(multiaddr \<Rightarrow> bytes) \<Rightarrow> (bytes \<Rightarrow> string + packed_address) \<Rightarrow> (identify_payload \<Rightarrow> bytes)
      \<Rightarrow> string \<Rightarrow> string \<Rightarrow> multiaddr list \<Rightarrow> multiaddr \<Rightarrow> ('w, identify_message) cmd" where
  "build_identify_message to_vec address_from_slice payload_bytes
       network_identifier client_version listening_addresses observed_address =
     (let payload = payload_bytes \<lparr>id_name = network_identifier, id_client_version = client_version,
                                   id_flag = FLAG_FULL_NODE\<rparr>
      in bindM (mapM (\<lambda>addr. unwrapM UNWRAP
                        (address_from_slice (to_vec addr))) listening_addresses)
           (\<lambda>addrs. ret \<lparr>im_identify = payload, im_listen_addrs = addrs,
                         im_observed_addr = \<lparr>pa_bytes = to_vec observed_address\<rparr>\<rparr>))"

definition build_relay_transaction :: "transaction \<Rightarrow> nat \<Rightarrow> relay_message" where
  "build_relay_transaction transaction cycles = RelayTransactions [(transaction, cycles)]"

definition build_relay_transaction_hashes :: "byte32 list \<Rightarrow> relay_message" where
  "build_relay_transaction_hashes hashes = RelayTransactionHashes hashes"

text \<open>\<open>Uint16::from_slice(&port.to_le_bytes())\<close>: two bytes, least significant first.\<close>

definition to_le_bytes16 :: "16 word \<Rightarrow> bytes" where
  "to_le_bytes16 v = [ucast v, ucast (drop_bit 8 v)]"

definition from_le_bytes16 :: "bytes \<Rightarrow> 16 word option" where
  "from_le_bytes16 bs = (case bs of [lo, hi] \<Rightarrow> Some (ucast lo OR push_bit 8 (ucast hi)) | _ \<Rightarrow> None)"

definition build_discovery_get_nodes ::
    "16 word option \<Rightarrow> 32 word \<Rightarrow> 32 word \<Rightarrow> ('w, discovery_message) cmd" where
  "build_discovery_get_nodes listening_port max_nodes self_defined_flag =
     bindM (case listening_port of
              None \<Rightarrow> ret None
            | Some port \<Rightarrow> bindM (expectM UNWRAP
                                  (from_le_bytes16 (to_le_bytes16 port)))
                            (\<lambda>p. ret (Some p)))
       (\<lambda>listen_port. ret (GetNodes listen_port max_nodes self_defined_flag))"

definition build_discovery_nodes :: "(multiaddr \<Rightarrow> bytes) \<Rightarrow> bool \<Rightarrow> multiaddr list \<Rightarrow> discovery_message" where
  "build_discovery_nodes to_vec active_push addresses =
     DiscoveryNodes active_push (map (\<lambda>address. [to_vec address]) addresses)"

lemma le_bytes16_roundtrip: "from_le_bytes16 (to_le_bytes16 v) = Some v"
proof -
  have "(ucast (ucast v :: 8 word) :: 16 word) OR push_bit 8 (ucast (ucast (drop_bit 8 v) :: 8 word)) = v"
    by (rule bit_word_eqI) (auto simp: bit_simps)
  then show ?thesis by (simp add: from_le_bytes16_def to_le_bytes16_def)
qed

lemma get_nodes_run [run_simps]: "build_discovery_get_nodes p m f = ret (GetNodes p m f)"
  by (auto simp: build_discovery_get_nodes_def le_bytes16_roundtrip split: option.split)

text \<open>
  An identify message is built exactly when every listening address is accepted as the encoding
  of a packed address; the observed address is wrapped, never parsed.
\<close>

lemma identify_ok:
  assumes "list_all2 (\<lambda>a p. address_from_slice (to_vec a) = Inr p) addrs ps"
  shows "build_identify_message to_vec address_from_slice payload_bytes n c addrs obs =
     ret \<lparr>im_identify = payload_bytes \<lparr>id_name = n, id_client_version = c, id_flag = FLAG_FULL_NODE\<rparr>,
          im_listen_addrs = ps, im_observed_addr = \<lparr>pa_bytes = to_vec obs\<rparr>\<rparr>"
  unfolding build_identify_message_def Let_def
  by (subst mapM_ret[where ys = ps]) (use assms in \<open>auto elim!: list_all2_mono\<close>)

end
