(* ===== verification/SharedState.thy ===== *)
theory SharedState
  imports Messages
begin

text \<open>
  \<open>ckb-testkit/src/connector/shared.rs\<close>, \<open>simple_protocol_handler.rs\<close> and
  \<open>simple_service_handler.rs\<close>: the state that tentacle's callbacks and the connector share.

  The world is the value behind the \<open>Arc<RwLock<SharedState>>\<close> together with the unbounded
  channels its mailboxes refer to.  A \<open>Sender\<close> and a \<open>Receiver\<close> are the number of a channel, so
  that clones of them alias the same queue.  A panic while the write lock is held poisons the
  lock: from then on \<open>write()\<close> and \<open>read()\<close> answer \<open>Err\<close>.
\<close>

record session_context =
  sc_id :: nat
  sc_address :: multiaddr

type_synonym mailbox = "nat \<rightharpoonup> nat \<times> nat" \<comment> \<open>protocol id to (sender, receiver)\<close>

type_synonym session_manager = "nat \<rightharpoonup> session_context \<times> mailbox"

record shared_world =
  sessions :: session_manager
  queues :: "nat \<Rightarrow> bytes list"
  next_channel :: nat
  poisoned :: bool

section \<open>The operations of \<open>SharedState\<close>\<close>

definition new_shared :: shared_world where
  "new_shared = \<lparr>sessions = Map.empty, queues = (\<lambda>_. []), next_channel = 0, poisoned = False\<rparr>"

definition add_session :: "session_context \<Rightarrow> shared_world \<Rightarrow> shared_world" where
  "add_session session w =
     (case sessions w (sc_id session) of
        None \<Rightarrow> w\<lparr>sessions := (sessions w)(sc_id session \<mapsto> (session, Map.empty))\<rparr>
      | Some _ \<Rightarrow> w)"

definition remove_session :: "nat \<Rightarrow> shared_world \<Rightarrow> session_context option \<times> shared_world" where
  "remove_session session_id w =
     (map_option fst (sessions w session_id), w\<lparr>sessions := (sessions w)(session_id := None)\<rparr>)"

definition get_session :: "nat iter_order \<Rightarrow> shared_world \<Rightarrow> multiaddr \<Rightarrow> session_context option" where
  "get_session iter w address =
     List.find (\<lambda>session. sc_address session = address) (map fst (hm_values iter (sessions w)))"

definition add_protocol :: "session_context \<Rightarrow> nat \<Rightarrow> shared_world \<Rightarrow> shared_world" where
  "add_protocol session proto_id w =
     (let ch = next_channel w;
          (context, mailbox) = (case sessions w (sc_id session) of
             None \<Rightarrow> (session, Map.empty)
           | Some entry \<Rightarrow> entry)
      in w\<lparr>next_channel := Suc ch, queues := (queues w)(ch := []),
           sessions := (sessions w)(sc_id session \<mapsto> (context, mailbox(proto_id \<mapsto> (ch, ch))))\<rparr>)"

definition remove_protocol :: "nat \<Rightarrow> nat \<Rightarrow> shared_world \<Rightarrow> shared_world" where
  "remove_protocol session_id proto_id w =
     (case sessions w session_id of
        None \<Rightarrow> w
      | Some (session, mailbox) \<Rightarrow>
          w\<lparr>sessions := (sessions w)(session_id \<mapsto> (session, mailbox(proto_id := None)))\<rparr>)"

definition get_protocol_sender :: "shared_world \<Rightarrow> nat \<Rightarrow> nat \<Rightarrow> nat option" where
  "get_protocol_sender w session_id proto_id =
     Option.bind (sessions w session_id) (\<lambda>(_, mailbox). map_option fst (mailbox proto_id))"

definition get_protocol_receiver :: "shared_world \<Rightarrow> nat \<Rightarrow> nat \<Rightarrow> nat option" where
  "get_protocol_receiver w session_id proto_id =
     Option.bind (sessions w session_id) (\<lambda>(_, mailbox). map_option snd (mailbox proto_id))"

definition get_opened_protocol_ids :: "nat iter_order \<Rightarrow> shared_world \<Rightarrow> nat \<Rightarrow> nat list option" where
  "get_opened_protocol_ids iter w session_id =
     map_option (\<lambda>(_, mailbox). hm_keys iter mailbox) (sessions w session_id)"

definition get_sessions :: "nat iter_order \<Rightarrow> shared_world \<Rightarrow> session_context list" where
  "get_sessions iter w = map fst (hm_values iter (sessions w))"

definition get_session_ids :: "nat iter_order \<Rightarrow> shared_world \<Rightarrow> nat list" where
  "get_session_ids iter w = map (\<lambda>(session, _). sc_id session) (hm_values iter (sessions w))"

text \<open>crossbeam's unbounded channel: \<open>send\<close> appends, a non-blocking receive takes the oldest.\<close>

definition channel_send :: "nat \<Rightarrow> bytes \<Rightarrow> shared_world \<Rightarrow> shared_world" where
  "channel_send ch data w = w\<lparr>queues := (queues w)(ch := queues w ch @ [data])\<rparr>"

definition channel_pop :: "nat \<Rightarrow> shared_world \<Rightarrow> bytes option \<times> shared_world" where
  "channel_pop ch w = (case queues w ch of
      [] \<Rightarrow> (None, w)
    | data # rest \<Rightarrow> (Some data, w\<lparr>queues := (queues w)(ch := rest)\<rparr>))"

text \<open>Every sender of a channel has been dropped: no mailbox holds it any more.\<close>

definition disconnected_channel :: "nat iter_order \<Rightarrow> shared_world \<Rightarrow> nat \<Rightarrow> bool" where
  "disconnected_channel iter w ch \<longleftrightarrow>
     \<not> list_ex (\<lambda>(_, mailbox). list_ex (\<lambda>(sender, _). sender = ch) (hm_values iter mailbox))
        (hm_values iter (sessions w))"

section \<open>The callbacks\<close>

definition connected :: "session_context \<Rightarrow> nat \<Rightarrow> (shared_world, unit) cmd" where
  "connected session proto_id = (\<lambda>w.
     if poisoned w then ret () w else ret () (add_protocol session proto_id w))"

definition disconnected :: "session_context \<Rightarrow> nat \<Rightarrow> (shared_world, unit) cmd" where
  "disconnected session proto_id = (\<lambda>w.
     if poisoned w then ret () w else ret () (remove_protocol (sc_id session) proto_id w))"

definition received :: "session_context \<Rightarrow> nat \<Rightarrow> bytes \<Rightarrow> (shared_world, unit) cmd" where
  "received session proto_id data = (\<lambda>w.
     if poisoned w then ret () w
     else case get_protocol_sender w (sc_id session) proto_id of
            None \<Rightarrow> panicking ''received message but shared.get_protocol_sender returns None''
                      (w\<lparr>poisoned := True\<rparr>)
          | Some sender \<Rightarrow> ret () (channel_send sender data w))"

datatype service_event =
    SessionOpen session_context
  | SessionClose session_context
  | OtherEvent string \<comment> \<open>\<open>ListenStarted\<close>, \<open>ListenClose\<close>, ...\<close>

definition handle_event :: "service_event \<Rightarrow> (shared_world, unit) cmd" where
  "handle_event event = (\<lambda>w. case event of
       SessionOpen session \<Rightarrow> if poisoned w then ret () w else ret () (add_session session w)
     | SessionClose session \<Rightarrow>
         if poisoned w then ret () w else ret () (snd (remove_session (sc_id session) w))
     | OtherEvent _ \<Rightarrow> panicking ''not implemented'' w)"

text \<open>\<open>SimpleProtocolHandler::build\<close>: the meta of a protocol, with or without compression.\<close>

definition handler_build :: "snap \<Rightarrow> support_protocols \<Rightarrow> bool \<Rightarrow> protocol_meta" where
  "handler_build S protocol be_compressed =
     (if be_compressed
      then (meta_builder protocol)\<lparr>meta_before_send := compress S, meta_before_receive := decompress S\<rparr>
      else meta_builder protocol)"

text \<open>What tentacle may call, as one event each.\<close>

datatype p2p_event =
    Service service_event
  | Connected session_context nat
  | Disconnected session_context nat
  | Received session_context nat bytes

fun on_event :: "p2p_event \<Rightarrow> (shared_world, unit) cmd" where
  "on_event (Service e) = handle_event e"
| "on_event (Connected s p) = connected s p"
| "on_event (Disconnected s p) = disconnected s p"
| "on_event (Received s p d) = received s p d"

lemmas shared_ops =
  add_session_def remove_session_def add_protocol_def remove_protocol_def channel_send_def

lemmas callback_defs =
  connected_def disconnected_def received_def handle_event_def

section \<open>Well-formedness\<close>

text \<open>The channel of every open pair of a session and a protocol, as one flat map.\<close>

definition chan :: "shared_world \<Rightarrow> nat \<times> nat \<rightharpoonup> nat" where
  "chan w = (\<lambda>(sid, p). get_protocol_sender w sid p)"

text \<open>
  Sessions are filed under their own identifier, the two ends of a mailbox are one channel that
  was allocated, and no two mailboxes share a channel.
\<close>

definition wf_entries :: "session_manager \<Rightarrow> bool" where
  "wf_entries m \<longleftrightarrow> finite (dom m) \<and>
     (\<forall>sid s mb. m sid = Some (s, mb) \<longrightarrow>
        sc_id s = sid \<and> finite (dom mb) \<and> (\<forall>p tx rx. mb p = Some (tx, rx) \<longrightarrow> tx = rx))"

definition wf_shared :: "shared_world \<Rightarrow> bool" where
  "wf_shared w \<longleftrightarrow> wf_entries (sessions w) \<and>
     (\<forall>k ch. chan w k = Some ch \<longrightarrow> ch < next_channel w) \<and>
     (\<forall>k k' ch. chan w k = Some ch \<and> chan w k' = Some ch \<longrightarrow> k = k')"

lemma wf_entriesD:
  assumes "wf_shared w"
  shows "finite (dom (sessions w))"
    and "sessions w sid = Some (s, mb) \<Longrightarrow> sc_id s = sid"
    and "sessions w sid = Some (s, mb) \<Longrightarrow> finite (dom mb)"
    and "sessions w sid = Some (s, mb) \<Longrightarrow> mb p = Some (tx, rx) \<Longrightarrow> tx = rx"
  using assms unfolding wf_shared_def wf_entries_def by blast+

lemma wf_chanD:
  assumes "wf_shared w"
  shows "chan w k = Some ch \<Longrightarrow> ch < next_channel w"
    and "chan w k = Some ch \<Longrightarrow> chan w k' = Some ch \<Longrightarrow> k = k'"
  using assms unfolding wf_shared_def by blast+

lemma wf_entries_update:
  "wf_entries m \<Longrightarrow> sc_id s = sid \<Longrightarrow> finite (dom mb) \<Longrightarrow> (\<And>p tx rx. mb p = Some (tx, rx) \<Longrightarrow> tx = rx)
     \<Longrightarrow> wf_entries (m(sid \<mapsto> (s, mb)))"
  by (simp add: wf_entries_def)

lemma wf_entries_delete: "wf_entries m \<Longrightarrow> wf_entries (m(sid := None))"
  by (simp add: wf_entries_def)

lemma chan_unfold: "chan w (sid, p) = (case sessions w sid of None \<Rightarrow> None | Some (_, mb) \<Rightarrow> map_option fst (mb p))"
  by (simp add: chan_def get_protocol_sender_def split: option.split)

lemma chan_new [simp]: "chan new_shared = Map.empty"
  by (auto simp: chan_unfold new_shared_def fun_eq_iff)

lemma chan_irrelevant [simp]:
  "chan (w\<lparr>poisoned := b\<rparr>) = chan w" "chan (w\<lparr>queues := q\<rparr>) = chan w"
  by (auto simp: chan_unfold fun_eq_iff)

lemma chan_add_session [simp]: "chan (add_session session w) = chan w"
  by (auto simp: chan_unfold add_session_def fun_eq_iff split: option.split)

lemma chan_remove_session [simp]:
  "chan (snd (remove_session sid w)) = (\<lambda>k. if fst k = sid then None else chan w k)"
  by (auto simp: chan_unfold remove_session_def fun_eq_iff)

lemma chan_add_protocol [simp]:
  "chan (add_protocol session p w) = (chan w)((sc_id session, p) \<mapsto> next_channel w)"
  by (auto simp: chan_unfold add_protocol_def Let_def fun_eq_iff split: option.split)

lemma chan_remove_protocol [simp]:
  "chan (remove_protocol sid p w) = (chan w)((sid, p) := None)"
  by (auto simp: chan_unfold remove_protocol_def fun_eq_iff split: option.split)

lemma wf_new_shared: "wf_shared new_shared"
  by (simp add: wf_shared_def) (simp add: wf_entries_def new_shared_def)

lemma wf_irrelevant [simp]:
  "wf_shared (w\<lparr>poisoned := b\<rparr>) = wf_shared w" "wf_shared (w\<lparr>queues := q\<rparr>) = wf_shared w"
  by (simp_all add: wf_shared_def)

lemma wf_add_session:
  assumes "wf_shared w"
  shows "wf_shared (add_session session w)"
proof -
  have "wf_entries (sessions (add_session session w))"
    using assms
    by (auto simp: add_session_def wf_shared_def intro!: wf_entries_update split: option.split)
  moreover have "next_channel (add_session session w) = next_channel w"
    by (simp add: add_session_def split: option.split)
  ultimately show ?thesis using assms by (simp add: wf_shared_def)
qed

lemma wf_remove_session:
  assumes "wf_shared w"
  shows "wf_shared (snd (remove_session sid w))"
proof -
  have "wf_entries (sessions (snd (remove_session sid w)))"
    using assms by (simp add: remove_session_def wf_shared_def wf_entries_delete)
  moreover have "next_channel (snd (remove_session sid w)) = next_channel w"
    by (simp add: remove_session_def)
  ultimately show ?thesis using assms by (auto simp: wf_shared_def split: if_splits)
qed

lemma wf_remove_protocol:
  assumes "wf_shared w"
  shows "wf_shared (remove_protocol sid p w)"
proof -
  have "wf_entries (sessions (remove_protocol sid p w))"
  proof (cases "sessions w sid")
    case None
    with assms show ?thesis by (simp add: remove_protocol_def wf_shared_def)
  next
    case (Some e)
    with assms show ?thesis
      by (cases e) (auto simp: remove_protocol_def wf_shared_def intro!: wf_entries_update
            dest: wf_entriesD(2-4)[OF assms] split: if_splits)
  qed
  moreover have "next_channel (remove_protocol sid p w) = next_channel w"
    by (simp add: remove_protocol_def split: option.split prod.split)
  ultimately show ?thesis using assms by (auto simp: wf_shared_def split: if_splits)
qed

lemma wf_add_protocol:
  assumes "wf_shared w"
  shows "wf_shared (add_protocol session p w)"
proof -
  have "wf_entries (sessions (add_protocol session p w))"
  proof (cases "sessions w (sc_id session)")
    case None
    with assms show ?thesis
      by (auto simp: add_protocol_def wf_shared_def Let_def intro!: wf_entries_update split: if_splits)
  next
    case (Some e)
    with assms show ?thesis
      by (cases e) (auto simp: add_protocol_def wf_shared_def Let_def intro!: wf_entries_update
            dest: wf_entriesD(2-4)[OF assms] split: if_splits)
  qed
  moreover have "next_channel (add_protocol session p w) = Suc (next_channel w)"
    by (simp add: add_protocol_def Let_def split: option.split prod.split)
  moreover have "chan w k \<noteq> Some (next_channel w)" for k
    using wf_chanD(1)[OF assms, of k "next_channel w"] by auto
  ultimately show ?thesis
    using assms by (auto simp: wf_shared_def less_Suc_eq split: if_splits)
qed

section \<open>What the shared state promises\<close>

text \<open>
  The contract, without channels and locks: for every open pair of a session and a protocol, the
  messages received and not yet taken, oldest first; and the sessions by identifier.
\<close>

type_synonym inbox = "nat \<times> nat \<rightharpoonup> bytes list"

definition inbox_of :: "shared_world \<Rightarrow> inbox" where
  "inbox_of w = (\<lambda>k. map_option (queues w) (chan w k))"

definition sessions_of :: "shared_world \<Rightarrow> nat \<rightharpoonup> session_context" where
  "sessions_of w = (\<lambda>sid. map_option fst (sessions w sid))"

fun spec_inbox :: "p2p_event \<Rightarrow> inbox \<Rightarrow> inbox" where
  "spec_inbox (Service (SessionClose s)) b = (\<lambda>k. if fst k = sc_id s then None else b k)"
| "spec_inbox (Service _) b = b"
| "spec_inbox (Connected s p) b = b((sc_id s, p) \<mapsto> [])"
| "spec_inbox (Disconnected s p) b = b((sc_id s, p) := None)"
| "spec_inbox (Received s p d) b = b((sc_id s, p) := map_option (\<lambda>q. q @ [d]) (b (sc_id s, p)))"

definition spec_add :: "session_context \<Rightarrow> (nat \<rightharpoonup> session_context) \<Rightarrow> nat \<rightharpoonup> session_context" where
  "spec_add s m = (if m (sc_id s) = None then m(sc_id s \<mapsto> s) else m)"

fun spec_sessions :: "p2p_event \<Rightarrow> (nat \<rightharpoonup> session_context) \<Rightarrow> nat \<rightharpoonup> session_context" where
  "spec_sessions (Service (SessionOpen s)) m = spec_add s m"
| "spec_sessions (Service (SessionClose s)) m = m(sc_id s := None)"
| "spec_sessions (Connected s p) m = spec_add s m"
| "spec_sessions _ m = m"

text \<open>The events after which the process goes on: no unknown event, no message for a closed pair.\<close>

fun allowed :: "p2p_event \<Rightarrow> inbox \<Rightarrow> bool" where
  "allowed (Service (OtherEvent _)) b = False"
| "allowed (Received s p d) b = (b (sc_id s, p) \<noteq> None)"
| "allowed _ b = True"

lemma fresh_channel: "wf_shared w \<Longrightarrow> chan w k \<noteq> Some (next_channel w)"
  using wf_chanD(1) by blast

lemma queues_ops [simp]:
  "queues (add_session s w) = queues w"
  "queues (snd (remove_session sid w)) = queues w"
  "queues (remove_protocol sid p w) = queues w"
  "queues (add_protocol s p w) = (queues w)(next_channel w := [])"
  by (simp_all add: shared_ops Let_def split: option.split prod.split)

lemma poisoned_ops [simp]:
  "poisoned (add_session s w) = poisoned w"
  "poisoned (snd (remove_session sid w)) = poisoned w"
  "poisoned (remove_protocol sid p w) = poisoned w"
  "poisoned (add_protocol s p w) = poisoned w"
  by (simp_all add: shared_ops Let_def split: option.split prod.split)

lemma sessions_of_ops:
  "sessions_of (add_session s w) = spec_add s (sessions_of w)"
  "sessions_of (snd (remove_session sid w)) = (sessions_of w)(sid := None)"
  "sessions_of (remove_protocol sid p w) = sessions_of w"
  "sessions_of (add_protocol s p w) = spec_add s (sessions_of w)"
  by (auto simp: shared_ops sessions_of_def spec_add_def Let_def fun_eq_iff split: option.split)

lemma inbox_ops:
  "inbox_of (add_session s w) = inbox_of w"
  "inbox_of (snd (remove_session sid w)) = (\<lambda>k. if fst k = sid then None else inbox_of w k)"
  "inbox_of (remove_protocol sid p w) = (inbox_of w)((sid, p) := None)"
  "wf_shared w \<Longrightarrow> inbox_of (add_protocol s p w) = (inbox_of w)((sc_id s, p) \<mapsto> [])"
  using fresh_channel[of w]
  by (auto simp: inbox_of_def fun_eq_iff intro!: option.map_cong0)

lemma inbox_queue_update:
  assumes "wf_shared w" and "chan w k = Some ch"
  shows "inbox_of (w\<lparr>queues := (queues w)(ch := q)\<rparr>) = (inbox_of w)(k \<mapsto> q)"
proof
  fix k'
  show "inbox_of (w\<lparr>queues := (queues w)(ch := q)\<rparr>) k' = ((inbox_of w)(k \<mapsto> q)) k'"
  proof (cases "k' = k")
    case True
    with assms(2) show ?thesis by (simp add: inbox_of_def)
  next
    case False
    then have "chan w k' \<noteq> Some ch"
      using wf_chanD(2)[OF assms(1,2)] by blast
    with False show ?thesis by (cases "chan w k'") (auto simp: inbox_of_def)
  qed
qed

lemma inbox_chan: "chan w k = Some ch \<Longrightarrow> inbox_of w k = Some (queues w ch)"
  by (simp add: inbox_of_def)

lemma channel_send_run:
  assumes "wf_shared w" and "chan w k = Some ch"
  shows "inbox_of (channel_send ch d w) = (inbox_of w)(k := map_option (\<lambda>q. q @ [d]) (inbox_of w k))"
    and "wf_shared (channel_send ch d w)" and "poisoned (channel_send ch d w) = poisoned w"
    and "sessions_of (channel_send ch d w) = sessions_of w"
  using assms
  by (simp_all add: channel_send_def inbox_queue_update inbox_chan sessions_of_def)

lemma channel_pop_run:
  assumes "wf_shared w" and "chan w k = Some ch"
  shows "inbox_of (snd (channel_pop ch w)) = (inbox_of w)(k := map_option tl (inbox_of w k))"
    and "fst (channel_pop ch w) = (case queues w ch of [] \<Rightarrow> None | d # _ \<Rightarrow> Some d)"
    and "wf_shared (snd (channel_pop ch w))" and "poisoned (snd (channel_pop ch w)) = poisoned w"
proof -
  show "inbox_of (snd (channel_pop ch w)) = (inbox_of w)(k := map_option tl (inbox_of w k))"
    using assms by (cases "queues w ch") (simp_all add: channel_pop_def inbox_queue_update inbox_chan
        fun_upd_idem)
qed (simp_all add: channel_pop_def assms(1) split: list.split)

lemma get_protocol_sender_chan: "get_protocol_sender w sid p = chan w (sid, p)"
  by (simp add: chan_def)

lemma get_protocol_receiver_chan: "wf_shared w \<Longrightarrow> get_protocol_receiver w sid p = chan w (sid, p)"
proof (cases "sessions w sid")
  case (Some e)
  assume "wf_shared w"
  with Some show ?thesis
    by (cases e; cases "snd e p") (auto simp: chan_unfold get_protocol_receiver_def dest: wf_entriesD(4))
qed (simp add: chan_unfold get_protocol_receiver_def)

lemma on_event_run:
  assumes "wf_shared w" and "\<not> poisoned w" and "allowed e (inbox_of w)"
  obtains w' where "on_event e w = Some (Inr (), w')" "wf_shared w'" "\<not> poisoned w'"
    "inbox_of w' = spec_inbox e (inbox_of w)" "sessions_of w' = spec_sessions e (sessions_of w)"
proof (cases e)
  case (Service ev)
  then show ?thesis
    using assms that
    by (cases ev) (auto simp: callback_defs ret_def sessions_of_ops inbox_ops wf_add_session
        wf_remove_session)
next
  case (Connected s p)
  then show ?thesis
    using assms that
    by (auto simp: callback_defs ret_def sessions_of_ops inbox_ops wf_add_protocol)
next
  case (Disconnected s p)
  then show ?thesis
    using assms that
    by (auto simp: callback_defs ret_def sessions_of_ops inbox_ops wf_remove_protocol)
next
  case (Received s p d)
  with assms(3) obtain ch where "chan w (sc_id s, p) = Some ch" by (auto simp: inbox_of_def)
  with channel_send_run[OF assms(1) this] show ?thesis
    using assms that Received
    by (auto simp: callback_defs ret_def get_protocol_sender_chan)
qed

lemma on_event_panics:
  assumes "\<not> poisoned w" and "\<not> allowed e (inbox_of w)"
  shows "\<exists>msg w'. on_event e w = Some (Inl (Panic msg), w')
     \<and> (poisoned w' \<longleftrightarrow> (\<exists>s p d. e = Received s p d))"
  using assms
  by (cases "(e, inbox_of w)" rule: allowed.cases)
     (auto simp: callback_defs halting_def inbox_of_def get_protocol_sender_chan)

end
