(* ===== verification/Mailboxes.thy ===== *)
theory Mailboxes
  imports SharedState
begin

text \<open>
  The interface between the callbacks, which fill the mailboxes of the shared state, and the
  connector, which empties them: first in, first out, mailbox by mailbox, however the two sides
  interleave.  The locale states the laws, \<open>SharedState\<close> discharges them, and the properties of
  the shared state follow.
\<close>

datatype ('k, 'm) mail_op = Deliver 'k 'm | Take 'k

fun op_key :: "('k, 'm) mail_op \<Rightarrow> 'k" where
  "op_key (Deliver k m) = k"
| "op_key (Take k) = k"

text \<open>Running an interleaving: what every \<open>Take\<close> obtained, and the state at the end.\<close>

fun run_mail :: "('k \<Rightarrow> 'm \<Rightarrow> 's \<Rightarrow> 's) \<Rightarrow> ('k \<Rightarrow> 's \<Rightarrow> 'm option \<times> 's) \<Rightarrow> ('k, 'm) mail_op list
    \<Rightarrow> 's \<Rightarrow> ('k \<times> 'm) list \<times> 's" where
  "run_mail deliver take_one [] s = ([], s)"
| "run_mail deliver take_one (Deliver k m # ops) s = run_mail deliver take_one ops (deliver k m s)"
| "run_mail deliver take_one (Take k # ops) s =
     (let (got, s') = take_one k s; (outs, s'') = run_mail deliver take_one ops s'
      in ((case got of None \<Rightarrow> [] | Some m \<Rightarrow> [(k, m)]) @ outs, s''))"

fun deliveries :: "'k \<Rightarrow> ('k, 'm) mail_op list \<Rightarrow> 'm list" where
  "deliveries k [] = []"
| "deliveries k (Deliver k' m # ops) = (if k' = k then [m] else []) @ deliveries k ops"
| "deliveries k (Take k' # ops) = deliveries k ops"

definition taken :: "'k \<Rightarrow> ('k \<times> 'm) list \<Rightarrow> 'm list" where
  "taken k outs = map snd (filter (\<lambda>x. fst x = k) outs)"

lemma taken_simps [simp]:
  "taken k [] = []" "taken k (x # outs) = (if fst x = k then [snd x] else []) @ taken k outs"
  by (simp_all add: taken_def)

locale mailboxes =
  fixes inv :: "'s \<Rightarrow> bool"
    and box :: "'s \<Rightarrow> 'k \<rightharpoonup> 'm list"
    and deliver :: "'k \<Rightarrow> 'm \<Rightarrow> 's \<Rightarrow> 's"
    and take_one :: "'k \<Rightarrow> 's \<Rightarrow> 'm option \<times> 's"
  assumes deliver_inv: "inv s \<Longrightarrow> box s k = Some q \<Longrightarrow> inv (deliver k m s)"
    and deliver_box: "inv s \<Longrightarrow> box s k = Some q \<Longrightarrow> box (deliver k m s) = (box s)(k \<mapsto> q @ [m])"
    and take_inv: "inv s \<Longrightarrow> box s k = Some q \<Longrightarrow> inv (snd (take_one k s))"
    and take_box: "inv s \<Longrightarrow> box s k = Some q \<Longrightarrow> box (snd (take_one k s)) = (box s)(k \<mapsto> tl q)"
    and take_result: "inv s \<Longrightarrow> box s k = Some q \<Longrightarrow>
      fst (take_one k s) = (case q of [] \<Rightarrow> None | m # _ \<Rightarrow> Some m)"
begin

lemma run_fifo:
  assumes "inv s" and "\<forall>op \<in> set ops. op_key op \<in> dom (box s)"
    and "run_mail deliver take_one ops s = (outs, s')"
  shows "inv s' \<and> dom (box s') = dom (box s) \<and>
     (\<forall>k \<in> dom (box s). taken k outs @ the (box s' k) = the (box s k) @ deliveries k ops)"
  using assms
proof (induction ops arbitrary: s outs)
  case Nil
  then show ?case by simp
next
  case (Cons op ops)
  show ?case
  proof (cases op)
    case (Deliver k m)
    with Cons.prems obtain q where q: "box s k = Some q" by auto
    note next_state = deliver_inv[OF Cons.prems(1) q, of m] deliver_box[OF Cons.prems(1) q, of m]
    have dom: "dom (box (deliver k m s)) = dom (box s)"
      unfolding next_state(2) using q by auto
    have r: "run_mail deliver take_one ops (deliver k m s) = (outs, s')"
      using Cons.prems(3) Deliver by simp
    have "inv s' \<and> dom (box s') = dom (box s) \<and> (\<forall>k' \<in> dom (box s).
        taken k' outs @ the (box s' k') = the (box (deliver k m s) k') @ deliveries k' ops)"
      using Cons.IH[OF next_state(1) _ r] Cons.prems(2) unfolding dom by simp
    then show ?thesis
      using next_state(2) q Deliver by simp
  next
    case (Take k)
    with Cons.prems obtain q where q: "box s k = Some q" by auto
    note next_state = take_inv[OF Cons.prems(1) q] take_box[OF Cons.prems(1) q]
      take_result[OF Cons.prems(1) q]
    have dom: "dom (box (snd (take_one k s))) = dom (box s)"
      unfolding next_state(2) using q by auto
    obtain outs' where r: "run_mail deliver take_one ops (snd (take_one k s)) = (outs', s')"
      and outs: "outs = (case fst (take_one k s) of None \<Rightarrow> [] | Some m \<Rightarrow> [(k, m)]) @ outs'"
      using Cons.prems(3) Take by (auto simp: Let_def split: prod.splits)
    have "inv s' \<and> dom (box s') = dom (box s) \<and> (\<forall>k' \<in> dom (box s).
        taken k' outs' @ the (box s' k') = the (box (snd (take_one k s)) k') @ deliveries k' ops)"
      using Cons.IH[OF next_state(1) _ r] Cons.prems(2) unfolding dom by simp
    then show ?thesis
      using outs next_state(2,3) q Take by (cases q) simp_all
  qed
qed

lemma fifo:
  assumes "inv s" and "\<forall>op \<in> set ops. op_key op \<in> dom (box s)"
    and "run_mail deliver take_one ops s = (outs, s')" and "box s k = Some q"
  shows "taken k outs @ the (box s' k) = q @ deliveries k ops"
proof -
  have "k \<in> dom (box s)" using assms(4) by blast
  then have "taken k outs @ the (box s' k) = the (box s k) @ deliveries k ops"
    using run_fifo[OF assms(1-3)] by blast
  with assms(4) show ?thesis by simp
qed

end

text \<open>The two sides on the model: the \<open>received\<close> callback, and a receive through the receiver.\<close>

definition deliver_msg :: "nat \<times> nat \<Rightarrow> bytes \<Rightarrow> shared_world \<Rightarrow> shared_world" where
  "deliver_msg k d w = (case received \<lparr>sc_id = fst k, sc_address = []\<rparr> (snd k) d w of
     None \<Rightarrow> w | Some (_, w') \<Rightarrow> w')"

definition take_msg :: "nat \<times> nat \<Rightarrow> shared_world \<Rightarrow> bytes option \<times> shared_world" where
  "take_msg k w = (case get_protocol_receiver w (fst k) (snd k) of
     None \<Rightarrow> (None, w) | Some rx \<Rightarrow> channel_pop rx w)"

lemma deliver_msg_open:
  assumes "wf_shared w" "\<not> poisoned w" "inbox_of w k = Some q"
  shows "\<exists>ch. chan w k = Some ch \<and> queues w ch = q \<and> deliver_msg k d w = channel_send ch d w"
  using assms by (cases k) (auto simp: inbox_of_def deliver_msg_def received_def ret_def
      get_protocol_sender_chan)

lemma take_msg_open:
  assumes "wf_shared w" "inbox_of w k = Some q"
  shows "\<exists>ch. chan w k = Some ch \<and> queues w ch = q \<and> take_msg k w = channel_pop ch w"
  using assms by (cases k) (auto simp: inbox_of_def take_msg_def get_protocol_receiver_chan)

interpretation shared_mail: mailboxes "\<lambda>w. wf_shared w \<and> \<not> poisoned w" inbox_of deliver_msg take_msg
proof (unfold_locales, goal_cases)
  case (1 w k q d)
  then show ?case
    using deliver_msg_open[of w k q d] channel_send_run(2,3)[of w k _ d] by auto
next
  case (2 w k q d)
  then show ?case
    using deliver_msg_open[of w k q d] channel_send_run(1)[of w k _ d] by auto
next
  case (3 w k q)
  then show ?case
    using take_msg_open[of w k q] channel_pop_run(3,4)[of w k] by auto
next
  case (4 w k q)
  then show ?case
    using take_msg_open[of w k q] channel_pop_run(1)[of w k] by auto
next
  case (5 w k q)
  then show ?case
    using take_msg_open[of w k q] channel_pop_run(2)[of w k] by (auto split: list.split)
qed

section \<open>Properties of the shared state\<close>

fun allowed_trace :: "p2p_event list \<Rightarrow> inbox \<Rightarrow> bool" where
  "allowed_trace [] b = True"
| "allowed_trace (e # es) b = (allowed e b \<and> allowed_trace es (spec_inbox e b))"

lemma trace_allowed:
  assumes "wf_shared w" "\<not> poisoned w" "allowed_trace es (inbox_of w)"
  shows "\<exists>w'. forM es on_event w = Some (Inr (), w') \<and> wf_shared w' \<and> \<not> poisoned w' \<and>
     inbox_of w' = fold spec_inbox es (inbox_of w) \<and>
     sessions_of w' = fold spec_sessions es (sessions_of w)"
  using assms
proof (induction es arbitrary: w)
  case Nil
  then show ?case by (simp add: ret_def)
next
  case (Cons e es)
  then have "allowed e (inbox_of w)" by simp
  then obtain w1 where w1: "on_event e w = Some (Inr (), w1)" "wf_shared w1" "\<not> poisoned w1"
    "inbox_of w1 = spec_inbox e (inbox_of w)" "sessions_of w1 = spec_sessions e (sessions_of w)"
    using on_event_run[OF Cons.prems(1,2)] by blast
  then show ?case
    using Cons.IH[OF w1(2,3)] Cons.prems(3) by (simp add: bindM_run)
qed

lemma trace_refused:
  assumes "wf_shared w" "\<not> poisoned w" "\<not> allowed_trace es (inbox_of w)"
  shows "\<exists>msg w'. forM es on_event w = Some (Inl (Panic msg), w')"
  using assms
proof (induction es arbitrary: w)
  case Nil
  then show ?case by simp
next
  case (Cons e es)
  show ?case
  proof (cases "allowed e (inbox_of w)")
    case True
    then obtain w1 where w1: "on_event e w = Some (Inr (), w1)" "wf_shared w1" "\<not> poisoned w1"
      "inbox_of w1 = spec_inbox e (inbox_of w)"
      using on_event_run[OF Cons.prems(1,2)] by metis
    then show ?thesis
      using Cons.IH[OF w1(2,3)] Cons.prems(3) True by (simp add: bindM_run)
  next
    case False
    then obtain msg w' where "on_event e w = Some (Inl (Panic msg), w')"
      using on_event_panics[OF Cons.prems(2)] by blast
    then show ?thesis by (simp add: bindM_halt)
  qed
qed

lemma inbox_new_shared [simp]: "inbox_of new_shared = Map.empty"
  by (simp add: inbox_of_def fun_eq_iff)

lemma new_shared_simps [simp]: "\<not> poisoned new_shared" "sessions_of new_shared = Map.empty"
  by (simp_all add: new_shared_def sessions_of_def fun_eq_iff)

text \<open>
  C1.  Refinement.  Whatever events tentacle delivers, in whatever order, the callbacks survive
  them exactly when no unknown service event and no message for a pair that is not open occurs;
  and then the shared state holds, pair by pair, the messages the contract says, in order, and
  exactly the sessions it says.  (Opening a protocol registers its session too, closing a
  session drops its mailboxes, reopening a protocol starts with an empty mailbox.)
\<close>

theorem shared_state_refines:
  "(\<exists>w'. forM es on_event new_shared = Some (Inr (), w') \<and> wf_shared w' \<and>
      inbox_of w' = fold spec_inbox es Map.empty \<and>
      sessions_of w' = fold spec_sessions es Map.empty)
     \<longleftrightarrow> allowed_trace es Map.empty"
proof (cases "allowed_trace es Map.empty")
  case True
  then show ?thesis
    using trace_allowed[of new_shared es] by (auto simp: wf_new_shared)
next
  case False
  then show ?thesis
    using trace_refused[of new_shared es] by (auto simp: wf_new_shared)
qed

text \<open>
  C24.  Mailboxes are first-in first-out, however deliveries by the \<open>received\<close> callback and
  receives by the connector interleave over all open pairs: what was taken from a pair, followed
  by what is left in its mailbox, is what was there before followed by what was delivered to it.
\<close>

theorem mailbox_fifo:
  assumes "wf_shared w" and "\<not> poisoned w"
    and "\<forall>op \<in> set ops. op_key op \<in> dom (inbox_of w)"
    and "run_mail deliver_msg take_msg ops w = (outs, w')"
    and "inbox_of w k = Some q"
  shows "taken k outs @ the (inbox_of w' k) = q @ deliveries k ops"
  using assms by (intro shared_mail.fifo) simp_all

definition two_protocols :: shared_world where
  "two_protocols = add_protocol \<lparr>sc_id = 1, sc_address = ''a''\<rparr> 101
     (add_protocol \<lparr>sc_id = 1, sc_address = ''a''\<rparr> 100 new_shared)"

theorem mailbox_fifo_witness:
  "\<exists>outs w'. run_mail deliver_msg take_msg
        [Deliver (1, 100) [7], Deliver (1, 101) [9], Take (1, 100), Deliver (1, 100) [8]] two_protocols
        = (outs, w')
     \<and> taken (1, 100) outs @ the (inbox_of w' (1, 100)) = [[7], [8]]"
proof -
  let ?ops = "[Deliver (1, 100) [7], Deliver (1, 101) [9], Take (1, 100), Deliver (1, 100) [8]]
     :: (nat \<times> nat, bytes) mail_op list"
  obtain outs w' where r: "run_mail deliver_msg take_msg ?ops two_protocols = (outs, w')"
    by fastforce
  have wf: "wf_shared two_protocols"
    by (simp add: two_protocols_def wf_add_protocol wf_new_shared)
  have box: "inbox_of two_protocols = [(1, 100) \<mapsto> [], (1, 101) \<mapsto> []]"
    by (simp add: two_protocols_def inbox_ops wf_add_protocol wf_new_shared)
  have "taken (1, 100) outs @ the (inbox_of w' (1, 100)) = [] @ deliveries (1, 100) ?ops"
    by (rule mailbox_fifo[OF wf _ _ r]) (simp_all add: box, simp add: two_protocols_def)
  with r show ?thesis by auto
qed

text \<open>
  A message for a pair that is not open poisons the lock: that callback panics while it
  holds it, and from then on every connection callback leaves the shared state as it is, so
  sessions and mailboxes are frozen for the rest of the run.
\<close>

theorem poisoned_forever:
  assumes "\<not> poisoned w" and "inbox_of w (sc_id s, p) = None"
    and "\<forall>e \<in> set es. \<forall>msg. e \<noteq> Service (OtherEvent msg)"
  shows "\<exists>msg w'. on_event (Received s p d) w = Some (Inl (Panic msg), w')
     \<and> forM es on_event w' = Some (Inr (), w') \<and> sessions w' = sessions w \<and> queues w' = queues w"
proof -
  have frozen: "forM es on_event w' = Some (Inr (), w')" if "poisoned w'" for w'
    using assms(3)
  proof (induction es)
    case Nil
    then show ?case by (simp add: ret_def)
  next
    case (Cons e es)
    have "on_event e w' = Some (Inr (), w')"
      using Cons.prems that by (cases e) (auto simp: callback_defs ret_def split: service_event.split)
    then show ?case using Cons by (simp add: bindM_run)
  qed
  have "get_protocol_sender w (sc_id s) p = None"
    using assms(2) by (simp add: inbox_of_def get_protocol_sender_chan)
  then show ?thesis
    using assms(1) frozen[of "w\<lparr>poisoned := True\<rparr>"] by (simp add: received_def halting_def)
qed

theorem poisoned_forever_witness:
  "\<exists>msg w'. on_event (Received \<lparr>sc_id = 1, sc_address = ''a''\<rparr> 100 [7]) new_shared
       = Some (Inl (Panic msg), w')
     \<and> forM [Connected \<lparr>sc_id = 1, sc_address = ''a''\<rparr> 100] on_event w' = Some (Inr (), w')
     \<and> sessions w' = sessions new_shared \<and> queues w' = queues new_shared"
  by (rule poisoned_forever) simp_all

text \<open>
  Looking a session up by the peer's address: sound and complete, whatever order the hash map
  is iterated in.
\<close>

lemma get_session_SomeD:
  assumes "iterates iter" and "wf_shared w" and "get_session iter w address = Some s"
  shows "sessions_of w (sc_id s) = Some s \<and> sc_address s = address"
proof -
  have "s \<in> fst ` ran (sessions w)" "sc_address s = address"
    using find_SomeD[OF assms(3)[unfolded get_session_def]]
      set_hm_values[OF assms(1) wf_entriesD(1)[OF assms(2)]] by auto
  then obtain sid mb where "sessions w sid = Some (s, mb)" "sc_address s = address"
    by (auto simp: ran_def)
  moreover from this(1) have "sc_id s = sid" by (rule wf_entriesD(2)[OF assms(2)])
  ultimately show ?thesis by (simp add: sessions_of_def)
qed

lemma get_session_None_iff:
  assumes "iterates iter" and "wf_shared w"
  shows "get_session iter w address = None \<longleftrightarrow> (\<forall>s \<in> ran (sessions_of w). sc_address s \<noteq> address)"
proof -
  have "ran (sessions_of w) = fst ` ran (sessions w)"
    by (force simp: ran_def sessions_of_def)
  then show ?thesis
    using set_hm_values[OF assms(1) wf_entriesD(1)[OF assms(2)]]
    by (auto simp: get_session_def find_None_iff)
qed

end
