(* ===== verification/Connector.thy ===== *)
theory Connector
  imports Mailboxes NodeFacts
begin

text \<open>
  \<open>ckb-testkit/src/connector/mod.rs\<close> and \<open>extension.rs\<close>: the fake peer.  The world is the shared
  state beside everything else; tentacle's service runs in another thread and calls the handlers
  whenever this thread sleeps or waits, so the clock's \<open>sleep\<close> and the controller's commands act
  on the whole world.
\<close>

section \<open>Building\<close>

record connector_builder =
  cb_key_pair :: nat
  cb_listening_addresses :: "multiaddr list"
  cb_protocol_metas :: "protocol_meta list"
  cb_yamux_config :: nat
  cb_send_buffer_size :: nat
  cb_recv_buffer_size :: nat

definition builder_default :: "nat \<Rightarrow> nat \<Rightarrow> connector_builder" where
  "builder_default generated_key yamux_default = \<lparr>cb_key_pair = generated_key, cb_listening_addresses = [],
     cb_protocol_metas = [], cb_yamux_config = yamux_default,
     cb_send_buffer_size = 24 * 1024 * 1024, cb_recv_buffer_size = 24 * 1024 * 1024\<rparr>"

definition with_key_pair :: "nat \<Rightarrow> connector_builder \<Rightarrow> connector_builder" where
  "with_key_pair key_pair b = b\<lparr>cb_key_pair := key_pair\<rparr>"

definition with_protocol_meta :: "protocol_meta \<Rightarrow> connector_builder \<Rightarrow> connector_builder" where
  "with_protocol_meta m b = b\<lparr>cb_protocol_metas := cb_protocol_metas b @ [m]\<rparr>"

definition with_protocol_metas :: "protocol_meta list \<Rightarrow> connector_builder \<Rightarrow> connector_builder" where
  "with_protocol_metas ms b = b\<lparr>cb_protocol_metas := cb_protocol_metas b @ ms\<rparr>"

definition with_yamux_config :: "nat \<Rightarrow> connector_builder \<Rightarrow> connector_builder" where
  "with_yamux_config y b = b\<lparr>cb_yamux_config := y\<rparr>"

definition with_send_buffer_size :: "nat \<Rightarrow> connector_builder \<Rightarrow> connector_builder" where
  "with_send_buffer_size n b = b\<lparr>cb_send_buffer_size := n\<rparr>"

definition with_recv_buffer_size :: "nat \<Rightarrow> connector_builder \<Rightarrow> connector_builder" where
  "with_recv_buffer_size n b = b\<lparr>cb_recv_buffer_size := n\<rparr>"

definition with_listening_addresses :: "multiaddr list \<Rightarrow> connector_builder \<Rightarrow> connector_builder" where
  "with_listening_addresses addresses b = b\<lparr>cb_listening_addresses := addresses\<rparr>"

text \<open>
  What the p2p service is built with.  tentacle's \<open>insert_protocol\<close> files a protocol under its
  identifier, replacing the one that was there.
\<close>

record p2p_service =
  ps_protocols :: "nat \<rightharpoonup> protocol_meta"
  ps_forever :: bool
  ps_key_pair :: nat
  ps_yamux_config :: nat
  ps_send_buffer_size :: nat
  ps_recv_buffer_size :: nat

definition build_p2p_service :: "connector_builder \<Rightarrow> p2p_service" where
  "build_p2p_service b =
     (let protocols = fold (\<lambda>m ps. ps(meta_id m \<mapsto> m)) (cb_protocol_metas b) Map.empty
      in \<lparr>ps_protocols = protocols, ps_forever = True, ps_key_pair = cb_key_pair b,
          ps_yamux_config = cb_yamux_config b, ps_send_buffer_size = cb_send_buffer_size b,
          ps_recv_buffer_size = cb_recv_buffer_size b\<rparr>)"

type_synonym 'w net = "shared_world \<times> 'w"

record 'w controller =
  ct_protocols :: "nat \<rightharpoonup> protocol_meta"
  ct_dial :: "multiaddr \<Rightarrow> ('w net, string + unit) cmd"
  ct_send_message_to :: "nat \<Rightarrow> nat \<Rightarrow> bytes \<Rightarrow> ('w net, string + unit) cmd"

record 'w connector =
  cn_key_pair :: nat
  cn_controller :: "'w controller"

text \<open>\<open>spawn_service\<close> starts the thread that drives the service, listening on the addresses.\<close>

definition connector_build ::
    "(p2p_service \<Rightarrow> multiaddr list \<Rightarrow> ('w net, 'w controller) cmd) \<Rightarrow> connector_builder
      \<Rightarrow> ('w net, 'w connector) cmd" where
  "connector_build spawn_service b =
     bindM (assertM (length (cb_protocol_metas b) = card (set (map meta_name (cb_protocol_metas b))))
              ''Duplicate protocols detected'') (\<lambda>_.
     bindM (assertM (list_ex (\<lambda>m. meta_id m = protocol_id Sync) (cb_protocol_metas b))
              ''Sync protocol is the most underlying protocol to establish connection and must be contained in protocols'') (\<lambda>_.
     bindM (spawn_service (build_p2p_service b) (cb_listening_addresses b)) (\<lambda>controller.
     ret \<lparr>cn_key_pair = cb_key_pair b, cn_controller = controller\<rparr>)))"

section \<open>Sessions\<close>

text \<open>
  What a connector runs with: its clock, the order in which hash maps are iterated, and the
  parser of multiaddresses.
\<close>

record 'w net_env =
  ne_clock :: "'w net clock"
  ne_iter :: "nat iter_order"
  ne_parse :: "string \<Rightarrow> string + multiaddr"

definition read_shared :: "(shared_world \<Rightarrow> ('w net, 'a) cmd) \<Rightarrow> ('w net, 'a) cmd" where
  "read_shared f = (\<lambda>(s, w). if poisoned s then panicking ''internal error: entered unreachable code'' (s, w)
     else f s (s, w))"

definition node_address :: "'w net_env \<Rightarrow> 'w node \<Rightarrow> ('w net, multiaddr) cmd" where
  "node_address E nd = bindM (on_env (p2p_address_with_node_id nd)) (\<lambda>a. unwrapM UNWRAP (ne_parse E a))"

definition session_to :: "'w net_env \<Rightarrow> 'w node \<Rightarrow> ('w net, session_context option) cmd" where
  "session_to E nd = read_shared (\<lambda>s.
     bindM (node_address E nd) (\<lambda>address. ret (get_session (ne_iter E) s address)))"

definition opened_protocols :: "'w net_env \<Rightarrow> 'w node \<Rightarrow> ('w net, nat list option) cmd" where
  "opened_protocols E nd = read_shared (\<lambda>s.
     bindM (node_address E nd) (\<lambda>address.
     ret (Option.bind (get_session (ne_iter E) s address)
           (\<lambda>session. get_opened_protocol_ids (ne_iter E) s (sc_id session)))))"

definition expected_opened :: "'w net_env \<Rightarrow> 'w connector \<Rightarrow> nat" where
  "expected_opened E cn =
     length (filter (\<lambda>proto_id. proto_id \<noteq> protocol_id Identify \<and> proto_id \<noteq> protocol_id DisconnectMessage)
       (hm_keys (ne_iter E) (ct_protocols (cn_controller cn))))"

partial_function (option) connect_loop ::
    "'w net_env \<Rightarrow> 'w connector \<Rightarrow> 'w node \<Rightarrow> nat \<Rightarrow> 'w net \<Rightarrow> ((halt + (string + unit)) \<times> 'w net) option" where
  "connect_loop E cn nd start w =
     (if now (ne_clock E) w - start \<le> secs 5
      then bindM (opened_protocols E nd) (\<lambda>opened. case opened of
             Some ids \<Rightarrow> (if expected_opened E cn \<le> length ids then ret (Inr ())
                         else bindM (sleeping (ne_clock E) (millis 100)) (\<lambda>_. connect_loop E cn nd start))
           | None \<Rightarrow> bindM (sleeping (ne_clock E) (millis 100)) (\<lambda>_. connect_loop E cn nd start)) w
      else Some (Inr (Inl (''Connector is timeout when connecting to '' @ node_name nd)), w))"

definition connect :: "'w net_env \<Rightarrow> 'w connector \<Rightarrow> 'w node \<Rightarrow> ('w net, string + unit) cmd" where
  "connect E cn nd =
     bindM (node_address E nd) (\<lambda>node_addr.
     tryM (mapC (map_err (\<lambda>err. ''Connector dial error: '' @ err)) (ct_dial (cn_controller cn) node_addr)) (\<lambda>_.
     (\<lambda>w. connect_loop E cn nd (now (ne_clock E) w) w)))"

definition ok_or :: "'e \<Rightarrow> 'a option \<Rightarrow> 'e + 'a" where
  "ok_or e x = (case x of None \<Rightarrow> Inl e | Some a \<Rightarrow> Inr a)"

definition send :: "'w net_env \<Rightarrow> 'w connector \<Rightarrow> 'w node \<Rightarrow> support_protocols \<Rightarrow> bytes \<Rightarrow> ('w net, string + unit) cmd" where
  "send E cn nd protocol data =
     tryM (mapC (ok_or (''The connection was disconnected to \"'' @ node_name nd @ ''\"'')) (session_to E nd)) (\<lambda>session.
     mapC (map_err (\<lambda>err. ''Connector send message under protocol \"'' @ protocol_name protocol @ ''\" to \"''
              @ node_name nd @ ''\", error: '' @ err))
       (ct_send_message_to (cn_controller cn) (sc_id session) (protocol_id protocol) data))"

section \<open>Messages: \<open>extension.rs\<close>\<close>

record wire =
  wr_to_vec :: "multiaddr \<Rightarrow> bytes"
  wr_address_from_slice :: "bytes \<Rightarrow> string + packed_address"
  wr_payload_bytes :: "identify_payload \<Rightarrow> bytes"
  wr_as_bytes :: "p2p_message \<Rightarrow> bytes"

definition assert_relay :: "support_protocols \<Rightarrow> ('w, unit) cmd" where
  "assert_relay relay_protocol =
     assertM (protocol_id relay_protocol = protocol_id Relay \<or> protocol_id relay_protocol = protocol_id RelayV2)
       ''assertion failed: relay_protocol''"

definition send_relay_transaction ::
    "'w net_env \<Rightarrow> wire \<Rightarrow> 'w connector \<Rightarrow> 'w node \<Rightarrow> support_protocols \<Rightarrow> transaction \<Rightarrow> nat \<Rightarrow> ('w net, string + unit) cmd" where
  "send_relay_transaction E W cn nd relay_protocol transaction cycles =
     bindM (assert_relay relay_protocol) (\<lambda>_.
     send E cn nd relay_protocol (wr_as_bytes W (RelayMsg (build_relay_transaction transaction cycles))))"

definition send_relay_transaction_hash ::
    "'w net_env \<Rightarrow> wire \<Rightarrow> 'w connector \<Rightarrow> 'w node \<Rightarrow> support_protocols \<Rightarrow> byte32 list \<Rightarrow> ('w net, string + unit) cmd" where
  "send_relay_transaction_hash E W cn nd relay_protocol hashes =
     bindM (assert_relay relay_protocol) (\<lambda>_.
     send E cn nd relay_protocol (wr_as_bytes W (RelayMsg (build_relay_transaction_hashes hashes))))"

definition send_identify_message ::
    "'w net_env \<Rightarrow> wire \<Rightarrow> 'w connector \<Rightarrow> 'w node \<Rightarrow> string \<Rightarrow> string \<Rightarrow> multiaddr list \<Rightarrow> multiaddr
      \<Rightarrow> ('w net, string + unit) cmd" where
  "send_identify_message E W cn nd network_identifier client_version listening_addresses observed_address =
     bindM (build_identify_message (wr_to_vec W) (wr_address_from_slice W) (wr_payload_bytes W)
              network_identifier client_version listening_addresses observed_address) (\<lambda>m.
     send E cn nd Identify (wr_as_bytes W (IdentifyMsg m)))"

definition send_discovery_get_nodes ::
    "'w net_env \<Rightarrow> wire \<Rightarrow> 'w connector \<Rightarrow> 'w node \<Rightarrow> 16 word option \<Rightarrow> 32 word \<Rightarrow> 32 word \<Rightarrow> ('w net, string + unit) cmd" where
  "send_discovery_get_nodes E W cn nd listening_port max_nodes self_defined_flag =
     bindM (build_discovery_get_nodes listening_port max_nodes self_defined_flag) (\<lambda>m.
     send E cn nd Discovery (wr_as_bytes W (DiscoveryMsg m)))"

definition send_discovery_nodes ::
    "'w net_env \<Rightarrow> wire \<Rightarrow> 'w connector \<Rightarrow> 'w node \<Rightarrow> bool \<Rightarrow> multiaddr list \<Rightarrow> ('w net, string + unit) cmd" where
  "send_discovery_nodes E W cn nd active_push addresses =
     send E cn nd Discovery (wr_as_bytes W (DiscoveryMsg (build_discovery_nodes (wr_to_vec W) active_push addresses)))"

text \<open>
  Receiving.  A blocking receive lets the other threads run (\<open>await\<close>) until the channel holds a
  message or has lost its last sender.
\<close>

partial_function (option) channel_recv ::
    "nat iter_order \<Rightarrow> ('w net \<Rightarrow> 'w net) \<Rightarrow> nat \<Rightarrow> 'w net \<Rightarrow> ((halt + (string + bytes)) \<times> 'w net) option" where
  "channel_recv iter await ch sw =
     (case sw of (s, w) \<Rightarrow> (case channel_pop ch s of (got, s') \<Rightarrow> (case got of
        Some data \<Rightarrow> Some (Inr (Inr data), (s', w))
      | None \<Rightarrow> (if disconnected_channel iter s ch then Some (Inr (Inl ''RecvError''), sw)
                else channel_recv iter await ch (await sw)))))"

partial_function (option) channel_recv_until ::
    "'w net_env \<Rightarrow> ('w net \<Rightarrow> 'w net) \<Rightarrow> nat \<Rightarrow> nat \<Rightarrow> 'w net \<Rightarrow> ((halt + (string + bytes)) \<times> 'w net) option" where
  "channel_recv_until E await deadline ch sw =
     (case sw of (s, w) \<Rightarrow> (case channel_pop ch s of (got, s') \<Rightarrow> (case got of
        Some data \<Rightarrow> Some (Inr (Inr data), (s', w))
      | None \<Rightarrow> (if disconnected_channel (ne_iter E) s ch then Some (Inr (Inl ''Disconnected''), sw)
                else if deadline \<le> now (ne_clock E) sw then Some (Inr (Inl ''Timeout''), sw)
                else channel_recv_until E await deadline ch (await sw)))))"

definition receiver_to :: "'w net_env \<Rightarrow> 'w node \<Rightarrow> support_protocols \<Rightarrow> ('w net, string + nat) cmd" where
  "receiver_to E nd protocol =
     bindM (session_to E nd) (\<lambda>session.
     bindM (on_env (p2p_address_with_node_id nd)) (\<lambda>address.
     tryM (ret (ok_or (''session to '' @ address @ '' is notfound'') session)) (\<lambda>session.
     read_shared (\<lambda>s. ret (ok_or (''protocol \"'' @ protocol_name protocol @ ''\" to '' @ address @ '' is notfound'')
       (get_protocol_receiver s (sc_id session) (protocol_id protocol)))))))"

definition recv :: "'w net_env \<Rightarrow> ('w net \<Rightarrow> 'w net) \<Rightarrow> 'w node \<Rightarrow> support_protocols \<Rightarrow> ('w net, string + bytes) cmd" where
  "recv E await nd protocol = tryM (receiver_to E nd protocol) (channel_recv (ne_iter E) await)"

definition recv_timeout ::
    "'w net_env \<Rightarrow> ('w net \<Rightarrow> 'w net) \<Rightarrow> nat \<Rightarrow> 'w node \<Rightarrow> support_protocols \<Rightarrow> ('w net, string + bytes) cmd" where
  "recv_timeout E await timeout nd protocol = tryM (receiver_to E nd protocol) (\<lambda>rx w.
     channel_recv_until E await (now (ne_clock E) w + timeout) rx w)"

section \<open>Properties\<close>

lemma meta_handler [simp]:
  "meta_id (handler_build S p c) = protocol_id p" "meta_name (handler_build S p c) = protocol_name p"
  "meta_max_frame (handler_build S p c) = max_frame_length p"
  by (simp_all add: handler_build_def meta_builder_def)

text \<open>
  The transformers of a protocol are inverse to each other: whatever protocol a handler is
  built for, with or without compression, what its peer sends is received unchanged, for every
  message that fits into the protocol's frame.
\<close>

theorem handler_wire:
  assumes "snap_ok S" and "length d \<le> meta_max_frame (handler_build S p c)"
  shows "meta_before_receive (handler_build S p c) (meta_before_send (handler_build S p c) d) = Inr d"
proof (cases c)
  case True
  have "max_frame_length p \<le> MAX_UNCOMPRESSED_LEN"
    by (cases p) (simp_all add: MAX_UNCOMPRESSED_LEN_def)
  then have "decompress S (compress S d) = Inr d"
    using assms by (intro snappy_wire.wire) simp
  with True show ?thesis by (simp add: handler_build_def)
next
  case False
  then show ?thesis by (simp add: handler_build_def meta_builder_def)
qed

theorem handler_wire_witness:
  "let m = handler_build copy_snap Sync True
   in meta_before_receive m (meta_before_send m (replicate 1500 1)) = Inr (replicate 1500 1)"
  unfolding Let_def by (rule handler_wire[OF snap_ok_copy]) simp

lemma fold_protocols:
  assumes "distinct (map meta_id ms)"
  shows "fold (\<lambda>m ps. ps(meta_id m \<mapsto> m)) ms ps i =
     (case List.find (\<lambda>m. meta_id m = i) ms of Some m \<Rightarrow> Some m | None \<Rightarrow> ps i)"
  using assms
proof (induction ms arbitrary: ps)
  case Nil
  then show ?case by simp
next
  case (Cons m ms)
  then show ?case
    by (cases "meta_id m = i")
       (auto simp: find_None_iff split: option.split dest!: find_SomeD intro: rev_image_eqI)
qed

text \<open>
  C34.  \<open>build\<close> accepts exactly the duplicate-free protocol lists that contain Sync, and panics
  on every other one; an accepted list is registered completely, each protocol under its own
  identifier: no two protocols can overwrite each other.
\<close>

theorem connector_build_checks:
  fixes ps :: "(support_protocols \<times> bool) list"
  assumes "cb_protocol_metas b = map (\<lambda>(p, c). handler_build S p c) ps"
    and "\<And>svc addrs w. spawn svc addrs w = Some (Inr (controller svc), w)"
  shows "(if distinct (map fst ps) \<and> Sync \<in> fst ` set ps
      then connector_build spawn b w =
          Some (Inr \<lparr>cn_key_pair = cb_key_pair b, cn_controller = controller (build_p2p_service b)\<rparr>, w)
        \<and> dom (ps_protocols (build_p2p_service b)) = protocol_id ` fst ` set ps
        \<and> (\<forall>(p, c) \<in> set ps. ps_protocols (build_p2p_service b) (protocol_id p) = Some (handler_build S p c))
      else \<exists>msg. connector_build spawn b w = Some (Inl (Panic msg), w))"
proof -
  have names: "map meta_name (cb_protocol_metas b) = map (protocol_name \<circ> fst) ps"
    and ids: "map meta_id (cb_protocol_metas b) = map (protocol_id \<circ> fst) ps"
    by (simp_all add: assms(1) case_prod_beta comp_def)
  have "inj protocol_name" "inj protocol_id"
    using protocol_name_inj protocol_id_inj by (auto intro: injI)
  then have d: "distinct (map meta_name (cb_protocol_metas b)) = distinct (map fst ps)"
    "distinct (map meta_id (cb_protocol_metas b)) = distinct (map fst ps)"
    unfolding names ids map_map[symmetric]
    by (metis distinct_map inj_on_subset subset_UNIV)+
  have dup: "length (cb_protocol_metas b) = card (set (map meta_name (cb_protocol_metas b)))
      \<longleftrightarrow> distinct (map fst ps)"
    unfolding d(1)[symmetric] by (metis card_distinct distinct_card length_map)
  have sync: "list_ex (\<lambda>m. meta_id m = protocol_id Sync) (cb_protocol_metas b) \<longleftrightarrow> Sync \<in> fst ` set ps"
    using protocol_id_inj[of _ Sync] by (force simp: assms(1) list_ex_iff)
  have reg: "ps_protocols (build_p2p_service b) i = List.find (\<lambda>m. meta_id m = i) (cb_protocol_metas b)"
    if "distinct (map fst ps)" for i
    using that d(2) by (simp add: build_p2p_service_def fold_protocols split: option.split)
  have found: "ps_protocols (build_p2p_service b) (protocol_id p) = Some (handler_build S p c)"
    if "distinct (map fst ps)" "(p, c) \<in> set ps" for p c
    using that(2,1) unfolding reg[OF that(1)] assms(1)
    by (induction ps) (force dest: protocol_id_inj)+
  have dom: "dom (ps_protocols (build_p2p_service b)) = protocol_id ` fst ` set ps"
    if "distinct (map fst ps)"
    unfolding dom_def reg[OF that]
    by (auto simp: assms(1) find_None_iff image_iff dest!: find_SomeD) force+
  have all_found: "\<forall>(p, c) \<in> set ps. ps_protocols (build_p2p_service b) (protocol_id p) = Some (handler_build S p c)"
    if "distinct (map fst ps)"
    using found[OF that] by blast
  show ?thesis
    using all_found dom dup sync
    by (simp add: connector_build_def bindM_def assms(2) ret_def halting_def assertM_def)
qed


theorem connector_build_checks_witness:
  "let ps = [(Sync, True), (Identify, False)];
       b = with_protocol_metas (map (\<lambda>(p, c). handler_build copy_snap p c) ps) (builder_default 1 2);
       c = \<lparr>ct_protocols = Map.empty, ct_dial = (\<lambda>_. ret (Inr ())), ct_send_message_to = (\<lambda>_ _ _. ret (Inr ()))\<rparr>
   in connector_build (\<lambda>_ _. ret c) b (new_shared, 0 :: nat)
        = Some (Inr \<lparr>cn_key_pair = 1, cn_controller = c\<rparr>, (new_shared, 0))"
proof -
  let ?ps = "[(Sync, True), (Identify, False)]"
  let ?b = "with_protocol_metas (map (\<lambda>(p, c). handler_build copy_snap p c) ?ps) (builder_default 1 2)"
  let ?c = "\<lparr>ct_protocols = Map.empty, ct_dial = (\<lambda>_. ret (Inr ())), ct_send_message_to = (\<lambda>_ _ _. ret (Inr ()))\<rparr>
     :: nat controller"
  have "cb_protocol_metas ?b = map (\<lambda>(p, c). handler_build copy_snap p c) ?ps"
    by (simp add: with_protocol_metas_def builder_default_def)
  from connector_build_checks[OF this, where spawn = "\<lambda>_ _. ret ?c" and controller = "\<lambda>_. ?c"
      and w = "(new_shared, 0)"]
  show ?thesis
    by (simp add: Let_def ret_def with_protocol_metas_def builder_default_def)
qed

text \<open>The outcome of waiting for a connection.\<close>

lemma node_address_started:
  assumes "nd_p2p_address nd = Some a" and "nd_node_id nd = Some i"
    and "ne_parse E (a @ ''/p2p/'' @ i) = Inr m"
  shows "node_address E nd = ret m"
proof
  fix w :: "'a net"
  show "node_address E nd w = ret m w"
    using assms by (cases w) (simp add: node_address_def bindM_def on_env_def p2p_address_with_node_id_def
        p2p_address_def node_id_def ret_def)
qed

lemma opened_protocols_run:
  assumes "node_address E nd = ret m"
  shows "opened_protocols E nd w =
     (if poisoned (fst w) then Some (Inl (Panic ''internal error: entered unreachable code''), w)
      else Some (Inr (Option.bind (get_session (ne_iter E) (fst w) m)
             (\<lambda>s. get_opened_protocol_ids (ne_iter E) (fst w) (sc_id s))), w))"
  by (cases w) (simp add: opened_protocols_def read_shared_def assms ret_run halting_run)

definition fully_open :: "'w net_env \<Rightarrow> 'w connector \<Rightarrow> multiaddr \<Rightarrow> 'w net \<Rightarrow> bool" where
  "fully_open E cn m w \<longleftrightarrow> (\<exists>s ids. get_session (ne_iter E) (fst w) m = Some s
     \<and> get_opened_protocol_ids (ne_iter E) (fst w) (sc_id s) = Some ids
     \<and> expected_opened E cn \<le> length ids)"

lemma connect_loop_step:
  assumes "node_address E nd = ret m"
  shows "connect_loop E cn nd start w =
    (if now (ne_clock E) w - start \<le> secs 5
     then if poisoned (fst w) then Some (Inl (Panic ''internal error: entered unreachable code''), w)
       else if fully_open E cn m w then Some (Inr (Inr ()), w)
       else connect_loop E cn nd start (sleep (ne_clock E) (millis 100) w)
     else Some (Inr (Inl (''Connector is timeout when connecting to '' @ node_name nd)), w))"
  by (subst connect_loop.simps)
     (auto simp: bindM_def opened_protocols_run[OF assms] fully_open_def ret_def sleeping_def
       bind_eq_Some_conv split: option.splits)

lemma connect_loop_total:
  assumes clk: "steady_clock (ne_clock E)" and addr: "node_address E nd = ret m"
    and "start \<le> now (ne_clock E) w"
  shows "\<exists>r w'. connect_loop E cn nd start w = Some (r, w') \<and>
     (case r of Inl _ \<Rightarrow> poisoned (fst w')
      | Inr (Inr ()) \<Rightarrow> fully_open E cn m w'
      | Inr (Inl _) \<Rightarrow> start + secs 5 < now (ne_clock E) w')"
  using assms(3)
proof (induction "start + secs 5 + millis 100 - now (ne_clock E) w" arbitrary: w rule: less_induct)
  case less
  let ?v = "sleep (ne_clock E) (millis 100) w"
  show ?case
  proof (cases "now (ne_clock E) w - start \<le> secs 5 \<and> \<not> poisoned (fst w) \<and> \<not> fully_open E cn m w")
    case True
    have adv: "now (ne_clock E) w + millis 100 \<le> now (ne_clock E) ?v"
      using clk by (rule steady_clockD)
    have "millis 100 > 0" by (simp add: millis_def)
    moreover have "start + secs 5 + millis 100 - now (ne_clock E) ?v < start + secs 5 + millis 100 - now (ne_clock E) w"
      using adv \<open>millis 100 > 0\<close> True less.prems by linarith
    moreover have "start \<le> now (ne_clock E) ?v" using adv less.prems by linarith
    ultimately show ?thesis
      using less.hyps[of ?v] True by (simp add: connect_loop_step[OF addr, of cn start w])
  next
    case False
    then consider (late) "\<not> now (ne_clock E) w - start \<le> secs 5"
      | (bad) "now (ne_clock E) w - start \<le> secs 5" "poisoned (fst w)"
      | (opened) "now (ne_clock E) w - start \<le> secs 5" "\<not> poisoned (fst w)" "fully_open E cn m w"
      by blast
    then show ?thesis
    proof cases
      case late
      moreover from late have "start + secs 5 < now (ne_clock E) w" by linarith
      ultimately show ?thesis by (simp add: connect_loop_step[OF addr, of cn start w])
    qed (simp_all add: connect_loop_step[OF addr, of cn start w] split: unit.split)
  qed
qed



definition quiet_env :: "nat net_env" where
  "quiet_env = \<lparr>ne_clock = \<lparr>now = snd, sleep = (\<lambda>d (s, t). (s, t + d))\<rparr>, ne_iter = sorted_list_of_set,
     ne_parse = Inr\<rparr>"

definition quiet_connector :: "nat connector" where
  "quiet_connector = \<lparr>cn_key_pair = 1, cn_controller = \<lparr>ct_protocols = Map.empty,
     ct_dial = (\<lambda>_. ret (Inr ())), ct_send_message_to = (\<lambda>_ _ _. ret (Inr ()))\<rparr>\<rparr>"


text \<open>
  C33.  Receiving: with an open mailbox that holds a message, \<open>recv\<close> and \<open>recv_timeout\<close> return
  the oldest one at once, take just that one out, and touch nothing else.
\<close>

theorem recv_oldest:
  assumes "wf_shared s" and "\<not> poisoned s"
    and "nd_p2p_address nd = Some a" and "nd_node_id nd = Some i"
    and "ne_parse E (a @ ''/p2p/'' @ i) = Inr m"
    and "get_session (ne_iter E) s m = Some session"
    and "inbox_of s (sc_id session, protocol_id p) = Some (d # q)"
  shows "\<exists>s'. recv E await nd p (s, w) = Some (Inr (Inr d), (s', w))
     \<and> recv_timeout E await t nd p (s, w) = Some (Inr (Inr d), (s', w))
     \<and> inbox_of s' = (inbox_of s)((sc_id session, protocol_id p) \<mapsto> q) \<and> sessions s' = sessions s"
proof -
  note addr = node_address_started[OF assms(3-5)]
  obtain ch where ch: "chan s (sc_id session, protocol_id p) = Some ch" "queues s ch = d # q"
    using assms(7) by (auto simp: inbox_of_def)
  have a: "on_env (p2p_address_with_node_id nd) (s, w) = Some (Inr (a @ ''/p2p/'' @ i), (s, w))"
    by (simp add: on_env_def p2p_address_with_node_id_def p2p_address_def node_id_def assms(3,4) ret_run)
  have rx: "receiver_to E nd p (s, w) = Some (Inr (Inr ch), (s, w))"
    using assms(2,6) ch get_protocol_receiver_chan[OF assms(1)]
    by (simp add: receiver_to_def session_to_def read_shared_def addr bindM_def a ret_run ok_or_def)
  define s' where "s' = s\<lparr>queues := (queues s)(ch := q)\<rparr>"
  have pop: "channel_pop ch s = (Some d, s')" by (simp add: channel_pop_def ch s'_def)
  have "recv E await nd p (s, w) = Some (Inr (Inr d), (s', w))"
    using rx by (simp add: recv_def tryM_def bindM_def) (subst channel_recv.simps, simp add: pop)
  moreover have "recv_timeout E await t nd p (s, w) = Some (Inr (Inr d), (s', w))"
    using rx by (simp add: recv_timeout_def tryM_def bindM_def)
      (subst channel_recv_until.simps, simp add: pop)
  moreover have "inbox_of s' = (inbox_of s)((sc_id session, protocol_id p) \<mapsto> q)"
    unfolding s'_def by (rule inbox_queue_update[OF assms(1) ch(1)])
  moreover have "sessions s' = sessions s" by (simp add: s'_def)
  ultimately show ?thesis by blast
qed

theorem recv_oldest_witness:
  "let s = deliver_msg (1, 100) [7] (add_protocol \<lparr>sc_id = 1, sc_address = ''n/p2p/n''\<rparr> 100 new_shared)
   in \<exists>s'. recv quiet_env (\<lambda>w. w) (lonely_node ''n'') Sync (s, 0) = Some (Inr (Inr [7]), (s', 0))
     \<and> inbox_of s' (1, 100) = Some []"
proof -
  let ?base = "add_protocol \<lparr>sc_id = 1, sc_address = ''n/p2p/n''\<rparr> 100 new_shared"
  let ?s = "deliver_msg (1, 100) [7] ?base"
  have inv: "wf_shared ?base \<and> \<not> poisoned ?base"
    by (simp add: wf_add_protocol wf_new_shared)
  have box0: "inbox_of ?base (1, 100) = Some []"
    by (simp add: inbox_ops wf_new_shared)
  have inv': "wf_shared ?s \<and> \<not> poisoned ?s"
    by (rule shared_mail.deliver_inv[OF inv box0])
  have box: "inbox_of ?s (1, 100) = Some [[7]]"
    using shared_mail.deliver_box[OF inv box0, of "[7]"] by simp
  have session: "get_session (ne_iter quiet_env) ?s ''n/p2p/n'' = Some \<lparr>sc_id = 1, sc_address = ''n/p2p/n''\<rparr>"
    by (simp add: quiet_env_def get_session_def hm_values_def deliver_msg_def received_def
        get_protocol_sender_def add_protocol_def new_shared_def channel_send_def ret_def)
  have "\<exists>s'. recv quiet_env (\<lambda>w. w) (lonely_node ''n'') Sync (?s, 0) = Some (Inr (Inr [7]), (s', 0))
     \<and> recv_timeout quiet_env (\<lambda>w. w) 0 (lonely_node ''n'') Sync (?s, 0) = Some (Inr (Inr [7]), (s', 0))
     \<and> inbox_of s' = (inbox_of ?s)((sc_id \<lparr>sc_id = 1, sc_address = ''n/p2p/n''\<rparr>, protocol_id Sync) \<mapsto> [])
     \<and> sessions s' = sessions ?s"
    by (rule recv_oldest[where a = "''n''" and i = "''n''"])
       (use inv' box session in \<open>simp_all add: quiet_env_def\<close>)
  then show ?thesis by (auto simp: Let_def)
qed

end
