(* ===== verification/Nodes.thy ===== *)
theory Nodes
  imports NodeFacts "HOL-Library.Char_ord" "HOL-Library.List_Lexorder"
begin

text \<open>
  \<open>ckb-testkit/src/nodes/\<close>: a collection of nodes under their names, connecting and disconnecting
  all of them, waiting until all have the highest blocks, and the highest header all of them have.
  \<open>iter\<close> is the order in which the name-to-node map is iterated, \<open>hiter\<close> that of a set of hashes.
\<close>

section \<open>\<open>nodes.rs\<close>\<close>

type_synonym 'w nodes = "string \<rightharpoonup> 'w node"

definition nodes_from_map :: "(string \<rightharpoonup> 'w node) \<Rightarrow> 'w nodes" where
  "nodes_from_map nodes = nodes"

definition nodes_from_list :: "'w node list \<Rightarrow> 'w nodes" where
  "nodes_from_list nodes = nodes_from_map (fold (\<lambda>node m. m(node_name node \<mapsto> node)) nodes Map.empty)"

definition nodes_as_map :: "'w nodes \<Rightarrow> (string \<rightharpoonup> 'w node)" where
  "nodes_as_map nodes = nodes"

definition get_node :: "'w nodes \<Rightarrow> string \<Rightarrow> ('w, 'w node) cmd" where
  "get_node nodes name =
     bindM (assertM (nodes name \<noteq> None) ''assertion failed: self._inner.contains_key(node_name)'') (\<lambda>_.
     expectM ''checked above'' (nodes name))"

text \<open>The mutable reference is the node together with the way to put a changed one back.\<close>

definition get_node_mut :: "'w nodes \<Rightarrow> string \<Rightarrow> ('w, 'w node \<times> ('w node \<Rightarrow> 'w nodes)) cmd" where
  "get_node_mut nodes name =
     bindM (assertM (nodes name \<noteq> None) ''assertion failed: self._inner.contains_key(node_name)'') (\<lambda>_.
     bindM (expectM ''checked above'' (nodes name)) (\<lambda>node. ret (node, \<lambda>node'. nodes(name \<mapsto> node'))))"

definition node_names :: "string iter_order \<Rightarrow> 'w nodes \<Rightarrow> string list" where
  "node_names iter nodes = hm_keys iter nodes"

definition nodes_of :: "string iter_order \<Rightarrow> 'w nodes \<Rightarrow> 'w node list" where
  "nodes_of iter nodes = hm_values iter nodes"

section \<open>\<open>p2p.rs\<close>\<close>

definition connect_pair :: "'w clock \<Rightarrow> 'w node \<Rightarrow> 'w node \<Rightarrow> ('w, unit) cmd" where
  "connect_pair clk node_a node_b =
     bindM (p2p_address node_a) (\<lambda>a. bindM (p2p_address node_b) (\<lambda>b.
     if a \<noteq> b
     then bindM (is_p2p_connected node_a node_b) (\<lambda>connected.
       if \<not> connected
       then bindM (get_tip_block_number node_a) (\<lambda>tip_a. bindM (get_tip_block_number node_b) (\<lambda>tip_b.
            if tip_a < tip_b then p2p_connect clk node_a node_b else p2p_connect clk node_b node_a))
       else ret ())
     else ret ()))"

definition connect_all :: "'w clock \<Rightarrow> 'w node list \<Rightarrow> ('w, unit) cmd" where
  "connect_all clk ns = forM ns (\<lambda>node_a. forM ns (\<lambda>node_b. connect_pair clk node_a node_b))"

definition nodes_p2p_connect :: "string iter_order \<Rightarrow> 'w clock \<Rightarrow> 'w nodes \<Rightarrow> ('w, unit) cmd" where
  "nodes_p2p_connect iter clk nodes = connect_all clk (nodes_of iter nodes)"

definition disconnect_pair :: "'w clock \<Rightarrow> 'w node \<Rightarrow> 'w node \<Rightarrow> ('w, unit) cmd" where
  "disconnect_pair clk node_a node_b =
     bindM (p2p_address node_a) (\<lambda>a. bindM (p2p_address node_b) (\<lambda>b.
     if a \<noteq> b
     then bindM (is_p2p_connected node_a node_b) (\<lambda>connected.
       if connected then p2p_disconnect clk node_a node_b else ret ())
     else ret ()))"

definition nodes_p2p_disconnect :: "string iter_order \<Rightarrow> 'w clock \<Rightarrow> 'w nodes \<Rightarrow> ('w, unit) cmd" where
  "nodes_p2p_disconnect iter clk nodes =
     (let ns = nodes_of iter nodes in forM ns (\<lambda>node_a. forM ns (\<lambda>node_b. disconnect_pair clk node_a node_b)))"

section \<open>\<open>chain.rs\<close>\<close>

definition highest_hashes :: "chain_lib \<Rightarrow> block list \<Rightarrow> ('w, byte32 set) cmd" where
  "highest_hashes L tip_blocks =
     (if tip_blocks = [] then panicking UNWRAP
      else let highest_number = Max (set (map (\<lambda>b. hd_number (bk_header b)) tip_blocks))
           in ret (hash_block L ` {b \<in> set tip_blocks. hd_number (bk_header b) = highest_number}))"

definition all_have :: "'w node list \<Rightarrow> byte32 list \<Rightarrow> ('w, bool) cmd" where
  "all_have ns hashes =
     allM (\<lambda>hash. allM (\<lambda>node. bindM (rpc_get_header (nd_rpc_client node) hash) (\<lambda>h. ret (h \<noteq> None))) ns) hashes"

definition waiting_for_sync ::
    "chain_lib \<Rightarrow> string iter_order \<Rightarrow> nat iter_order \<Rightarrow> 'w clock \<Rightarrow> 'w nodes
      \<Rightarrow> ('w, (string \<times> nat \<times> byte32) list + unit) cmd" where
  "waiting_for_sync L iter hiter clk nodes =
     (let ns = nodes_of iter nodes in
      bindM (mapM get_tip_block ns) (\<lambda>tip_blocks.
      bindM (highest_hashes L tip_blocks) (\<lambda>hashes.
      bindM (wait_until clk 60 (all_have ns (hiter hashes))) (\<lambda>synced.
      if \<not> synced
      then bindM (mapM (\<lambda>node. bindM (get_tip_block node) (\<lambda>block.
             ret (node_name node, hd_number (bk_header block), hash_block L block))) ns) (\<lambda>tips. ret (Inl tips))
      else bindM (forM ns (\<lambda>node. wait_for_tx_pool clk node)) (\<lambda>_. ret (Inr ()))))))"

primrec fixed_header_from :: "'w node list \<Rightarrow> nat list \<Rightarrow> ('w, header) cmd" where
  "fixed_header_from ns [] = panicking ''internal error: entered unreachable code''"
| "fixed_header_from ns (number # numbers) =
     bindM (mapM (\<lambda>node. get_header_by_number node number) ns) (\<lambda>headers.
     if card (set headers) = 1 then ret (the_elem (set headers)) else fixed_header_from ns numbers)"

definition get_fixed_header :: "string iter_order \<Rightarrow> 'w nodes \<Rightarrow> ('w, header) cmd" where
  "get_fixed_header iter nodes =
     (let ns = nodes_of iter nodes in
      bindM (mapM get_tip_block_number ns) (\<lambda>tips.
      bindM (expectM ''at least 1 node'' (if tips = [] then None else Some (Min (set tips)))) (\<lambda>maximal_number.
      fixed_header_from ns (rev [0..<Suc maximal_number]))))"

section \<open>The common part of the chains\<close>

text \<open>\<open>chain_of nd\<close> is the chain of headers a node serves; all chains start with one genesis header.\<close>

definition serves_headers :: "'w node \<Rightarrow> header list \<Rightarrow> bool" where
  "serves_headers nd hs \<longleftrightarrow> hs \<noteq> [] \<and> (\<forall>w. rpc_get_tip_block_number (nd_rpc_client nd) w = Some (Inr (length hs - 1), w)
     \<and> (\<forall>n. \<exists>v. rpc_get_header_by_number (nd_rpc_client nd) n w = Some (Inr (if n < length hs then Some v else None), w)
          \<and> (n < length hs \<longrightarrow> hv_header v = hs ! n)))"

definition common_at :: "'w node list \<Rightarrow> ('w node \<Rightarrow> header list) \<Rightarrow> nat \<Rightarrow> header \<Rightarrow> bool" where
  "common_at ns chain_of n h \<longleftrightarrow> (\<forall>nd \<in> set ns. n < length (chain_of nd) \<and> chain_of nd ! n = h)"

lemma header_read:
  assumes "serves_headers nd hs" and "n < length hs"
  shows "reads (get_header_by_number nd n) w (hs ! n)"
  using assms unfolding serves_headers_def reads_def get_header_by_number_def
  by (auto simp: bindM_def expectM_def ret_def dest!: spec[of _ w] spec[of _ n])

lemma tip_read: "serves_headers nd hs \<Longrightarrow> reads (get_tip_block_number nd) w (length hs - 1)"
  by (simp add: serves_headers_def reads_def get_tip_block_number_def)

lemma fixed_header_from_run:
  assumes "\<forall>nd \<in> set ns. serves_headers nd (chain_of nd)" and "\<forall>nd \<in> set ns. n < length (chain_of nd)"
    and "ns \<noteq> []" and "common_at ns chain_of 0 genesis"
  shows "\<exists>m h. m \<le> n \<and> common_at ns chain_of m h \<and> (\<forall>k. m < k \<and> k \<le> n \<longrightarrow> (\<nexists>h. common_at ns chain_of k h))
     \<and> fixed_header_from ns (rev [0..<Suc n]) w = Some (Inr h, w)"
  using assms(2)
proof (induction n)
  case 0
  have "reads (mapM (\<lambda>node. get_header_by_number node 0) ns) w (map (\<lambda>nd. chain_of nd ! 0) ns)"
    using assms(1) 0 by (intro reads_mapM header_read) auto
  moreover have "set (map (\<lambda>nd. chain_of nd ! 0) ns) = {genesis}"
    using assms(3,4) by (cases ns) (auto simp: common_at_def)
  ultimately show ?case
    using assms(4) by (auto simp: reads_def bindM_run ret_run)
next
  case (Suc n)
  let ?hs = "map (\<lambda>nd. chain_of nd ! Suc n) ns"
  have r: "mapM (\<lambda>node. get_header_by_number node (Suc n)) ns w = Some (Inr ?hs, w)"
    using assms(1) Suc.prems by (intro readsD reads_mapM header_read) auto
  have unfold: "fixed_header_from ns (rev [0..<Suc (Suc n)]) w
      = (if card (set ?hs) = 1 then ret (the_elem (set ?hs)) else fixed_header_from ns (rev [0..<Suc n])) w"
    using r by (simp add: bindM_run)
  have card: "card (set ?hs) = 1 \<longleftrightarrow> (\<exists>h. common_at ns chain_of (Suc n) h)"
  proof
    assume "card (set ?hs) = 1"
    then obtain h where "set ?hs = {h}" by (auto simp: card_1_singleton_iff)
    then have "\<forall>nd \<in> set ns. chain_of nd ! Suc n = h" by auto
    then show "\<exists>h. common_at ns chain_of (Suc n) h" using Suc.prems by (auto simp: common_at_def)
  next
    assume "\<exists>h. common_at ns chain_of (Suc n) h"
    then obtain h where "\<forall>nd \<in> set ns. chain_of nd ! Suc n = h" by (auto simp: common_at_def)
    then have "set ?hs = {h}" using assms(3) by (cases ns) auto
    then show "card (set ?hs) = 1" by simp
  qed
  show ?case
  proof (cases "card (set ?hs) = 1")
    case True
    then obtain h where h: "set ?hs = {h}" by (auto simp: card_1_singleton_iff)
    then have "\<forall>nd \<in> set ns. chain_of nd ! Suc n = h" by auto
    then have "common_at ns chain_of (Suc n) h" using Suc.prems by (auto simp: common_at_def)
    moreover have "fixed_header_from ns (rev [0..<Suc (Suc n)]) w = Some (Inr h, w)"
      unfolding unfold using h by (simp add: ret_run)
    ultimately show ?thesis by (intro exI[of _ "Suc n"] exI[of _ h]) auto
  next
    case False
    have "\<forall>nd \<in> set ns. n < length (chain_of nd)" using Suc.prems by auto
    from Suc.IH[OF this] obtain m h where m: "m \<le> n" "common_at ns chain_of m h"
      "\<forall>k. m < k \<and> k \<le> n \<longrightarrow> (\<nexists>h. common_at ns chain_of k h)"
      "fixed_header_from ns (rev [0..<Suc n]) w = Some (Inr h, w)" by blast
    have "\<forall>k. m < k \<and> k \<le> Suc n \<longrightarrow> (\<nexists>h. common_at ns chain_of k h)"
      using m(3) False card by (auto simp: le_Suc_eq)
    moreover have "fixed_header_from ns (rev [0..<Suc (Suc n)]) w = Some (Inr h, w)"
      unfolding unfold using False m(4) by simp
    ultimately show ?thesis using m(1,2) by (intro exI[of _ m] exI[of _ h]) auto
  qed
qed

text \<open>
  C19.  The fixed header is the highest header that all nodes have: they all have it at its height,
  and at no greater height that every node has reached do they agree.  It is found whatever forks
  the nodes are on, as long as they share the genesis block.
\<close>

theorem fixed_header_highest:
  assumes "\<forall>nd \<in> set (nodes_of iter nodes). serves_headers nd (chain_of nd)" and "nodes_of iter nodes \<noteq> []"
    and "common_at (nodes_of iter nodes) chain_of 0 genesis"
  shows "\<exists>m h. get_fixed_header iter nodes w = Some (Inr h, w) \<and> common_at (nodes_of iter nodes) chain_of m h
     \<and> (\<forall>k h'. m < k \<longrightarrow> \<not> common_at (nodes_of iter nodes) chain_of k h')"
proof -
  let ?ns = "nodes_of iter nodes" and ?tips = "map (\<lambda>nd. length (chain_of nd) - 1) (nodes_of iter nodes)"
  define top where "top = Min (set ?tips)"
  have tips: "mapM get_tip_block_number ?ns w = Some (Inr ?tips, w)"
    using assms(1) by (intro readsD reads_mapM tip_read) auto
  have ne: "set ?tips \<noteq> {}" "\<forall>nd \<in> set ?ns. chain_of nd \<noteq> []"
    using assms(1,2) by (auto simp: serves_headers_def)
  have top: "top < length (chain_of nd)" if "nd \<in> set ?ns" for nd
  proof -
    have "top \<le> length (chain_of nd) - 1" using that by (auto simp: top_def intro!: Min_le)
    moreover have "0 < length (chain_of nd)" using that ne(2) by simp
    ultimately show ?thesis by linarith
  qed
  have run: "get_fixed_header iter nodes w = fixed_header_from ?ns (rev [0..<Suc top]) w"
    using tips assms(2) by (simp add: get_fixed_header_def Let_def bindM_run top_def)
  have above: "k \<le> top" if "common_at ?ns chain_of k h" for k h
  proof -
    have "\<forall>x \<in> set ?tips. k \<le> x" using that by (fastforce simp: common_at_def)
    then show ?thesis using ne(1) unfolding top_def by (intro Min.boundedI) auto
  qed
  have "\<forall>nd \<in> set ?ns. top < length (chain_of nd)" using top by blast
  from fixed_header_from_run[OF assms(1) this assms(2,3), of w] show ?thesis
    unfolding run using above by (metis not_less)
qed

definition header_node :: "string \<Rightarrow> header list \<Rightarrow> nat node" where
  "header_node name hs = (offline_node name)\<lparr>nd_rpc_client := offline_client\<lparr>rc_inner2021 := offline2021\<lparr>
     i21_get_tip_block_number := ret (Inr (length hs - 1)),
     i21_get_header_by_number := (\<lambda>n. ret (Inr (if n < length hs then Some \<lparr>hv_header = hs ! n, hv_hash = n\<rparr> else None)))\<rparr>\<rparr>\<rparr>"

lemma header_node_serves: "hs \<noteq> [] \<Longrightarrow> serves_headers (header_node name hs) hs"
  by (auto simp: serves_headers_def header_node_def offline_client_def rpc_get_tip_block_number_def
      rpc_get_header_by_number_def expect_rpc_def ret_def bindM_def unwrapM_def intro: exI[of _ "\<lparr>hv_header = _, hv_hash = _\<rparr>"])

definition forked_header :: "nat \<Rightarrow> nat \<Rightarrow> header" where
  "forked_header n fork = \<lparr>hd_version = 0, hd_compact_target = 0, hd_timestamp = n, hd_number = n,
     hd_epoch = default_epoch, hd_parent_hash = n, hd_nonce = fork\<rparr>"

theorem fixed_header_highest_witness:
  "let a = header_node ''a'' [forked_header 0 0, forked_header 1 0, forked_header 2 7, forked_header 3 7];
       b = header_node ''b'' [forked_header 0 0, forked_header 1 0, forked_header 2 8]
   in get_fixed_header sorted_list_of_set [''a'' \<mapsto> a, ''b'' \<mapsto> b] 5 = Some (Inr (forked_header 1 0), 5)"
proof -
  let ?ha = "[forked_header 0 0, forked_header 1 0, forked_header 2 7, forked_header 3 7]"
  let ?hb = "[forked_header 0 0, forked_header 1 0, forked_header 2 8]"
  let ?a = "header_node ''a'' ?ha" and ?b = "header_node ''b'' ?hb"
  let ?nodes = "[''a'' \<mapsto> ?a, ''b'' \<mapsto> ?b]"
  have "dom ?nodes = {''a'', ''b''}" by auto
  then have ns: "set (nodes_of sorted_list_of_set ?nodes) = {?a, ?b}"
    using set_hm_values[OF iterates_sorted, of ?nodes] unfolding nodes_of_def by auto
  have ne: "nodes_of sorted_list_of_set ?nodes \<noteq> []" using ns by auto
  have name: "no_node_name (nd_node_options ?a) = ''a''" "no_node_name (nd_node_options ?b) = ''b''"
    by (simp_all add: header_node_def offline_node_def)
  define chain_of where "chain_of = (\<lambda>nd :: nat node. if no_node_name (nd_node_options nd) = ''a'' then ?ha else ?hb)"
  have ch: "chain_of ?a = ?ha" "chain_of ?b = ?hb" unfolding chain_of_def name by simp_all
  have serves: "\<forall>nd \<in> set (nodes_of sorted_list_of_set ?nodes). serves_headers nd (chain_of nd)"
    unfolding ns using ch header_node_serves[of ?ha "''a''"] header_node_serves[of ?hb "''b''"] by simp
  have genesis: "common_at (nodes_of sorted_list_of_set ?nodes) chain_of 0 (forked_header 0 0)"
    unfolding common_at_def ns using ch by simp
  obtain m h where m: "get_fixed_header sorted_list_of_set ?nodes 5 = Some (Inr h, 5)"
    "common_at (nodes_of sorted_list_of_set ?nodes) chain_of m h"
    "\<forall>k h'. m < k \<longrightarrow> \<not> common_at (nodes_of sorted_list_of_set ?nodes) chain_of k h'"
    using fixed_header_highest[OF serves ne genesis, of 5] by blast
  have "common_at (nodes_of sorted_list_of_set ?nodes) chain_of 1 (forked_header 1 0)"
    unfolding common_at_def ns using ch by simp
  with m(3) have "1 \<le> m" by (meson not_less)
  moreover have "m < 3" "?ha ! m = h" "?hb ! m = h" using m(2) ch unfolding common_at_def ns by simp_all
  moreover have "?ha ! 2 \<noteq> ?hb ! 2" by (simp add: forked_header_def)
  ultimately have "m = 1" by (metis One_nat_def Suc_1 le_antisym less_Suc_eq_le numeral_3_eq_3 order_le_less)
  with \<open>?ha ! m = h\<close> m(1) show ?thesis by (simp add: Let_def)
qed

end
