(* ===== verification/CaseRunner.thy ===== *)
theory CaseRunner
  imports Connector Nodes Builder StreamCodec NodeIndexer
begin

text \<open>
  \<open>ckb-integration-test/src/case/mod.rs\<close>, \<open>case_options.rs\<close> and \<open>util/\<close>: what a test case is, how the
  nodes it asks for are started, connected and synchronised before it runs, and what the cases
  share.  A case works in a \<open>lab\<close>: the counter of the port allocator, the state shared with the
  fake peer's service, and everything else.
\<close>

section \<open>The lab\<close>

type_synonym 'w lab = "16 word \<times> 'w net"

definition on_node :: "('w, 'a) cmd \<Rightarrow> ('w lab, 'a) cmd" where
  "on_node m = on_env (on_env m)"

definition on_ports :: "(16 word \<times> 'w, 'a) cmd \<Rightarrow> ('w lab, 'a) cmd" where
  "on_ports m = (\<lambda>(p, s, w). case m (p, w) of None \<Rightarrow> None | Some (r, (p', w')) \<Rightarrow> Some (r, (p', s, w')))"

text \<open>
  A value whose destructor \<open>c\<close> does something: it is dropped when its scope ends, by returning or
  by a panic that unwinds through it, and not when the process exits.
\<close>

definition finallyM :: "('w, 'a) cmd \<Rightarrow> ('w, unit) cmd \<Rightarrow> ('w, 'a) cmd" where
  "finallyM m c = (\<lambda>w. case m w of
      None \<Rightarrow> None
    | Some (r, w') \<Rightarrow> (case r of
        Inl (Exit code) \<Rightarrow> Some (r, w')
      | _ \<Rightarrow> (case c w' of
          None \<Rightarrow> None
        | Some (Inl h, w'') \<Rightarrow> Some (Inl h, w'')
        | Some (Inr _, w'') \<Rightarrow> Some (r, w''))))"

text \<open>A value that is handed on when its scope returns and dropped when it panics.\<close>

definition unwindM :: "('w, 'a) cmd \<Rightarrow> ('w, unit) cmd \<Rightarrow> ('w, 'a) cmd" where
  "unwindM m c = (\<lambda>w. case m w of
      None \<Rightarrow> None
    | Some (r, w') \<Rightarrow> (case r of
        Inl (Panic msg) \<Rightarrow> (case c w' of
          None \<Rightarrow> None
        | Some (Inl h, w'') \<Rightarrow> Some (Inl h, w'')
        | Some (Inr _, w'') \<Rightarrow> Some (r, w''))
      | _ \<Rightarrow> Some (r, w')))"

text \<open>A node that lives as long as \<open>body\<close>: its process is killed and waited for at the end.\<close>

definition with_node :: "('w lab, 'w node) cmd \<Rightarrow> ('w node \<Rightarrow> ('w lab, 'a) cmd) \<Rightarrow> ('w lab, 'a) cmd" where
  "with_node new_node body =
     bindM new_node (\<lambda>node. finallyM (body node) (on_node (drop_guard (nd_guard node))))"

lemma on_node_run [run_simps]: "m w = Some (r, w') \<Longrightarrow> on_node m (p, s, w) = Some (r, (p, s, w'))"
  by (simp add: on_node_def on_env_def)

lemma on_node_ret [simp]: "on_node (ret a) = ret a"
  by (simp add: on_node_def on_env_def ret_def fun_eq_iff)

lemma on_node_bindM: "on_node (bindM m f) = bindM (on_node m) (\<lambda>a. on_node (f a))"
  by (auto simp: on_node_def on_env_def bindM_def fun_eq_iff split: option.split sum.split prod.split)

lemma get_node_Some [simp]: "nodes name = Some nd \<Longrightarrow> get_node nodes name = ret nd"
  by (simp add: get_node_def)

lemma on_ports_run [run_simps]: "m (p, w) = Some (r, (p', w')) \<Longrightarrow> on_ports m (p, s, w) = Some (r, (p', s, w'))"
  by (simp add: on_ports_def)

lemma finallyM_Inr [run_simps]:
  "m w = Some (Inr a, w') \<Longrightarrow> c w' = Some (Inr u, w'') \<Longrightarrow> finallyM m c w = Some (Inr a, w'')"
  by (simp add: finallyM_def)

lemma finallyM_Panic [run_simps]:
  "m w = Some (Inl (Panic msg), w') \<Longrightarrow> c w' = Some (Inr u, w'') \<Longrightarrow> finallyM m c w = Some (Inl (Panic msg), w'')"
  by (simp add: finallyM_def)

lemma finallyM_Inr_iff:
  "finallyM m c w = Some (Inr a, w'') \<longleftrightarrow> (\<exists>w' u. m w = Some (Inr a, w') \<and> c w' = Some (Inr u, w''))"
  by (auto simp: finallyM_def split: option.splits sum.splits halt.splits prod.splits)

lemma unwindM_Inr [run_simps]: "m w = Some (Inr a, w') \<Longrightarrow> unwindM m c w = Some (Inr a, w')"
  by (simp add: unwindM_def)

lemma unwindM_Inr_iff [simp]: "unwindM m c w = Some (Inr a, w') \<longleftrightarrow> m w = Some (Inr a, w')"
  by (auto simp: unwindM_def split: option.splits sum.splits halt.splits prod.splits)

section \<open>Paths and names\<close>

text \<open>\<open>str::split\<close> at a separator, and \<open>split_terminator\<close>, which drops an empty last piece.\<close>

fun split_on :: "string \<Rightarrow> string \<Rightarrow> string \<Rightarrow> string list" where
  "split_on sep piece [] = [piece]"
| "split_on sep piece (c # cs) =
     (if sep \<noteq> [] \<and> take (length sep) (c # cs) = sep
      then piece # split_on sep [] (drop (length sep - 1) cs)
      else split_on sep (piece @ [c]) cs)"

definition split_terminator :: "string \<Rightarrow> string \<Rightarrow> string list" where
  "split_terminator sep s = (let pieces = split_on sep [] s in if last pieces = [] then butlast pieces else pieces)"

text \<open>\<open>case_name\<close>: the last segment of the type's path, which \<open>type_name\<close> gives.\<close>

definition case_name_of :: "string \<Rightarrow> ('w, string) cmd" where
  "case_name_of type_name = (let segments = split_terminator ''::'' type_name
     in expectM UNWRAP (if segments = [] then None else Some (last segments)))"

text \<open>\<open>PathBuf\<close> compares paths by their components; a dot is one only at the very start.\<close>

definition is_relative :: "string \<Rightarrow> bool" where
  "is_relative p \<longleftrightarrow> p = [] \<or> hd p \<noteq> CHR ''/''"

definition path_components :: "string \<Rightarrow> string list" where
  "path_components p = (let parts = split_on ''/'' [] p
     in (if is_relative p \<and> hd parts = ''.'' then [''.''] else [])
        @ filter (\<lambda>part. part \<noteq> [] \<and> part \<noteq> ''.'') parts)"

definition path_eq :: "string \<Rightarrow> string \<Rightarrow> bool" where
  "path_eq p q \<longleftrightarrow> is_relative p = is_relative q \<and> path_components p = path_components q"

section \<open>Cases\<close>

record case_options =
  cp_make_all_nodes_connected :: bool
  cp_make_all_nodes_synced :: bool
  cp_make_all_nodes_connected_and_synced :: bool
  cp_node_options :: "node_options list"

definition default_case_options :: case_options where
  "default_case_options = \<lparr>cp_make_all_nodes_connected = False, cp_make_all_nodes_synced = False,
     cp_make_all_nodes_connected_and_synced = False, cp_node_options = []\<rparr>"

text \<open>
  What the cases use of the crates \<open>ckb_types\<close> and \<open>ckb_exec_params\<close>: the exact capacity of an output with
  so many shannons of data, the hash of a cell's data, encodings, the hexadecimal form of a hash, and the
  files compiled in (\<open>include_bytes!\<close>).
\<close>

record case_lib =
  cl_exact_capacity :: "cell_output \<Rightarrow> nat \<Rightarrow> string + nat"
  cl_data_hash :: "bytes \<Rightarrow> byte32"
  cl_out_points :: "out_point list \<Rightarrow> bytes"
  cl_exec_params :: "nat \<Rightarrow> nat \<Rightarrow> nat \<Rightarrow> nat \<Rightarrow> bytes" \<comment> \<open>source, place, index, bounds\<close>
  cl_full_value :: "epoch_ext \<Rightarrow> 64 word"
  cl_epoch_le :: "epoch_ext \<Rightarrow> epoch_ext \<Rightarrow> bool" \<comment> \<open>the order on \<open>EpochNumberWithFraction\<close>\<close>
  cl_relay_item_name :: "bytes \<Rightarrow> string + string"
  cl_identify_message :: "bytes \<Rightarrow> string + unit" \<comment> \<open>\<open>IdentifyMessage::from_slice\<close>\<close>
  cl_hex :: "byte32 \<Rightarrow> string"
  cl_file :: "string \<Rightarrow> bytes"

text \<open>
  What a case runs with: the operating system and the libraries, the profile, the iteration orders,
  the two executables (\<open>CKB2019\<close> and \<open>CKB2021\<close>, written once before the cases run), and what the
  fake peer needs.
\<close>

record 'w case_env =
  ce_os :: "'w os"
  ce_lib :: chain_lib
  ce_types :: case_lib
  ce_oc :: bool
  ce_names :: "string iter_order"
  ce_hashes :: "nat iter_order"
  ce_ckb2019 :: string
  ce_ckb2021 :: string
  ce_output :: "string \<Rightarrow> string list \<Rightarrow> ('w, string + bytes) cmd" \<comment> \<open>\<open>Command::output\<close>, its stdout\<close>
  ce_net :: "'w net_env"
  ce_wire :: wire
  ce_await :: "'w net \<Rightarrow> 'w net" \<comment> \<open>the other threads run while this one waits\<close>
  ce_snap :: snap
  ce_spawn :: "p2p_service \<Rightarrow> multiaddr list \<Rightarrow> ('w net, 'w controller) cmd"
  ce_new_key :: "('w, nat) cmd" \<comment> \<open>\<open>SecioKeyPair::secp256k1_generated\<close>\<close>
  ce_yamux :: nat \<comment> \<open>the default configuration\<close>

record 'w integration_case =
  ic_type_name :: string
  ic_options :: "'w case_env \<Rightarrow> case_options"
  ic_run :: "'w case_env \<Rightarrow> 'w nodes \<Rightarrow> ('w lab, unit) cmd"

abbreviation ce_clock :: "'w case_env \<Rightarrow> 'w clock" where
  "ce_clock E \<equiv> os_clock (ce_os E)"

definition case_name :: "'w integration_case \<Rightarrow> ('w lab, string) cmd" where
  "case_name c = case_name_of (ic_type_name c)"

section \<open>Before a case runs\<close>

definition drop_nodes :: "'w case_env \<Rightarrow> 'w nodes \<Rightarrow> ('w lab, unit) cmd" where
  "drop_nodes E nodes = forM (nodes_of (ce_names E) nodes) (\<lambda>node. on_node (drop_guard (nd_guard node)))"

text \<open>\<open>HashMap::insert\<close> drops the node that was under the name.\<close>

definition insert_node :: "'w node \<Rightarrow> 'w nodes \<Rightarrow> ('w lab, 'w nodes) cmd" where
  "insert_node node nodes =
     bindM (case nodes (node_name node) of None \<Rightarrow> ret () | Some old \<Rightarrow> on_node (drop_guard (nd_guard old))) (\<lambda>_.
     ret (nodes(node_name node \<mapsto> node)))"

definition start_case_node :: "'w case_env \<Rightarrow> string \<Rightarrow> node_options \<Rightarrow> ('w lab, 'w node) cmd" where
  "start_case_node E name options =
     bindM (on_ports (node_init (ce_os E) name options (path_eq (no_ckb_binary options) (ce_ckb2021 E)))) (\<lambda>node.
     on_node (node_start (ce_os E) node))"

definition start_next_node ::
    "'w case_env \<Rightarrow> string \<Rightarrow> 'w nodes \<times> string option \<Rightarrow> node_options \<Rightarrow> ('w lab, 'w nodes \<times> string option) cmd" where
  "start_next_node E name = (\<lambda>(nodes, first_node_name) options.
     bindM (unwindM (start_case_node E name options) (drop_nodes E nodes)) (\<lambda>node.
     bindM (insert_node node nodes) (\<lambda>nodes.
     ret (nodes, if first_node_name = None then Some (node_name node) else first_node_name))))"

definition wait_synced :: "'w case_env \<Rightarrow> 'w nodes \<Rightarrow> ('w, unit) cmd" where
  "wait_synced E nodes =
     bindM (waiting_for_sync (ce_lib E) (ce_names E) (ce_hashes E) (ce_clock E) nodes) (unwrapM ''waiting for sync'')"

definition any_node :: "'w nodes \<Rightarrow> string option \<Rightarrow> ('w, 'w node) cmd" where
  "any_node nodes first_node_name = bindM (expectM UNWRAP first_node_name) (get_node nodes)"

definition arrange_nodes :: "'w case_env \<Rightarrow> case_options \<Rightarrow> 'w nodes \<Rightarrow> string option \<Rightarrow> ('w, unit) cmd" where
  "arrange_nodes E options nodes first_node_name =
     (let ns = nodes_of (ce_names E) nodes; clk = ce_clock E in
      if cp_make_all_nodes_connected_and_synced options
      then bindM (forM ns (\<lambda>node. mine (ce_lib E) clk node 1)) (\<lambda>_.
           bindM (nodes_p2p_connect (ce_names E) clk nodes) (\<lambda>_.
           bindM (any_node nodes first_node_name) (\<lambda>any_node.
           bindM (mine (ce_lib E) clk any_node 1) (\<lambda>_.
           wait_synced E nodes))))
      else
        bindM (if cp_make_all_nodes_connected options then nodes_p2p_connect (ce_names E) clk nodes else ret ()) (\<lambda>_.
        if cp_make_all_nodes_synced options
        then bindM (any_node nodes first_node_name) (\<lambda>any_node.
             bindM (mine (ce_lib E) clk any_node 1) (\<lambda>_.
             bindM (get_tip_block any_node) (\<lambda>tip_block.
             bindM (forM ns (\<lambda>node. if node_name node \<noteq> node_name any_node
                      then bindM (submit_block clk node tip_block) (\<lambda>_. ret ()) else ret ())) (\<lambda>_.
             wait_synced E nodes))))
        else ret ()))"

definition before_run :: "'w case_env \<Rightarrow> 'w integration_case \<Rightarrow> ('w lab, 'w nodes) cmd" where
  "before_run E c =
     bindM (case_name c) (\<lambda>name.
     let options = ic_options c E in
     bindM (foldM (start_next_node E name) (Map.empty, None) (cp_node_options options)) (\<lambda>(nodes, first_node_name).
     let nodes = nodes_from_map nodes in
     bindM (unwindM (on_node (arrange_nodes E options nodes first_node_name)) (drop_nodes E nodes)) (\<lambda>_.
     ret nodes)))"

text \<open>The name is also what the log lines of the case are filed under.\<close>

definition run_case :: "'w case_env \<Rightarrow> 'w integration_case \<Rightarrow> ('w lab, unit) cmd" where
  "run_case E c =
     bindM (case_name c) (\<lambda>_.
     bindM (before_run E c) (\<lambda>nodes.
     finallyM (ic_run c E nodes) (drop_nodes E nodes)))"

section \<open>What the cases share: \<open>util/\<close>\<close>

definition estimate_start_number_of_epoch :: "bool \<Rightarrow> 'w node \<Rightarrow> nat \<Rightarrow> ('w, nat) cmd" where
  "estimate_start_number_of_epoch oc node epoch_number =
     bindM (get_consensus node) (\<lambda>c.
     bindM (assertM (cons_permanent_difficulty_in_dummy c) ''assertion failed: permanent_difficulty_in_dummy'') (\<lambda>_.
     bindM (rpc_get_epoch_by_number (nd_rpc_client node) 0) (\<lambda>e.
     bindM (expectM ''genesis epoch should exist'' e) (\<lambda>genesis_epoch.
     u64_mul oc (ev_length genesis_epoch) epoch_number))))"

text \<open>\<open>v0_43\<close> and \<open>v0_100\<close>: what the executables answer to \<open>--version\<close>.\<close>

definition version_of :: "'w case_env \<Rightarrow> string \<Rightarrow> ('w, string) cmd" where
  "version_of E binary =
     bindM (ce_output E binary [''--version'']) (\<lambda>r.
     bindM (unwrapM ''failed to execute process'' r) (\<lambda>stdout.
     let text = map (\<lambda>b. char_of (unat b)) stdout
     in if is_utf8 text then ret text else panicking UNWRAP))"

definition v0_43 :: "'w case_env \<Rightarrow> ('w, string) cmd" where
  "v0_43 E = version_of E (ce_ckb2019 E)"

definition v0_100 :: "'w case_env \<Rightarrow> ('w, string) cmd" where
  "v0_100 E = version_of E (ce_ckb2021 E)"

text \<open>
  A fake peer.  The shared state of the lab is that of the connector in use: a case that makes a new
  connector starts from a fresh one, and never looks at an earlier one again.
\<close>

definition fresh_shared :: "('w lab, unit) cmd" where
  "fresh_shared = (\<lambda>(p, s, w). Some (Inr (), (p, new_shared, w)))"

definition on_net :: "('w net, 'a) cmd \<Rightarrow> ('w lab, 'a) cmd" where
  "on_net m = on_env m"

definition connector_builder_new :: "'w case_env \<Rightarrow> ('w, connector_builder) cmd" where
  "connector_builder_new E = mapC (\<lambda>key. builder_default key (ce_yamux E)) (ce_new_key E)"

definition new_connector :: "'w case_env \<Rightarrow> (support_protocols \<times> bool) list \<Rightarrow> ('w lab, 'w connector) cmd" where
  "new_connector E protocols =
     bindM fresh_shared (\<lambda>_.
     bindM (on_node (connector_builder_new E)) (\<lambda>b.
     on_net (connector_build (ce_spawn E)
       (fold (\<lambda>(protocol, be_compressed) b. with_protocol_meta (handler_build (ce_snap E) protocol be_compressed) b) protocols b))))"

text \<open>Cloning a node that lives in the lab.\<close>

definition lab_clone_node :: "'w case_env \<Rightarrow> 'w node \<Rightarrow> string \<Rightarrow> ('w lab, 'w node) cmd" where
  "lab_clone_node E node name = on_ports (clone_node (ce_os E) node name)"

definition build_with :: "'w case_env \<Rightarrow> 'w node \<Rightarrow> nat \<Rightarrow> build_instruction list \<Rightarrow> ('w, string + unit) cmd" where
  "build_with E node target_height ins =
     build_according_to_instructions (ce_lib E) (ce_clock E) node target_height ins"

text \<open>Cloning for one row of a table: the clone's name, and a clone that pulls the original's chain once more.\<close>

definition case_node_name :: "nat \<Rightarrow> string" where
  "case_node_name i = ''case-'' @ to_decimal i @ ''-node''"

definition pulled_clone :: "'w case_env \<Rightarrow> 'w node \<Rightarrow> string \<Rightarrow> ('w lab, 'w node) cmd" where
  "pulled_clone E node2021 name =
     bindM (lab_clone_node E node2021 name) (\<lambda>node.
     bindM (unwindM (on_node (bindM (pull_node node node2021) (unwrapM UNWRAP))) (on_node (drop_guard (nd_guard node)))) (\<lambda>_.
     ret node))"

text \<open>A transaction proposed two blocks before its height and committed there.\<close>

definition commit_at :: "'w case_env \<Rightarrow> 'w node \<Rightarrow> nat \<Rightarrow> transaction \<Rightarrow> ('w, string + unit) cmd" where
  "commit_at E node height tx =
     bindM (u64_sub (ce_oc E) height 2) (\<lambda>proposed.
     build_with E node height [Propose proposed (short_id (ce_lib E) tx), Commit height tx])"

definition case_node_options :: "string \<Rightarrow> string \<Rightarrow> string \<Rightarrow> string \<Rightarrow> node_options" where
  "case_node_options name binary database version =
     \<lparr>no_node_name = name, no_ckb_binary = binary, no_initial_database = ''testdata/db/'' @ database,
      no_chain_spec = ''testdata/spec/'' @ version, no_app_config = ''testdata/config/'' @ version\<rparr>"

text \<open>The cell a case spends first, and outputs with their exact capacity.\<close>

definition first_spendable :: "'w case_env \<Rightarrow> 'w node \<Rightarrow> ('w, cell_meta) cmd" where
  "first_spendable E node = bindM (get_spendable_always_success_cells (ce_lib E) node) (\<lambda>cells. indexM cells 0)"

definition capacity_of_bytes :: "nat \<Rightarrow> ('w, nat) cmd" where \<comment> \<open>\<open>Capacity::bytes(n).unwrap()\<close>\<close>
  "capacity_of_bytes n = expectM UNWRAP (if capacity_bytes n < u64_lim then Some (capacity_bytes n) else None)"

definition exact_output :: "'w case_env \<Rightarrow> script \<Rightarrow> script option \<Rightarrow> nat \<Rightarrow> ('w, cell_output) cmd" where
  "exact_output E lock type_script data_capacity =
     (let output = \<lparr>co_capacity = 0, co_lock = lock, co_type = type_script\<rparr>
      in bindM (unwrapM UNWRAP (cl_exact_capacity (ce_types E) output data_capacity)) (\<lambda>capacity.
         ret (output\<lparr>co_capacity := capacity\<rparr>)))"

text \<open>A transaction that spends an out point into a fresh always-success cell.\<close>

definition fresh_success_transaction :: "'w case_env \<Rightarrow> 'w node \<Rightarrow> out_point \<Rightarrow> 64 word \<Rightarrow> ('w, transaction) cmd" where
  "fresh_success_transaction E node out_point since =
     bindM (always_success_script (ce_lib E) node) (\<lambda>lock.
     bindM (exact_output E lock None 0) (\<lambda>output.
     bindM (always_success_cell_dep (ce_lib E) node) (\<lambda>dep.
     ret (empty_transaction\<lparr>tx_inputs := [cell_input_new out_point since], tx_outputs := [output],
       tx_outputs_data := [[]], tx_cell_deps := [dep]\<rparr>))))"

section \<open>Checking a list of answers\<close>

text \<open>
  Most cases put a list of questions to nodes and compare each answer with an expected one.  The
  assertion in the scope of a node can be taken out of it: the node is dropped either way.
\<close>

lemma finallyM_assert:
  "finallyM (bindM m (\<lambda>r. assertM (P r) msg)) c = bindM (finallyM m c) (\<lambda>r. assertM (P r) msg)"
proof (rule ext)
  fix w
  show "finallyM (bindM m (\<lambda>r. assertM (P r) msg)) c w = bindM (finallyM m c) (\<lambda>r. assertM (P r) msg) w"
  proof (cases "m w")
    case None
    then show ?thesis by (simp add: finallyM_def bindM_def)
  next
    case (Some rw)
    obtain r w' where rw: "rw = (r, w')" by (cases rw)
    show ?thesis
    proof (cases r)
      case (Inl h)
      then show ?thesis using Some rw
        by (cases h) (auto simp: finallyM_def bindM_def split: option.splits sum.splits prod.splits)
    next
      case (Inr a)
      then show ?thesis using Some rw
        by (auto simp: finallyM_def bindM_def assertM_def ret_def halting_def split: option.splits sum.splits prod.splits)
    qed
  qed
qed

lemma with_node_assert:
  "with_node new_node (\<lambda>node. bindM (probe node) (\<lambda>r. assertM (P r) msg))
     = bindM (with_node new_node probe) (\<lambda>r. assertM (P r) msg)"
  by (simp add: with_node_def finallyM_assert bindM_assoc)

lemma contains_details [simp]: "str_contains e (e @ details)"
  unfolding str_contains_iff by (metis append_Nil)

definition answers_in :: "('w \<Rightarrow> bool) \<Rightarrow> ('w, 'a) cmd \<Rightarrow> 'a \<Rightarrow> bool" where
  "answers_in I m a \<longleftrightarrow> (\<forall>w. I w \<longrightarrow> (\<exists>w'. m w = Some (Inr a, w') \<and> I w'))"

lemma answers_inE:
  assumes "answers_in I m a" and "I w"
  obtains w' where "m w = Some (Inr a, w')" "I w'"
  using assms by (auto simp: answers_in_def)

lemma forM_cong: "(\<And>x. x \<in> set xs \<Longrightarrow> f x = g x) \<Longrightarrow> forM xs f = forM xs g"
  by (induction xs) (simp_all add: fun_eq_iff bindM_def split: option.split sum.split)

lemma forM_checks:
  assumes "\<forall>x \<in> set xs. answers_in I (m x) (ans x)" and "I w"
  shows "\<exists>w'. I w' \<and> forM xs (\<lambda>x. bindM (m x) (\<lambda>r. assertM (P x r) msg)) w
     = Some (if \<forall>x \<in> set xs. P x (ans x) then Inr () else Inl (Panic msg), w')"
  using assms
proof (induction xs arbitrary: w)
  case Nil
  then show ?case by (auto simp: run_simps)
next
  case (Cons x xs)
  obtain w1 where w1: "m x w = Some (Inr (ans x), w1)" "I w1"
    using Cons.prems by (auto elim: answers_inE)
  show ?case
  proof (cases "P x (ans x)")
    case True
    let ?loop = "\<lambda>xs. forM xs (\<lambda>x. bindM (m x) (\<lambda>r. assertM (P x r) msg))"
    have "?loop (x # xs) w = ?loop xs w1"
      using True w1(1) by (simp add: bindM_assoc bindM_run)
    then show ?thesis
      using Cons.IH[OF _ w1(2)] Cons.prems(1) True by auto
  next
    case False
    then show ?thesis using w1 by (auto simp: bindM_def assertM_def halting_def)
  qed
qed

text \<open>
  The interface between a case and its table: running a row is putting the row's question and comparing
  the answer.  Whoever provides that gets the outcome of the whole run: the answers decide it, row by row.
\<close>

locale table_case =
  fixes row_run :: "'p \<Rightarrow> ('w lab, unit) cmd"
    and question :: "'p \<Rightarrow> ('w lab, 'r) cmd"
    and accepted :: "'p \<Rightarrow> 'r \<Rightarrow> bool"
  assumes compares: "row_run p = bindM (question p) (\<lambda>r. assertM (accepted p r) ''assertion failed: `(left == right)`'')"
begin

lemma run_rows: "forM rows row_run = forM rows (\<lambda>p. bindM (question p) (\<lambda>r. assertM (accepted p r) ''assertion failed: `(left == right)`''))"
  by (simp add: compares cong: forM_cong)

lemma outcome:
  assumes "\<forall>p \<in> set rows. answers_in I (question p) (ans p)" and "I w"
  shows "\<exists>r w'. forM rows row_run w = Some (r, w')
     \<and> (if \<forall>p \<in> set rows. accepted p (ans p) then r = Inr () \<and> I w' else \<exists>msg. r = Inl (Panic msg))"
  using forM_checks[OF assms, of accepted "''assertion failed: `(left == right)`''"] unfolding run_rows by auto

end

text \<open>The shape of most cases: a node is made for the row, asked, and dropped after the comparison.\<close>

lemma with_node_compares:
  "with_node new_node (\<lambda>node. bindM (probe node) (assert_result_eq expected))
     = bindM (with_node new_node probe) (\<lambda>r. assertM (results_match expected r) ''assertion failed: `(left == right)`'')"
  using with_node_assert[of new_node probe "results_match expected"] by (simp add: assert_result_eq_def[abs_def])

text \<open>
  A place where clones can be made: in every world of \<open>I\<close> cloning \<open>nd\<close> succeeds, with a clone that
  satisfies \<open>P\<close> in a world of \<open>J\<close>, and when the clone is dropped in a world of \<open>J\<close>, it leaves one of \<open>I\<close>.
\<close>

definition clone_site ::
    "'w case_env \<Rightarrow> 'w node \<Rightarrow> ('w lab \<Rightarrow> bool) \<Rightarrow> ('w node \<Rightarrow> bool) \<Rightarrow> ('w lab \<Rightarrow> bool) \<Rightarrow> bool" where
  "clone_site E nd I P J \<longleftrightarrow>
     (\<forall>name w. I w \<longrightarrow> (\<exists>node w'. lab_clone_node E nd name w = Some (Inr node, w') \<and> P node \<and> J w'))
   \<and> (\<forall>node w. P node \<and> J w \<longrightarrow> (\<exists>w'. on_node (drop_guard (nd_guard node)) w = Some (Inr (), w') \<and> I w'))"

lemma clone_site_answers:
  assumes "clone_site E nd I P J" and "\<And>node. P node \<Longrightarrow> answers_in J (m node) a"
  shows "answers_in I (with_node (lab_clone_node E nd name) m) a"
  unfolding answers_in_def
proof (intro allI impI)
  fix w assume "I w"
  then obtain node w1 where 1: "lab_clone_node E nd name w = Some (Inr node, w1)" "P node" "J w1"
    using assms(1) unfolding clone_site_def by blast
  obtain w2 where 2: "m node w1 = Some (Inr a, w2)" "J w2"
    using assms(2)[OF 1(2)] 1(3) by (rule answers_inE)
  obtain w3 where 3: "on_node (drop_guard (nd_guard node)) w2 = Some (Inr (), w3)" "I w3"
    using assms(1) 1(2) 2(2) unfolding clone_site_def by blast
  show "\<exists>w'. with_node (lab_clone_node E nd name) m w = Some (Inr a, w') \<and> I w'"
    using 1 2 3 by (auto simp: with_node_def bindM_run finallyM_Inr)
qed

text \<open>A loop over a table whose bodies pass or panic, row by row.\<close>

lemma forM_passes:
  assumes "\<And>x w. x \<in> set xs \<Longrightarrow> I w \<Longrightarrow> \<exists>r w'. f x w = Some (r, w') \<and> (if ok x then r = Inr () \<and> I w' else \<exists>msg. r = Inl (Panic msg))"
    and "I w"
  shows "\<exists>r w'. forM xs f w = Some (r, w') \<and> (if \<forall>x \<in> set xs. ok x then r = Inr () \<and> I w' else \<exists>msg. r = Inl (Panic msg))"
  using assms
proof (induction xs arbitrary: w)
  case Nil
  then show ?case by (simp add: ret_run)
next
  case (Cons x xs)
  obtain r w1 where 1: "f x w = Some (r, w1)" "if ok x then r = Inr () \<and> I w1 else \<exists>msg. r = Inl (Panic msg)"
    using Cons.prems(1)[of x w] Cons.prems(2) by auto
  show ?case
  proof (cases "ok x")
    case True
    then have "I w1" using 1(2) by simp
    then obtain r' w2 where "forM xs f w1 = Some (r', w2)"
      "if \<forall>x \<in> set xs. ok x then r' = Inr () \<and> I w2 else \<exists>msg. r' = Inl (Panic msg)"
      using Cons.IH[OF Cons.prems(1)] by fastforce
    with 1 True show ?thesis by (simp add: bindM_run)
  next
    case False
    with 1 show ?thesis by (auto simp: bindM_def)
  qed
qed

lemma answers_in_ret [simp]: "answers_in I (ret a) b \<longleftrightarrow> (\<forall>w. \<not> I w) \<or> a = b"
  by (auto simp: answers_in_def ret_def)

lemma answers_in_bindM:
  assumes "answers_in I m a" and "answers_in I (f a) b"
  shows "answers_in I (bindM m f) b"
  using assms unfolding answers_in_def by (metis bindM_run)

lemma answers_in_mapC: "answers_in I m a \<Longrightarrow> answers_in I (mapC g m) (g a)"
  unfolding answers_in_def by (metis mapC_run)

end
