(* ===== verification/LabWorld.thy ===== *)
theory LabWorld
  imports CaseRunner
begin

text \<open>
  A small lab for the witnesses of the cases' properties: every process that is started serves a
  chain that is \<open>base\<close> blocks high, mines its own templates, and answers a submitted block by
  \<open>verdict\<close>.  The world is the height of the chain.
\<close>

definition lab_inner :: "(block \<Rightarrow> string + unit) \<Rightarrow> nat inner2021" where
  "lab_inner verdict = offline2021\<lparr>
     i21_local_node_info := ret (Inr \<lparr>ln_version = ''0.100.0'', ln_node_id = ''Qm'',
        ln_addresses = [''/ip4/0.0.0.0/tcp/9001''], ln_connections = 0\<rparr>),
     i21_tx_pool_info := reading (\<lambda>tip. Inr (pool_at tip tip)),
     i21_get_consensus := ret (Inr \<lparr>cons_cellbase_maturity = 4, cons_permanent_difficulty_in_dummy = True,
        cons_median_time_block_count = 37, cons_hardfork_features = [], cons_id = ''ckb_dev'', cons_genesis_hash = 0\<rparr>),
     i21_get_block_by_number := (\<lambda>n. ret (Inr (Some (block_at n)))),
     i21_get_tip_block_number := reading Inr,
     i21_get_tip_header := reading (\<lambda>tip. Inr (header_at tip)),
     i21_get_block_hash := (\<lambda>n. ret (Inr (Some n))),
     i21_get_epoch_by_number := (\<lambda>n. ret (Inr (Some \<lparr>ev_number = 0, ev_start_number = 0, ev_length = 1000\<rparr>))),
     i21_get_block_template := (\<lambda>_ _ _. reading (\<lambda>tip. Inr (template_at (Suc tip)))),
     i21_submit_block := (\<lambda>_ b tip. case verdict b of
         Inl e \<Rightarrow> Some (Inr (Inl e), tip)
       | Inr u \<Rightarrow> Some (Inr (Inr (Suc tip)), Suc tip))\<rparr>"

definition lab_client :: "(block \<Rightarrow> string + unit) \<Rightarrow> nat rpc_client" where
  "lab_client verdict = offline_client\<lparr>rc_inner2021 := lab_inner verdict\<rparr>"

definition lab_clock :: "nat clock" where
  "lab_clock = \<lparr>now = (\<lambda>_. 0), sleep = (\<lambda>_ w. w)\<rparr>"

definition lab_os :: "(block \<Rightarrow> string + unit) \<Rightarrow> nat \<Rightarrow> nat os" where
  "lab_os verdict base = good_os\<lparr>os_clock := lab_clock,
     os_spawn := (\<lambda>_ _ w. Some (Inr (Inr good_child), base)),
     os_connect_rpc := (\<lambda>_ _. ret (lab_client verdict))\<rparr>"

definition lab_types :: case_lib where
  "lab_types = \<lparr>cl_exact_capacity = (\<lambda>_ data. Inr (data + 6100000000)), cl_data_hash = length,
     cl_out_points = (\<lambda>ps. map (\<lambda>p. of_nat (op_index p)) ps), cl_exec_params = (\<lambda>source place index bounds. [of_nat source, of_nat place]),
     cl_full_value = (\<lambda>e. of_nat (ep_number e + 2 ^ 24 * ep_index e + 2 ^ 40 * ep_length e)),
     cl_epoch_le = (\<lambda>a b. ep_number a \<le> ep_number b), cl_relay_item_name = (\<lambda>_. Inr ''GetRelayTransactions''),
     cl_identify_message = (\<lambda>_. Inr ()), cl_hex = (\<lambda>_. ''0123456789abcdef''), cl_file = (\<lambda>_. [1, 2, 3])\<rparr>"

definition lab_env :: "(block \<Rightarrow> string + unit) \<Rightarrow> nat \<Rightarrow> nat case_env" where
  "lab_env verdict base = \<lparr>ce_os = lab_os verdict base, ce_lib = toy_lib, ce_types = lab_types, ce_oc = True,
     ce_names = sorted_list_of_set, ce_hashes = sorted_list_of_set,
     ce_ckb2019 = ''/bin/ckb2019'', ce_ckb2021 = ''/bin/ckb2021'', ce_output = (\<lambda>_ _. ret (Inr [])),
     ce_net = quiet_env, ce_wire = \<lparr>wr_to_vec = (\<lambda>_. []), wr_address_from_slice = (\<lambda>_. Inl []),
       wr_payload_bytes = (\<lambda>_. []), wr_as_bytes = (\<lambda>_. [])\<rparr>, ce_await = id, ce_snap = copy_snap,
     ce_spawn = (\<lambda>_ _. ret (cn_controller quiet_connector)), ce_new_key = ret 1, ce_yamux = 0\<rparr>"

lemma lab_env_simps [simp]:
  "ce_os (lab_env V base) = lab_os V base" "ce_lib (lab_env V base) = toy_lib" "ce_oc (lab_env V base) = True"
  "os_clock (lab_os V base) = lab_clock" "ce_ckb2021 (lab_env V base) = ''/bin/ckb2021''"
  by (simp_all add: lab_env_def lab_os_def)

lemma lab_client_simps [simp]:
  "rpc_get_tip_block_number (lab_client V) = reading id"
  "rpc_get_block_hash (lab_client V) n = ret (Some n)"
  "rpc_get_block_by_number (lab_client V) n = ret (Some (block_at n))"
  "rpc_get_block_template (lab_client V) None None None = reading (\<lambda>tip. template_at (Suc tip))"
  "rpc_tx_pool_info (lab_client V) = reading (\<lambda>tip. pool_at tip tip)"
  "rpc_get_tip_header (lab_client V) = reading header_at"
  "rpc_submit_block (lab_client V) s b = (\<lambda>tip. case V b of
      Inl e \<Rightarrow> Some (Inr (Inl e), tip) | Inr u \<Rightarrow> Some (Inr (Inr (Suc tip)), Suc tip))"
  "rpc_get_epoch_by_number (lab_client V) n = ret (Some \<lparr>ev_number = 0, ev_start_number = 0, ev_length = 1000\<rparr>)"
  "i21_local_node_info (rc_inner2021 (lab_client V)) = ret (Inr \<lparr>ln_version = ''0.100.0'', ln_node_id = ''Qm'',
        ln_addresses = [''/ip4/0.0.0.0/tcp/9001''], ln_connections = 0\<rparr>)"
  "rpc_get_consensus (lab_client V) = ret \<lparr>cons_cellbase_maturity = 4, cons_permanent_difficulty_in_dummy = True,
        cons_median_time_block_count = 37, cons_hardfork_features = [], cons_id = ''ckb_dev'', cons_genesis_hash = 0\<rparr>"
  by (auto simp: lab_client_def lab_inner_def offline_client_def expect_rpc_def rpc_get_tip_block_number_def
      rpc_get_block_hash_def rpc_get_block_by_number_def rpc_get_block_template_def rpc_tx_pool_info_def
      rpc_get_tip_header_def rpc_get_consensus_def rpc_submit_block_def rpc_get_epoch_by_number_def reading_def bindM_def ret_def fun_eq_iff)

lemma lab_submit:
  assumes "nd_rpc_client nd = lab_client V" and "V b = Inr ()"
  shows "submit_block lab_clock nd b tip = Some (Inr (Suc tip), Suc tip)"
  using assms by (simp add: submit_block_def bindM_def reading_def wait_for_tx_pool_def header_at_def pool_at_def ret_def)

lemma lab_mine:
  assumes "nd_rpc_client nd = lab_client V" and "\<And>n. V (block_at n) = Inr ()"
  shows "mine toy_lib lab_clock nd n tip = Some (Inr (), tip + n)"
proof (induction n arbitrary: tip)
  case 0
  then show ?case by (simp add: run_simps)
next
  case (Suc n)
  have "template_block toy_lib (template_at (Suc tip)) = block_at (Suc tip)" by (simp add: toy_lib_def template_at_def)
  with Suc show ?case
    using assms lab_submit[OF assms(1), of "block_at (Suc tip)" tip]
    by (simp add: bindM_run reading_run)
qed

lemma lab_mine_to:
  assumes "nd_rpc_client nd = lab_client V" and "\<And>n. V (block_at n) = Inr ()"
  shows "mine_to toy_lib lab_clock nd target tip = Some (Inr (), max tip target)"
  using lab_mine[OF assms, of "target - tip" tip] assms(1)
  by (simp add: mine_to_def get_tip_block_number_def bindM_run reading_run ret_run max_def)

lemma lab_init:
  "\<exists>nd p'. node_init (lab_os V base) name options v (p, w) = Some (Inr nd, (p', w))
     \<and> nd_rpc_client nd = lab_client V \<and> nd_guard nd = None \<and> nd_node_options nd = options"
  by (simp add: node_init_def good_os_def lab_os_def bindM_def ports_def ret_def on_env_def prepare_working_dir_def
      temp_path_def copy_into_def unwrapM_def)

lemma lab_start:
  assumes "nd_rpc_client nd = lab_client V" and "nd_guard nd = None"
  shows "\<exists>nd'. node_start (lab_os V base) nd w = Some (Inr nd', base) \<and> nd_guard nd' = Some good_child
    \<and> nd_rpc_client nd' = lab_client V \<and> nd_node_options nd' = nd_node_options nd \<and> started nd'"
proof -
  have up: "node_up_loop lab_clock (lab_client V) good_child 0 base = Some (Inr \<lparr>ln_version = ''0.100.0'', ln_node_id = ''Qm'',
        ln_addresses = [''/ip4/0.0.0.0/tcp/9001''], ln_connections = 0\<rparr>, base)"
    by (subst node_up_loop.simps) (simp add: bindM_run reading_run ret_run lab_clock_def)
  show ?thesis
    using assms up
    by (simp add: node_start_def good_os_def lab_os_def wait_for_node_up_def unwrapM_def get_block_by_number_def
        drop_guard_def indexM_def expectM_def bindM_def ret_def started_def lab_clock_def)
qed

lemma lab_clone:
  assumes "nd_rpc_client nd = lab_client V"
  shows "\<exists>nd' p'. lab_clone_node (lab_env V base) nd name (p, s, w) = Some (Inr nd', (p', s, base))
    \<and> nd_rpc_client nd' = lab_client V \<and> nd_guard nd' = Some good_child"
proof -
  obtain nd0 p' where 0: "node_init (lab_os V base) ''cloned_node'' ((nd_node_options nd)\<lparr>no_node_name := name\<rparr>)
      (rc_ckb2021 (nd_rpc_client nd)) (p, w) = Some (Inr nd0, (p', w))"
    "nd_rpc_client nd0 = lab_client V" "nd_guard nd0 = None"
    using lab_init by blast
  obtain nd' where 1: "node_start (lab_os V base) nd0 w = Some (Inr nd', base)" "nd_guard nd' = Some good_child"
    "nd_rpc_client nd' = lab_client V"
    using lab_start[OF 0(2,3)] by blast
  have "pull_node nd' nd base = Some (Inr (Inr ()), base)"
    using 1(3) assms by (simp add: pull_node_def get_tip_block_number_def bindM_def reading_def ret_def)
  with 0 1 show ?thesis
    by (auto simp: lab_clone_node_def clone_node_def on_ports_def on_env_def bindM_run unwrapM_def ret_run)
qed

lemma drop_good_child [simp]: "drop_guard (Some good_child) = ret ()"
  by (simp add: drop_guard_def good_child_def)

definition lab_node :: "(block \<Rightarrow> string + unit) \<Rightarrow> string \<Rightarrow> nat node" where
  "lab_node V name = (offline_node name)\<lparr>nd_rpc_client := lab_client V,
     nd_consensus := Some \<lparr>cons_cellbase_maturity = 4, cons_permanent_difficulty_in_dummy = True,
       cons_median_time_block_count = 37, cons_hardfork_features = [], cons_id = ''ckb_dev'', cons_genesis_hash = 0\<rparr>\<rparr>"

lemma lab_node_client [simp]: "nd_rpc_client (lab_node V name) = lab_client V"
  by (simp add: lab_node_def)

lemma lab_estimate:
  assumes "1000 * n < u64_lim"
  shows "estimate_start_number_of_epoch oc (lab_node V name) n = ret (1000 * n)"
  using assms by (simp add: estimate_start_number_of_epoch_def get_consensus_def lab_node_def u64_mul_ok)

text \<open>A question to a clone: the answer of the clone, in a world where a clone has just been made.\<close>

lemma lab_question:
  assumes "nd_rpc_client nd = lab_client V"
    and "\<And>node. nd_rpc_client node = lab_client V \<Longrightarrow> \<exists>w'. m node base = Some (Inr a, w') \<and> I w'"
  shows "answers_in (\<lambda>(p, s, w). I w) (with_node (lab_clone_node (lab_env V base) nd name) (\<lambda>node. on_node (m node))) a"
  unfolding answers_in_def
proof (intro allI impI)
  fix w0 :: "nat lab"
  obtain p s w where w0: "w0 = (p, s, w)" by (cases w0)
  obtain nd' p' where c: "lab_clone_node (lab_env V base) nd name (p, s, w) = Some (Inr nd', (p', s, base))"
    "nd_rpc_client nd' = lab_client V" "nd_guard nd' = Some good_child"
    using lab_clone[OF assms(1)] by blast
  obtain w' where m: "m nd' base = Some (Inr a, w')" "I w'" using assms(2)[OF c(2)] by blast
  have "finallyM (on_node (m nd')) (ret ()) (p', s, base) = Some (Inr a, (p', s, w'))"
    using m(1) by (simp add: finallyM_def on_node_run ret_def)
  with c w0 m(2) show "\<exists>w'. with_node (lab_clone_node (lab_env V base) nd name) (\<lambda>node. on_node (m node)) w0 = Some (Inr a, w')
      \<and> (case w' of (p, s, w) \<Rightarrow> I w)"
    by (simp add: with_node_def bindM_run)
qed

end
