(* ===== verification/Deployer.thy ===== *)
theory Deployer
  imports CaseRunner
begin

text \<open>
  \<open>ckb-integration-test/src/util/deployer.rs\<close>: deploying cells under names, each by a transaction that
  spends enough of the node's always-success cells and is committed at once.
\<close>

type_synonym deployer = "string \<rightharpoonup> cell_meta"

definition deployer_new :: deployer where
  "deployer_new = Map.empty"

text \<open>Cells are taken until one is worth more than what is left to pay.\<close>

fun pick_inputs :: "nat \<Rightarrow> cell_meta list \<Rightarrow> cell_meta list" where
  "pick_inputs output_capacity [] = []"
| "pick_inputs output_capacity (cell # cells) =
     (let capacity = co_capacity (cm_cell_output cell)
      in if capacity \<le> output_capacity then cell # pick_inputs (output_capacity - capacity) cells else [cell])"

definition deploy_transaction :: "'w case_env \<Rightarrow> 'w node \<Rightarrow> cell_output \<Rightarrow> bytes \<Rightarrow> ('w, transaction) cmd" where
  "deploy_transaction E node output output_data =
     bindM (get_spendable_always_success_cells (ce_lib E) node) (\<lambda>cells.
     let inputs = pick_inputs (co_capacity output) cells in
     bindM (always_success_cell_dep (ce_lib E) node) (\<lambda>dep.
     ret (empty_transaction\<lparr>tx_inputs := map (\<lambda>input. cell_input_new (cm_out_point input) 0) inputs,
       tx_outputs := [output], tx_outputs_data := [output_data], tx_cell_deps := [dep]\<rparr>)))"

text \<open>\<open>Propose\<close> in the next block, \<open>Commit\<close> two later.\<close>

definition commit_at_once :: "'w case_env \<Rightarrow> 'w node \<Rightarrow> transaction \<Rightarrow> ('w, string + unit) cmd" where
  "commit_at_once E node tx =
     bindM (get_tip_block_number node) (\<lambda>tip_number.
     bindM (u64_add (ce_oc E) tip_number 3) (\<lambda>target.
     bindM (u64_add (ce_oc E) tip_number 1) (\<lambda>proposed.
     build_with E node target [Propose proposed (short_id (ce_lib E) tx), Commit target tx])))"

definition deploy :: "'w case_env \<Rightarrow> deployer \<Rightarrow> 'w node \<Rightarrow> string \<Rightarrow> cell_output \<Rightarrow> bytes \<Rightarrow> ('w, deployer) cmd" where
  "deploy E d node cell_name output output_data =
     bindM (assertM (d cell_name = None) (''cell \"'' @ cell_name @ ''\" already deployed'')) (\<lambda>_.
     bindM (deploy_transaction E node output output_data) (\<lambda>tx.
     bindM (commit_at_once E node tx) (\<lambda>built.
     bindM (case built of Inr u \<Rightarrow> ret u | Inl err \<Rightarrow> panicking (''failed to deploy \"'' @ cell_name @ ''\", error: '' @ err)) (\<lambda>_.
     bindM (synced_indexer (ce_lib E) node) (\<lambda>_.
     bindM (get_cell_meta node \<lparr>op_tx_hash = hash_tx (ce_lib E) tx, op_index = 0\<rparr>) (\<lambda>m.
     bindM (expectM (''deployer should already committed tx '' @ cl_hex (ce_types E) (hash_tx (ce_lib E) tx)) m) (\<lambda>cell_meta.
     ret (d(cell_name \<mapsto> cell_meta)))))))))"

definition deployed_cell :: "deployer \<Rightarrow> string \<Rightarrow> ('w, cell_meta) cmd" where \<comment> \<open>\<open>get_cell\<close>\<close>
  "deployed_cell d cell_name = expectM (''deployer cannot find cell '' @ cell_name) (d cell_name)"

definition deployed_out_point :: "deployer \<Rightarrow> string \<Rightarrow> ('w, out_point) cmd" where \<comment> \<open>\<open>get_out_point\<close>\<close>
  "deployed_out_point d cell_name = mapC cm_out_point (deployed_cell d cell_name)"

definition deployed_cells :: "deployer \<Rightarrow> deployer" where \<comment> \<open>\<open>get_cells\<close>\<close>
  "deployed_cells d = d"

text \<open>The data of a deployed cell, read back from the node, as the cases do.\<close>

definition deployed_content :: "'w node \<Rightarrow> deployer \<Rightarrow> string \<Rightarrow> ('w, bytes) cmd" where
  "deployed_content node d cell_name =
     bindM (deployed_out_point d cell_name) (\<lambda>out_point.
     bindM (rpc_get_live_cell (nd_rpc_client node) out_point True) (\<lambda>cell_with_status.
     bindM (expectM UNWRAP (cws_cell cell_with_status)) (\<lambda>cell.
     bindM (expectM UNWRAP (cinfo_data cell)) (\<lambda>data.
     ret (cdata_content data)))))"

definition deployed_data_hash :: "'w case_env \<Rightarrow> 'w node \<Rightarrow> deployer \<Rightarrow> string \<Rightarrow> ('w, byte32) cmd" where
  "deployed_data_hash E node d cell_name = mapC (cl_data_hash (ce_types E)) (deployed_content node d cell_name)"

lemma deployed_cell_Some: "d cell_name = Some m \<Longrightarrow> deployed_cell d cell_name = ret m"
  by (simp add: deployed_cell_def expectM_def)

lemma deployed_out_points:
  "set names \<subseteq> dom d \<Longrightarrow> mapM (deployed_out_point d) names = ret (map (\<lambda>n. cm_out_point (the (d n))) names)"
  by (induction names) (auto simp: deployed_out_point_def deployed_cell_Some mapC_def)

section \<open>Choosing the inputs\<close>

abbreviation worth :: "cell_meta list \<Rightarrow> nat" where
  "worth cells \<equiv> sum_list (map (\<lambda>cell. co_capacity (cm_cell_output cell)) cells)"

lemma pick_inputs_prefix: "\<exists>n. pick_inputs c cells = take n cells"
proof (induction cells arbitrary: c)
  case Nil
  then show ?case by simp
next
  case (Cons cell cells)
  obtain n where "pick_inputs (c - co_capacity (cm_cell_output cell)) cells = take n cells"
    using Cons.IH by blast
  then have "pick_inputs c (cell # cells) = take (if co_capacity (cm_cell_output cell) \<le> c then Suc n else 1) (cell # cells)"
    by (simp add: Let_def)
  then show ?case by blast
qed

lemma pick_inputs_pays:
  assumes "c < worth cells"
  shows "c < worth (pick_inputs c cells)"
  using assms
proof (induction cells arbitrary: c)
  case Nil
  then show ?case by simp
next
  case (Cons cell cells)
  let ?k = "co_capacity (cm_cell_output cell)"
  show ?case
  proof (cases "?k \<le> c")
    case True
    then have "c - ?k < worth (pick_inputs (c - ?k) cells)" using Cons.prems by (intro Cons.IH) simp
    with True show ?thesis by (simp add: Let_def)
  qed (simp add: Let_def)
qed

lemma pick_inputs_short: "pick_inputs c cells = ps @ [p] \<Longrightarrow> worth ps \<le> c"
proof (induction cells arbitrary: c ps)
  case Nil
  then show ?case by simp
next
  case (Cons cell cells)
  show ?case
  proof (cases "co_capacity (cm_cell_output cell) \<le> c")
    case True
    with Cons.prems have eq: "cell # pick_inputs (c - co_capacity (cm_cell_output cell)) cells = ps @ [p]" by (simp add: Let_def)
    show ?thesis
    proof (cases ps)
      case Nil
      then show ?thesis by simp
    next
      case (Cons q qs)
      with eq have "q = cell" and "pick_inputs (c - co_capacity (cm_cell_output cell)) cells = qs @ [p]" by auto
      with Cons.IH have "worth qs \<le> c - co_capacity (cm_cell_output cell)" by blast
      with True Cons \<open>q = cell\<close> show ?thesis by simp
    qed
  next
    case False
    with Cons.prems show ?thesis by (simp add: Let_def)
  qed
qed

text \<open>
  C4.  Deploying a cell spends the shortest run of the node's first always-success cells that is worth
  strictly more than the cell: the transaction's inputs are a prefix of the spendable cells, they pay
  for the output when the cells do, and without the last of them they would not leave a fee.  The
  whole excess is the fee; there is no change output.
\<close>

theorem deploy_spends_shortest_prefix:
  assumes "get_spendable_always_success_cells (ce_lib E) node w = Some (Inr cells, w1)"
    and "always_success_cell_dep (ce_lib E) node w1 = Some (Inr dep, w2)"
  shows "\<exists>n. deploy_transaction E node output output_data w
     = Some (Inr (empty_transaction\<lparr>tx_inputs := map (\<lambda>cell. cell_input_new (cm_out_point cell) 0) (take n cells),
         tx_outputs := [output], tx_outputs_data := [output_data], tx_cell_deps := [dep]\<rparr>), w2)
     \<and> (co_capacity output < worth cells \<longrightarrow> co_capacity output < worth (take n cells))
     \<and> (\<forall>m<n. m < length cells \<longrightarrow> worth (take m cells) \<le> co_capacity output)"
proof -
  let ?c = "co_capacity output"
  obtain n where n: "pick_inputs ?c cells = take n cells" using pick_inputs_prefix by blast
  have short: "worth (take m cells) \<le> ?c" if "m < n" "m < length cells" for m
  proof -
    have "take n cells \<noteq> []" using that by auto
    then have "pick_inputs ?c cells = butlast (take n cells) @ [last (take n cells)]" using n by simp
    then have "worth (butlast (take n cells)) \<le> ?c" by (rule pick_inputs_short)
    moreover have "take m cells = take m (butlast (take n cells))"
      using that by (simp add: butlast_conv_take min_def)
    then have "worth (take m cells) \<le> worth (butlast (take n cells))"
      by (metis append_take_drop_id le_add1 map_append sum_list_append)
    ultimately show ?thesis by simp
  qed
  show ?thesis
    using assms short pick_inputs_pays[of ?c cells] n
    by (intro exI[of _ n]) (auto simp: deploy_transaction_def bindM_run Let_def ret_run)
qed

end
