(* ===== verification/ScriptedLab.thy ===== *)
theory ScriptedLab
  imports LabWorld Deployer
begin

text \<open>
  A second lab for the witnesses: nodes whose chain is \<open>height\<close> blocks high, whose index holds
  always-success cells, and which either report every chain to be built already or refuse every
  block with \<open>err\<close>, according to the name they were cloned under; a node refuses once.  The world is 0 while the last
  node refuses and 1 while it accepts.
\<close>

definition script_block :: "nat \<Rightarrow> block" where
  "script_block n = (block_at n)\<lparr>bk_header := (bk_header (block_at n))\<lparr>hd_epoch := epoch_ext.make (n div 1000) (n mod 1000) 1000\<rparr>\<rparr>"

definition script_inner :: "string \<Rightarrow> nat \<Rightarrow> nat inner2021" where
  "script_inner err height = (lab_inner (\<lambda>_. Inl err))\<lparr>
     i21_get_block_by_number := (\<lambda>n. ret (Inr (if n \<le> height then Some (script_block n) else None))),
     i21_get_tip_block_number := ret (Inr height),
     i21_get_tip_header := ret (Inr (header_at height)),
     i21_get_live_cell := (\<lambda>_ _. ret (Inr \<lparr>cws_cell = Some \<lparr>cinfo_output = \<lparr>co_capacity = 100, co_lock = default_script,
        co_type = Some default_script\<rparr>, cinfo_data = Some \<lparr>cdata_content = [1, 2], cdata_hash = 2\<rparr>\<rparr>, cws_status = ''live''\<rparr>)),
     i21_calculate_dao_field := (\<lambda>_. ret (Inr 0)),
     i21_submit_block := (\<lambda>_ _ w. Some (Inr (Inl err), max 1 w)),
     i21_get_block_template := (\<lambda>_ _ _. reading (\<lambda>w. Inr (template_at (if w = 0 then Suc height else 1000000))))\<rparr>"

definition script_client :: "string \<Rightarrow> nat \<Rightarrow> nat rpc_client" where
  "script_client err height = offline_client\<lparr>rc_inner2021 := script_inner err height\<rparr>"

definition the_cell :: live_cell_detail where
  "the_cell = \<lparr>lc_block_number = 1, lc_block_hash = 1, lc_tx_index = 0, lc_cell_output =
     \<lparr>co_capacity = 100000000000, co_lock = default_script, co_type = None\<rparr>, lc_cell_data = []\<rparr>"

definition script_out_points :: "out_point list" where
  "script_out_points = map (\<lambda>i. \<lparr>op_tx_hash = 7, op_index = i\<rparr>) [0..<250]"

definition script_indexer :: "nat \<Rightarrow> nat indexer" where
  "script_indexer height = empty_indexer\<lparr>ix_tip := ret (Inr (Some (height, height))),
     ix_get_live_cells_by_lock_script := (\<lambda>_. ret (Inr script_out_points)),
     ix_get_detailed_live_cell := (\<lambda>_. ret (Inr (Some the_cell)))\<rparr>"

definition script_os :: "(string \<Rightarrow> bool) \<Rightarrow> string \<Rightarrow> nat \<Rightarrow> nat os" where
  "script_os refuses err height = good_os\<lparr>os_clock := lab_clock,
     os_make_tempdir := (\<lambda>_ p w. Some (Inr (Inr p), if refuses p then 0 else 1)),
     os_connect_rpc := (\<lambda>_ _. ret (script_client err height)),
     os_open_indexer := (\<lambda>_. ret (script_indexer height))\<rparr>"

definition script_env :: "(string \<Rightarrow> bool) \<Rightarrow> string \<Rightarrow> nat \<Rightarrow> nat case_env" where
  "script_env refuses err height = (lab_env (\<lambda>_. Inl err) height)\<lparr>ce_os := script_os refuses err height\<rparr>"

text \<open>A node as \<open>start\<close> leaves it.\<close>

definition scripted :: "string \<Rightarrow> nat \<Rightarrow> nat node \<Rightarrow> bool" where
  "scripted err height nd \<longleftrightarrow> nd_rpc_client nd = script_client err height
     \<and> (\<exists>c. nd_consensus nd = Some c \<and> cons_permanent_difficulty_in_dummy c)
     \<and> nd_genesis_block nd = Some (script_block 0) \<and> nd_indexer nd = Some (script_indexer height)
     \<and> nd_guard nd = Some good_child"

definition script_node :: "string \<Rightarrow> nat \<Rightarrow> nat node" where
  "script_node err height = (offline_node ''node2021'')\<lparr>nd_rpc_client := script_client err height,
     nd_consensus := Some \<lparr>cons_cellbase_maturity = 4, cons_permanent_difficulty_in_dummy = True,
       cons_median_time_block_count = 37, cons_hardfork_features = [], cons_id = ''ckb_dev'', cons_genesis_hash = 0\<rparr>,
     nd_genesis_block := Some (script_block 0), nd_indexer := Some (script_indexer height), nd_guard := Some good_child\<rparr>"

lemma scripted_script_node: "scripted err height (script_node err height)"
  by (simp add: scripted_def script_node_def)

lemma script_env_simps [simp]:
  "ce_os (script_env R err H) = script_os R err H" "ce_lib (script_env R err H) = toy_lib" "ce_oc (script_env R err H) = True"
  "os_clock (script_os R err H) = lab_clock" "ce_types (script_env R err H) = lab_types"
  by (simp_all add: script_env_def lab_env_def script_os_def)

lemma script_client_simps [simp]:
  "rpc_get_tip_block_number (script_client err H) = ret H"
  "rpc_get_block_hash (script_client err H) n = ret (Some n)"
  "rpc_get_block_by_number (script_client err H) n = ret (if n \<le> H then Some (script_block n) else None)"
  "rpc_get_block_template (script_client err H) None None None = reading (\<lambda>w. template_at (if w = 0 then Suc H else 1000000))"
  "rpc_tx_pool_info (script_client err H) = reading (\<lambda>tip. pool_at tip tip)"
  "rpc_get_tip_header (script_client err H) = ret (header_at H)"
  "rpc_submit_block (script_client err H) s b = (\<lambda>w. Some (Inr (Inl err), max 1 w))"
  "rpc_calculate_dao_field (script_client err H) t = ret (Inr 0)"
  "rpc_get_live_cell (script_client err H) p d = ret \<lparr>cws_cell = Some \<lparr>cinfo_output = \<lparr>co_capacity = 100,
      co_lock = default_script, co_type = Some default_script\<rparr>,
      cinfo_data = Some \<lparr>cdata_content = [1, 2], cdata_hash = 2\<rparr>\<rparr>, cws_status = ''live''\<rparr>"
  "rpc_get_epoch_by_number (script_client err H) n = ret (Some \<lparr>ev_number = 0, ev_start_number = 0, ev_length = 1000\<rparr>)"
  "i21_local_node_info (rc_inner2021 (script_client err H)) = ret (Inr \<lparr>ln_version = ''0.100.0'', ln_node_id = ''Qm'',
        ln_addresses = [''/ip4/0.0.0.0/tcp/9001''], ln_connections = 0\<rparr>)"
  "rpc_get_consensus (script_client err H) = ret \<lparr>cons_cellbase_maturity = 4, cons_permanent_difficulty_in_dummy = True,
        cons_median_time_block_count = 37, cons_hardfork_features = [], cons_id = ''ckb_dev'', cons_genesis_hash = 0\<rparr>"
  by (auto simp: script_client_def script_inner_def lab_inner_def offline_client_def expect_rpc_def rpc_get_tip_block_number_def
      rpc_get_block_hash_def rpc_get_block_by_number_def rpc_get_block_template_def rpc_tx_pool_info_def
      rpc_get_tip_header_def rpc_get_consensus_def rpc_submit_block_def rpc_get_epoch_by_number_def
      rpc_calculate_dao_field_def rpc_get_live_cell_def reading_def bindM_def ret_def fun_eq_iff)

lemma script_estimate:
  assumes "scripted err H nd" and "1000 * n < u64_lim"
  shows "estimate_start_number_of_epoch oc nd n = ret (1000 * n)"
  using assms by (auto simp: scripted_def estimate_start_number_of_epoch_def get_consensus_def u64_mul_ok)

lemma script_clone:
  assumes "scripted err H nd"
  shows "\<exists>nd' p'. lab_clone_node (script_env R err H) nd name (p, s, w)
      = Some (Inr nd', (p', s, if R (str_join ''-'' [''ckb-it'', ''cloned_node'', name, []]) then 0 else 1)) \<and> scripted err H nd'"
proof -
  let ?w = "if R (str_join ''-'' [''ckb-it'', ''cloned_node'', name, []]) then 0 else 1 :: nat"
  let ?opts = "(nd_node_options nd)\<lparr>no_node_name := name\<rparr>"
  obtain nd0 p' where 0: "node_init (script_os R err H) ''cloned_node'' ?opts (rc_ckb2021 (nd_rpc_client nd)) (p, w) = Some (Inr nd0, (p', ?w))"
    "nd_rpc_client nd0 = script_client err H" "nd_guard nd0 = None"
    by (simp add: node_init_def good_os_def script_os_def bindM_def ports_def ret_def on_env_def prepare_working_dir_def
        temp_path_def copy_into_def unwrapM_def)
  have up: "node_up_loop lab_clock (script_client err H) good_child 0 w = Some (Inr \<lparr>ln_version = ''0.100.0'', ln_node_id = ''Qm'',
        ln_addresses = [''/ip4/0.0.0.0/tcp/9001''], ln_connections = 0\<rparr>, w)" for w
    by (subst node_up_loop.simps) (simp add: bindM_run reading_run ret_run lab_clock_def)
  obtain nd' where 1: "node_start (script_os R err H) nd0 ?w = Some (Inr nd', ?w)" "scripted err H nd'"
    using 0(2,3) up[of ?w]
    by (simp add: node_start_def good_os_def script_os_def wait_for_node_up_def unwrapM_def get_block_by_number_def
        drop_guard_def indexM_def expectM_def bindM_def ret_def lab_clock_def scripted_def)
  have "pull_node nd' nd ?w = Some (Inr (Inr ()), ?w)"
    using 1(2) assms by (simp add: scripted_def pull_node_def get_tip_block_number_def bindM_def ret_def)
  with 0 1 show ?thesis
    by (auto simp: lab_clone_node_def clone_node_def on_ports_def on_env_def bindM_run unwrapM_def ret_run)
qed

lemma script_pull:
  assumes "scripted err H nd'" and "scripted err H nd"
  shows "pull_node nd' nd w = Some (Inr (Inr ()), w)"
  using assms by (simp add: scripted_def pull_node_def get_tip_block_number_def bindM_def ret_def)

lemma script_pulled_clone:
  assumes "scripted err H nd"
  shows "\<exists>nd' p'. pulled_clone (script_env R err H) nd name (p, s, w)
      = Some (Inr nd', (p', s, if R (str_join ''-'' [''ckb-it'', ''cloned_node'', name, []]) then 0 else 1)) \<and> scripted err H nd'"
proof -
  obtain nd' p' where c: "lab_clone_node (script_env R err H) nd name (p, s, w)
      = Some (Inr nd', (p', s, if R (str_join ''-'' [''ckb-it'', ''cloned_node'', name, []]) then 0 else 1))" "scripted err H nd'"
    using script_clone[OF assms] by blast
  then show ?thesis
    using script_pull[OF c(2) assms] by (simp add: pulled_clone_def bindM_run on_node_run unwindM_Inr unwrapM_def ret_run)
qed

text \<open>A question to a clone, asked in the world its name determines.\<close>

lemma script_question_of:
  assumes "\<And>p s w. \<exists>nd' p'. new_node (p, s, w) = Some (Inr nd', (p', s, if refused then 0 else 1 :: nat)) \<and> scripted err H nd'"
    and "\<And>node. scripted err H node \<Longrightarrow> m node (if refused then 0 else 1) = Some (Inr a, w1)"
  shows "answers_in (\<lambda>_. True) (with_node new_node (\<lambda>node. on_node (m node))) a"
  unfolding answers_in_def
proof (intro allI impI)
  fix w0 :: "nat lab"
  obtain p s w where w0: "w0 = (p, s, w)" by (cases w0)
  obtain nd' p' where c: "new_node (p, s, w) = Some (Inr nd', (p', s, if refused then 0 else 1 :: nat))" "scripted err H nd'"
    using assms(1) by blast
  then have "nd_guard nd' = Some good_child" by (simp add: scripted_def)
  then show "\<exists>w'. with_node new_node (\<lambda>node. on_node (m node)) w0 = Some (Inr a, w') \<and> True"
    using c(1) assms(2)[OF c(2)] w0 by (simp add: with_node_def bindM_run finallyM_def on_node_run ret_def)
qed

lemma script_question:
  assumes "scripted err H nd"
    and "\<And>node. scripted err H node \<Longrightarrow> m node (if R (str_join ''-'' [''ckb-it'', ''cloned_node'', name, []]) then 0 else 1)
        = Some (Inr a, w1)"
  shows "answers_in (\<lambda>_. True) (with_node (lab_clone_node (script_env R err H) nd name) (\<lambda>node. on_node (m node))) a"
  using script_clone[OF assms(1)] assms(2) by (intro script_question_of) blast+

text \<open>The rows of a table: the number of the row in the clone's name decides.\<close>

fun lead_number :: "nat \<Rightarrow> string \<Rightarrow> nat" where
  "lead_number n [] = n"
| "lead_number n (c # cs) = (let d = of_char c in if 48 \<le> d \<and> d \<le> 57 then lead_number (10 * n + (d - 48)) cs else n)"

lemma lead_number_decimal: "lead_number 0 (to_decimal i @ rest) = lead_number i rest"
proof (induction i arbitrary: rest rule: to_decimal.induct)
  case (1 i)
  show ?case
  proof (cases "i < 10")
    case True
    then show ?thesis by (subst to_decimal.simps) (simp add: digit_char_def Let_def)
  next
    case False
    have "lead_number 0 (to_decimal i @ rest) = lead_number 0 (to_decimal (i div 10) @ digit_char (i mod 10) # rest)"
      using False by (subst to_decimal.simps) simp
    also have "\<dots> = lead_number (i div 10) (digit_char (i mod 10) # rest)" using 1 False by blast
    also have "i mod 10 \<le> 9" by presburger
    then have "lead_number (i div 10) (digit_char (i mod 10) # rest) = lead_number i rest" by (simp add: digit_char_def Let_def)
    finally show ?thesis .
  qed
qed

definition row_of_dir :: "string \<Rightarrow> nat" where
  "row_of_dir dir = lead_number 0 (drop 24 dir)"

lemma row_of_dir: "row_of_dir (str_join ''-'' [''ckb-it'', ''cloned_node'', ''case-'' @ to_decimal i @ CHR ''-'' # rest, []]) = i"
  by (simp add: row_of_dir_def lead_number_decimal)

definition refusing :: "'p list \<Rightarrow> ('p \<Rightarrow> nat) \<Rightarrow> ('p \<Rightarrow> string + unit) \<Rightarrow> string \<Rightarrow> bool" where
  "refusing rows id_of verdict dir \<longleftrightarrow> (\<exists>p \<in> set rows. id_of p = row_of_dir dir \<and> verdict p \<noteq> Inr ())"

lemma refusing_row:
  assumes "distinct (map id_of rows)" and "p \<in> set rows"
  shows "refusing rows id_of verdict (str_join ''-'' [''ckb-it'', ''cloned_node'', ''case-'' @ to_decimal (id_of p) @ CHR ''-'' # rest, []])
     \<longleftrightarrow> verdict p \<noteq> Inr ()"
  using assms unfolding refusing_def row_of_dir distinct_map by (auto dest: inj_onD)

lemma script_rows:
  fixes id_of :: "'p \<Rightarrow> nat"
  assumes nd: "scripted err H nd" and ids: "distinct (map id_of rows)"
    and clone: "new_node = lab_clone_node (script_env (refusing rows id_of verdict) err H) nd \<or>
      new_node = pulled_clone (script_env (refusing rows id_of verdict) err H) nd"
    and verdict: "\<And>p. p \<in> set rows \<Longrightarrow> verdict p = Inr () \<or> verdict p = Inl (''failed to send block, error: '' @ err)"
    and m: "\<And>p node w. p \<in> set rows \<Longrightarrow> scripted err H node \<Longrightarrow>
      m p node w = Some (Inr (if w = 0 then Inl (''failed to send block, error: '' @ err) else Inr ()), max 1 w)"
    and name: "\<And>p. name p = ''case-'' @ to_decimal (id_of p) @ CHR ''-'' # rest"
  shows "\<forall>p \<in> set rows. answers_in (\<lambda>_. True) (with_node (new_node (name p)) (\<lambda>node. on_node (m p node))) (verdict p)"
proof
  fix p assume p: "p \<in> set rows"
  have R: "refusing rows id_of verdict (str_join ''-'' [''ckb-it'', ''cloned_node'', name p, []]) \<longleftrightarrow> verdict p \<noteq> Inr ()"
    unfolding name by (rule refusing_row[OF ids p])
  show "answers_in (\<lambda>_. True) (with_node (new_node (name p)) (\<lambda>node. on_node (m p node))) (verdict p)"
  proof (rule script_question_of[where refused = "verdict p \<noteq> Inr ()"])
    show "\<exists>nd' p'. new_node (name p) (p0, s, w) = Some (Inr nd', (p', s, if verdict p \<noteq> Inr () then 0 else 1)) \<and> scripted err H nd'" for p0 s w
      using clone script_clone[OF nd, of "refusing rows id_of verdict" "name p" p0 s w]
        script_pulled_clone[OF nd, of "refusing rows id_of verdict" "name p" p0 s w]
      unfolding R by auto
  next
    fix node assume "scripted err H node"
    then show "m p node (if verdict p \<noteq> Inr () then 0 else 1) = Some (Inr (verdict p), 1)"
      using m[OF p] verdict[OF p] by auto
  qed
qed

section \<open>What the nodes answer\<close>

lemma script_tip_block:
  assumes "scripted err H nd"
  shows "get_tip_block nd = ret (script_block H)" "get_tip_block_number nd = ret H"
  using assms by (simp_all add: scripted_def get_tip_block_def get_tip_block_number_def)

definition the_cell_meta :: cell_meta where
  "the_cell_meta = \<lparr>cm_cell_output = lc_cell_output the_cell, cm_out_point = \<lparr>op_tx_hash = 7, op_index = 0\<rparr>,
     cm_transaction_info = Some \<lparr>ti_block_hash = 1, ti_block_number = 1, ti_block_epoch = \<lparr>ep_number = 0, ep_index = 0, ep_length = 0\<rparr>, ti_index = 0\<rparr>,
     cm_data_bytes = 0\<rparr>"

lemma script_spendable:
  assumes "scripted err H nd"
  shows "get_spendable_always_success_cells toy_lib nd = ret (map (\<lambda>p. the_cell_meta\<lparr>cm_out_point := p\<rparr>) script_out_points)"
    and "always_success_script toy_lib nd = ret (default_script\<lparr>code_hash := 0, hash_type := Type\<rparr>)"
    and "always_success_cell_dep toy_lib nd = ret \<lparr>cd_out_point = \<lparr>op_tx_hash = 0, op_index = 5\<rparr>, cd_dep_type = Code\<rparr>"
    and "get_cell_meta nd p = ret (Some (the_cell_meta\<lparr>cm_out_point := p\<rparr>))"
    and "synced_indexer toy_lib nd = ret (script_indexer H)"
proof -
  have ix: "indexer_unchecked nd = ret (script_indexer H)"
    using assms by (simp add: scripted_def indexer_unchecked_def)
  have C: "nd_rpc_client nd = script_client err H" using assms by (simp add: scripted_def)
  have sync: "sync_loop toy_lib (script_client err H) (script_indexer H) = ret ()"
    by (rule ext, subst sync_loop.simps) (simp add: script_indexer_def run_simps)
  have genesis: "genesis_cellbase_hash toy_lib nd = ret 0"
    using assms by (simp add: scripted_def genesis_cellbase_hash_def genesis_block_def indexM_def script_block_def block_at_def toy_lib_def empty_transaction_def)
  show script: "always_success_script toy_lib nd = ret (default_script\<lparr>code_hash := 0, hash_type := Type\<rparr>)"
    using C genesis by (simp add: always_success_script_def toy_lib_def default_script_def)
  show "always_success_cell_dep toy_lib nd = ret \<lparr>cd_out_point = \<lparr>op_tx_hash = 0, op_index = 5\<rparr>, cd_dep_type = Code\<rparr>"
    using genesis by (simp add: always_success_cell_dep_def SYSTEM_CELL_ALWAYS_SUCCESS_INDEX_def)
  show meta: "get_cell_meta nd p = ret (Some (the_cell_meta\<lparr>cm_out_point := p\<rparr>))" for p
    using ix by (simp add: get_cell_meta_def script_indexer_def the_cell_meta_def the_cell_def)
  show "synced_indexer toy_lib nd = ret (script_indexer H)"
    using ix C sync by (simp add: synced_indexer_def wait_for_indexer_synced_def)
  have each: "filter_mapM (\<lambda>out_point. bindM (get_cell_meta nd out_point) (\<lambda>m. ret (case m of None \<Rightarrow> None
      | Some cell_meta \<Rightarrow> if cm_data_bytes cell_meta = 0 then Some cell_meta else None))) ps
    = ret (map (\<lambda>p. the_cell_meta\<lparr>cm_out_point := p\<rparr>) ps)" for ps
    by (induction ps) (simp_all add: meta the_cell_meta_def)
  show "get_spendable_always_success_cells toy_lib nd = ret (map (\<lambda>p. the_cell_meta\<lparr>cm_out_point := p\<rparr>) script_out_points)"
    using ix C sync script each[of script_out_points]
    by (simp add: get_spendable_always_success_cells_def synced_indexer_def wait_for_indexer_synced_def)
       (simp add: script_indexer_def)
qed

text \<open>Every cell is worth a thousand CKB: a cell of 2500 CKB takes three.\<close>

theorem deploy_spends_shortest_prefix_witness:
  "\<exists>tx. deploy_transaction (script_env (\<lambda>_. False) [] 10) (script_node [] 10)
       \<lparr>co_capacity = 250000000000, co_lock = default_script, co_type = None\<rparr> [1] 1 = Some (Inr tx, 1) \<and> length (tx_inputs tx) = 3"
proof -
  let ?cells = "map (\<lambda>p. the_cell_meta\<lparr>cm_out_point := p\<rparr>) script_out_points"
  have len: "length ?cells = 250" by (simp add: script_out_points_def)
  have worth: "worth (map (\<lambda>p. the_cell_meta\<lparr>cm_out_point := p\<rparr>) ps) = length ps * 100000000000" for ps
    by (induction ps) (simp_all add: the_cell_meta_def the_cell_def)
  have taken: "worth (take m ?cells) = min 250 m * 100000000000" for m
    using worth[of "take m script_out_points"] len by (simp add: take_map)
  note spend = script_spendable[OF scripted_script_node]
  have cells: "get_spendable_always_success_cells (ce_lib (script_env (\<lambda>_. False) [] 10)) (script_node [] 10) 1 = Some (Inr ?cells, 1)"
    by (simp add: spend(1) ret_run)
  have dep: "always_success_cell_dep (ce_lib (script_env (\<lambda>_. False) [] 10)) (script_node [] 10) 1
      = Some (Inr \<lparr>cd_out_point = \<lparr>op_tx_hash = 0, op_index = 5\<rparr>, cd_dep_type = Code\<rparr>, 1)"
    by (simp add: spend(3) ret_run)
  from deploy_spends_shortest_prefix[OF cells dep, of "\<lparr>co_capacity = 250000000000, co_lock = default_script, co_type = None\<rparr>" "[1]"]
  obtain n tx where n: "deploy_transaction (script_env (\<lambda>_. False) [] 10) (script_node [] 10)
       \<lparr>co_capacity = 250000000000, co_lock = default_script, co_type = None\<rparr> [1] 1 = Some (Inr tx, 1)"
    and ins: "tx_inputs tx = map (\<lambda>cell. cell_input_new (cm_out_point cell) 0) (take n ?cells)"
    and pays: "250000000000 < worth ?cells \<longrightarrow> 250000000000 < worth (take n ?cells)"
    and short: "\<forall>m<n. m < length ?cells \<longrightarrow> worth (take m ?cells) \<le> 250000000000"
    by auto
  have "3 \<le> n" using pays taken[of n] taken[of 250] len by (simp split: if_splits)
  moreover have "n \<le> 3" using short[rule_format, of 3] len taken[of 3] by (cases "3 < n") auto
  ultimately have "length (tx_inputs tx) = 3" using ins len by simp
  with n show ?thesis by blast
qed

lemma script_first_spendable:
  assumes "scripted err H nd" and "ce_lib E = toy_lib"
  shows "first_spendable E nd = ret the_cell_meta"
  using script_spendable(1)[OF assms(1)] assms(2)
  by (simp add: first_spendable_def indexM_def script_out_points_def upt_conv_Cons the_cell_meta_def)

text \<open>Building on a scripted node: done already, or refused at the first height.\<close>

definition plain_instruction :: "build_instruction \<Rightarrow> bool" where
  "plain_instruction i \<longleftrightarrow> (case i of SendTransaction _ _ \<Rightarrow> False | ProcessWithoutVerify _ \<Rightarrow> False | _ \<Rightarrow> True)"

lemma apply_plain:
  assumes "\<forall>i \<in> set is. plain_instruction i"
  shows "\<exists>t'. apply_instructions L clk C (t, False) is = ret (Inr (t', False))"
  using assms
proof (induction "is" arbitrary: t)
  case Nil
  then show ?case by simp
next
  case (Cons i "is")
  then have "plain_instruction i" by simp
  then obtain t1 where "apply_instruction L clk C (t, False) i = ret (Inr (t1, False))"
    by (cases i) (auto simp: plain_instruction_def)
  then show ?case using Cons by simp
qed

lemma script_build:
  assumes "scripted err H nd" and "ce_lib E = toy_lib" and "\<forall>i \<in> set is. H < template_number i \<and> template_number i \<le> target"
    and "\<forall>i \<in> set is. plain_instruction i" and "H < target" and "target < 1000000"
  shows "build_with E nd target is w = Some (Inr (if w = 0 then Inl (''failed to send block, error: '' @ err) else Inr ()), max 1 w)"
proof -
  have C: "nd_rpc_client nd = script_client err H" using assms by (simp add: scripted_def)
  obtain c where c: "get_consensus nd = ret c" "cons_permanent_difficulty_in_dummy c"
    using assms(1) by (auto simp: scripted_def get_consensus_def)
  define M where "M = (\<lambda>n. if instructions_for is n = [] then None else Some (instructions_for is n))"
  have m: "foldM (add_instruction H target) Map.empty is = (ret M :: (nat, instructions_map) cmd)"
    unfolding M_def by (subst add_instructions_run[OF assms(3)]) (simp cong: if_cong)
  have unfold: "build_with E nd target is w = build_loop toy_lib (ce_clock E) (script_client err H) target (Suc H) M w"
    using c C m script_tip_block[OF assms(1)] assms(2) by (simp add: build_with_def build_according_to_instructions_def)
  have refuse: "build_block toy_lib (ce_clock E) (script_client err H) t (M n) = (\<lambda>w. Some (Inr (Inl (''failed to send block, error: '' @ err)), max 1 w))"
    for t n
  proof (cases "instructions_for is n = []")
    case True
    then show ?thesis by (simp add: M_def build_block_def submit_built_def mapC_def tryM_def bindM_def ret_def fun_eq_iff)
  next
    case False
    have "\<forall>i \<in> set (instructions_for is n). plain_instruction i"
      using assms(4) by (simp add: instructions_for_def)
    then obtain t' where "apply_instructions toy_lib (ce_clock E) (script_client err H) (t, False) (instructions_for is n)
        = ret (Inr (t', False))" using apply_plain by blast
    with False show ?thesis by (simp add: M_def build_block_def submit_built_def mapC_def tryM_def bindM_def ret_def fun_eq_iff)
  qed
  show ?thesis
  proof (cases "w = 0")
    case True
    then show ?thesis unfolding unfold using assms(5) refuse
      by (subst build_loop.simps) (simp add: bindM_run reading_run template_at_def ret_run tryM_def)
  next
    case False
    then show ?thesis unfolding unfold using assms(6)
      by (subst build_loop.simps) (simp add: bindM_run reading_run template_at_def ret_run)
  qed
qed

text \<open>Committing a transaction at a height, and deploying a cell while the node accepts.\<close>

lemma script_commit_at:
  assumes "scripted err H nd" and "H + 2 < height" and "height < 1000000"
  shows "commit_at (script_env R err H) nd height tx w
     = Some (Inr (if w = 0 then Inl (''failed to send block, error: '' @ err) else Inr ()), max 1 w)"
proof -
  have "u64_sub True height 2 = (ret (height - 2) :: (nat, nat) cmd)"
    using assms(2,3) by (intro u64_sub_ok) (auto simp: u64_lim_def)
  moreover have "build_with (script_env R err H) nd height [Propose (height - 2) (short_id toy_lib tx), Commit height tx] w
      = Some (Inr (if w = 0 then Inl (''failed to send block, error: '' @ err) else Inr ()), max 1 w)"
    using assms(2,3) by (intro script_build[OF assms(1)]) (auto simp: plain_instruction_def)
  ultimately show ?thesis by (simp add: commit_at_def)
qed

lemma script_deploy:
  assumes "scripted err H nd" and "d name = None" and "w \<noteq> 0" and "H < 900000"
  shows "\<exists>m. deploy (script_env R err H) d nd name output data w = Some (Inr (d(name \<mapsto> m)), w)"
proof -
  have add: "u64_add True H n = (ret (H + n) :: (nat, nat) cmd)" if "n < 10" for n
    using assms(4) that by (intro u64_add_ok) (auto simp: u64_lim_def)
  have "build_with (script_env R err H) nd (H + 3) [Propose (H + 1) (short_id toy_lib tx), Commit (H + 3) tx] w = Some (Inr (Inr ()), w)" for tx
    using assms(3,4) by (subst script_build[OF assms(1)]) (auto simp: plain_instruction_def)
  then have "commit_at_once (script_env R err H) nd tx w = Some (Inr (Inr ()), w)" for tx
    using script_tip_block(2)[OF assms(1)] add[of 3] add[of 1] by (simp add: commit_at_once_def bindM_run ret_run)
  then show ?thesis
    using assms(2) script_spendable[OF assms(1)]
    by (simp add: deploy_def deploy_transaction_def assertM_def expectM_def bindM_run ret_run) blast
qed

end
