(* ===== verification/User.thy ===== *)
theory User
  imports NodeIndexer
begin

text \<open>
  \<open>ckb-testkit/src/user/\<close>: the owner of a secp256k1 key, the locks under which the key's cells
  live, the witness that unlocks them, and the cells that can be spent now.
\<close>

section \<open>Keys\<close>

text \<open>
  secp256k1 and blake2b (crates \<open>ckb_crypto\<close>, \<open>ckb_hash\<close>) and the serializations of
  \<open>packed::WitnessArgs\<close> and \<open>packed::Byte32\<close>.  Feeding a hasher piece by piece hashes the
  concatenation.
\<close>

record crypto =
  pubkey_of :: "nat \<Rightarrow> string + nat"
  pubkey_bytes :: "nat \<Rightarrow> bytes"
  sign_with :: "nat \<Rightarrow> bytes \<Rightarrow> string + bytes"
  blake2b_256 :: "bytes \<Rightarrow> bytes"
  byte32_bytes :: "byte32 \<Rightarrow> bytes"
  byte32_of_bytes :: "bytes \<Rightarrow> byte32"
  witness_args_bytes :: "bytes option \<Rightarrow> bytes" \<comment> \<open>by its \<open>lock\<close> field\<close>

primrec le_bytes :: "nat \<Rightarrow> nat \<Rightarrow> bytes" where
  "le_bytes 0 n = []"
| "le_bytes (Suc k) n = of_nat (n mod 256) # le_bytes k (n div 256)"

definition u64_to_le_bytes :: "nat \<Rightarrow> bytes" where
  "u64_to_le_bytes = le_bytes 8"

definition GENESIS_DEP_GROUP_TRANSACTION_INDEX :: nat where
  "GENESIS_DEP_GROUP_TRANSACTION_INDEX = 1"

definition GENESIS_SIGHASH_ALL_DEP_GROUP_CELL_INDEX :: nat where
  "GENESIS_SIGHASH_ALL_DEP_GROUP_CELL_INDEX = 0"

definition SIGHASH_ALL_TYPE_HASH :: byte32 where
  "SIGHASH_ALL_TYPE_HASH = 0x9bd7e06f3ecf4be0f2fcd2188b23f1b9fcc88e5d4b65a8637b17723bbda3cce8"

definition SIGHASH_ALL_DATA_HASH :: byte32 where
  "SIGHASH_ALL_DATA_HASH = 0x709f3fda12f561cfacf92273c57a98fede188a3f1a59b1f888d113f9cce08649"

section \<open>\<open>user/mod.rs\<close>, \<open>user/single_secp256k1.rs\<close>\<close>

record user =
  us_genesis_block :: block
  us_single_secp256k1_privkey :: "nat option"

definition user_new :: "block \<Rightarrow> nat option \<Rightarrow> user" where
  "user_new genesis privkey = \<lparr>us_genesis_block = genesis, us_single_secp256k1_privkey = privkey\<rparr>"

definition single_secp256k1_pubkey :: "crypto \<Rightarrow> user \<Rightarrow> ('w, nat) cmd" where
  "single_secp256k1_pubkey K self = (case us_single_secp256k1_privkey self of
       Some privkey \<Rightarrow> unwrapM UNWRAP (pubkey_of K privkey)
     | None \<Rightarrow> panicking ''internal error: entered unreachable code: single_secp256k1 unset'')"

definition single_secp256k1_address :: "crypto \<Rightarrow> user \<Rightarrow> ('w, bytes) cmd" where
  "single_secp256k1_address K self =
     bindM (single_secp256k1_pubkey K self) (\<lambda>pubkey.
     let digest = blake2b_256 K (pubkey_bytes K pubkey)
     in if length digest < 20 then panicking ''range end index 20 out of range'' else ret (take 20 digest))"

definition single_secp256k1_lock_script_via_type :: "crypto \<Rightarrow> user \<Rightarrow> ('w, script) cmd" where
  "single_secp256k1_lock_script_via_type K self =
     bindM (single_secp256k1_address K self) (\<lambda>address.
     ret \<lparr>code_hash = SIGHASH_ALL_TYPE_HASH, hash_type = Type, script_args = address\<rparr>)"

definition single_secp256k1_lock_script_via_data :: "crypto \<Rightarrow> user \<Rightarrow> ('w, script) cmd" where
  "single_secp256k1_lock_script_via_data K self =
     bindM (single_secp256k1_address K self) (\<lambda>address.
     ret \<lparr>code_hash = SIGHASH_ALL_DATA_HASH, hash_type = Data, script_args = address\<rparr>)"

definition single_secp256k1_lock_script_via_data1 :: "crypto \<Rightarrow> user \<Rightarrow> ('w, script) cmd" where
  "single_secp256k1_lock_script_via_data1 K self =
     bindM (single_secp256k1_address K self) (\<lambda>address.
     ret \<lparr>code_hash = SIGHASH_ALL_DATA_HASH, hash_type = Data1, script_args = address\<rparr>)"

definition single_secp256k1_out_point :: "chain_lib \<Rightarrow> user \<Rightarrow> ('w, out_point) cmd" where
  "single_secp256k1_out_point L self =
     (let txs = bk_transactions (us_genesis_block self)
      in if GENESIS_DEP_GROUP_TRANSACTION_INDEX < length txs
         then ret \<lparr>op_tx_hash = hash_tx L (txs ! GENESIS_DEP_GROUP_TRANSACTION_INDEX),
                   op_index = GENESIS_SIGHASH_ALL_DEP_GROUP_CELL_INDEX\<rparr>
         else panicking ''index genesis dep-group transaction'')"

definition single_secp256k1_cell_dep :: "chain_lib \<Rightarrow> user \<Rightarrow> ('w, cell_dep) cmd" where
  "single_secp256k1_cell_dep L self =
     bindM (single_secp256k1_out_point L self) (\<lambda>out_point.
     ret \<lparr>cd_out_point = out_point, cd_dep_type = DepGroup\<rparr>)"

definition sign_recoverable :: "crypto \<Rightarrow> user \<Rightarrow> bytes \<Rightarrow> ('w, bytes) cmd" where
  "sign_recoverable K self message = (case us_single_secp256k1_privkey self of
       Some privkey \<Rightarrow> unwrapM ''sign'' (sign_with K privkey message)
     | None \<Rightarrow> panicking ''internal error: entered unreachable code: single_secp256k1 unset'')"

definition placeholder_witness :: "crypto \<Rightarrow> bytes" where
  "placeholder_witness K = witness_args_bytes K (Some (replicate 65 0))"

definition single_secp256k1_signed_witness :: "crypto \<Rightarrow> chain_lib \<Rightarrow> user \<Rightarrow> transaction \<Rightarrow> ('w, bytes) cmd" where
  "single_secp256k1_signed_witness K L self tx = (case us_single_secp256k1_privkey self of
       Some privkey \<Rightarrow>
         let tx_hash = hash_tx L tx;
             witness_for_digest = placeholder_witness K;
             witness_len = length witness_for_digest;
             message = blake2b_256 K (byte32_bytes K tx_hash @ u64_to_le_bytes witness_len @ witness_for_digest)
         in bindM (unwrapM ''sign'' (sign_with K privkey message)) (\<lambda>sig. ret (witness_args_bytes K (Some sig)))
     | None \<Rightarrow> panicking ''internal error: entered unreachable code: single_secp256k1 unset'')"

definition is_cellbase :: "transaction_info \<Rightarrow> bool" where
  "is_cellbase txinfo \<longleftrightarrow> ti_index txinfo = 0"

definition live_cells_of_lock :: "chain_lib \<Rightarrow> 'w node \<Rightarrow> ('w, script) cmd \<Rightarrow> ('w, out_point list) cmd" where
  "live_cells_of_lock L nd lock_script =
     bindM (synced_indexer L nd) (\<lambda>ix. bindM lock_script (\<lambda>lock.
     bindM (ix_get_live_cells_by_lock_script ix lock) (unwrapM ''indexer get_live_cells_by_lock_script'')))"

text \<open>Whether a live cell can be spent at a tip.\<close>

definition spendable_cell :: "bool \<Rightarrow> chain_lib \<Rightarrow> 'w node \<Rightarrow> nat \<Rightarrow> out_point \<Rightarrow> ('w, cell_meta option) cmd" where
  "spendable_cell oc L nd tip_number out_point =
     bindM (get_cell_meta nd out_point) (\<lambda>m. case m of
       None \<Rightarrow> ret None
     | Some cell_meta \<Rightarrow>
         bindM (expectM ''committed tx has transaction_info'' (cm_transaction_info cell_meta)) (\<lambda>txinfo.
         bindM (if is_cellbase txinfo
                then bindM (get_consensus nd) (\<lambda>c.
                     let cellbase_maturity = epoch_of_full_value L (cons_cellbase_maturity c) in
                     bindM (u64_mul oc (ep_number cellbase_maturity) 1800) (\<lambda>blocks.
                     bindM (u64_add oc (ti_block_number txinfo) blocks) (\<lambda>mature_at.
                     ret (mature_at > tip_number))))
                else ret False) (\<lambda>immature.
         if immature then ret None
         else if cm_data_bytes cell_meta \<noteq> 0 then ret None
         else ret (Some cell_meta))))"

definition get_spendable_single_secp256k1_cells ::
    "bool \<Rightarrow> crypto \<Rightarrow> chain_lib \<Rightarrow> user \<Rightarrow> 'w node \<Rightarrow> ('w, cell_meta list) cmd" where
  "get_spendable_single_secp256k1_cells oc K L self nd =
     bindM (get_tip_block_number nd) (\<lambda>tip_number.
     bindM (live_cells_of_lock L nd (single_secp256k1_lock_script_via_type K self)) (\<lambda>via_type.
     bindM (live_cells_of_lock L nd (single_secp256k1_lock_script_via_data K self)) (\<lambda>via_data.
     bindM (live_cells_of_lock L nd (single_secp256k1_lock_script_via_data1 K self)) (\<lambda>via_data1.
     filter_mapM (spendable_cell oc L nd tip_number) (via_type @ via_data @ via_data1)))))"

section \<open>The cells that can be spent\<close>

definition lock_via :: "crypto \<Rightarrow> user \<Rightarrow> bytes \<Rightarrow> script list" where
  "lock_via K self address =
     [\<lparr>code_hash = SIGHASH_ALL_TYPE_HASH, hash_type = Type, script_args = address\<rparr>,
      \<lparr>code_hash = SIGHASH_ALL_DATA_HASH, hash_type = Data, script_args = address\<rparr>,
      \<lparr>code_hash = SIGHASH_ALL_DATA_HASH, hash_type = Data1, script_args = address\<rparr>]"

definition meta_of :: "out_point \<Rightarrow> live_cell_detail \<Rightarrow> cell_meta" where
  "meta_of out_point d = \<lparr>cm_cell_output = lc_cell_output d, cm_out_point = out_point,
     cm_transaction_info = Some \<lparr>ti_block_hash = lc_block_hash d, ti_block_number = lc_block_number d,
       ti_block_epoch = \<lparr>ep_number = 0, ep_index = 0, ep_length = 0\<rparr>, ti_index = lc_tx_index d\<rparr>,
     cm_data_bytes = length (lc_cell_data d)\<rparr>"

text \<open>Cellbase cells mature after \<open>maturity\<close> epochs of 1800 blocks; cells holding data are kept.\<close>

definition spendable_at :: "nat \<Rightarrow> nat \<Rightarrow> live_cell_detail \<Rightarrow> bool" where
  "spendable_at maturity tip d \<longleftrightarrow>
     (lc_tx_index d = 0 \<longrightarrow> lc_block_number d + maturity * 1800 \<le> tip) \<and> lc_cell_data d = []"

definition index_answers ::
    "chain_lib \<Rightarrow> 'w node \<Rightarrow> 'w \<Rightarrow> (script \<Rightarrow> out_point list) \<Rightarrow> (out_point \<Rightarrow> live_cell_detail option) \<Rightarrow> bool" where
  "index_answers L nd w cells details \<longleftrightarrow> (\<exists>ix. nd_indexer nd = Some ix \<and> reads (synced_indexer L nd) w ix
     \<and> (\<forall>lock. reads (ix_get_live_cells_by_lock_script ix lock) w (Inr (cells lock)))
     \<and> (\<forall>p. reads (ix_get_detailed_live_cell ix p) w (Inr (details p))))"

lemma live_cells_read:
  assumes "index_answers L nd w cells details" and "m = ret lock"
  shows "reads (live_cells_of_lock L nd m) w (cells lock)"
  using assms by (auto simp: index_answers_def live_cells_of_lock_def reads_def bindM_def ret_def)

lemma spendable_cell_read:
  assumes "index_answers L nd w cells details" and "nd_consensus nd = Some c"
    and "maturity = ep_number (epoch_of_full_value L (cons_cellbase_maturity c))"
    and "\<forall>p d. details p = Some d \<longrightarrow> lc_block_number d + maturity * 1800 < u64_lim"
  shows "reads (spendable_cell oc L nd tip p) w
     (case details p of None \<Rightarrow> None | Some d \<Rightarrow> if spendable_at maturity tip d then Some (meta_of p d) else None)"
proof -
  have "reads (get_cell_meta nd p) w (map_option (meta_of p) (details p))"
    using assms(1) by (auto simp: index_answers_def get_cell_meta_def indexer_unchecked_def reads_def bindM_def ret_def meta_of_def Let_def
        split: option.split)
  moreover have "lc_block_number d + maturity * 1800 < u64_lim" "maturity * 1800 < u64_lim" if "details p = Some d" for d
    using assms(4) that by (meson add_lessD1 le_add2 le_less_trans)+
  ultimately show ?thesis
    using assms(2,3) by (cases "details p")
      (auto simp: spendable_cell_def reads_def bindM_run ret_run meta_of_def spendable_at_def is_cellbase_def
        get_consensus_def Let_def u64_mul_ok u64_add_ok)
qed

text \<open>
  C18.  The spendable cells of a user are exactly the live cells under the three secp256k1 locks of
  the user's key, each once and in the order the index lists them, that hold no data and, if a
  cellbase created them, have matured; nothing on the node changes.
\<close>

theorem spendable_cells_exact:
  fixes nd :: "'w node"
  assumes "index_answers L nd w cells details" and "nd_consensus nd = Some c"
    and "maturity = ep_number (epoch_of_full_value L (cons_cellbase_maturity c))"
    and "\<forall>p d. details p = Some d \<longrightarrow> lc_block_number d + maturity * 1800 < u64_lim"
    and "reads (get_tip_block_number nd) w tip" and "(single_secp256k1_address K self :: ('w, bytes) cmd) = ret address"
  shows "get_spendable_single_secp256k1_cells oc K L self nd w = Some (Inr
     (map (\<lambda>p. meta_of p (the (details p)))
       (filter (\<lambda>p. case details p of None \<Rightarrow> False | Some d \<Rightarrow> spendable_at maturity tip d)
         (concat (map cells (lock_via K self address))))), w)"
proof -
  let ?ps = "concat (map cells (lock_via K self address))"
  let ?f = "\<lambda>p. case details p of None \<Rightarrow> None | Some d \<Rightarrow> if spendable_at maturity tip d then Some (meta_of p d) else None"
  note cells = live_cells_read[OF assms(1)]
  have locks: "single_secp256k1_lock_script_via_type K self = (ret (lock_via K self address ! 0) :: ('w, script) cmd)"
    "single_secp256k1_lock_script_via_data K self = (ret (lock_via K self address ! 1) :: ('w, script) cmd)"
    "single_secp256k1_lock_script_via_data1 K self = (ret (lock_via K self address ! 2) :: ('w, script) cmd)"
    using assms(6) by (simp_all add: single_secp256k1_lock_script_via_type_def single_secp256k1_lock_script_via_data_def
        single_secp256k1_lock_script_via_data1_def lock_via_def)
  have "reads (filter_mapM (spendable_cell oc L nd tip) ?ps) w (List.map_filter ?f ?ps)"
    by (intro reads_filter_mapM spendable_cell_read[OF assms(1-4)])
  moreover have "List.map_filter ?f ps = map (\<lambda>p. meta_of p (the (details p)))
       (filter (\<lambda>p. case details p of None \<Rightarrow> False | Some d \<Rightarrow> spendable_at maturity tip d) ps)" for ps
    by (induction ps) (auto simp: List.map_filter_def split: option.split)
  ultimately show ?thesis
    unfolding get_spendable_single_secp256k1_cells_def
    using assms(5) cells[OF locks(1)] cells[OF locks(2)] cells[OF locks(3)]
    by (simp add: reads_def bindM_run lock_via_def)
qed

definition toy_crypto :: crypto where
  "toy_crypto = \<lparr>pubkey_of = (\<lambda>k. Inr (k + 1)), pubkey_bytes = (\<lambda>p. replicate 33 (of_nat p)),
     sign_with = (\<lambda>k m. Inr (of_nat k # m)), blake2b_256 = (\<lambda>b. of_nat (length b) # replicate 31 (if b = [] then 0 else hd b)),
     byte32_bytes = (\<lambda>h. replicate 32 (of_nat h)), byte32_of_bytes = (\<lambda>b. unat (hd b)),
     witness_args_bytes = (\<lambda>l. case l of None \<Rightarrow> [0] | Some b \<Rightarrow> 1 # b)\<rparr>"

definition cell_detail :: "nat \<Rightarrow> nat \<Rightarrow> bytes \<Rightarrow> live_cell_detail" where
  "cell_detail number index data = \<lparr>lc_block_number = number, lc_block_hash = number, lc_tx_index = index,
     lc_cell_output = \<lparr>co_capacity = capacity_bytes 100, co_lock = default_script, co_type = None\<rparr>, lc_cell_data = data\<rparr>"

text \<open>An index that has caught up, with a mature cell, one that holds data, and a young cellbase.\<close>

definition three_cells :: "out_point \<Rightarrow> live_cell_detail option" where
  "three_cells p = (if op_index p < 3
     then Some ([cell_detail 3 1 [], cell_detail 3 1 [7], cell_detail 9 0 []] ! op_index p) else None)"

definition data_cells :: "script \<Rightarrow> out_point list" where
  "data_cells lock = (if hash_type lock = Data then map (\<lambda>i. \<lparr>op_tx_hash = 5, op_index = i\<rparr>) [0, 1, 2] else [])"

definition cells_node :: "nat node" where
  "cells_node = (offline_node ''cells'')\<lparr>
     nd_consensus := Some \<lparr>cons_cellbase_maturity = 4, cons_permanent_difficulty_in_dummy = True,
       cons_median_time_block_count = 37, cons_hardfork_features = [], cons_id = ''ckb_dev'', cons_genesis_hash = 0\<rparr>,
     nd_indexer := Some \<lparr>ix_tip = ret (Inr (Some (20, 20))), ix_append = (\<lambda>_. ret (Inr ())), ix_rollback = ret (Inr ()),
       ix_get_live_cells_by_lock_script = (\<lambda>lock. ret (Inr (data_cells lock))),
       ix_get_detailed_live_cell = (\<lambda>p. ret (Inr (three_cells p)))\<rparr>,
     nd_rpc_client := offline_client\<lparr>rc_inner2021 := offline2021\<lparr>
       i21_get_tip_block_number := ret (Inr 20),
       i21_get_block_by_number := (\<lambda>_. ret (Inr None)), i21_get_block_hash := (\<lambda>n. ret (Inr (Some n)))\<rparr>\<rparr>\<rparr>"

lemma cells_node_answers: "index_answers toy_lib cells_node w data_cells three_cells"
proof -
  let ?ix = "the (nd_indexer cells_node)"
  have "sync_loop toy_lib (nd_rpc_client cells_node) ?ix w = Some (Inr (), w)"
    by (subst sync_loop.simps) (simp add: cells_node_def offline_client_def rpc_get_block_by_number_def
      rpc_get_block_hash_def expect_rpc_def bindM_def ret_def unwrapM_def)
  then show ?thesis
    unfolding index_answers_def
    by (intro exI[of _ ?ix]) (auto simp: reads_def synced_indexer_def wait_for_indexer_synced_def
      indexer_unchecked_def bindM_run ret_run cells_node_def)
qed

definition some_user :: user where
  "some_user = user_new (block_at 0) (Some 41)"

lemma some_user_address: "single_secp256k1_address toy_crypto some_user = ret (33 # replicate 19 42)"
  by (simp add: single_secp256k1_address_def single_secp256k1_pubkey_def some_user_def user_new_def toy_crypto_def
      Let_def take_Cons' numeral_eq_Suc)

theorem spendable_cells_exact_witness:
  "\<exists>cells. get_spendable_single_secp256k1_cells True toy_crypto toy_lib some_user cells_node 0 = Some (Inr cells, 0)
     \<and> map cm_out_point cells = [\<lparr>op_tx_hash = 5, op_index = 0\<rparr>]"
proof -
  have cons: "nd_consensus cells_node = Some \<lparr>cons_cellbase_maturity = 4, cons_permanent_difficulty_in_dummy = True,
       cons_median_time_block_count = 37, cons_hardfork_features = [], cons_id = ''ckb_dev'', cons_genesis_hash = 0\<rparr>"
    by (simp add: cells_node_def)
  have mature: "4 = ep_number (epoch_of_full_value toy_lib (cons_cellbase_maturity
      \<lparr>cons_cellbase_maturity = 4, cons_permanent_difficulty_in_dummy = True,
       cons_median_time_block_count = 37, cons_hardfork_features = [], cons_id = ''ckb_dev'', cons_genesis_hash = 0\<rparr>))"
    by (simp add: toy_lib_def)
  have bound: "\<forall>p d. three_cells p = Some d \<longrightarrow> lc_block_number d + 4 * 1800 < u64_lim"
    by (auto simp: three_cells_def cell_detail_def u64_lim_def less_Suc_eq numeral_3_eq_3 nth_Cons')
  have tip: "reads (get_tip_block_number cells_node) 0 20"
    by (simp add: get_tip_block_number_def cells_node_def offline_client_def rpc_get_tip_block_number_def expect_rpc_def)
  show ?thesis
    using spendable_cells_exact[OF cells_node_answers cons mature bound tip some_user_address, of True]
    by (simp add: lock_via_def data_cells_def three_cells_def cell_detail_def spendable_at_def meta_of_def)
qed

end
