(* ===== verification/Bench.thy ===== *)
theory Bench
  imports Nodes User
begin

text \<open>
  \<open>ckb-bench/src/utils.rs\<close>, \<open>watcher.rs\<close> and \<open>bench.rs\<close>: sending with retries, recognising an
  idle network, finding live cells and turning them into transactions.  The channels between the
  threads are the commands that send to and receive from them.
\<close>

section \<open>\<open>utils.rs\<close>\<close>

partial_function (option) maybe_retry_send_transaction ::
    "'w clock \<Rightarrow> 'w node \<Rightarrow> transaction \<Rightarrow> 'w \<Rightarrow> ((halt + (string + bool)) \<times> 'w) option" where
  "maybe_retry_send_transaction clk nd tx w =
     bindM (rpc_send_transaction_result clk (nd_rpc_client nd) tx) (\<lambda>result. case result of
       Inr hash \<Rightarrow> ret (Inr True)
     | Inl raw_err \<Rightarrow>
         (if str_contains ''PoolIsFull'' raw_err
          then bindM (sleeping clk (millis 10)) (\<lambda>_. maybe_retry_send_transaction clk nd tx)
          else if str_contains ''PoolRejectedDuplicatedTransaction'' raw_err then ret (Inr False)
          else ret (Inl raw_err))) w"

section \<open>\<open>watcher.rs\<close>\<close>

definition N_BLOCKS :: nat where
  "N_BLOCKS = 20"

primrec no_transactions :: "'w node \<Rightarrow> nat \<Rightarrow> nat \<Rightarrow> ('w, bool) cmd" where
  "no_transactions nd number 0 = ret (number > 0)"
| "no_transactions nd number (Suc n_recent_blocks) =
     (if number > 0
      then bindM (get_block_by_number nd number) (\<lambda>block.
           if length (bk_transactions block) > 1 then ret False
           else no_transactions nd (number - 1) n_recent_blocks)
      else ret False)"

definition node_is_idle :: "'w node \<Rightarrow> ('w, bool) cmd" where
  "node_is_idle nd =
     bindM (rpc_tx_pool_info (nd_rpc_client nd)) (\<lambda>info.
     if tpi_pending info \<noteq> 0 \<or> tpi_proposed info \<noteq> 0 \<or> tpi_orphan info \<noteq> 0 then ret False
     else bindM (get_tip_block_number nd) (\<lambda>number. no_transactions nd number N_BLOCKS))"

definition is_zero_load :: "string iter_order \<Rightarrow> 'w nodes \<Rightarrow> ('w, bool) cmd" where
  "is_zero_load iter nodes = allM node_is_idle (nodes_of iter nodes)"

definition watcher_get_fixed_header :: "string iter_order \<Rightarrow> 'w nodes \<Rightarrow> ('w, header) cmd" where
  "watcher_get_fixed_header iter nodes = get_fixed_header iter nodes"

section \<open>\<open>bench.rs\<close>: the live cells\<close>

text \<open>\<open>LruCache\<close> (crate \<open>lru\<close>), from out points to the time they were seen.\<close>

record 'l lru =
  lru_new :: "nat \<Rightarrow> 'l"
  lru_contains :: "'l \<Rightarrow> out_point \<Rightarrow> bool"
  lru_put :: "'l \<Rightarrow> out_point \<Rightarrow> nat \<Rightarrow> 'l"

record ('w, 'l) live_cell_producer =
  lp_users :: "user list"
  lp_nodes :: "'w node list"
  lp_seen_out_points :: 'l

definition live_cell_producer_new :: "'l lru \<Rightarrow> user list \<Rightarrow> 'w node list \<Rightarrow> ('w, 'l) live_cell_producer" where
  "live_cell_producer_new U users nodes =
     (let n_users = length users
      in \<lparr>lp_users = users, lp_nodes = nodes, lp_seen_out_points = lru_new U (n_users + 10)\<rparr>)"

definition fresh_cell :: "'l lru \<Rightarrow> 'l \<Rightarrow> nat \<Rightarrow> cell_meta \<Rightarrow> ('w, cell_meta option) cmd" where
  "fresh_cell U seen min_tip_number cell =
     (if lru_contains U seen (cm_out_point cell) then ret None
      else bindM (expectM ''live cell's transaction info should be ok'' (cm_transaction_info cell)) (\<lambda>tx_info.
           if ti_block_number tx_info > min_tip_number then ret None else ret (Some cell)))"

definition offer_cell :: "'l lru \<Rightarrow> 'w clock \<Rightarrow> (cell_meta \<Rightarrow> ('w, bool) cmd) \<Rightarrow> 'l \<Rightarrow> cell_meta \<Rightarrow> ('w, 'l) cmd" where
  "offer_cell U clk send_cell seen cell =
     bindM (reading (now clk)) (\<lambda>instant.
     let seen = lru_put U seen (cm_out_point cell) instant
     in bindM (send_cell cell) (\<lambda>_. ret seen))"

definition live_cells_of_user ::
    "bool \<Rightarrow> crypto \<Rightarrow> chain_lib \<Rightarrow> 'l lru \<Rightarrow> 'w clock \<Rightarrow> (cell_meta \<Rightarrow> ('w, bool) cmd) \<Rightarrow> 'w node list \<Rightarrow> nat
      \<Rightarrow> 'l \<Rightarrow> user \<Rightarrow> ('w, 'l) cmd" where
  "live_cells_of_user oc K L U clk send_cell nodes min_tip_number seen user =
     bindM (indexM nodes 0) (\<lambda>node.
     bindM (get_spendable_single_secp256k1_cells oc K L user node) (\<lambda>cells.
     bindM (filter_mapM (fresh_cell U seen min_tip_number) cells) (\<lambda>live_cells.
     foldM (offer_cell U clk send_cell) seen live_cells)))"

text \<open>One turn of the loop of \<open>run\<close>, which never ends, and any number of turns.\<close>

definition live_cell_turn ::
    "bool \<Rightarrow> crypto \<Rightarrow> chain_lib \<Rightarrow> 'l lru \<Rightarrow> 'w clock \<Rightarrow> (cell_meta \<Rightarrow> ('w, bool) cmd) \<Rightarrow> ('w, 'l) live_cell_producer
      \<Rightarrow> ('w, ('w, 'l) live_cell_producer) cmd" where
  "live_cell_turn oc K L U clk send_cell self =
     bindM (mapM get_tip_block_number (lp_nodes self)) (\<lambda>tips.
     bindM (expectM UNWRAP (if tips = [] then None else Some (Min (set tips)))) (\<lambda>min_tip_number.
     bindM (foldM (live_cells_of_user oc K L U clk send_cell (lp_nodes self) min_tip_number)
              (lp_seen_out_points self) (lp_users self)) (\<lambda>seen.
     ret (self\<lparr>lp_seen_out_points := seen\<rparr>))))"

primrec live_cell_run ::
    "bool \<Rightarrow> crypto \<Rightarrow> chain_lib \<Rightarrow> 'l lru \<Rightarrow> 'w clock \<Rightarrow> (cell_meta \<Rightarrow> ('w, bool) cmd) \<Rightarrow> nat
      \<Rightarrow> ('w, 'l) live_cell_producer \<Rightarrow> ('w, ('w, 'l) live_cell_producer) cmd" where
  "live_cell_run oc K L U clk send_cell 0 self = ret self"
| "live_cell_run oc K L U clk send_cell (Suc turns) self =
     bindM (live_cell_turn oc K L U clk send_cell self) (live_cell_run oc K L U clk send_cell turns)"

section \<open>\<open>bench.rs\<close>: the transactions\<close>

record transaction_producer =
  tp_users :: "byte32 \<rightharpoonup> user"
  tp_cell_deps :: "cell_dep list"
  tp_n_inout :: nat
  tp_live_cells :: "byte32 \<rightharpoonup> cell_meta"
  tp_backlogs :: "out_point \<rightharpoonup> cell_meta"

definition index_user_locks :: "crypto \<Rightarrow> chain_lib \<Rightarrow> (byte32 \<rightharpoonup> user) \<Rightarrow> user \<Rightarrow> ('w, byte32 \<rightharpoonup> user) cmd" where
  "index_user_locks K L users_map user =
     bindM (single_secp256k1_lock_script_via_type K user) (\<lambda>via_type.
     bindM (single_secp256k1_lock_script_via_data K user) (\<lambda>via_data.
     bindM (single_secp256k1_lock_script_via_data1 K user) (\<lambda>via_data1.
     ret (users_map(hash_script L via_type \<mapsto> user, hash_script L via_data \<mapsto> user,
                    hash_script L via_data1 \<mapsto> user)))))"

definition transaction_producer_new ::
    "crypto \<Rightarrow> chain_lib \<Rightarrow> user list \<Rightarrow> cell_dep list \<Rightarrow> nat \<Rightarrow> ('w, transaction_producer) cmd" where
  "transaction_producer_new K L users cell_deps n_inout =
     bindM (foldM (index_user_locks K L) Map.empty users) (\<lambda>users_map.
     ret \<lparr>tp_users = users_map, tp_cell_deps = cell_deps, tp_n_inout = n_inout,
          tp_live_cells = Map.empty, tp_backlogs = Map.empty\<rparr>)"

text \<open>The two environment variables: \<open>raw.parse::<bool>()\<close>, \<open>false\<close> when it fails.\<close>

definition enabled_by :: "string option \<Rightarrow> bool" where
  "enabled_by var = (case var of Some raw \<Rightarrow> raw = ''true'' | None \<Rightarrow> False)"

definition lock_hash_of :: "chain_lib \<Rightarrow> cell_meta \<Rightarrow> byte32" where
  "lock_hash_of L cell = hash_script L (co_lock (cm_cell_output cell))"

definition file_cell :: "chain_lib \<Rightarrow> transaction_producer \<Rightarrow> cell_meta \<Rightarrow> transaction_producer" where
  "file_cell L self live_cell = (case tp_live_cells self (lock_hash_of L live_cell) of
       Some entry \<Rightarrow>
         (if cm_out_point entry = cm_out_point live_cell
          then self\<lparr>tp_backlogs := (tp_backlogs self)(cm_out_point live_cell \<mapsto> live_cell)\<rparr>
          else self)
     | None \<Rightarrow> self\<lparr>tp_live_cells := (tp_live_cells self)(lock_hash_of L live_cell \<mapsto> live_cell)\<rparr>)"

definition output_of_cell :: "bool \<Rightarrow> crypto \<Rightarrow> transaction_producer \<Rightarrow> byte32 \<Rightarrow> bool \<Rightarrow> cell_meta \<Rightarrow> ('w, cell_output) cmd" where
  "output_of_cell oc K self lock_hash enabled_data1_script cell =
     bindM (expectM UNWRAP (cm_transaction_info cell)) (\<lambda>info.
     let tx_index = ti_index info in
     bindM (expectM ''should be ok'' (tp_users self lock_hash)) (\<lambda>user.
     bindM (u64_sub oc (co_capacity (cm_cell_output cell)) 1000) (\<lambda>capacity.
     bindM (if tx_index mod 3 = 0 then single_secp256k1_lock_script_via_data K user
            else if tx_index mod 3 = 1 then single_secp256k1_lock_script_via_type K user
            else if enabled_data1_script then single_secp256k1_lock_script_via_data1 K user
            else single_secp256k1_lock_script_via_data K user) (\<lambda>lock.
     ret \<lparr>co_capacity = capacity, co_lock = lock, co_type = None\<rparr>))))"

definition build_transaction ::
    "bool \<Rightarrow> crypto \<Rightarrow> chain_lib \<Rightarrow> (epoch_ext \<Rightarrow> 64 word) \<Rightarrow> nat iter_order \<Rightarrow> transaction_producer \<Rightarrow> byte32 \<Rightarrow> bool \<Rightarrow> bool
      \<Rightarrow> (byte32 \<rightharpoonup> cell_meta) \<Rightarrow> ('w, transaction) cmd" where
  "build_transaction oc K L full_value iter self lock_hash enabled_data1_script enabled_invalid_since_epoch live_cells =
     (let since = (if enabled_invalid_since_epoch
                   then since_from_absolute_epoch_number_with_fraction full_value
                          \<lparr>ep_number = 0, ep_index = 1, ep_length = 1\<rparr> else 0);
          cells = hm_values iter live_cells;
          inputs = map (\<lambda>cell. \<lparr>ci_since = since, ci_previous_output = cm_out_point cell\<rparr>) cells
      in bindM (mapM (output_of_cell oc K self lock_hash enabled_data1_script) cells) (\<lambda>outputs.
         let raw_tx = empty_transaction\<lparr>tx_inputs := inputs, tx_outputs := outputs,
               tx_outputs_data := map (\<lambda>_. []) cells, tx_cell_deps := tp_cell_deps self\<rparr>
         in bindM (mapM (\<lambda>cell. bindM (expectM ''should be ok'' (tp_users self (lock_hash_of L cell)))
                    (\<lambda>user. single_secp256k1_signed_witness K L user raw_tx)) cells) (\<lambda>witnesses.
            ret (raw_tx\<lparr>tx_witnesses := witnesses\<rparr>))))"

text \<open>
  One live cell received.  \<open>send_tx\<close> puts a transaction into the channel and tells whether its
  receiver still lives; without it the producer ends.
\<close>

definition producer_step ::
    "bool \<Rightarrow> crypto \<Rightarrow> chain_lib \<Rightarrow> (epoch_ext \<Rightarrow> 64 word) \<Rightarrow> nat iter_order \<Rightarrow> out_point iter_order
      \<Rightarrow> (transaction \<Rightarrow> ('w, bool) cmd) \<Rightarrow> bool \<Rightarrow> bool \<Rightarrow> transaction_producer \<Rightarrow> cell_meta
      \<Rightarrow> ('w, transaction_producer option) cmd" where
  "producer_step oc K L full_value iter oiter send_tx enabled_data1_script enabled_invalid_since_epoch self live_cell =
     (let lock_hash = lock_hash_of L live_cell; self = file_cell L self live_cell
      in if card (dom (tp_live_cells self)) \<ge> tp_n_inout self
         then let live_cells = tp_live_cells self; self = self\<lparr>tp_live_cells := Map.empty\<rparr>
              in bindM (build_transaction oc K L full_value iter self lock_hash enabled_data1_script
                          enabled_invalid_since_epoch live_cells) (\<lambda>signed_tx.
                 bindM (send_tx signed_tx) (\<lambda>sent.
                 if \<not> sent then ret None
                 else let backlogs = tp_backlogs self; self = self\<lparr>tp_backlogs := Map.empty\<rparr>
                      in ret (Some (fold (\<lambda>cell self. file_cell L self cell) (hm_values oiter backlogs) self))))
         else ret (Some self))"

partial_function (option) producer_loop ::
    "('w, cell_meta option) cmd \<Rightarrow> (transaction_producer \<Rightarrow> cell_meta \<Rightarrow> ('w, transaction_producer option) cmd)
      \<Rightarrow> transaction_producer \<Rightarrow> 'w \<Rightarrow> ((halt + unit) \<times> 'w) option" where
  "producer_loop recv_cell step self w =
     bindM recv_cell (\<lambda>received. case received of
       None \<Rightarrow> ret ()
     | Some live_cell \<Rightarrow> bindM (step self live_cell) (\<lambda>next_state. case next_state of
         None \<Rightarrow> ret ()
       | Some self' \<Rightarrow> producer_loop recv_cell step self')) w"

definition transaction_producer_run ::
    "bool \<Rightarrow> crypto \<Rightarrow> chain_lib \<Rightarrow> (epoch_ext \<Rightarrow> 64 word) \<Rightarrow> nat iter_order \<Rightarrow> out_point iter_order
      \<Rightarrow> (string \<Rightarrow> ('w, string option) cmd) \<Rightarrow> ('w, cell_meta option) cmd \<Rightarrow> (transaction \<Rightarrow> ('w, bool) cmd)
      \<Rightarrow> transaction_producer \<Rightarrow> ('w, unit) cmd" where
  "transaction_producer_run oc K L full_value iter oiter env_var live_cell_receiver transaction_sender self =
     bindM (mapC enabled_by (env_var ''CKB_BENCH_ENABLE_DATA1_SCRIPT'')) (\<lambda>enabled_data1_script.
     bindM (mapC enabled_by (env_var ''CKB_BENCH_ENABLE_INVALID_SINCE_EPOCH'')) (\<lambda>enabled_invalid_since_epoch.
     producer_loop live_cell_receiver
       (producer_step oc K L full_value iter oiter transaction_sender enabled_data1_script enabled_invalid_since_epoch)
       self))"

section \<open>Retrying\<close>

text \<open>
  C20.  Sending with retries.  As long as the pool becomes able to take transactions again, the call
  returns: the first answer that is not a full pool decides, an accepted transaction as true, a
  duplicated one as false and any other error as the error.  (\<open>full\<close> counts the attempts the pool
  will still refuse.)
\<close>

theorem retry_decides:
  fixes full :: "'w \<Rightarrow> nat" and clk :: "'w clock"
  assumes "\<forall>w. \<exists>w'. rpc_send_transaction_result clk (nd_rpc_client nd) tx w = Some (Inr (answer w), w') \<and>
       full (sleep clk (millis 10) w') = full w - 1"
    and "\<forall>w. 0 < full w \<longleftrightarrow> (\<exists>e. answer w = Inl e \<and> str_contains ''PoolIsFull'' e)"
  shows "\<exists>v w'. maybe_retry_send_transaction clk nd tx w = Some (Inr (case answer v of
       Inr h \<Rightarrow> Inr True
     | Inl e \<Rightarrow> if str_contains ''PoolRejectedDuplicatedTransaction'' e then Inr False else Inl e), w')
     \<and> full v = 0"
proof (induction "full w" arbitrary: w)
  case 0
  obtain w' where w': "rpc_send_transaction_result clk (nd_rpc_client nd) tx w = Some (Inr (answer w), w')"
    using assms(1) by blast
  have "\<not> (\<exists>e. answer w = Inl e \<and> str_contains ''PoolIsFull'' e)"
    using 0 assms(2)[THEN spec, of w] by simp
  then have "maybe_retry_send_transaction clk nd tx w = Some (Inr (case answer w of
       Inr h \<Rightarrow> Inr True
     | Inl e \<Rightarrow> if str_contains ''PoolRejectedDuplicatedTransaction'' e then Inr False else Inl e), w')"
    using w' by (subst maybe_retry_send_transaction.simps) (auto simp: bindM_run ret_run split: sum.split)
  with 0 show ?case by auto
next
  case (Suc n)
  then obtain e where e: "answer w = Inl e" "str_contains ''PoolIsFull'' e" 
    using assms(2)[THEN spec, of w] Suc.hyps(2) by auto
  obtain w1 where w1: "rpc_send_transaction_result clk (nd_rpc_client nd) tx w = Some (Inr (answer w), w1)"
    "full (sleep clk (millis 10) w1) = full w - 1"
    using assms(1) by blast
  have "maybe_retry_send_transaction clk nd tx w = maybe_retry_send_transaction clk nd tx (sleep clk (millis 10) w1)"
    using w1 e by (subst maybe_retry_send_transaction.simps) (simp add: bindM_run sleeping_run)
  moreover have "n = full (sleep clk (millis 10) w1)" using Suc.hyps(2) w1(2) by simp
  ultimately show ?case using Suc.hyps(1)[of "sleep clk (millis 10) w1"] by simp
qed

text \<open>A pool that is full for a while: the world counts the attempts left.\<close>

definition busy_node :: "nat node" where
  "busy_node = (offline_node ''busy'')\<lparr>nd_rpc_client := offline_client\<lparr>rc_inner2021 := offline2021\<lparr>
     i21_send_transaction := (\<lambda>tx _ w. Some (Inr (if 0 < w then Inl ''PoolIsFull(..)'' else Inl ''PoolRejectedDuplicatedTransaction''), w))\<rparr>\<rparr>\<rparr>"

definition countdown_clock :: "nat clock" where
  "countdown_clock = \<lparr>now = (\<lambda>w. 0), sleep = (\<lambda>d w. w - 1)\<rparr>"

theorem retry_decides_witness:
  "\<exists>w'. maybe_retry_send_transaction countdown_clock busy_node empty_transaction 3 = Some (Inr (Inr False), w')"
proof -
  let ?answer = "\<lambda>w :: nat. if 0 < w then Inl ''PoolIsFull(..)'' else Inl ''PoolRejectedDuplicatedTransaction'' :: string + byte32"
  have sent: "\<forall>w. \<exists>w'. rpc_send_transaction_result countdown_clock (nd_rpc_client busy_node) empty_transaction w
      = Some (Inr (?answer w), w') \<and> sleep countdown_clock (millis 10) w' = w - 1"
    by (auto simp: rpc_send_transaction_result_def busy_node_def offline_client_def countdown_clock_def bindM_def ret_def)
  have full: "\<forall>w. 0 < w \<longleftrightarrow> (\<exists>e. ?answer w = Inl e \<and> str_contains ''PoolIsFull'' e)"
    by (auto simp: prefix_def)
  obtain v w' where "maybe_retry_send_transaction countdown_clock busy_node empty_transaction 3
      = Some (Inr (case ?answer v of Inr h \<Rightarrow> Inr True
          | Inl e \<Rightarrow> if str_contains ''PoolRejectedDuplicatedTransaction'' e then Inr False else Inl e), w')" "v = 0"
    using retry_decides[where full = "\<lambda>w. w" and answer = ?answer, OF sent full, of 3] by blast
  then show ?thesis by simp
qed

section \<open>The transactions of the producer\<close>

text \<open>A user whose key works, the user's locks, and the witness that unlocks the user's cells.\<close>

definition usable :: "crypto \<Rightarrow> user \<Rightarrow> bool" where
  "usable K u \<longleftrightarrow> (\<exists>k p. us_single_secp256k1_privkey u = Some k \<and> pubkey_of K k = Inr p
     \<and> 20 \<le> length (blake2b_256 K (pubkey_bytes K p)) \<and> (\<forall>m. \<exists>s. sign_with K k m = Inr s))"

definition address_of :: "crypto \<Rightarrow> user \<Rightarrow> bytes" where
  "address_of K u = take 20 (blake2b_256 K (pubkey_bytes K (projr (pubkey_of K (the (us_single_secp256k1_privkey u))))))"

definition unlocking :: "crypto \<Rightarrow> chain_lib \<Rightarrow> user \<Rightarrow> transaction \<Rightarrow> bytes" where
  "unlocking K L u tx = witness_args_bytes K (Some (projr (sign_with K (the (us_single_secp256k1_privkey u))
     (blake2b_256 K (byte32_bytes K (hash_tx L tx) @ u64_to_le_bytes (length (placeholder_witness K))
        @ placeholder_witness K)))))"

lemma usable_address: "usable K u \<Longrightarrow> single_secp256k1_address K u = ret (address_of K u)"
  by (auto simp: usable_def single_secp256k1_address_def single_secp256k1_pubkey_def address_of_def Let_def)

lemma usable_locks:
  assumes "usable K u"
  shows "single_secp256k1_lock_script_via_type K u = ret (lock_via K u (address_of K u) ! 0)"
    and "single_secp256k1_lock_script_via_data K u = ret (lock_via K u (address_of K u) ! 1)"
    and "single_secp256k1_lock_script_via_data1 K u = ret (lock_via K u (address_of K u) ! 2)"
  by (simp_all add: usable_address[OF assms] single_secp256k1_lock_script_via_type_def single_secp256k1_lock_script_via_data_def
      single_secp256k1_lock_script_via_data1_def lock_via_def)

lemma usable_witness: "usable K u \<Longrightarrow> single_secp256k1_signed_witness K L u tx = ret (unlocking K L u tx)"
proof -
  assume "usable K u"
  then obtain k where k: "us_single_secp256k1_privkey u = Some k" "\<forall>m. \<exists>s. sign_with K k m = Inr s"
    by (auto simp: usable_def)
  obtain s where "sign_with K k (blake2b_256 K (byte32_bytes K (hash_tx L tx)
      @ u64_to_le_bytes (length (placeholder_witness K)) @ placeholder_witness K)) = Inr s" using k(2) by blast
  with k(1) show ?thesis by (simp add: single_secp256k1_signed_witness_def unlocking_def Let_def)
qed

definition capacity_of :: "cell_meta \<Rightarrow> nat" where
  "capacity_of c = co_capacity (cm_cell_output c)"

text \<open>A batch of cells, each filed under its lock, of a known user, and able to pay its share of the fee.\<close>

definition batch_ok :: "crypto \<Rightarrow> chain_lib \<Rightarrow> transaction_producer \<Rightarrow> bool" where
  "batch_ok K L P \<longleftrightarrow> finite (dom (tp_live_cells P)) \<and> (\<forall>h c. tp_live_cells P h = Some c \<longrightarrow>
     lock_hash_of L c = h \<and> (\<exists>u. tp_users P h = Some u \<and> usable K u)
     \<and> cm_transaction_info c \<noteq> None \<and> 1000 \<le> capacity_of c \<and> capacity_of c < u64_lim)"

definition output_lock :: "crypto \<Rightarrow> user \<Rightarrow> bool \<Rightarrow> cell_meta \<Rightarrow> script" where
  "output_lock K u data1 c = lock_via K u (address_of K u) !
     (let r = ti_index (the (cm_transaction_info c)) mod 3 in if r = 0 then 1 else if r = 1 then 0 else if data1 then 2 else 1)"

definition paired_transaction ::
    "crypto \<Rightarrow> chain_lib \<Rightarrow> transaction_producer \<Rightarrow> user \<Rightarrow> bool \<Rightarrow> cell_meta list \<Rightarrow> transaction \<Rightarrow> bool" where
  "paired_transaction K L P payee data1 cells tx \<longleftrightarrow>
     map ci_previous_output (tx_inputs tx) = map cm_out_point cells
   \<and> tx_outputs tx = map (\<lambda>c. \<lparr>co_capacity = capacity_of c - 1000, co_lock = output_lock K payee data1 c, co_type = None\<rparr>) cells
   \<and> length (tx_outputs_data tx) = length cells \<and> tx_cell_deps tx = tp_cell_deps P
   \<and> tx_witnesses tx = map (\<lambda>c. unlocking K L (the (tp_users P (lock_hash_of L c))) (tx\<lparr>tx_witnesses := []\<rparr>)) cells"

lemma mapM_ret_map: "(\<And>x. x \<in> set xs \<Longrightarrow> f x = ret (g x)) \<Longrightarrow> mapM f xs = ret (map g xs)"
  by (induction xs) simp_all

lemma build_transaction_paired:
  assumes "iterates iter" and "batch_ok K L P" and "tp_live_cells P = live" and "tp_users P lock_hash = Some payee"
    and "usable K payee"
  shows "\<exists>tx. build_transaction oc K L full_value iter (P\<lparr>tp_live_cells := Map.empty\<rparr>) lock_hash data1 bad_since live
       = (ret tx :: ('w, transaction) cmd) \<and> paired_transaction K L P payee data1 (hm_values iter live) tx"
proof -
  let ?P = "P\<lparr>tp_live_cells := Map.empty\<rparr>"
  let ?cells = "hm_values iter live"
  let ?out = "\<lambda>c. \<lparr>co_capacity = capacity_of c - 1000, co_lock = output_lock K payee data1 c, co_type = None\<rparr>"
  define since where "since = (if bad_since then since_from_absolute_epoch_number_with_fraction full_value
       \<lparr>ep_number = 0, ep_index = 1, ep_length = 1\<rparr> else 0)"
  define raw where "raw = empty_transaction\<lparr>tx_inputs := map (\<lambda>c. \<lparr>ci_since = since, ci_previous_output = cm_out_point c\<rparr>) ?cells,
     tx_outputs := map ?out ?cells, tx_outputs_data := map (\<lambda>_. []) ?cells, tx_cell_deps := tp_cell_deps P\<rparr>"
  let ?wit = "\<lambda>c. unlocking K L (the (tp_users P (lock_hash_of L c))) raw"
  have fin: "finite (dom live)" using assms(2,3) by (simp add: batch_ok_def)
  have cell: "lock_hash_of L c = h \<and> (\<exists>u. tp_users P h = Some u \<and> usable K u) \<and> cm_transaction_info c \<noteq> None
      \<and> 1000 \<le> capacity_of c \<and> capacity_of c < u64_lim" if "live h = Some c" for h c
    using assms(2) that unfolding batch_ok_def assms(3) by blast
  have mem: "\<exists>h. live h = Some c" if "c \<in> set ?cells" for c
    using that set_hm_values[OF assms(1) fin] by (auto simp: ran_def)
  have outs: "output_of_cell oc K ?P lock_hash data1 c = (ret (?out c) :: ('w, cell_output) cmd)" if "c \<in> set ?cells" for c
  proof -
    from mem[OF that] obtain h where "live h = Some c" by blast
    from cell[OF this] obtain i where "cm_transaction_info c = Some i" "1000 \<le> capacity_of c" "capacity_of c < u64_lim"
      by blast
    then show ?thesis
      using assms(4)
      by (simp add: usable_locks[OF assms(5)] output_of_cell_def output_lock_def Let_def capacity_of_def u64_sub_ok)
  qed
  have wits: "bindM (expectM ''should be ok'' (tp_users ?P (lock_hash_of L c))) (\<lambda>user. single_secp256k1_signed_witness K L user raw)
      = (ret (?wit c) :: ('w, bytes) cmd)" if "c \<in> set ?cells" for c
  proof -
    from mem[OF that] obtain h where "live h = Some c" by blast
    from cell[OF this] obtain u where "tp_users P (lock_hash_of L c) = Some u" "usable K u" by blast
    then show ?thesis by (simp add: usable_witness)
  qed
  have "build_transaction oc K L full_value iter ?P lock_hash data1 bad_since live
      = (ret (raw\<lparr>tx_witnesses := map ?wit ?cells\<rparr>) :: ('w, transaction) cmd)"
  proof -
    have o: "mapM (output_of_cell oc K ?P lock_hash data1) ?cells = (ret (map ?out ?cells) :: ('w, cell_output list) cmd)"
      by (rule mapM_ret_map) (rule outs)
    have w: "mapM (\<lambda>c. bindM (expectM ''should be ok'' (tp_users ?P (lock_hash_of L c)))
        (\<lambda>user. single_secp256k1_signed_witness K L user raw)) ?cells = (ret (map ?wit ?cells) :: ('w, bytes list) cmd)"
      by (rule mapM_ret_map) (rule wits)
    have r: "empty_transaction\<lparr>tx_inputs := map (\<lambda>c. \<lparr>ci_since = since, ci_previous_output = cm_out_point c\<rparr>) ?cells,
       tx_outputs := map ?out ?cells, tx_outputs_data := map (\<lambda>_. []) ?cells, tx_cell_deps := tp_cell_deps ?P\<rparr> = raw"
      by (simp add: raw_def)
    show ?thesis
      unfolding build_transaction_def Let_def since_def[symmetric] o bindM_ret r w ..
  qed
  moreover have "paired_transaction K L P payee data1 ?cells (raw\<lparr>tx_witnesses := map ?wit ?cells\<rparr>)"
    by (simp add: paired_transaction_def raw_def comp_def empty_transaction_def)
  ultimately show ?thesis by blast
qed

text \<open>
  C9.  The transaction producer collects one cell per lock until it has \<open>n_inout\<close> of them and only
  then sends one transaction.  Its inputs are exactly the collected cells, of pairwise different
  locks; output \<open>i\<close> has the capacity of input \<open>i\<close> less 1000 shannons, so that exactly 1000
  shannons per cell are paid; witness \<open>i\<close> is the signature of the owner of input \<open>i\<close>, over the
  transaction without its witnesses.  All outputs belong to the owner of the cell received last.
\<close>

theorem producer_batches:
  fixes send_tx :: "transaction \<Rightarrow> ('w, bool) cmd"
  assumes "iterates iter" and "P = file_cell L self cell" and "batch_ok K L P"
    and "tp_users P (lock_hash_of L cell) = Some payee" and "usable K payee"
  shows "if card (dom (tp_live_cells P)) < tp_n_inout self
     then producer_step oc K L full_value iter oiter send_tx data1 bad_since self cell = ret (Some P)
     else \<exists>tx next_state. producer_step oc K L full_value iter oiter send_tx data1 bad_since self cell
            = bindM (send_tx tx) (\<lambda>sent. ret (if sent then Some next_state else None))
        \<and> paired_transaction K L P payee data1 (hm_values iter (tp_live_cells P)) tx
        \<and> length (tx_inputs tx) = card (dom (tp_live_cells P)) \<and> length (tx_outputs tx) = length (tx_inputs tx)
        \<and> distinct (map (lock_hash_of L) (hm_values iter (tp_live_cells P)))
        \<and> sum_list (map co_capacity (tx_outputs tx)) + 1000 * length (tx_inputs tx)
            = sum_list (map capacity_of (hm_values iter (tp_live_cells P)))"
proof -
  let ?live = "tp_live_cells P" and ?cells = "hm_values iter (tp_live_cells P)"
  have n: "tp_n_inout P = tp_n_inout self" by (simp add: assms(2) file_cell_def split: option.split)
  have fin: "finite (dom ?live)" using assms(3) by (simp add: batch_ok_def)
  obtain tx where tx: "build_transaction oc K L full_value iter (P\<lparr>tp_live_cells := Map.empty\<rparr>) (lock_hash_of L cell)
      data1 bad_since ?live = (ret tx :: ('w, transaction) cmd)" "paired_transaction K L P payee data1 ?cells tx"
    using build_transaction_paired[OF assms(1,3) refl assms(4,5)] by blast
  have len: "length ?cells = card (dom ?live)" by (rule length_hm_values[OF assms(1) fin])
  have inputs: "length (tx_inputs tx) = length ?cells"
    using tx(2) unfolding paired_transaction_def by (metis length_map)
  have keys: "map (lock_hash_of L) ?cells = iter (dom ?live)"
  proof -
    have "\<forall>h \<in> set (iter (dom ?live)). lock_hash_of L (the (?live h)) = h"
      using assms(3) iteratesD[OF assms(1) fin] by (auto simp: batch_ok_def)
    then show ?thesis by (simp add: hm_values_def map_idI)
  qed
  have paid: "sum_list (map (\<lambda>c. capacity_of c - 1000) cs) + 1000 * length cs = sum_list (map capacity_of cs)"
    if "\<forall>c \<in> set cs. 1000 \<le> capacity_of c" for cs
    using that by (induction cs) auto
  have enough: "\<forall>c \<in> set ?cells. 1000 \<le> capacity_of c"
    using assms(3) set_hm_values[OF assms(1) fin] by (auto simp: batch_ok_def ran_def)
  have outputs: "map co_capacity (tx_outputs tx) = map (\<lambda>c. capacity_of c - 1000) ?cells"
    using tx(2) by (simp add: paired_transaction_def comp_def)
  show ?thesis
  proof (cases "card (dom ?live) < tp_n_inout self")
    case True
    then show ?thesis using n by (simp add: producer_step_def Let_def flip: assms(2))
  next
    case False
    let ?next = "fold (\<lambda>cell self. file_cell L self cell) (hm_values oiter (tp_backlogs P))
       (P\<lparr>tp_live_cells := Map.empty, tp_backlogs := Map.empty\<rparr>)"
    have "producer_step oc K L full_value iter oiter send_tx data1 bad_since self cell
        = bindM (send_tx tx) (\<lambda>sent. ret (if sent then Some ?next else None))"
    proof -
      have "(\<lambda>sent. if \<not> sent then ret None else ret (Some ?next))
          = (\<lambda>sent. ret (if sent then Some ?next else None) :: ('w, transaction_producer option) cmd)" by auto
      moreover have "tp_backlogs (P\<lparr>tp_live_cells := Map.empty\<rparr>) = tp_backlogs P" by simp
      moreover have "tp_n_inout P \<le> card (dom ?live)" using False n by simp
      ultimately show ?thesis
        unfolding producer_step_def Let_def assms(2)[symmetric] by (simp add: tx(1) cong: if_cong)
    qed
    then show ?thesis
      unfolding if_not_P[OF False]
      using tx(2) inputs len keys iteratesD[OF assms(1) fin] paid[OF enough] outputs
      by (intro exI[of _ tx] exI[of _ ?next]) (auto simp: paired_transaction_def comp_def)
  qed
qed

text \<open>Two users; the hash of a lock tells the key and the kind of the lock apart.\<close>

definition lock_lib :: chain_lib where
  "lock_lib = toy_lib\<lparr>hash_script := (\<lambda>s. 4 * unat (script_args s ! 1)
     + (case hash_type s of Data \<Rightarrow> 0 | Type \<Rightarrow> 1 | Data1 \<Rightarrow> 2))\<rparr>"

definition key_user :: "nat \<Rightarrow> user" where
  "key_user k = user_new (block_at 0) (Some k)"

definition data_cell :: "nat \<Rightarrow> nat \<Rightarrow> cell_meta" where
  "data_cell k index = \<lparr>cm_cell_output = \<lparr>co_capacity = 5000 + index,
       co_lock = \<lparr>code_hash = SIGHASH_ALL_DATA_HASH, hash_type = Data, script_args = 33 # replicate 19 (of_nat (k + 1))\<rparr>, co_type = None\<rparr>,
     cm_out_point = \<lparr>op_tx_hash = k, op_index = index\<rparr>,
     cm_transaction_info = Some \<lparr>ti_block_hash = 1, ti_block_number = 1, ti_block_epoch = default_epoch, ti_index = index\<rparr>,
     cm_data_bytes = 0\<rparr>"

definition half_full :: transaction_producer where
  "half_full = \<lparr>tp_users = [164 \<mapsto> key_user 40, 168 \<mapsto> key_user 41], tp_cell_deps = [], tp_n_inout = 2,
     tp_live_cells = [164 \<mapsto> data_cell 40 4], tp_backlogs = Map.empty\<rparr>"

lemma key_user_usable: "usable toy_crypto (key_user k)"
  by (simp add: usable_def key_user_def user_new_def toy_crypto_def)

lemma data_cell_lock: "lock_hash_of lock_lib (data_cell k i) = 4 * unat (of_nat (k + 1) :: byte)"
  by (simp add: lock_hash_of_def lock_lib_def data_cell_def)

theorem producer_batches_witness:
  "\<exists>(tx :: transaction) next_state. producer_step True toy_crypto lock_lib (\<lambda>_. 0) sorted_list_of_set (\<lambda>_. []) (\<lambda>_. ret True) False False
       half_full (data_cell 41 6) (0 :: nat) = Some (Inr (Some next_state), 0)
     \<and> length (tx_inputs tx) = 2
     \<and> sum_list (map co_capacity (tx_outputs tx)) + 2000 = 10010"
proof -
  let ?P = "file_cell lock_lib half_full (data_cell 41 6)"
  have locks: "lock_hash_of lock_lib (data_cell 41 6) = 168" "lock_hash_of lock_lib (data_cell 40 4) = 164"
    by (simp_all add: data_cell_lock)
  have P: "?P = half_full\<lparr>tp_live_cells := [164 \<mapsto> data_cell 40 4, 168 \<mapsto> data_cell 41 6]\<rparr>"
    by (simp add: file_cell_def locks half_full_def)
  have dom: "dom (tp_live_cells ?P) = {164, 168}" unfolding P by (auto simp: half_full_def)
  have ok: "batch_ok toy_crypto lock_lib ?P"
    unfolding batch_ok_def dom unfolding P
    by (auto simp: locks half_full_def key_user_usable capacity_of_def u64_lim_def split: if_splits)
      (simp_all add: data_cell_def)
  have payee: "tp_users ?P (lock_hash_of lock_lib (data_cell 41 6)) = Some (key_user 41)"
    unfolding P locks by (simp add: half_full_def)
  have vals: "hm_values sorted_list_of_set (tp_live_cells ?P) = [data_cell 40 4, data_cell 41 6]"
    unfolding hm_values_def dom unfolding P by (simp add: half_full_def)
  have two: "tp_n_inout half_full = 2" "card (dom (tp_live_cells ?P)) = 2" unfolding dom by (simp_all add: half_full_def)
  have caps: "sum_list (map capacity_of [data_cell 40 4, data_cell 41 6]) = 10010"
    by (simp add: capacity_of_def data_cell_def)
  note batches = producer_batches[OF iterates_sorted refl ok payee key_user_usable, of True "\<lambda>_. 0" "\<lambda>_. []"
      "\<lambda>_. ret True :: (nat, bool) cmd" False False, unfolded vals two caps]
  have "\<not> (2 :: nat) < 2" by simp
  from batches[unfolded if_not_P[OF this]] show ?thesis
  proof (elim exE conjE)
    fix tx :: transaction and next_state :: transaction_producer
    assume "producer_step True toy_crypto lock_lib (\<lambda>_. 0) sorted_list_of_set (\<lambda>_. [])
       (\<lambda>_. ret True) False False half_full (data_cell 41 6)
       = bindM (ret True :: (nat, bool) cmd) (\<lambda>sent. ret (if sent then Some next_state else None))"
      and "length (tx_inputs tx) = 2"
      and "sum_list (map co_capacity (tx_outputs tx)) + 1000 * length (tx_inputs tx) = 10010"
    then show ?thesis by (intro exI[of _ tx] exI[of _ next_state]) (simp add: ret_run)
  qed
qed

end
