(* ===== verification/Prepare.thy ===== *)
theory Prepare
  imports Bench
begin

text \<open>
  \<open>ckb-bench/src/prepare.rs\<close>: handing an owner's capacity out to the users as equal cells
  (\<open>dispatch\<close>), collecting it again (\<open>collect\<close>), and the users' keys.
\<close>

definition TWO_IN_TWO_OUT_COUNT :: nat where "TWO_IN_TWO_OUT_COUNT = 1000"

definition MAX_OUT_COUNT :: nat where "MAX_OUT_COUNT = TWO_IN_TWO_OUT_COUNT"

definition FEE_RATE_OF_OUTPUT :: nat where "FEE_RATE_OF_OUTPUT = 1000"

section \<open>\<open>dispatch\<close>\<close>

text \<open>What \<open>dispatch\<close> is called with, and the profile and libraries it runs on.\<close>

record 'w dispatch_env =
  de_oc :: bool
  de_crypto :: crypto
  de_lib :: chain_lib
  de_clock :: "'w clock"
  de_nodes :: "'w node list"
  de_owner :: user
  de_users :: "user list"
  de_cells_per_user :: nat
  de_capacity_per_cell :: nat

definition check_capacity :: "'w dispatch_env \<Rightarrow> cell_meta list \<Rightarrow> ('w, unit) cmd" where
  "check_capacity E live_cells =
     bindM (u64_sum (de_oc E) (map capacity_of live_cells)) (\<lambda>total_capacity.
     bindM (u64_mul (de_oc E) (length (de_users E)) (de_cells_per_user E)) (\<lambda>cells.
     bindM (u64_mul (de_oc E) cells FEE_RATE_OF_OUTPUT) (\<lambda>total_fee.
     bindM (u64_mul (de_oc E) cells (de_capacity_per_cell E)) (\<lambda>outputs.
     bindM (u64_add (de_oc E) outputs total_fee) (\<lambda>need_capacity.
     assertM (total_capacity > need_capacity) ''insufficient capacity'')))))"

definition index_user :: "'w dispatch_env \<Rightarrow> nat \<Rightarrow> ('w, nat) cmd" where
  "index_user E out_i = u64_div out_i (de_cells_per_user E)"

definition user_output :: "'w dispatch_env \<Rightarrow> nat \<Rightarrow> ('w, cell_output) cmd" where
  "user_output E i =
     bindM (index_user E i) (\<lambda>k. bindM (indexM (de_users E) k) (\<lambda>user.
     bindM (single_secp256k1_lock_script_via_data (de_crypto E) user) (\<lambda>lock.
     ret \<lparr>co_capacity = de_capacity_per_cell E, co_lock = lock, co_type = None\<rparr>)))"

definition change_output :: "'w dispatch_env \<Rightarrow> nat \<Rightarrow> ('w, cell_output list) cmd" where
  "change_output E change_capacity =
     (if change_capacity \<ge> capacity_bytes 67
      then bindM (single_secp256k1_lock_script_via_data (de_crypto E) (de_owner E)) (\<lambda>lock.
           ret [\<lparr>co_capacity = change_capacity, co_lock = lock, co_type = None\<rparr>])
      else ret [])"

definition dispatch_transaction :: "'w dispatch_env \<Rightarrow> cell_meta list \<Rightarrow> cell_output list \<Rightarrow> ('w, transaction) cmd" where
  "dispatch_transaction E inputs outputs =
     bindM (single_secp256k1_cell_dep (de_lib E) (de_owner E)) (\<lambda>cell_dep.
     let unsigned_tx = empty_transaction\<lparr>
           tx_inputs := map (\<lambda>input. cell_input_new (cm_out_point input) 0) inputs,
           tx_outputs_data := map (\<lambda>_. []) [0..<length outputs],
           tx_outputs := outputs, tx_cell_deps := [cell_dep]\<rparr>
     in bindM (single_secp256k1_signed_witness (de_crypto E) (de_lib E) (de_owner E) unsigned_tx) (\<lambda>witness.
        ret (unsigned_tx\<lparr>tx_witnesses := [witness]\<rparr>)))"

definition change_live_cell :: "chain_lib \<Rightarrow> transaction \<Rightarrow> ('w, cell_meta) cmd" where
  "change_live_cell L signed_tx =
     bindM (expectM ''1st output exists'' (case tx_outputs signed_tx of [] \<Rightarrow> None | o1 # _ \<Rightarrow> Some o1)) (\<lambda>cell_output.
     ret \<lparr>cm_cell_output = cell_output, cm_out_point = \<lparr>op_tx_hash = hash_tx L signed_tx, op_index = 0\<rparr>,
          cm_transaction_info = None, cm_data_bytes = 0\<rparr>)"

text \<open>How many outputs the inputs gathered so far pay for, and what is left over; 0 outputs means
  that another input is needed.\<close>

definition plan_outputs :: "'w dispatch_env \<Rightarrow> nat \<Rightarrow> nat \<Rightarrow> cell_meta list \<Rightarrow> ('w, (nat \<times> nat) option) cmd" where
  "plan_outputs E total_outs i_out inputs =
     bindM (u64_sum (de_oc E) (map capacity_of inputs)) (\<lambda>inputs_capacity.
     bindM (u64_mul (de_oc E) MAX_OUT_COUNT FEE_RATE_OF_OUTPUT) (\<lambda>fee.
     bindM (u64_sub (de_oc E) inputs_capacity fee) (\<lambda>outputs_capacity.
     bindM (u64_div outputs_capacity (de_capacity_per_cell E)) (\<lambda>affordable.
     let n_outs = min MAX_OUT_COUNT affordable in
     if n_outs = 0 then ret None
     else bindM (u64_add (de_oc E) i_out n_outs) (\<lambda>upto.
          bindM (if upto \<ge> total_outs then u64_sub (de_oc E) total_outs i_out else ret n_outs) (\<lambda>n_outs.
          bindM (u64_mul (de_oc E) n_outs (de_capacity_per_cell E)) (\<lambda>spent.
          bindM (u64_sub (de_oc E) outputs_capacity spent) (\<lambda>change_capacity.
          ret (Some (n_outs, change_capacity))))))))))"

text \<open>One turn of the loop: what is left of the live cells, the inputs gathered, the number of outputs
  made and the transactions sent; or, once every output is made, the loop's result.\<close>

definition dispatch_step ::
    "'w dispatch_env \<Rightarrow> nat \<Rightarrow> cell_meta list \<Rightarrow> cell_meta list \<Rightarrow> nat \<Rightarrow> transaction list
      \<Rightarrow> ('w, (nat \<times> transaction list) + (cell_meta list \<times> cell_meta list \<times> nat \<times> transaction list)) cmd" where
  "dispatch_step E total_outs live_cells inputs i_out txs =
     bindM (plan_outputs E total_outs i_out inputs) (\<lambda>plan. case plan of
       None \<Rightarrow> ret (Inr (live_cells, inputs, i_out, txs))
     | Some (n_outs, change_capacity) \<Rightarrow>
         bindM (change_output E change_capacity) (\<lambda>change.
         bindM (mapM (user_output E) [i_out..<i_out + n_outs]) (\<lambda>outputs.
         bindM (dispatch_transaction E inputs (change @ outputs)) (\<lambda>signed_tx.
         bindM (indexM (de_nodes E) 0) (\<lambda>node.
         bindM (maybe_retry_send_transaction (de_clock E) node signed_tx) (\<lambda>result.
         bindM (assertM (\<not> isl result) ''sending dispatch-transaction should be ok'') (\<lambda>_.
         if i_out + n_outs = total_outs then ret (Inl (i_out + n_outs, txs @ [signed_tx]))
         else bindM (if length (tx_outputs signed_tx) > n_outs
                     then bindM (change_live_cell (de_lib E) signed_tx) (\<lambda>cell. ret (live_cells @ [cell]))
                     else ret live_cells) (\<lambda>live_cells.
              ret (Inr (live_cells, [], i_out + n_outs, txs @ [signed_tx]))))))))))"

partial_function (option) dispatch_loop ::
    "'w dispatch_env \<Rightarrow> nat \<Rightarrow> cell_meta list \<Rightarrow> cell_meta list \<Rightarrow> nat \<Rightarrow> transaction list \<Rightarrow> 'w
      \<Rightarrow> ((halt + (nat \<times> transaction list)) \<times> 'w) option" where
  "dispatch_loop E total_outs live_cells inputs i_out txs w = (case live_cells of
       [] \<Rightarrow> Some (Inr (i_out, txs), w)
     | input # live_cells \<Rightarrow>
         bindM (dispatch_step E total_outs live_cells (inputs @ [input]) i_out txs) (\<lambda>next_turn. case next_turn of
           Inl finished \<Rightarrow> ret finished
         | Inr (live_cells, inputs, i_out, txs) \<Rightarrow> dispatch_loop E total_outs live_cells inputs i_out txs) w)"

definition not_committed :: "chain_lib \<Rightarrow> 'w node \<Rightarrow> transaction \<Rightarrow> ('w, transaction option) cmd" where
  "not_committed L node tx =
     bindM (rpc_get_transaction (nd_rpc_client node) (hash_tx L tx)) (\<lambda>txstatus_opt. ret (case txstatus_opt of
       Some txstatus \<Rightarrow> if tws_status txstatus = Committed then None else Some tx
     | None \<Rightarrow> Some tx))"

definition resend :: "'w clock \<Rightarrow> 'w node \<Rightarrow> transaction \<Rightarrow> ('w, unit) cmd" where
  "resend clk node tx = bindM (rpc_send_transaction_result clk (nd_rpc_client node) tx) (\<lambda>_. ret ())"

partial_function (option) commit_loop ::
    "chain_lib \<Rightarrow> 'w clock \<Rightarrow> 'w node \<Rightarrow> transaction list \<Rightarrow> nat \<Rightarrow> nat \<Rightarrow> 'w \<Rightarrow> ((halt + unit) \<times> 'w) option" where
  "commit_loop L clk node txs last_txs_len last_sent_time w =
     bindM (filter_mapM (not_committed L node) txs) (\<lambda>txs.
     if txs = [] then ret ()
     else bindM (reading (now clk)) (\<lambda>t.
          if t - last_sent_time > secs 60
          then bindM (if last_txs_len = length txs then forM txs (resend clk node) else ret ()) (\<lambda>_.
               bindM (reading (now clk)) (\<lambda>t. commit_loop L clk node txs (length txs) t))
          else bindM (sleeping clk (secs 1)) (\<lambda>_. commit_loop L clk node txs last_txs_len last_sent_time))) w"

definition dispatch :: "'w dispatch_env \<Rightarrow> ('w, unit) cmd" where
  "dispatch E =
     bindM (indexM (de_nodes E) 0) (\<lambda>node.
     bindM (get_spendable_single_secp256k1_cells (de_oc E) (de_crypto E) (de_lib E) (de_owner E) node) (\<lambda>live_cells.
     bindM (check_capacity E live_cells) (\<lambda>_.
     bindM (u64_mul (de_oc E) (length (de_users E)) (de_cells_per_user E)) (\<lambda>total_outs.
     bindM (dispatch_loop E total_outs live_cells [] 0 []) (\<lambda>(i_out, txs).
     bindM (\<lambda>w. commit_loop (de_lib E) (de_clock E) node txs (length txs) (now (de_clock E) w) w) (\<lambda>_.
     assertM (i_out \<ge> total_outs) ''i_out, total_outs''))))))"

section \<open>\<open>collect\<close>\<close>

text \<open>How often every lock occurs, and the locks in the order of their first occurrence.\<close>

definition count_locks :: "cell_meta list \<Rightarrow> (script \<rightharpoonup> nat)" where
  "count_locks inputs = fold (\<lambda>input groups. let lock = co_lock (cm_cell_output input)
     in groups(lock \<mapsto> (case groups lock of Some cnt \<Rightarrow> cnt + 1 | None \<Rightarrow> 1))) inputs Map.empty"

primrec take_groups :: "cell_meta list \<Rightarrow> (script \<rightharpoonup> nat) \<Rightarrow> (script \<times> nat) list" where
  "take_groups [] groups = []"
| "take_groups (input # inputs) groups = (let lock = co_lock (cm_cell_output input) in
     case groups lock of
       Some cnt \<Rightarrow> (lock, cnt) # take_groups inputs (groups(lock := None))
     | None \<Rightarrow> take_groups inputs groups)"

definition sorted_script_groups :: "cell_meta list \<Rightarrow> (script \<times> nat) list" where
  "sorted_script_groups inputs = take_groups inputs (count_locks inputs)"

definition group_message :: "crypto \<Rightarrow> byte32 \<Rightarrow> nat \<Rightarrow> bytes" where
  "group_message K tx_hash cnt =
     (let placeholder = placeholder_witness K;
          chunk = u64_to_le_bytes (length placeholder) @ placeholder
      in blake2b_256 K (byte32_bytes K tx_hash @ chunk @ concat (replicate (cnt - 1) chunk)))"

definition group_witnesses :: "crypto \<Rightarrow> chain_lib \<Rightarrow> (byte32 \<rightharpoonup> user) \<Rightarrow> byte32 \<Rightarrow> script \<times> nat \<Rightarrow> ('w, bytes list) cmd" where
  "group_witnesses K L users tx_hash = (\<lambda>(script, cnt).
     bindM (expectM UNWRAP (users (hash_script L script))) (\<lambda>user.
     bindM (sign_recoverable K user (group_message K tx_hash cnt)) (\<lambda>sig.
     ret (witness_args_bytes K (Some sig) # replicate (cnt - 1) (placeholder_witness K)))))"

definition collect_transaction ::
    "bool \<Rightarrow> crypto \<Rightarrow> chain_lib \<Rightarrow> user \<Rightarrow> cell_meta list \<Rightarrow> (byte32 \<rightharpoonup> user) \<Rightarrow> ('w, transaction) cmd" where
  "collect_transaction oc K L owner inputs users =
     bindM (u64_sum oc (map capacity_of inputs)) (\<lambda>inputs_capacity.
     bindM (u64_mul oc (length inputs) 1000) (\<lambda>fee.
     bindM (u64_sub oc inputs_capacity fee) (\<lambda>capacity.
     bindM (single_secp256k1_lock_script_via_data K owner) (\<lambda>lock.
     bindM (single_secp256k1_cell_dep L owner) (\<lambda>cell_dep.
     let unsigned_tx = empty_transaction\<lparr>
           tx_inputs := map (\<lambda>cell. cell_input_new (cm_out_point cell) 0) inputs,
           tx_outputs := [\<lparr>co_capacity = capacity, co_lock = lock, co_type = None\<rparr>],
           tx_outputs_data := [[]], tx_cell_deps := [cell_dep]\<rparr>;
         tx_hash = hash_tx L unsigned_tx
     in bindM (mapM (group_witnesses K L users tx_hash) (sorted_script_groups inputs)) (\<lambda>witnesses.
        ret (unsigned_tx\<lparr>tx_witnesses := concat witnesses\<rparr>)))))))"

definition collect_inputs ::
    "bool \<Rightarrow> crypto \<Rightarrow> chain_lib \<Rightarrow> 'w clock \<Rightarrow> 'w node list \<Rightarrow> user \<Rightarrow> cell_meta list \<Rightarrow> (byte32 \<rightharpoonup> user) \<Rightarrow> ('w, unit) cmd" where
  "collect_inputs oc K L clk nodes owner inputs users =
     bindM (collect_transaction oc K L owner inputs users) (\<lambda>signed_tx.
     bindM (indexM nodes 0) (\<lambda>node.
     bindM (maybe_retry_send_transaction clk node signed_tx) (\<lambda>result.
     assertM (\<not> isl result) ''collect-transaction should be ok'')))"

text \<open>\<open>chunks\<close> of a positive size.\<close>

function chunks :: "nat \<Rightarrow> 'a list \<Rightarrow> 'a list list" where
  "chunks n xs = (if xs = [] \<or> n = 0 then [] else take n xs # chunks n (drop n xs))"
  by pat_completeness auto
termination by (relation "measure (\<lambda>(n, xs). length xs)") auto

declare chunks.simps [simp del]

definition inputs_len_soft_limit :: nat where "inputs_len_soft_limit = 1000"

definition collect_chunk ::
    "bool \<Rightarrow> crypto \<Rightarrow> chain_lib \<Rightarrow> 'w clock \<Rightarrow> 'w node list \<Rightarrow> user \<Rightarrow> (byte32 \<rightharpoonup> user)
      \<Rightarrow> cell_meta list \<Rightarrow> cell_meta list \<Rightarrow> ('w, cell_meta list) cmd" where
  "collect_chunk oc K L clk nodes owner users_map pending_inputs chunk =
     (let pending_inputs = pending_inputs @ chunk in
      if length pending_inputs \<ge> inputs_len_soft_limit
      then bindM (collect_inputs oc K L clk nodes owner pending_inputs users_map) (\<lambda>_. ret [])
      else ret pending_inputs)"

definition collect_user ::
    "bool \<Rightarrow> crypto \<Rightarrow> chain_lib \<Rightarrow> 'w clock \<Rightarrow> 'w node list \<Rightarrow> user \<Rightarrow> (byte32 \<rightharpoonup> user)
      \<Rightarrow> cell_meta list \<Rightarrow> user \<Rightarrow> ('w, cell_meta list) cmd" where
  "collect_user oc K L clk nodes owner users_map pending_inputs user =
     bindM (indexM nodes 0) (\<lambda>node.
     bindM (get_spendable_single_secp256k1_cells oc K L user node) (\<lambda>live_cells.
     foldM (collect_chunk oc K L clk nodes owner users_map) pending_inputs (chunks inputs_len_soft_limit live_cells)))"

definition collect ::
    "bool \<Rightarrow> crypto \<Rightarrow> chain_lib \<Rightarrow> 'w clock \<Rightarrow> 'w node list \<Rightarrow> user \<Rightarrow> user list \<Rightarrow> ('w, unit) cmd" where
  "collect oc K L clk nodes owner users =
     bindM (foldM (index_user_locks K L) Map.empty users) (\<lambda>users_map.
     bindM (foldM (collect_user oc K L clk nodes owner users_map) [] users) (\<lambda>pending_inputs.
     if pending_inputs \<noteq> [] then collect_inputs oc K L clk nodes owner pending_inputs users_map else ret ()))"

section \<open>\<open>derive_privkeys\<close>\<close>

definition next_raw_privkey :: "crypto \<Rightarrow> byte32 \<Rightarrow> byte32" where
  "next_raw_privkey K raw_privkey = byte32_of_bytes K (blake2b_256 K (byte32_bytes K raw_privkey))"

definition derive_privkeys :: "crypto \<Rightarrow> byte32 \<Rightarrow> nat \<Rightarrow> byte32 list" where
  "derive_privkeys K basic_raw_privkey n =
     drop 1 (fold (\<lambda>_ raw_privkeys. raw_privkeys @ [next_raw_privkey K (last raw_privkeys)]) [0..<n] [basic_raw_privkey])"

section \<open>Every user is paid\<close>

definition data_lock :: "crypto \<Rightarrow> user \<Rightarrow> script" where
  "data_lock K u = lock_via K u (address_of K u) ! 1"

definition payment :: "'w dispatch_env \<Rightarrow> nat \<Rightarrow> cell_output" where
  "payment E i = \<lparr>co_capacity = de_capacity_per_cell E,
     co_lock = data_lock (de_crypto E) (de_users E ! (i div de_cells_per_user E)), co_type = None\<rparr>"

definition change_cells :: "'w dispatch_env \<Rightarrow> nat \<Rightarrow> cell_output list" where
  "change_cells E c = (if capacity_bytes 67 \<le> c
     then [\<lparr>co_capacity = c, co_lock = data_lock (de_crypto E) (de_owner E), co_type = None\<rparr>] else [])"

abbreviation capacities :: "cell_meta list \<Rightarrow> nat" where
  "capacities cells \<equiv> sum_list (map capacity_of cells)"

abbreviation max_fee :: nat where
  "max_fee \<equiv> MAX_OUT_COUNT * FEE_RATE_OF_OUTPUT"

text \<open>The first node takes every transaction and the keys work; the amounts stay below \<open>u64::MAX\<close>.\<close>

definition dispatch_ready :: "'w dispatch_env \<Rightarrow> 'w node \<Rightarrow> nat \<Rightarrow> bool" where
  "dispatch_ready E node total_outs \<longleftrightarrow> (\<exists>nodes. de_nodes E = node # nodes)
     \<and> (\<forall>tx w. \<exists>accepted w'. maybe_retry_send_transaction (de_clock E) node tx w = Some (Inr (Inr accepted), w'))
     \<and> usable (de_crypto E) (de_owner E) \<and> (\<forall>u \<in> set (de_users E). usable (de_crypto E) u)
     \<and> 1 < length (bk_transactions (us_genesis_block (de_owner E)))
     \<and> total_outs = length (de_users E) * de_cells_per_user E \<and> total_outs + MAX_OUT_COUNT < u64_lim
     \<and> 0 < de_capacity_per_cell E"

definition planned :: "'w dispatch_env \<Rightarrow> nat \<Rightarrow> nat \<Rightarrow> cell_meta list \<Rightarrow> nat" where
  "planned E total_outs i_out inputs =
     min (min MAX_OUT_COUNT ((capacities inputs - max_fee) div de_capacity_per_cell E)) (total_outs - i_out)"

definition left_over :: "'w dispatch_env \<Rightarrow> nat \<Rightarrow> cell_meta list \<Rightarrow> nat" where
  "left_over E n inputs = capacities inputs - max_fee - n * de_capacity_per_cell E"

lemma plan_outputs_run:
  fixes E :: "'w dispatch_env"
  assumes "max_fee \<le> capacities inputs" and "capacities inputs < u64_lim" and "i_out \<le> total_outs"
    and "total_outs + MAX_OUT_COUNT < u64_lim" and "0 < de_capacity_per_cell E"
  shows "plan_outputs E total_outs i_out inputs = ret (
     if capacities inputs - max_fee < de_capacity_per_cell E then None
     else let n = planned E total_outs i_out inputs in Some (n, left_over E n inputs))"
proof -
  let ?c = "de_capacity_per_cell E" and ?left = "capacities inputs - max_fee"
  define n where "n = min MAX_OUT_COUNT (?left div ?c)"
  have fee: "max_fee < u64_lim"
    by (simp add: MAX_OUT_COUNT_def TWO_IN_TWO_OUT_COUNT_def FEE_RATE_OF_OUTPUT_def u64_lim_def)
  have left: "?left < u64_lim" using assms(2) by linarith
  have n: "n * ?c \<le> ?left" unfolding n_def
    by (meson div_times_less_eq_dividend le_trans min.cobounded2 mult_le_mono1)
  have zero: "n = 0 \<longleftrightarrow> ?left < ?c"
    using assms(5) by (auto simp: n_def MAX_OUT_COUNT_def TWO_IN_TWO_OUT_COUNT_def div_eq_0_iff min_def)
  have m: "k * ?c \<le> ?left" if "k \<le> n" for k
    using n that by (meson le_trans mult_le_mono1)
  have add: "i_out + n < u64_lim" using assms(3,4) unfolding n_def by linarith
  have sub: "u64_sub (de_oc E) total_outs i_out = (ret (total_outs - i_out) :: ('w, nat) cmd)"
    using assms(3,4) by (simp add: u64_sub_ok)
  define k where "k = min n (total_outs - i_out)"
  have k: "k * ?c \<le> ?left" by (rule m) (simp add: k_def)
  have clamp: "(if i_out + n \<ge> total_outs then u64_sub (de_oc E) total_outs i_out else ret n) = (ret k :: ('w, nat) cmd)"
    using sub by (auto simp: k_def min_def)
  have sum: "u64_sum (de_oc E) (map capacity_of inputs) = (ret (capacities inputs) :: ('w, nat) cmd)"
    "u64_mul (de_oc E) MAX_OUT_COUNT FEE_RATE_OF_OUTPUT = (ret max_fee :: ('w, nat) cmd)"
    "u64_sub (de_oc E) (capacities inputs) max_fee = (ret ?left :: ('w, nat) cmd)"
    "u64_div ?left ?c = (ret (?left div ?c) :: ('w, nat) cmd)"
    "u64_add (de_oc E) i_out n = (ret (i_out + n) :: ('w, nat) cmd)"
    "u64_mul (de_oc E) k ?c = (ret (k * ?c) :: ('w, nat) cmd)"
    "u64_sub (de_oc E) ?left (k * ?c) = (ret (?left - k * ?c) :: ('w, nat) cmd)"
    using assms(1,2,5) fee left add k by (simp_all add: u64_sum_ok u64_mul_ok u64_sub_ok u64_div_ok u64_add_ok le_less_trans[OF k left])
  have "planned E total_outs i_out inputs = k"
    by (simp add: planned_def k_def n_def)
  then show ?thesis
    unfolding plan_outputs_def sum bindM_ret Let_def n_def[symmetric] zero clamp left_over_def by simp
qed

text \<open>The transaction one turn sends.\<close>

definition dispatched :: "'w dispatch_env \<Rightarrow> cell_meta list \<Rightarrow> cell_output list \<Rightarrow> transaction" where
  "dispatched E inputs outputs =
     (let unsigned_tx = empty_transaction\<lparr>
        tx_inputs := map (\<lambda>input. cell_input_new (cm_out_point input) 0) inputs,
        tx_outputs_data := map (\<lambda>_. []) [0..<length outputs], tx_outputs := outputs,
        tx_cell_deps := [\<lparr>cd_out_point = \<lparr>op_tx_hash = hash_tx (de_lib E) (bk_transactions (us_genesis_block (de_owner E)) ! 1),
          op_index = 0\<rparr>, cd_dep_type = DepGroup\<rparr>]\<rparr>
      in unsigned_tx\<lparr>tx_witnesses := [unlocking (de_crypto E) (de_lib E) (de_owner E) unsigned_tx]\<rparr>)"

lemma dispatched_sel [simp]:
  "tx_outputs (dispatched E inputs outputs) = outputs"
  "map ci_previous_output (tx_inputs (dispatched E inputs outputs)) = map cm_out_point inputs"
  by (simp_all add: dispatched_def Let_def cell_input_new_def comp_def)

lemma dispatch_transaction_run:
  fixes E :: "'w dispatch_env"
  assumes "dispatch_ready E node total_outs"
  shows "dispatch_transaction E inputs outputs = ret (dispatched E inputs outputs)"
  using assms by (simp add: dispatch_ready_def dispatch_transaction_def single_secp256k1_cell_dep_def single_secp256k1_out_point_def
      usable_witness Let_def dispatched_def GENESIS_DEP_GROUP_TRANSACTION_INDEX_def GENESIS_SIGHASH_ALL_DEP_GROUP_CELL_INDEX_def)

lemma change_output_run:
  fixes E :: "'w dispatch_env"
  assumes "dispatch_ready E node total_outs"
  shows "change_output E c = ret (change_cells E c)"
  using assms by (simp add: dispatch_ready_def change_output_def change_cells_def usable_locks data_lock_def)

lemma user_outputs_run:
  fixes E :: "'w dispatch_env"
  assumes "dispatch_ready E node total_outs" and "hi \<le> total_outs"
  shows "mapM (user_output E) [i_out..<hi] = ret (map (payment E) [i_out..<hi])"
proof (rule mapM_ret_map)
  fix i assume "i \<in> set [i_out..<hi]"
  then have i: "i < length (de_users E) * de_cells_per_user E"
    using assms by (auto simp: dispatch_ready_def)
  have c: "de_cells_per_user E \<noteq> 0" using i by (metis mult_0_right not_less_zero)
  have k: "i div de_cells_per_user E < length (de_users E)"
    using i by (simp add: less_mult_imp_div_less)
  then have "usable (de_crypto E) (de_users E ! (i div de_cells_per_user E))"
    using assms(1) by (simp add: dispatch_ready_def)
  then show "user_output E i = ret (payment E i)"
    using k c by (simp add: user_output_def index_user_def u64_div_ok indexM_ok usable_locks payment_def data_lock_def)
qed

definition change_metas :: "'w dispatch_env \<Rightarrow> transaction \<Rightarrow> nat \<Rightarrow> cell_meta list" where
  "change_metas E tx c = map (\<lambda>out. \<lparr>cm_cell_output = out,
     cm_out_point = \<lparr>op_tx_hash = hash_tx (de_lib E) tx, op_index = 0\<rparr>,
     cm_transaction_info = None, cm_data_bytes = 0\<rparr>) (change_cells E c)"

lemma capacities_change [simp]: "capacities (change_metas E tx c) = (if capacity_bytes 67 \<le> c then c else 0)"
  by (simp add: change_metas_def change_cells_def capacity_of_def)

definition turn_outputs :: "'w dispatch_env \<Rightarrow> nat \<Rightarrow> nat \<Rightarrow> cell_meta list \<Rightarrow> cell_output list" where
  "turn_outputs E total_outs i_out inputs = (let n = planned E total_outs i_out inputs in
     change_cells E (left_over E n inputs) @ map (payment E) [i_out..<i_out + n])"

lemma dispatch_step_run:
  fixes E :: "'w dispatch_env"
  assumes "dispatch_ready E node total_outs" and "max_fee \<le> capacities inputs" and "capacities inputs < u64_lim"
    and "i_out \<le> total_outs"
  defines "n \<equiv> planned E total_outs i_out inputs"
    and "tx \<equiv> dispatched E inputs (turn_outputs E total_outs i_out inputs)"
  shows "\<exists>w'. dispatch_step E total_outs live_cells inputs i_out txs w = Some (Inr (
     if capacities inputs - max_fee < de_capacity_per_cell E then Inr (live_cells, inputs, i_out, txs)
     else if i_out + n = total_outs then Inl (total_outs, txs @ [tx])
     else Inr (live_cells @ change_metas E tx (left_over E n inputs), [], i_out + n, txs @ [tx])), w')"
proof -
  let ?left = "left_over E n inputs"
  have plan: "plan_outputs E total_outs i_out inputs = (ret (
     if capacities inputs - max_fee < de_capacity_per_cell E then None else Some (n, ?left)) :: ('w, (nat \<times> nat) option) cmd)"
    using plan_outputs_run[of inputs i_out total_outs E] assms(1-4) by (simp add: dispatch_ready_def n_def Let_def)
  have n: "i_out + n \<le> total_outs" using assms(4) by (simp add: n_def planned_def)
  note outs = user_outputs_run[OF assms(1) n, of i_out] change_output_run[OF assms(1), of ?left]
  have tx: "dispatch_transaction E inputs (change_cells E ?left @ map (payment E) [i_out..<i_out + n])
      = (ret tx :: ('w, transaction) cmd)"
    unfolding dispatch_transaction_run[OF assms(1)] tx_def turn_outputs_def Let_def n_def ..
  obtain accepted w' where sent: "maybe_retry_send_transaction (de_clock E) node tx w = Some (Inr (Inr accepted), w')"
    using assms(1) unfolding dispatch_ready_def by blast
  have node: "indexM (de_nodes E) 0 = (ret node :: ('w, 'w node) cmd)"
    using assms(1) by (auto simp: dispatch_ready_def indexM_ok)
  have len: "length (tx_outputs tx) = length (change_cells E ?left) + n"
    by (simp add: tx_def turn_outputs_def n_def Let_def)
  have change: "bindM (change_live_cell (de_lib E) tx) (\<lambda>cell. ret (live_cells @ [cell]))
      = (ret (live_cells @ change_metas E tx ?left) :: ('w, cell_meta list) cmd)" if "change_cells E ?left \<noteq> []"
  proof -
    obtain out where out: "change_cells E ?left = [out]"
      using \<open>change_cells E ?left \<noteq> []\<close> by (auto simp: change_cells_def split: if_splits)
    have "tx_outputs tx = out # map (payment E) [i_out..<i_out + n]"
      using out by (simp add: tx_def turn_outputs_def n_def Let_def)
    then show ?thesis using out by (simp add: change_live_cell_def change_metas_def)
  qed
  have none: "change_metas E tx ?left = []" if "change_cells E ?left = []"
    using that by (simp add: change_metas_def)
  show ?thesis
  proof (cases "capacities inputs - max_fee < de_capacity_per_cell E")
    case True
    then show ?thesis by (simp add: dispatch_step_def plan ret_run)
  next
    case False
    show ?thesis
      unfolding dispatch_step_def plan if_not_P[OF False] option.case prod.case outs bindM_ret tx node
      by (cases "change_cells E ?left = []") (simp_all add: sent bindM_run len ret_run none change False)
  qed
qed

text \<open>
  The transactions \<open>txs\<close> pay the outputs \<open>i, ..., j - 1\<close>, at most \<open>MAX_OUT_COUNT\<close> each and
  after a change output for the owner if there is one, all signed by the owner.
\<close>

definition pays :: "'w dispatch_env \<Rightarrow> nat \<Rightarrow> nat \<Rightarrow> transaction list \<Rightarrow> bool" where
  "pays E i j txs \<longleftrightarrow> (\<exists>groups. concat groups = [i..<j] \<and> list_all2 (\<lambda>tx group.
     length group \<le> MAX_OUT_COUNT \<and> (\<exists>inputs c. inputs \<noteq> [] \<and> tx = dispatched E inputs (change_cells E c @ map (payment E) group)))
     txs groups)"

lemma pays_nil [simp]: "pays E i i []"
  by (auto simp: pays_def)

lemma pays_cons:
  assumes "pays E (i + n) j txs" and "i + n \<le> j" and "n \<le> MAX_OUT_COUNT" and "inputs \<noteq> []"
    and "tx = dispatched E inputs (change_cells E c @ map (payment E) [i..<i + n])"
  shows "pays E i j (tx # txs)"
proof -
  obtain groups where "concat groups = [i + n..<j]" "list_all2 (\<lambda>tx group.
     length group \<le> MAX_OUT_COUNT \<and> (\<exists>inputs c. inputs \<noteq> [] \<and> tx = dispatched E inputs (change_cells E c @ map (payment E) group)))
     txs groups"
    using assms(1) by (auto simp: pays_def)
  moreover have "[i..<j] = [i..<i + n] @ [i + n..<j]"
    using assms(2) upt_add_eq_append[of i "i + n" "j - (i + n)"] by simp
  ultimately show ?thesis
    using assms(3-5) unfolding pays_def by (intro exI[of _ "[i..<i + n] # groups"]) auto
qed

lemma pays_single: "n \<le> MAX_OUT_COUNT \<Longrightarrow> inputs \<noteq> [] \<Longrightarrow>
  tx = dispatched E inputs (change_cells E c @ map (payment E) [i..<i + n]) \<Longrightarrow> pays E i (i + n) [tx]"
  by (rule pays_cons) auto

lemma turn_capacity:
  assumes "max_fee \<le> capacities inputs" and "n = planned E total_outs i_out inputs"
  shows "n * de_capacity_per_cell E + max_fee + left_over E n inputs = capacities inputs"
proof -
  have "n * de_capacity_per_cell E \<le> capacities inputs - max_fee"
    unfolding assms(2) planned_def
    by (meson div_times_less_eq_dividend le_trans min.cobounded1 min.cobounded2 mult_le_mono1)
  then show ?thesis using assms(1) by (simp add: left_over_def)
qed

lemma dispatch_loop_Nil: "dispatch_loop E total_outs [] inputs i_out txs w = Some (Inr (i_out, txs), w)"
  by (simp add: dispatch_loop.simps)

lemma dispatch_loop_next:
  "dispatch_step E total_outs rest (inputs @ [input]) i_out txs w = Some (Inr (Inr (cells, ins, j, ts)), w1) \<Longrightarrow>
     dispatch_loop E total_outs (input # rest) inputs i_out txs w = dispatch_loop E total_outs cells ins j ts w1"
  by (simp add: dispatch_loop.simps[of E total_outs "input # rest"] bindM_run)

lemma dispatch_loop_finish:
  "dispatch_step E total_outs rest (inputs @ [input]) i_out txs w = Some (Inr (Inl finished), w1) \<Longrightarrow>
     dispatch_loop E total_outs (input # rest) inputs i_out txs w = Some (Inr finished, w1)"
  by (simp add: dispatch_loop.simps[of E total_outs "input # rest"] bindM_run ret_run)

lemma dispatch_loop_run:
  fixes E :: "'w dispatch_env"
  assumes ready: "dispatch_ready E node total_outs"
    and "\<forall>c \<in> set live_cells. max_fee \<le> capacity_of c" and "capacities (inputs @ live_cells) < u64_lim"
    and "i_out \<le> total_outs" 
  shows "\<exists>j new w'. dispatch_loop E total_outs live_cells inputs i_out txs w = Some (Inr (j, txs @ new), w')
     \<and> i_out \<le> j \<and> j \<le> total_outs \<and> pays E i_out j new
     \<and> (j - i_out) * de_capacity_per_cell E + length new * max_fee \<le> capacities (inputs @ live_cells)"
  using assms(2-4)
proof (induction "total_outs - i_out + length live_cells" arbitrary: live_cells inputs i_out txs w rule: less_induct)
  case less
  show ?case
  proof (cases live_cells)
    case Nil
    then show ?thesis using less.prems(3) by (simp add: dispatch_loop_Nil exI[of _ "[]"])
  next
    case (Cons input rest)
    let ?ins = "inputs @ [input]" and ?cap = "de_capacity_per_cell E"
    define n where "n = planned E total_outs i_out ?ins"
    define tx where "tx = dispatched E ?ins (turn_outputs E total_outs i_out ?ins)"
    define rest' where "rest' = rest @ change_metas E tx (left_over E n ?ins)"
    have fee: "max_fee \<le> capacities ?ins" using less.prems(1) Cons by auto
    have lim: "capacities ?ins < u64_lim" using less.prems(2) Cons by simp
    obtain w1 where step: "dispatch_step E total_outs rest ?ins i_out txs w = Some (Inr (
        if capacities ?ins - max_fee < ?cap then Inr (rest, ?ins, i_out, txs)
        else if i_out + n = total_outs then Inl (total_outs, txs @ [tx])
        else Inr (rest', [], i_out + n, txs @ [tx])), w1)"
      using dispatch_step_run[OF ready fee lim less.prems(3), of rest txs w] unfolding n_def tx_def rest'_def by blast
    have paid: "n * ?cap + max_fee + left_over E n ?ins = capacities ?ins"
      using turn_capacity[OF fee n_def] .
    have n: "n \<le> MAX_OUT_COUNT" "i_out + n \<le> total_outs" using less.prems(3) by (auto simp: n_def planned_def)
    have outs: "tx = dispatched E ?ins (change_cells E (left_over E n ?ins) @ map (payment E) [i_out..<i_out + n])"
      by (simp add: tx_def turn_outputs_def n_def Let_def)
    consider (more) "capacities ?ins - max_fee < ?cap" | (all_out) "\<not> capacities ?ins - max_fee < ?cap" "i_out + n = total_outs"
      | (next_turn) "\<not> capacities ?ins - max_fee < ?cap" "i_out + n \<noteq> total_outs" by blast
    then show ?thesis
    proof cases
      case more
      then have "dispatch_loop E total_outs live_cells inputs i_out txs w = dispatch_loop E total_outs rest ?ins i_out txs w1"
        using step Cons dispatch_loop_next by simp
      with less.hyps[of i_out rest ?ins txs w1] less.prems Cons show ?thesis by (simp add: add.assoc)
    next
      case all_out
      then have "dispatch_loop E total_outs live_cells inputs i_out txs w = Some (Inr (total_outs, txs @ [tx]), w1)"
        using step Cons dispatch_loop_finish by simp
      moreover have "pays E i_out total_outs [tx]"
        using pays_single[OF n(1) _ outs] all_out(2) by simp
      ultimately show ?thesis using all_out(2) paid Cons less.prems(3) by (intro exI[of _ total_outs] exI[of _ "[tx]"]) auto
    next
      case next_turn
      have pos: "0 < n"
        using next_turn n less.prems(3) ready unfolding dispatch_ready_def
        by (auto simp: n_def planned_def MAX_OUT_COUNT_def TWO_IN_TWO_OUT_COUNT_def div_greater_zero_iff)
      have run: "dispatch_loop E total_outs live_cells inputs i_out txs w
          = dispatch_loop E total_outs rest' [] (i_out + n) (txs @ [tx]) w1"
        using next_turn step Cons dispatch_loop_next by simp
      have change: "\<forall>c \<in> set rest'. max_fee \<le> capacity_of c"
        using less.prems(1) Cons unfolding rest'_def change_metas_def change_cells_def
        by (auto simp: capacity_of_def capacity_bytes_def MAX_OUT_COUNT_def TWO_IN_TWO_OUT_COUNT_def FEE_RATE_OF_OUTPUT_def)
      have caps: "capacities rest' + n * ?cap + max_fee \<le> capacities (inputs @ live_cells)"
        using paid Cons by (auto simp: rest'_def)
      have shorter: "total_outs - (i_out + n) + length rest' < total_outs - i_out + length live_cells"
        using pos n(2) Cons by (auto simp: rest'_def change_metas_def change_cells_def)
      have "capacities ([] @ rest') < u64_lim" using caps less.prems(2) by simp
      from less.hyps[OF shorter change this n(2), of "txs @ [tx]" w1]
      obtain j new w' where rec: "dispatch_loop E total_outs rest' [] (i_out + n) (txs @ [tx]) w1 = Some (Inr (j, (txs @ [tx]) @ new), w')"
        "i_out + n \<le> j" "j \<le> total_outs" "pays E (i_out + n) j new"
        "(j - (i_out + n)) * ?cap + length new * max_fee \<le> capacities ([] @ rest')" by blast
      have "pays E i_out j (tx # new)"
        using pays_cons[OF rec(4) rec(2) n(1) _ outs] by simp
      moreover have "(j - i_out) * ?cap + length (tx # new) * max_fee \<le> capacities (inputs @ live_cells)"
      proof -
        have "j - i_out = (j - (i_out + n)) + n" using rec(2) by simp
        then have "(j - i_out) * ?cap = (j - (i_out + n)) * ?cap + n * ?cap" by (simp add: add_mult_distrib)
        then show ?thesis using rec(5) caps by simp
      qed
      ultimately show ?thesis using run rec(1-3) by (intro exI[of _ j] exI[of _ "tx # new"] exI[of _ w']) auto
    qed
  qed
qed


text \<open>A node that takes everything, an owner, and users \<open>2, 3, ...\<close> who get 61 CKB per cell.\<close>

definition accepting_node :: "nat node" where
  "accepting_node = (offline_node ''pool'')\<lparr>nd_rpc_client := offline_client\<lparr>rc_inner2021 := offline2021\<lparr>
     i21_send_transaction := (\<lambda>tx _. ret (Inr 0)),
     i21_get_transaction := (\<lambda>_. ret (Inr (Some \<lparr>tws_transaction = None, tws_status = Pending\<rparr>)))\<rparr>\<rparr>\<rparr>"

definition genesis_of_two :: block where
  "genesis_of_two = (block_at 0)\<lparr>bk_transactions := [empty_transaction, empty_transaction]\<rparr>"

definition pay_env :: "nat \<Rightarrow> nat \<Rightarrow> nat dispatch_env" where
  "pay_env n_users cells_per_user = \<lparr>de_oc = True, de_crypto = toy_crypto, de_lib = toy_lib, de_clock = countdown_clock,
     de_nodes = [accepting_node], de_owner = user_new genesis_of_two (Some 1),
     de_users = map (\<lambda>k. user_new genesis_of_two (Some (k + 2))) [0..<n_users],
     de_cells_per_user = cells_per_user, de_capacity_per_cell = capacity_bytes 61\<rparr>"

definition owned_cell :: "nat \<Rightarrow> nat \<Rightarrow> cell_meta" where
  "owned_cell i capacity = \<lparr>cm_cell_output = \<lparr>co_capacity = capacity, co_lock = default_script, co_type = None\<rparr>,
     cm_out_point = \<lparr>op_tx_hash = 8, op_index = i\<rparr>, cm_transaction_info = None, cm_data_bytes = 0\<rparr>"

lemma toy_usable: "usable toy_crypto (user_new b (Some k))"
  by (simp add: usable_def user_new_def toy_crypto_def)

lemma accepting_node_accepts:
  "maybe_retry_send_transaction clk accepting_node tx w = Some (Inr (Inr True), w)"
proof -
  have "await_status clk (nd_rpc_client accepting_node) t h w = Some (Inr (), w)" for t h
    by (subst await_status.simps) (simp add: accepting_node_def offline_client_def bindM_def ret_def)
  then show ?thesis
    by (subst maybe_retry_send_transaction.simps)
      (simp add: rpc_send_transaction_result_def accepting_node_def offline_client_def bindM_def ret_def)
qed

lemma pay_env_ready:
  assumes "n * c + 1000 < u64_lim"
  shows "dispatch_ready (pay_env n c) accepting_node (n * c)"
  using assms by (auto simp: dispatch_ready_def pay_env_def accepting_node_accepts toy_usable user_new_def genesis_of_two_def
      capacity_bytes_def MAX_OUT_COUNT_def TWO_IN_TWO_OUT_COUNT_def intro: toy_usable[unfolded user_new_def])


text \<open>
  C21.  The capacity check of \<open>dispatch\<close> is not enough: it counts 1000 shannons per output, while
  every transaction leaves a million and a change below 67 CKB is lost.  An owner with cells of 63
  and 60 CKB passes the check for two users with one cell of 61 CKB each, but only the first of them
  is paid when the cells have run out.
\<close>

theorem capacity_check_too_weak:
  "let cells = [owned_cell 0 (capacity_bytes 63), owned_cell 1 (capacity_bytes 60)]
   in check_capacity (pay_env 2 1) cells = ret () \<and>
      (\<exists>tx w'. dispatch_loop (pay_env 2 1) 2 cells [] 0 [] w = Some (Inr (1, [tx]), w'))"
proof -
  let ?a = "owned_cell 0 (capacity_bytes 63)" and ?b = "owned_cell 1 (capacity_bytes 60)" and ?E = "pay_env 2 1"
  note amounts = owned_cell_def capacity_of_def capacity_bytes_def MAX_OUT_COUNT_def TWO_IN_TWO_OUT_COUNT_def
    FEE_RATE_OF_OUTPUT_def u64_lim_def pay_env_def planned_def left_over_def change_metas_def change_cells_def
  have ready: "dispatch_ready ?E accepting_node 2" using pay_env_ready[of 2 1] by (simp add: u64_lim_def)
  have check: "check_capacity ?E [?a, ?b] = ret ()"
    by (simp add: check_capacity_def u64_sum_ok u64_mul_ok u64_add_ok amounts)
  obtain tx w1 where one: "dispatch_step ?E 2 [?b] [?a] 0 [] w = Some (Inr (Inr ([?b], [], 1, [tx])), w1)"
    using dispatch_step_run[OF ready, of "[?a]" 0 "[?b]" "[]" w] by (auto simp: amounts)
  obtain w2 where two: "dispatch_step ?E 2 [] [?b] 1 [tx] w1 = Some (Inr (Inr ([], [?b], 1, [tx])), w2)"
    using dispatch_step_run[OF ready, of "[?b]" 1 "[]" "[tx]" w1] by (auto simp: amounts)
  have "dispatch_loop ?E 2 [?a, ?b] [] 0 [] w = Some (Inr (1, [tx]), w2)"
    using dispatch_loop_next[of ?E 2 "[?b]" "[]" ?a, unfolded append_Nil, OF one]
      dispatch_loop_next[of ?E 2 "[]" "[]" ?b, unfolded append_Nil, OF two] dispatch_loop_Nil by metis
  with check show ?thesis by (auto simp: Let_def)
qed

section \<open>Every group is signed\<close>

abbreviation cell_lock :: "cell_meta \<Rightarrow> script" where
  "cell_lock cell \<equiv> co_lock (cm_cell_output cell)"

lemma count_locks_filter:
  "count_locks inputs lock = (let n = length (filter (\<lambda>c. cell_lock c = lock) inputs) in if n = 0 then None else Some n)"
proof (induction inputs rule: rev_induct)
  case Nil
  then show ?case by (simp add: count_locks_def)
next
  case (snoc c inputs)
  have "count_locks (inputs @ [c]) = (count_locks inputs)(cell_lock c \<mapsto>
      (case count_locks inputs (cell_lock c) of Some cnt \<Rightarrow> cnt + 1 | None \<Rightarrow> 1))"
    by (simp add: count_locks_def Let_def)
  with snoc show ?case by (cases "lock = cell_lock c") (auto simp: Let_def split: if_splits option.splits)
qed

lemma take_groups_skip:
  "\<forall>c \<in> set cells. m (cell_lock c) = None \<Longrightarrow> take_groups (cells @ rest) m = take_groups rest m"
  by (induction cells) (simp_all add: Let_def)

text \<open>Inputs that come lock by lock.\<close>

definition one_lock :: "cell_meta list \<Rightarrow> bool" where
  "one_lock g \<longleftrightarrow> g \<noteq> [] \<and> (\<forall>c \<in> set g. cell_lock c = cell_lock (hd g))"

definition by_lock :: "cell_meta list list \<Rightarrow> bool" where
  "by_lock groups \<longleftrightarrow> (\<forall>g \<in> set groups. one_lock g) \<and> distinct (map (\<lambda>g. cell_lock (hd g)) groups)"

lemma by_lockD: "by_lock groups \<Longrightarrow> g \<in> set groups \<Longrightarrow> c \<in> set g \<Longrightarrow> cell_lock c = cell_lock (hd g)"
  unfolding by_lock_def one_lock_def by blast

lemma by_lock_Cons:
  assumes "by_lock (g # groups)"
  shows "g \<noteq> []" "by_lock groups" "h \<in> set groups \<Longrightarrow> cell_lock (hd h) \<noteq> cell_lock (hd g)"
proof -
  show "g \<noteq> []" using assms by (simp add: by_lock_def) (simp add: one_lock_def)
  show "by_lock groups" using assms by (simp add: by_lock_def)
  show "cell_lock (hd h) \<noteq> cell_lock (hd g)" if "h \<in> set groups"
  proof -
    have "cell_lock (hd h) \<in> (\<lambda>g. cell_lock (hd g)) ` set groups" using that by (rule imageI)
    moreover have "cell_lock (hd g) \<notin> (\<lambda>g. cell_lock (hd g)) ` set groups"
      using assms by (simp add: by_lock_def)
    ultimately show ?thesis by metis
  qed
qed

lemma by_lock_rotate: "by_lock (before @ g # behind) \<Longrightarrow> by_lock (g # before @ behind)"
  by (auto simp: by_lock_def)

lemma take_groups_by_lock:
  "by_lock groups \<Longrightarrow> \<forall>g \<in> set groups. m (cell_lock (hd g)) = Some (size g) \<Longrightarrow>
     take_groups (concat groups) m = map (\<lambda>g. (cell_lock (hd g), length g)) groups"
proof (induction groups arbitrary: m)
  case Nil
  then show ?case by simp
next
  case (Cons g groups)
  let ?m = "m(cell_lock (hd g) := None)"
  note parts = by_lock_Cons[OF Cons.prems(1)]
  obtain c cs where g: "g = c # cs" using parts(1) by (cases g) auto
  have "\<forall>d \<in> set cs. cell_lock d = cell_lock (hd g)"
    using by_lockD[OF Cons.prems(1), of g] g by (meson list.set_intros)
  then have "\<forall>d \<in> set cs. ?m (cell_lock d) = None" by simp
  then have "take_groups (concat (g # groups)) m = (cell_lock c, length g) # take_groups (concat groups) ?m"
    using Cons.prems(2) g take_groups_skip[of cs ?m "concat groups"] by (simp add: Let_def)
  moreover have "\<forall>h \<in> set groups. ?m (cell_lock (hd h)) = Some (size h)"
    using Cons.prems(2) parts(3) by simp
  ultimately show ?case using Cons.IH[OF parts(2), of ?m] g by (simp del: fun_upd_apply take_groups.simps)
qed

lemma count_locks_by_lock:
  assumes "by_lock groups" and "g \<in> set groups"
  shows "count_locks (concat groups) (cell_lock (hd g)) = Some (size g)"
proof -
  obtain before behind where split: "groups = before @ g # behind" using assms(2) by (meson split_list)
  let ?is = "\<lambda>c. cell_lock c = cell_lock (hd g)"
  note parts = by_lock_Cons[OF by_lock_rotate[OF assms(1)[unfolded split]]]
  have "\<not> ?is c" if "h \<in> set before \<union> set behind" "c \<in> set h" for h c
    using parts(3)[of h] by_lockD[OF assms(1), of h c] that by (simp add: split)
  then have "filter ?is (concat before) = []" "filter ?is (concat behind) = []"
    by (auto simp: filter_empty_conv)
  moreover have "filter ?is g = g" using by_lockD[OF assms] by (intro filter_True) blast
  ultimately show ?thesis using parts(1) by (simp add: count_locks_filter split)
qed

lemma sorted_groups_by_lock:
  "by_lock groups \<Longrightarrow> sorted_script_groups (concat groups) = map (\<lambda>g. (cell_lock (hd g), length g)) groups"
  by (simp add: sorted_script_groups_def take_groups_by_lock count_locks_by_lock)

text \<open>The witnesses of a group of \<open>n\<close> inputs: one signature for all of them, then placeholders.\<close>

definition group_unlocking :: "crypto \<Rightarrow> chain_lib \<Rightarrow> user \<Rightarrow> transaction \<Rightarrow> nat \<Rightarrow> bytes list" where
  "group_unlocking K L u tx n =
     witness_args_bytes K (Some (projr (sign_with K (the (us_single_secp256k1_privkey u)) (group_message K (hash_tx L tx) n))))
       # replicate (n - 1) (placeholder_witness K)"

lemma group_unlocking_single: "group_unlocking K L u tx (Suc 0) = [unlocking K L u tx]"
  by (simp add: group_unlocking_def unlocking_def group_message_def Let_def)

lemma group_witnesses_run:
  assumes "users (hash_script L lock) = Some u" and "usable K u"
  shows "group_witnesses K L users (hash_tx L tx) (lock, n) = ret (group_unlocking K L u tx n)"
proof -
  obtain k where k: "us_single_secp256k1_privkey u = Some k" "\<forall>m. \<exists>s. sign_with K k m = Inr s"
    using assms(2) by (auto simp: usable_def)
  obtain s where "sign_with K k (group_message K (hash_tx L tx) n) = Inr s" using k(2) by blast
  with k(1) assms(1) show ?thesis
    by (simp add: group_witnesses_def sign_recoverable_def group_unlocking_def)
qed



section \<open>Derived keys\<close>

lemma derive_fold:
  assumes "keys \<noteq> []"
  shows "fold (\<lambda>_ raw_privkeys. raw_privkeys @ [next_raw_privkey K (last raw_privkeys)]) [0..<n] keys
     = keys @ map (\<lambda>i. (next_raw_privkey K ^^ Suc i) (last keys)) [0..<n]"
proof (induction n)
  case 0
  then show ?case by simp
next
  case (Suc n)
  have "last (keys @ map (\<lambda>i. (next_raw_privkey K ^^ Suc i) (last keys)) [0..<n]) = (next_raw_privkey K ^^ n) (last keys)"
    using assms by (cases n) simp_all
  with Suc show ?case by simp
qed

text \<open>
  The derived keys are the successive hashes of the basic key, without the basic key itself;
  asking for fewer keys gives a prefix, so the users of a smaller run are users of a larger one.
\<close>

theorem derived_keys:
  "derive_privkeys K k n = map (\<lambda>i. (next_raw_privkey K ^^ Suc i) k) [0..<n]
   \<and> (\<exists>more. derive_privkeys K k (n + m) = derive_privkeys K k n @ more)"
proof -
  have "derive_privkeys K k n = map (\<lambda>i. (next_raw_privkey K ^^ Suc i) k) [0..<n]" for n
    by (simp add: derive_privkeys_def derive_fold)
  then show ?thesis by (simp add: upt_add_eq_append[of 0 n m])
qed

end
