(* ===== verification/Stat.thy ===== *)
theory Stat
  imports NodeFacts
begin

text \<open>
  \<open>ckb-bench/src/stat.rs\<close>: the report on the blocks of a benchmark.  A window of blocks moves over
  the chain; the window with the most transactions per second is reported.
\<close>

section \<open>Double precision\<close>

text \<open>
  The rates are computed in \<open>f64\<close>.  A non-negative double is an exact ratio, infinite, or not a
  number; an operation rounds the exact result to 53 significant bits, ties to even.  The values
  here are far from the exponent's limits (at most \<open>2 ^ 74\<close>, and 0 or at least \<open>2 ^ -64\<close>).
\<close>

datatype f64 = Ratio nat nat | Inf | NaN

definition round_div :: "nat \<Rightarrow> nat \<Rightarrow> nat" where
  "round_div a b = (let q = a div b; r = a mod b
     in if 2 * r < b \<or> (2 * r = b \<and> even q) then q else q + 1)"

function scale_up :: "nat \<Rightarrow> nat \<Rightarrow> nat" where
  "scale_up a b = (if a = 0 \<or> b * 2 ^ 52 \<le> a then 0 else Suc (scale_up (2 * a) b))"
  by pat_completeness auto
termination by (relation "measure (\<lambda>(a, b). b * 2 ^ 52 - a)") auto

function scale_down :: "nat \<Rightarrow> nat \<Rightarrow> nat" where
  "scale_down a b = (if b = 0 \<or> a < b * 2 ^ 53 then 0 else Suc (scale_down a (2 * b)))"
  by pat_completeness auto
termination by (relation "measure (\<lambda>(a, b). a - b)") auto

declare scale_up.simps [simp del] scale_down.simps [simp del]

definition f64_round :: "nat \<Rightarrow> nat \<Rightarrow> f64" where
  "f64_round a b = (if a < b * 2 ^ 53
     then let s = scale_up a b in Ratio (round_div (a * 2 ^ s) b) (2 ^ s)
     else let t = scale_down a b in Ratio (round_div a (b * 2 ^ t) * 2 ^ t) 1)"

text \<open>\<open>as f64\<close>, \<open>*\<close>, \<open>/\<close> and \<open>as u64\<close>, which truncates and saturates, and maps NaN to 0.\<close>

definition to_f64 :: "nat \<Rightarrow> f64" where
  "to_f64 n = f64_round n 1"

fun f64_mul :: "f64 \<Rightarrow> f64 \<Rightarrow> f64" where
  "f64_mul (Ratio a b) (Ratio c d) = f64_round (a * c) (b * d)"
| "f64_mul Inf (Ratio c d) = (if c = 0 then NaN else Inf)"
| "f64_mul (Ratio a b) Inf = (if a = 0 then NaN else Inf)"
| "f64_mul Inf Inf = Inf"
| "f64_mul NaN y = NaN"
| "f64_mul x NaN = NaN"

fun f64_div :: "f64 \<Rightarrow> f64 \<Rightarrow> f64" where
  "f64_div (Ratio a b) (Ratio c d) = (if c = 0 then if a = 0 then NaN else Inf else f64_round (a * d) (b * c))"
| "f64_div Inf (Ratio c d) = Inf"
| "f64_div (Ratio a b) Inf = Ratio 0 1"
| "f64_div Inf Inf = NaN"
| "f64_div NaN y = NaN"
| "f64_div x NaN = NaN"

fun f64_as_u64 :: "f64 \<Rightarrow> nat" where
  "f64_as_u64 (Ratio a b) = min (a div b) (u64_lim - 1)"
| "f64_as_u64 Inf = u64_lim - 1"
| "f64_as_u64 NaN = 0"

definition per_second :: "nat \<Rightarrow> nat \<Rightarrow> nat" where
  "per_second amount elapsed_ms = f64_as_u64 (f64_div (f64_mul (to_f64 amount) (to_f64 1000)) (to_f64 elapsed_ms))"

section \<open>The report\<close>

record report =
  rp_n_nodes :: nat
  rp_n_inout :: nat
  rp_ckb_version :: string
  rp_delay_time_ms :: "nat option"
  rp_from_block_number :: nat
  rp_to_block_number :: nat
  rp_transactions_per_second :: nat
  rp_transactions_size_per_second :: nat
  rp_average_block_transactions :: nat
  rp_average_block_transactions_size :: nat
  rp_average_block_time_ms :: nat
  rp_total_transactions :: nat
  rp_total_transactions_size :: nat

definition default_report :: report where
  "default_report = \<lparr>rp_n_nodes = 0, rp_n_inout = 0, rp_ckb_version = [], rp_delay_time_ms = None,
     rp_from_block_number = 0, rp_to_block_number = 0, rp_transactions_per_second = 0,
     rp_transactions_size_per_second = 0, rp_average_block_transactions = 0,
     rp_average_block_transactions_size = 0, rp_average_block_time_ms = 0, rp_total_transactions = 0,
     rp_total_transactions_size = 0\<rparr>"

text \<open>The variables of \<open>stat\<close>.\<close>

record window =
  wi_i :: nat
  wi_j :: nat
  wi_total_transactions :: nat
  wi_total_transactions_size :: nat
  wi_n_inout :: nat
  wi_best_report :: report

definition window_init :: "nat \<Rightarrow> window" where
  "window_init from_number = \<lparr>wi_i = from_number, wi_j = from_number, wi_total_transactions = 0,
     wi_total_transactions_size = 0, wi_n_inout = 0, wi_best_report = default_report\<rparr>"

text \<open>\<open>block_size\<close> is \<open>serialized_size_without_uncle_proposals\<close>.\<close>

definition count_block :: "bool \<Rightarrow> (block \<Rightarrow> nat) \<Rightarrow> window \<Rightarrow> block \<Rightarrow> ('w, window) cmd" where
  "count_block oc block_size wi block_j =
     bindM (u64_add oc (wi_total_transactions wi) (length (bk_transactions block_j))) (\<lambda>total.
     bindM (u64_add oc (wi_total_transactions_size wi) (block_size block_j)) (\<lambda>size.
     let n_inout = (if wi_n_inout wi = 0 \<and> length (bk_transactions block_j) > 1
           then length (tx_outputs (bk_transactions block_j ! 1)) else wi_n_inout wi)
     in bindM (u64_add oc (wi_j wi) 1) (\<lambda>j.
        ret (wi\<lparr>wi_total_transactions := total, wi_total_transactions_size := size, wi_n_inout := n_inout, wi_j := j\<rparr>))))"

partial_function (option) fill_window ::
    "bool \<Rightarrow> (block \<Rightarrow> nat) \<Rightarrow> 'w node \<Rightarrow> nat \<Rightarrow> nat \<Rightarrow> nat \<Rightarrow> nat \<Rightarrow> window \<Rightarrow> 'w \<Rightarrow> ((halt + (window \<times> nat)) \<times> 'w) option" where
  "fill_window oc block_size nd to_number stat_ms i_timestamp j_timestamp wi w =
     (if wi_j wi \<le> to_number
      then bindM (get_block_by_number nd (wi_j wi)) (\<lambda>block_j.
           if hd_timestamp (bk_header block_j) - i_timestamp \<ge> stat_ms
           then ret (wi, hd_timestamp (bk_header block_j))
           else bindM (count_block oc block_size wi block_j) (\<lambda>wi.
                fill_window oc block_size nd to_number stat_ms i_timestamp (hd_timestamp (bk_header block_j)) wi))
      else ret (wi, j_timestamp)) w"

definition window_report :: "bool \<Rightarrow> block \<Rightarrow> header \<Rightarrow> nat \<Rightarrow> window \<Rightarrow> ('w, report) cmd" where
  "window_report oc block_i header_j elapsed_ms wi =
     (let total = wi_total_transactions wi; size = wi_total_transactions_size wi in
      bindM (u64_sub oc (hd_number header_j) (hd_number (bk_header block_i))) (\<lambda>d.
      bindM (u64_add oc d 1) (\<lambda>n_blocks.
      bindM (u64_div total n_blocks) (\<lambda>average_transactions.
      bindM (u64_div size n_blocks) (\<lambda>average_size.
      bindM (u64_div (hd_timestamp header_j - hd_timestamp (bk_header block_i)) n_blocks) (\<lambda>average_time.
      ret (default_report\<lparr>rp_from_block_number := hd_number (bk_header block_i), rp_to_block_number := hd_number header_j,
             rp_total_transactions := total, rp_total_transactions_size := size,
             rp_transactions_per_second := per_second total elapsed_ms,
             rp_transactions_size_per_second := per_second size elapsed_ms,
             rp_average_block_transactions := average_transactions,
             rp_average_block_transactions_size := average_size,
             rp_average_block_time_ms := average_time\<rparr>)))))))"

text \<open>One turn of the loop; \<open>None\<close> when it ends.\<close>

definition stat_turn ::
    "bool \<Rightarrow> (block \<Rightarrow> nat) \<Rightarrow> 'w node \<Rightarrow> nat \<Rightarrow> nat \<Rightarrow> window \<Rightarrow> ('w, window + window) cmd" where
  "stat_turn oc block_size nd to_number stat_ms wi =
     bindM (get_block_by_number nd (wi_i wi)) (\<lambda>block_i.
     bindM (fill_window oc block_size nd to_number stat_ms (hd_timestamp (bk_header block_i)) 0 wi) (\<lambda>(wi, j_timestamp).
     let wi = (if wi_j wi > to_number then wi\<lparr>wi_j := to_number\<rparr> else wi) in
     bindM (get_header_by_number nd (wi_j wi)) (\<lambda>header_j.
     let elapsed_ms = j_timestamp - hd_timestamp (bk_header block_i) in
     bindM (if per_second (wi_total_transactions wi) elapsed_ms > rp_transactions_per_second (wi_best_report wi)
            then bindM (window_report oc block_i header_j elapsed_ms wi) (\<lambda>best. ret (wi\<lparr>wi_best_report := best\<rparr>))
            else ret wi) (\<lambda>wi.
     if wi_j wi \<ge> to_number then ret (Inl wi)
     else bindM (u64_sub oc (wi_total_transactions wi) (length (bk_transactions block_i))) (\<lambda>total.
          bindM (u64_add oc (wi_i wi) 1) (\<lambda>i.
          ret (Inr (wi\<lparr>wi_total_transactions := total, wi_i := i\<rparr>))))))))"

partial_function (option) stat_loop ::
    "bool \<Rightarrow> (block \<Rightarrow> nat) \<Rightarrow> 'w node \<Rightarrow> nat \<Rightarrow> nat \<Rightarrow> window \<Rightarrow> 'w \<Rightarrow> ((halt + window) \<times> 'w) option" where
  "stat_loop oc block_size nd to_number stat_ms wi w =
     bindM (stat_turn oc block_size nd to_number stat_ms wi) (\<lambda>turn. case turn of
       Inl wi \<Rightarrow> ret wi
     | Inr wi \<Rightarrow> stat_loop oc block_size nd to_number stat_ms wi) w"

definition stat ::
    "bool \<Rightarrow> (block \<Rightarrow> nat) \<Rightarrow> 'w node \<Rightarrow> nat \<Rightarrow> nat \<Rightarrow> nat \<Rightarrow> nat option \<Rightarrow> ('w, report) cmd" where
  "stat oc block_size nd from_number to_number stat_time delay_time =
     bindM (assertM (from_number \<noteq> 0) ''assertion failed: from_number != 0'') (\<lambda>_.
     bindM (assertM (from_number < to_number) ''assertion failed: from_number < to_number'') (\<lambda>_.
     bindM (stat_loop oc block_size nd to_number (as_millis stat_time) (window_init from_number)) (\<lambda>wi.
     bindM (rpc_local_node_info (nd_rpc_client nd)) (\<lambda>local_node_info.
     bindM (u64_add oc (ln_connections local_node_info) 1) (\<lambda>n_nodes.
     ret (wi_best_report wi\<lparr>rp_ckb_version := ln_version local_node_info, rp_n_nodes := n_nodes,
            rp_n_inout := wi_n_inout wi, rp_delay_time_ms := map_option as_millis delay_time\<rparr>))))))"

section \<open>The rates are exact\<close>

lemma round_div_cases: "round_div a b = a div b \<or> (round_div a b = a div b + 1 \<and> b \<le> 2 * (a mod b))"
  by (auto simp: round_div_def Let_def)

lemma round_div_exact: "0 < b \<Longrightarrow> round_div (k * b) b = k"
  by (simp add: round_div_def)

lemma scale_up_least: "a < b * 2 ^ 53 \<Longrightarrow> scale_up a b \<noteq> 0 \<Longrightarrow> a * 2 ^ scale_up a b < b * 2 ^ 53"
proof (induction a b rule: scale_up.induct)
  case (1 a b)
  show ?case
  proof (cases "a = 0 \<or> b * 2 ^ 52 \<le> a")
    case True
    with 1(3) show ?thesis by (simp add: scale_up.simps[of a b])
  next
    case False
    then have "2 * a < b * 2 ^ 53" by simp
    with 1(1) False show ?thesis
      by (cases "scale_up (2 * a) b = 0") (simp_all add: scale_up.simps[of a b] mult.assoc mult.left_commute)
  qed
qed

lemma scale_up_enough: "0 < a \<Longrightarrow> b * 2 ^ 52 \<le> a * 2 ^ scale_up a b"
proof (induction a b rule: scale_up.induct)
  case (1 a b)
  show ?case
  proof (cases "b * 2 ^ 52 \<le> a")
    case True
    then show ?thesis by (simp add: scale_up.simps[of a b])
  next
    case False
    with 1 show ?thesis by (simp add: scale_up.simps[of a b] mult.assoc mult.left_commute)
  qed
qed

lemma scale_homogeneous: "0 < k \<Longrightarrow> scale_up (k * a) (k * b) = scale_up a b"
proof (induction a b rule: scale_up.induct)
  case (1 a b)
  have "k * b * 2 ^ 52 \<le> k * a \<longleftrightarrow> b * 2 ^ 52 \<le> a" using 1(2) by (simp add: mult.assoc)
  with 1 show ?case
    by (simp add: scale_up.simps[of a b] scale_up.simps[of "k * a" "k * b"] mult.left_commute)
qed

lemma round_div_homogeneous: "0 < k \<Longrightarrow> round_div (k * a) (k * b) = round_div a b"
  by (simp add: round_div_def Let_def mult_mod_right[symmetric] mult.left_commute)

lemma f64_round_homogeneous:
  assumes "0 < k" and "a < b * 2 ^ 53"
  shows "f64_round (k * a) (k * b) = f64_round a b"
proof -
  have "k * a < k * b * 2 ^ 53" using assms by (simp add: mult.assoc)
  moreover have "round_div (k * a * 2 ^ s) (k * b) = round_div (a * 2 ^ s) b" for s
    using round_div_homogeneous[OF assms(1), of "a * 2 ^ s" b] by (simp only: mult.assoc)
  ultimately show ?thesis
    using assms by (simp only: f64_round_def Let_def scale_homogeneous if_True)
qed

lemma to_f64_exact: "n < 2 ^ 53 \<Longrightarrow> to_f64 n = Ratio (n * 2 ^ scale_up n 1) (2 ^ scale_up n 1)"
  using round_div_exact[of 1] by (simp add: to_f64_def f64_round_def Let_def)

lemma quotient_small: "a < 2 ^ 53 \<Longrightarrow> 0 < b \<Longrightarrow> a < b * 2 ^ 53" for a b :: nat
  by (cases b) auto

text \<open>Rounding a quotient whose numerator has at most 53 bits does not reach the next integer.\<close>

lemma f64_round_floor:
  assumes "a < 2 ^ 53" and "0 < b"
  shows "\<exists>n d. f64_round a b = Ratio n d \<and> n div d = a div b"
proof -
  define s where "s = scale_up a b"
  define x where "x = a * 2 ^ s"
  have eq: "f64_round a b = Ratio (round_div x b) (2 ^ s)"
    using quotient_small[OF assms] by (simp only: f64_round_def Let_def s_def x_def if_True)
  have floor: "x div b div 2 ^ s = a div b"
    by (simp add: x_def div_mult2_eq[symmetric] mult.commute)
  have "round_div x b div 2 ^ s = a div b"
  proof (rule ccontr)
    assume "round_div x b div 2 ^ s \<noteq> a div b"
    then have up: "round_div x b = x div b + 1" "b \<le> 2 * (x mod b)" "(x div b + 1) div 2 ^ s \<noteq> x div b div 2 ^ s"
      using round_div_cases[of x b] floor by auto
    have carry: "(x div b + 1) mod 2 ^ s = 0"
      using up(3) by (metis Suc_eq_plus1 div_Suc)
    define q where "q = (x div b + 1) div 2 ^ s"
    have q: "x div b + 1 = q * 2 ^ s" using carry unfolding q_def by (metis add.right_neutral div_mult_mod_eq)
    have x: "x + b = b * (x div b + 1) + x mod b"
      by (simp add: algebra_simps)
    have lt: "x mod b < b" using assms(2) by simp
    have "a * 2 ^ s + b = b * q * 2 ^ s + x mod b" using x unfolding q by (simp only: x_def mult.assoc)
    then have gap: "(b * q - a) * 2 ^ s + x mod b = b" and "a < b * q"
    proof -
      have "a * 2 ^ s < b * q * 2 ^ s" using \<open>a * 2 ^ s + b = _\<close> lt by linarith
      then show "a < b * q" using mult_less_cancel2 by blast
      show "(b * q - a) * 2 ^ s + x mod b = b"
        using \<open>a * 2 ^ s + b = _\<close> \<open>a * 2 ^ s < _\<close> by (simp add: diff_mult_distrib)
    qed
    then have "2 ^ s \<le> (b * q - a) * 2 ^ s" by simp
    with gap up(2) have big: "2 * 2 ^ s \<le> b" by linarith
    have small: "b * 2 ^ 52 \<le> a * 2 ^ s" if "0 < a" using scale_up_enough[OF that, of b] by (simp add: s_def)
    show False
    proof (cases "0 < a")
      case False
      then have "x = 0" by (simp add: x_def)
      with up(2) assms(2) show False by simp
    next
      case True
      have "2 * 2 ^ s * 2 ^ 52 \<le> b * (2 ^ 52 :: nat)" using big by simp
      also have "\<dots> \<le> a * 2 ^ s" using small[OF True] .
      also have "\<dots> < 2 ^ 53 * 2 ^ s" using assms(1) by simp
      finally show False by simp
    qed
  qed
  with eq show ?thesis by blast
qed

text \<open>
  C40.  For fewer than nine trillion transactions (or bytes), the double-precision rate is exactly the
  integer quotient: no rounding step moves it across an integer.
\<close>

theorem per_second_exact:
  assumes "1000 * amount < 2 ^ 53" and "0 < elapsed_ms" and "elapsed_ms < 2 ^ 53"
  shows "per_second amount elapsed_ms = 1000 * amount div elapsed_ms"
proof -
  let ?p = "2 ^ scale_up amount 1 :: nat" and ?q = "2 ^ scale_up 1000 1 :: nat" and ?r = "2 ^ scale_up elapsed_ms 1 :: nat"
  let ?u = "2 ^ scale_up (1000 * amount) 1 :: nat"
  have "f64_mul (to_f64 amount) (to_f64 1000) = f64_round ((?p * ?q) * (1000 * amount)) ((?p * ?q) * 1)"
    using assms(1) to_f64_exact[of amount] to_f64_exact[of 1000] by (simp add: ac_simps)
  also have "\<dots> = to_f64 (1000 * amount)"
    using assms(1) unfolding to_f64_def by (intro f64_round_homogeneous) simp_all
  also have "\<dots> = Ratio (1000 * amount * ?u) ?u" using to_f64_exact[OF assms(1)] .
  finally have "f64_div (f64_mul (to_f64 amount) (to_f64 1000)) (to_f64 elapsed_ms)
      = f64_round ((?u * ?r) * (1000 * amount)) ((?u * ?r) * elapsed_ms)"
    using assms(2) to_f64_exact[OF assms(3)] by (simp add: ac_simps)
  also have "\<dots> = f64_round (1000 * amount) elapsed_ms"
    using quotient_small[OF assms(1,2)] by (intro f64_round_homogeneous) simp_all
  finally obtain n d where nd: "f64_div (f64_mul (to_f64 amount) (to_f64 1000)) (to_f64 elapsed_ms) = Ratio n d"
      "n div d = 1000 * amount div elapsed_ms"
    using f64_round_floor[OF assms(1,2)] by auto
  have "n div d \<le> 1000 * amount" using nd(2) by simp
  then have "n div d \<le> u64_lim - 1" using assms(1) by (simp add: u64_lim_def)
  with nd show ?thesis by (simp add: per_second_def)
qed

theorem per_second_exact_witness: "per_second 3 7 = 428"
  using per_second_exact[of 3 7] by simp


section \<open>The window\<close>

text \<open>A node that serves a chain, and the transactions and bytes of the blocks \<open>a, ..., b - 1\<close>.\<close>

definition serves_chain :: "'w node \<Rightarrow> (nat \<Rightarrow> block) \<Rightarrow> nat \<Rightarrow> bool" where
  "serves_chain nd chain tip \<longleftrightarrow> (\<forall>n w. n \<le> tip \<longrightarrow> reads (get_block_by_number nd n) w (chain n)
     \<and> reads (get_header_by_number nd n) w (bk_header (chain n)) \<and> hd_number (bk_header (chain n)) = n)"

definition txs_in :: "(nat \<Rightarrow> block) \<Rightarrow> nat \<Rightarrow> nat \<Rightarrow> nat" where
  "txs_in chain a b = (\<Sum>n\<in>{a..<b}. length (bk_transactions (chain n)))"

definition bytes_in :: "(block \<Rightarrow> nat) \<Rightarrow> (nat \<Rightarrow> block) \<Rightarrow> nat \<Rightarrow> nat \<Rightarrow> nat" where
  "bytes_in block_size chain a b = (\<Sum>n\<in>{a..<b}. block_size (chain n))"

lemma txs_in_simps:
  "txs_in chain a a = 0" "a \<le> b \<Longrightarrow> txs_in chain a (Suc b) = txs_in chain a b + length (bk_transactions (chain b))"
  "a < b \<Longrightarrow> txs_in chain a b = length (bk_transactions (chain a)) + txs_in chain (Suc a) b"
  by (simp_all add: txs_in_def sum.atLeast_Suc_lessThan)

lemma bytes_in_simps:
  "bytes_in sz chain a a = 0" "a \<le> b \<Longrightarrow> bytes_in sz chain a (Suc b) = bytes_in sz chain a b + sz (chain b)"
  by (simp_all add: bytes_in_def)

lemma in_mono:
  "c \<le> a \<Longrightarrow> b \<le> d \<Longrightarrow> txs_in chain a b \<le> txs_in chain c d" "c \<le> a \<Longrightarrow> b \<le> d \<Longrightarrow> bytes_in sz chain a b \<le> bytes_in sz chain c d"
  by (auto simp: txs_in_def bytes_in_def intro!: sum_mono2)

text \<open>The invariant: the window holds the transactions of its blocks, but the bytes of all blocks seen.\<close>

definition window_ok :: "(block \<Rightarrow> nat) \<Rightarrow> (nat \<Rightarrow> block) \<Rightarrow> nat \<Rightarrow> window \<Rightarrow> bool" where
  "window_ok sz chain start wi \<longleftrightarrow> start \<le> wi_i wi \<and> wi_i wi \<le> wi_j wi
     \<and> wi_total_transactions wi = txs_in chain (wi_i wi) (wi_j wi)
     \<and> wi_total_transactions_size wi = bytes_in sz chain start (wi_j wi)"

definition small_chain :: "(block \<Rightarrow> nat) \<Rightarrow> (nat \<Rightarrow> block) \<Rightarrow> nat \<Rightarrow> nat \<Rightarrow> bool" where
  "small_chain sz chain start to_number \<longleftrightarrow> txs_in chain start (Suc to_number) < u64_lim
     \<and> bytes_in sz chain start (Suc to_number) < u64_lim \<and> to_number + 1 < u64_lim"

lemma count_block_eq:
  assumes "window_ok sz chain start wi" and "small_chain sz chain start to_number" and "wi_j wi \<le> to_number"
  shows "count_block oc sz wi (chain (wi_j wi)) = ret (wi\<lparr>
     wi_total_transactions := txs_in chain (wi_i wi) (Suc (wi_j wi)),
     wi_total_transactions_size := bytes_in sz chain start (Suc (wi_j wi)),
     wi_n_inout := (if wi_n_inout wi = 0 \<and> 1 < length (bk_transactions (chain (wi_j wi)))
       then length (tx_outputs (bk_transactions (chain (wi_j wi)) ! 1)) else wi_n_inout wi), wi_j := Suc (wi_j wi)\<rparr>)"
proof -
  have "txs_in chain (wi_i wi) (Suc (wi_j wi)) < u64_lim" "bytes_in sz chain start (Suc (wi_j wi)) < u64_lim" "wi_j wi + 1 < u64_lim"
    using assms in_mono(1)[of start "wi_i wi" "Suc (wi_j wi)" "Suc to_number" chain]
      in_mono(2)[of start start "Suc (wi_j wi)" "Suc to_number" sz chain]
    unfolding window_ok_def small_chain_def by auto
  then show ?thesis
    using assms(1) by (simp add: count_block_def window_ok_def txs_in_simps(1,2) bytes_in_simps u64_add_ok Let_def)
qed

lemma count_block_run:
  assumes "window_ok sz chain start wi" and "small_chain sz chain start to_number" and "wi_j wi \<le> to_number"
  obtains wi' where "count_block oc sz wi (chain (wi_j wi)) = ret wi'"
    "wi_j wi' = Suc (wi_j wi)" "wi_i wi' = wi_i wi" "wi_best_report wi' = wi_best_report wi"
    "wi_total_transactions wi' = txs_in chain (wi_i wi) (Suc (wi_j wi))"
    "wi_total_transactions_size wi' = bytes_in sz chain start (Suc (wi_j wi))"
  by (rule that[OF count_block_eq[OF assms]]) simp_all

lemma fill_window_run:
  fixes nd :: "'w node"
  assumes "serves_chain nd chain to_number" and "small_chain sz chain start to_number"
    and "window_ok sz chain start wi" and "wi_j wi \<le> Suc to_number"
  shows "\<exists>wi' t. fill_window oc sz nd to_number stat_ms ti t0 wi w = Some (Inr (wi', t), w) \<and> window_ok sz chain start wi'
     \<and> wi_i wi' = wi_i wi \<and> wi_best_report wi' = wi_best_report wi \<and> wi_j wi \<le> wi_j wi' \<and> wi_j wi' \<le> Suc to_number
     \<and> (wi_j wi \<le> to_number \<and> hd_timestamp (bk_header (chain (wi_j wi))) - ti < stat_ms \<longrightarrow> wi_j wi < wi_j wi')"
  using assms(3,4)
proof (induction "Suc to_number - wi_j wi" arbitrary: wi t0 rule: less_induct)
  case less
  show ?case
  proof (cases "wi_j wi \<le> to_number")
    case False
    with less.prems show ?thesis by (subst fill_window.simps) (simp add: ret_run)
  next
    case True
    let ?b = "chain (wi_j wi)"
    have blk: "get_block_by_number nd (wi_j wi) w = Some (Inr ?b, w)"
      using assms(1) True by (simp add: serves_chain_def reads_def)
    note step = fill_window.simps[of oc sz nd to_number stat_ms ti t0 wi w]
    show ?thesis
    proof (cases "stat_ms \<le> hd_timestamp (bk_header ?b) - ti")
      case enough: True
      with True blk less.prems show ?thesis by (subst step) (simp add: bindM_run ret_run)
    next
      case False
      obtain wi' where count: "count_block oc sz wi ?b = (ret wi' :: ('w, window) cmd)"
        and wi': "wi_j wi' = Suc (wi_j wi)" "wi_i wi' = wi_i wi" "wi_best_report wi' = wi_best_report wi"
          "wi_total_transactions wi' = txs_in chain (wi_i wi) (Suc (wi_j wi))"
          "wi_total_transactions_size wi' = bytes_in sz chain start (Suc (wi_j wi))"
        using count_block_run[OF less.prems(1) assms(2) True] .
      have ok: "window_ok sz chain start wi'" "wi_j wi' \<le> Suc to_number" "Suc to_number - wi_j wi' < Suc to_number - wi_j wi"
        using less.prems True wi' by (auto simp: window_ok_def)
      have "fill_window oc sz nd to_number stat_ms ti t0 wi w
          = fill_window oc sz nd to_number stat_ms ti (hd_timestamp (bk_header ?b)) wi' w"
        using True False blk count by (subst step) (simp add: bindM_run)
      with less.hyps[OF ok(3,1,2), of "hd_timestamp (bk_header ?b)"] wi' show ?thesis by fastforce
    qed
  qed
qed


text \<open>A report on the blocks \<open>a, ..., hi - 1\<close>.\<close>

definition report_ok :: "(block \<Rightarrow> nat) \<Rightarrow> (nat \<Rightarrow> block) \<Rightarrow> nat \<Rightarrow> nat \<Rightarrow> report \<Rightarrow> bool" where
  "report_ok sz chain start to_number r \<longleftrightarrow> rp_transactions_per_second r = 0 \<or>
     (\<exists>hi. start \<le> rp_from_block_number r \<and> rp_from_block_number r < rp_to_block_number r \<and> rp_to_block_number r \<le> to_number
       \<and> (hi = rp_to_block_number r \<or> hi = Suc to_number \<and> rp_to_block_number r = to_number)
       \<and> rp_total_transactions r = txs_in chain (rp_from_block_number r) hi
       \<and> rp_total_transactions_size r = bytes_in sz chain start hi
       \<and> rp_average_block_transactions r
           = rp_total_transactions r div (rp_to_block_number r - rp_from_block_number r + 1))"

lemma window_report_ok:
  assumes "hd_number (bk_header block_i) < hd_number header_j" and "hd_number header_j + 1 < u64_lim"
  obtains r where "window_report oc block_i header_j elapsed_ms wi = ret r"
    "rp_from_block_number r = hd_number (bk_header block_i)" "rp_to_block_number r = hd_number header_j"
    "rp_total_transactions r = wi_total_transactions wi" "rp_total_transactions_size r = wi_total_transactions_size wi"
    "rp_average_block_transactions r
       = wi_total_transactions wi div (hd_number header_j - hd_number (bk_header block_i) + 1)"
proof -
  have "hd_number header_j - hd_number (bk_header block_i) + 1 < u64_lim" "hd_number header_j < u64_lim" using assms by auto
  then show thesis
    using assms(1) by - (rule that, simp add: window_report_def Let_def u64_sub_ok u64_add_ok u64_div_ok, simp_all)
qed

text \<open>One turn keeps the invariants, advances, and never subtracts more than the window holds.\<close>

lemma stat_turn_run:
  fixes nd :: "'w node"
  assumes chain: "serves_chain nd chain to_number" and small: "small_chain sz chain start to_number"
    and wi: "window_ok sz chain start wi" "wi_j wi < to_number" "report_ok sz chain start to_number (wi_best_report wi)"
    and pos: "0 < stat_ms"
  shows "\<exists>turn. stat_turn oc sz nd to_number stat_ms wi w = Some (Inr turn, w) \<and> (case turn of
     Inl wi' \<Rightarrow> report_ok sz chain start to_number (wi_best_report wi')
   | Inr wi' \<Rightarrow> window_ok sz chain start wi' \<and> wi_j wi' < to_number \<and> wi_i wi' = Suc (wi_i wi)
       \<and> report_ok sz chain start to_number (wi_best_report wi'))"
proof -
  let ?i = "wi_i wi"
  let ?bi = "chain ?i"
  have i: "?i \<le> wi_j wi" "?i \<le> to_number" "start \<le> ?i" using wi by (auto simp: window_ok_def)
  have bi: "get_block_by_number nd ?i w = Some (Inr ?bi, w)" "hd_number (bk_header ?bi) = ?i"
    using chain i by (auto simp: serves_chain_def reads_def)
  obtain wf t where fill: "fill_window oc sz nd to_number stat_ms (hd_timestamp (bk_header ?bi)) 0 wi w = Some (Inr (wf, t), w)"
    and wf: "window_ok sz chain start wf" "wi_i wf = ?i" "wi_best_report wf = wi_best_report wi" "wi_j wi \<le> wi_j wf"
      "wi_j wf \<le> Suc to_number"
      "wi_j wi \<le> to_number \<and> hd_timestamp (bk_header (chain (wi_j wi))) - hd_timestamp (bk_header ?bi) < stat_ms \<longrightarrow> wi_j wi < wi_j wf"
    using fill_window_run[OF chain small wi(1), of oc stat_ms "hd_timestamp (bk_header ?bi)" 0 w] wi(2) by auto
  have advance: "?i < wi_j wf"
  proof (cases "wi_j wi = ?i")
    case True
    with wf(6) wi(2) pos show ?thesis by simp
  next
    case False
    with i(1) wf(4) show ?thesis by simp
  qed
  define wc where "wc = (if wi_j wf > to_number then wf\<lparr>wi_j := to_number\<rparr> else wf)"
  have wc: "?i < wi_j wc" "wi_j wc \<le> to_number" "wi_i wc = ?i" "wi_total_transactions wc = txs_in chain ?i (wi_j wf)"
    "wi_total_transactions_size wc = bytes_in sz chain start (wi_j wf)" "wi_best_report wc = wi_best_report wi"
    "wi_j wf = wi_j wc \<or> wi_j wf = Suc to_number \<and> wi_j wc = to_number"
    using advance wf i wi(2) by (auto simp: wc_def window_ok_def)
  let ?hj = "bk_header (chain (wi_j wc))"
  have hj: "get_header_by_number nd (wi_j wc) w = Some (Inr ?hj, w)" "hd_number ?hj = wi_j wc"
    using chain wc(2) by (auto simp: serves_chain_def reads_def)
  have "hd_number (bk_header ?bi) < hd_number ?hj" "hd_number ?hj + 1 < u64_lim"
    using bi hj wc small by (auto simp: small_chain_def)
  from window_report_ok[OF this, where wi = wc] obtain r where
    r: "window_report oc ?bi ?hj (t - hd_timestamp (bk_header ?bi)) wc = (ret r :: ('w, report) cmd)"
      "rp_from_block_number r = ?i" "rp_to_block_number r = wi_j wc"
      "rp_total_transactions r = wi_total_transactions wc" "rp_total_transactions_size r = wi_total_transactions_size wc"
      "rp_average_block_transactions r = wi_total_transactions wc div (wi_j wc - ?i + 1)"
    unfolding bi(2) hj(2) by metis
  have "report_ok sz chain start to_number r"
    unfolding report_ok_def r using wc i(3) by (intro disjI2 exI[of _ "wi_j wf"]) auto
  then obtain best where best: "report_ok sz chain start to_number best"
    and choose: "(if per_second (wi_total_transactions wc) (t - hd_timestamp (bk_header ?bi)) > rp_transactions_per_second (wi_best_report wc)
            then bindM (window_report oc ?bi ?hj (t - hd_timestamp (bk_header ?bi)) wc) (\<lambda>best. ret (wc\<lparr>wi_best_report := best\<rparr>))
            else ret wc) = (ret (wc\<lparr>wi_best_report := best\<rparr>) :: ('w, window) cmd)"
    using wi(3) wc(6) r(1) by (cases "per_second (wi_total_transactions wc) (t - hd_timestamp (bk_header ?bi))
      > rp_transactions_per_second (wi_best_report wc)") auto
  let ?len = "length (bk_transactions ?bi)"
  have window: "txs_in chain ?i (wi_j wf) = ?len + txs_in chain (Suc ?i) (wi_j wf)" using txs_in_simps(3)[OF advance] .
  have "txs_in chain ?i (wi_j wf) < u64_lim"
    using in_mono(1)[OF i(3) wf(5), of chain] small by (simp add: small_chain_def)
  then have sub: "u64_sub oc (wi_total_transactions wc) ?len = (ret (txs_in chain (Suc ?i) (wi_j wf)) :: ('w, nat) cmd)"
    using window wc(4) by (simp add: u64_sub_ok)
  have add: "u64_add oc ?i 1 = (ret (Suc ?i) :: ('w, nat) cmd)"
    using i small by (simp add: u64_add_ok small_chain_def)
  have run: "stat_turn oc sz nd to_number stat_ms wi w = (if wi_j wc \<ge> to_number then Some (Inr (Inl (wc\<lparr>wi_best_report := best\<rparr>)), w)
      else Some (Inr (Inr (wc\<lparr>wi_best_report := best, wi_total_transactions := txs_in chain (Suc ?i) (wi_j wf), wi_i := Suc ?i\<rparr>)), w))"
    unfolding stat_turn_def using bi(1) fill hj(1) sub add wc(3)
    by (simp only: bindM_run prod.case Let_def wc_def[symmetric] choose bindM_ret) (simp add: ret_run)
  show ?thesis
  proof (cases "wi_j wc \<ge> to_number")
    case True
    with run best show ?thesis by simp
  next
    case False
    then have "wi_j wf = wi_j wc" using wc(7) by auto
    with False run best wf(1) wc i(3) show ?thesis by (simp add: window_ok_def)
  qed
qed

lemma stat_loop_run:
  fixes nd :: "'w node"
  assumes "serves_chain nd chain to_number" and "small_chain sz chain start to_number" and "0 < stat_ms"
    and "window_ok sz chain start wi" and "wi_j wi < to_number" and "report_ok sz chain start to_number (wi_best_report wi)"
  shows "\<exists>wi'. stat_loop oc sz nd to_number stat_ms wi w = Some (Inr wi', w) \<and> report_ok sz chain start to_number (wi_best_report wi')"
  using assms(4-6)
proof (induction "to_number - wi_i wi" arbitrary: wi rule: less_induct)
  case less
  obtain turn where turn: "stat_turn oc sz nd to_number stat_ms wi w = Some (Inr turn, w)" "case turn of
     Inl wi' \<Rightarrow> report_ok sz chain start to_number (wi_best_report wi')
   | Inr wi' \<Rightarrow> window_ok sz chain start wi' \<and> wi_j wi' < to_number \<and> wi_i wi' = Suc (wi_i wi)
       \<and> report_ok sz chain start to_number (wi_best_report wi')"
    using stat_turn_run[OF assms(1,2) less.prems assms(3)] by blast
  show ?case
  proof (cases turn)
    case (Inl wi')
    with turn show ?thesis by (subst stat_loop.simps) (simp add: bindM_run ret_run)
  next
    case (Inr wi')
    have "to_number - wi_i wi' < to_number - wi_i wi"
      using turn(2) Inr less.prems by (auto simp: window_ok_def)
    from less.hyps[OF this] turn(2) Inr have
      "\<exists>wi''. stat_loop oc sz nd to_number stat_ms wi' w = Some (Inr wi'', w) \<and> report_ok sz chain start to_number (wi_best_report wi'')"
      by simp
    with turn(1) Inr show ?thesis by (subst stat_loop.simps) (simp add: bindM_run)
  qed
qed



definition stat_node :: "nat node" where
  "stat_node = (offline_node ''stat'')\<lparr>nd_rpc_client := offline_client\<lparr>rc_inner2021 := offline2021\<lparr>
     i21_get_block_by_number := (\<lambda>n. ret (Inr (Some (block_at n)))),
     i21_get_header_by_number := (\<lambda>n. ret (Inr (Some \<lparr>hv_header = bk_header (block_at n), hv_hash = n\<rparr>))),
     i21_local_node_info := ret (Inr \<lparr>ln_version = ''0.100.0'', ln_node_id = ''Qm'', ln_addresses = [], ln_connections = 2\<rparr>)\<rparr>\<rparr>\<rparr>"

lemma stat_node_serves: "serves_chain stat_node block_at tip"
  by (simp add: serves_chain_def reads_def stat_node_def offline_client_def get_block_by_number_def get_header_by_number_def
      rpc_get_block_by_number_def rpc_get_header_by_number_def expect_rpc_def bindM_def ret_def unwrapM_def expectM_def block_at_def header_at_def)


end
