(* ===== verification/BenchMain.thy ===== *)
theory BenchMain
  imports Prepare Stat
begin

text \<open>
  \<open>ckb-bench/src/main.rs\<close>: the command line and the subcommands \<open>miner\<close>, \<open>dispatch\<close>,
  \<open>collect\<close>, \<open>bench\<close> and \<open>stat\<close>.
\<close>

section \<open>The command line\<close>

text \<open>
  What \<open>clap_app\<close> declares of an argument (crate \<open>clap\<close>, version 2), its help texts apart.  The
  validators are the two parsers the application calls.
\<close>

datatype validator = Url_Parse | U64_Parse

record arg =
  ar_name :: string
  ar_short :: "string option"
  ar_value_name :: "string option"
  ar_required :: bool
  ar_takes_value :: bool
  ar_multiple :: bool
  ar_use_delimiter :: bool
  ar_default_value :: "string option"
  ar_validator :: "validator option"

record subcommand =
  sc_name :: string
  sc_about :: string
  sc_args :: "arg list"

text \<open>The long option has the argument's name throughout.\<close>

definition arg_with_name :: "string \<Rightarrow> arg" where
  "arg_with_name name = \<lparr>ar_name = name, ar_short = None, ar_value_name = None, ar_required = False, ar_takes_value = False,
     ar_multiple = False, ar_use_delimiter = False, ar_default_value = None, ar_validator = None\<rparr>"

definition urls_arg :: "string \<Rightarrow> arg" where
  "urls_arg name = (arg_with_name name)\<lparr>ar_value_name := Some ''URLS'', ar_required := True, ar_takes_value := True,
     ar_multiple := True, ar_use_delimiter := True, ar_validator := Some Url_Parse\<rparr>"

definition u64_arg :: "string \<Rightarrow> string \<Rightarrow> arg" where
  "u64_arg name value_name = (arg_with_name name)\<lparr>ar_value_name := Some value_name, ar_required := True,
     ar_takes_value := True, ar_validator := Some U64_Parse\<rparr>"

definition data_dir_arg :: arg where
  "data_dir_arg = (arg_with_name ''data-dir'')\<lparr>ar_value_name := Some ''PATH'', ar_required := True, ar_takes_value := True,
     ar_default_value := Some ''./data''\<rparr>"

definition clap_miner :: subcommand where
  "clap_miner = \<lparr>sc_name = ''miner'', sc_about = ''runs ckb miner'', sc_args =
     [urls_arg ''rpc-urls'',
      (u64_arg ''n-blocks'' ''NUMBER'')\<lparr>ar_short := Some ''b'', ar_default_value := Some ''0''\<rparr>,
      u64_arg ''mining-interval-ms'' ''TIME'']\<rparr>"

definition clap_bench :: subcommand where
  "clap_bench = \<lparr>sc_name = ''bench'', sc_about = ''bench the target ckb nodes'', sc_args =
     [data_dir_arg, urls_arg ''rpc-urls'', u64_arg ''n-users'' ''NUMBER'', u64_arg ''n-inout'' ''NUMBER'',
      u64_arg ''tx-interval-ms'' ''TIME'', u64_arg ''bench-time-ms'' ''TIME'', arg_with_name ''is-smoking-test'']\<rparr>"

definition clap_dispatch :: subcommand where
  "clap_dispatch = \<lparr>sc_name = ''dispatch'', sc_about = ''dispatch capacity to users'', sc_args =
     [urls_arg ''rpc-urls'', u64_arg ''n-users'' ''NUMBER'', u64_arg ''cells-per-user'' ''NUMBER'',
      u64_arg ''capacity-per-cell'' ''NUMBER'', data_dir_arg]\<rparr>"

definition clap_collect :: subcommand where
  "clap_collect = \<lparr>sc_name = ''collect'', sc_about = ''collect capacity back to owner'', sc_args =
     [urls_arg ''rpc-urls'', u64_arg ''n-users'' ''NUMBER'', data_dir_arg]\<rparr>"

definition clap_stat :: subcommand where
  "clap_stat = \<lparr>sc_name = ''stat'', sc_about = ''report chain stat'', sc_args =
     [urls_arg ''rpc-urls'', u64_arg ''from-number'' ''NUMBER'', u64_arg ''to-number'' ''NUMBER'',
      u64_arg ''stat-period-ms'' ''TIME'']\<rparr>"

definition clap_app :: "subcommand list" where
  "clap_app = [clap_miner, clap_bench, clap_dispatch, clap_collect, clap_stat]"

section \<open>The environment\<close>

text \<open>
  The libraries: parsing a URL (crate \<open>url\<close>), of which only the printed form, the port and the host
  are used, and parsing keys (crates \<open>ckb_crypto\<close>, \<open>ckb_fixed_hash\<close>, molecule).
\<close>

record url =
  url_as_str :: string
  url_port :: "nat option"
  url_host_str :: "string option"

text \<open>\<open>arguments\<close>: the values of the options, and whether a flag is present.\<close>

record arg_matches =
  am_values_of :: "string \<Rightarrow> string list"
  am_is_present :: "string \<Rightarrow> bool"

record 'w bench_env =
  be_oc :: bool
  be_crypto :: crypto
  be_lib :: chain_lib
  be_clock :: "'w clock"
  be_os :: "'w os"
  be_iter :: "string iter_order"
  be_env_var :: "string \<Rightarrow> ('w, string option) cmd"
  be_parse_url :: "string \<Rightarrow> string + url"
  be_parse_privkey :: "string \<Rightarrow> string + nat"
  be_parse_h256 :: "string \<Rightarrow> string + bytes"
  be_byte32_from_slice :: "bytes \<Rightarrow> string + byte32"
  be_block_size :: "block \<Rightarrow> nat"
  be_spawn_live_cells :: "user list \<Rightarrow> 'w node list \<Rightarrow> ('w, unit) cmd" \<comment> \<open>the thread of \<open>live_cell_producer\<close>\<close>
  be_spawn_transactions :: "transaction_producer \<Rightarrow> ('w, unit) cmd" \<comment> \<open>the thread of \<open>transaction_producer\<close>\<close>
  be_recv_transaction :: "nat \<Rightarrow> ('w, transaction option) cmd" \<comment> \<open>\<open>recv_timeout\<close>\<close>

text \<open>\<open>u64::from_str\<close>, also \<open>usize::from_str\<close> on 64-bit targets: digits, after at most one plus.\<close>

definition digit_value :: "char \<Rightarrow> nat option" where
  "digit_value c = (let n = of_char c :: nat in if 48 \<le> n \<and> n \<le> 57 then Some (n - 48) else None)"

primrec parse_digits :: "string \<Rightarrow> nat \<Rightarrow> nat option" where
  "parse_digits [] n = Some n"
| "parse_digits (c # cs) n = (case digit_value c of
       Some d \<Rightarrow> if 10 * n + d < u64_lim then parse_digits cs (10 * n + d) else None
     | None \<Rightarrow> None)"

definition parse_u64 :: "string \<Rightarrow> nat option" where
  "parse_u64 s = (let digits = (case s of c # cs \<Rightarrow> if c = CHR ''+'' then cs else s | [] \<Rightarrow> s)
     in if digits = [] then None else parse_digits digits 0)"

text \<open>\<open>value_t_or_exit!\<close> and \<open>values_t_or_exit!\<close>: a missing or unreadable value ends the process.\<close>

definition value_t_or_exit :: "(string \<Rightarrow> 'a option) \<Rightarrow> arg_matches \<Rightarrow> string \<Rightarrow> ('w, 'a) cmd" where
  "value_t_or_exit parse arguments name = (case am_values_of arguments name of
       [] \<Rightarrow> halting (Exit 1)
     | v # _ \<Rightarrow> (case parse v of Some a \<Rightarrow> ret a | None \<Rightarrow> halting (Exit 1)))"

definition values_t_or_exit :: "(string \<Rightarrow> 'a option) \<Rightarrow> arg_matches \<Rightarrow> string \<Rightarrow> ('w, 'a list) cmd" where
  "values_t_or_exit parse arguments name = (case am_values_of arguments name of
       [] \<Rightarrow> halting (Exit 1)
     | vs \<Rightarrow> if \<forall>v \<in> set vs. parse v \<noteq> None then ret (map (\<lambda>v. the (parse v)) vs) else halting (Exit 1))"

definition parse_url :: "'w bench_env \<Rightarrow> string \<Rightarrow> url option" where
  "parse_url E s = (case be_parse_url E s of Inr u \<Rightarrow> Some u | Inl e \<Rightarrow> None)"

section \<open>Nodes and users\<close>

definition node_of_url :: "'w bench_env \<Rightarrow> string \<Rightarrow> url \<Rightarrow> ('w, 'w node) cmd" where
  "node_of_url E data_dir u =
     bindM (expectM UNWRAP (url_port u)) (\<lambda>port.
     bindM (expectM UNWRAP (url_host_str u)) (\<lambda>host.
     let node_data_dir = path_join data_dir (host @ '':'' @ to_decimal port) in
     bindM (os_create_dir_all (be_os E) node_data_dir) (\<lambda>r.
     bindM (unwrapM ''failed to create dir'' r) (\<lambda>_.
     node_init_from_url (be_os E) (url_as_str u) node_data_dir))))"

definition plain_node_of_url :: "'w bench_env \<Rightarrow> url \<Rightarrow> ('w, 'w node) cmd" where
  "plain_node_of_url E u = node_init_from_url (be_os E) (url_as_str u) []"

text \<open>\<open>prompt_and_exit!\<close>.\<close>

definition or_exit :: "'e + 'a \<Rightarrow> ('w, 'a) cmd" where
  "or_exit r = (case r of Inr a \<Rightarrow> ret a | Inl e \<Rightarrow> halting (Exit 1))"

definition owner_raw_privkey :: "'w bench_env \<Rightarrow> ('w, string) cmd" where
  "owner_raw_privkey E =
     bindM (be_env_var E ''CKB_BENCH_OWNER_PRIVKEY'') (\<lambda>var.
     case var of Some raw \<Rightarrow> ret raw | None \<Rightarrow> halting (Exit 1))"

definition owner_of :: "'w bench_env \<Rightarrow> block \<Rightarrow> string \<Rightarrow> ('w, user) cmd" where
  "owner_of E genesis raw =
     bindM (or_exit (be_parse_privkey E raw)) (\<lambda>owner_privkey. ret (user_new genesis (Some owner_privkey)))"

text \<open>The users' keys, each the number its 32 bytes spell.\<close>

definition users_of :: "'w bench_env \<Rightarrow> block \<Rightarrow> string \<Rightarrow> nat \<Rightarrow> ('w, user list) cmd" where
  "users_of E genesis raw n_users =
     bindM (unwrapM UNWRAP (be_parse_h256 E raw)) (\<lambda>h256.
     bindM (or_exit (be_byte32_from_slice E h256)) (\<lambda>owner_byte32_privkey.
     ret (map (\<lambda>privkey. user_new genesis (Some privkey)) (derive_privkeys (be_crypto E) owner_byte32_privkey n_users))))"

definition tip_numbers :: "'w node list \<Rightarrow> ('w, nat list) cmd" where
  "tip_numbers nodes = mapM get_tip_block_number nodes"

definition max_of :: "nat list \<Rightarrow> nat option" where
  "max_of ns = (if ns = [] then None else Some (Max (set ns)))"

definition min_of :: "nat list \<Rightarrow> nat option" where
  "min_of ns = (if ns = [] then None else Some (Min (set ns)))"

partial_function (option) tips_loop :: "'w clock \<Rightarrow> 'w node list \<Rightarrow> nat \<Rightarrow> 'w \<Rightarrow> ((halt + unit) \<times> 'w) option" where
  "tips_loop clk nodes target_tip_number w =
     bindM (tip_numbers nodes) (\<lambda>tips.
     bindM (expectM ''should be ok for multiple nodes'' (min_of tips)) (\<lambda>min_tip_number.
     if min_tip_number \<ge> target_tip_number then ret ()
     else bindM (sleeping clk (secs 10)) (\<lambda>_. tips_loop clk nodes target_tip_number))) w"

definition wait_for_nodes_sync :: "'w clock \<Rightarrow> 'w node list \<Rightarrow> ('w, unit) cmd" where
  "wait_for_nodes_sync clk nodes =
     bindM (connect_all clk nodes) (\<lambda>_.
     bindM (tip_numbers nodes) (\<lambda>tips.
     bindM (expectM ''should be ok for multiple nodes'' (max_of tips)) (\<lambda>target_tip_number.
     tips_loop clk nodes target_tip_number)))"

definition wait_for_indexers_synced :: "chain_lib \<Rightarrow> 'w node list \<Rightarrow> ('w, unit) cmd" where
  "wait_for_indexers_synced L nodes = forM nodes (\<lambda>node. bindM (synced_indexer L node) (\<lambda>_. ret ()))"

section \<open>\<open>miner\<close>\<close>

partial_function (option) nodes_sync_loop :: "'w clock \<Rightarrow> 'w node list \<Rightarrow> nat \<Rightarrow> 'w \<Rightarrow> ((halt + unit) \<times> 'w) option" where
  "nodes_sync_loop clk nodes max_tip_number w =
     bindM (anyM (\<lambda>node. bindM (get_tip_block_number node) (\<lambda>n. ret (n < max_tip_number))) nodes) (\<lambda>behind.
     if behind then bindM (sleeping clk (secs 10)) (\<lambda>_. nodes_sync_loop clk nodes max_tip_number) else ret ()) w"

text \<open>One round over the nodes; \<open>Inl\<close> when the wanted number of blocks is mined.\<close>

primrec mine_round ::
    "bool \<Rightarrow> chain_lib \<Rightarrow> 'w clock \<Rightarrow> nat \<Rightarrow> nat \<Rightarrow> nat \<Rightarrow> 'w node list \<Rightarrow> ('w, unit + nat) cmd" where
  "mine_round oc L clk n_blocks mining_interval_ms mined_n_blocks [] = ret (Inr mined_n_blocks)"
| "mine_round oc L clk n_blocks mining_interval_ms mined_n_blocks (node # nodes) =
     bindM (mine L clk node 1) (\<lambda>_.
     bindM (u64_add oc mined_n_blocks 1) (\<lambda>mined_n_blocks.
     if n_blocks \<noteq> 0 \<and> mined_n_blocks \<ge> n_blocks then ret (Inl ())
     else bindM (if mining_interval_ms \<noteq> 0 then sleeping clk (millis mining_interval_ms) else ret ()) (\<lambda>_.
          mine_round oc L clk n_blocks mining_interval_ms mined_n_blocks nodes)))"

partial_function (option) mine_loop ::
    "bool \<Rightarrow> chain_lib \<Rightarrow> 'w clock \<Rightarrow> nat \<Rightarrow> nat \<Rightarrow> 'w node list \<Rightarrow> nat \<Rightarrow> 'w \<Rightarrow> ((halt + unit) \<times> 'w) option" where
  "mine_loop oc L clk n_blocks mining_interval_ms nodes mined_n_blocks w =
     bindM (mine_round oc L clk n_blocks mining_interval_ms mined_n_blocks nodes) (\<lambda>round. case round of
       Inl u \<Rightarrow> ret ()
     | Inr mined_n_blocks \<Rightarrow> mine_loop oc L clk n_blocks mining_interval_ms nodes mined_n_blocks) w"

definition miner_run :: "'w bench_env \<Rightarrow> url list \<Rightarrow> nat \<Rightarrow> nat \<Rightarrow> ('w, unit) cmd" where
  "miner_run E rpc_urls n_blocks mining_interval_ms =
     bindM (mapM (plain_node_of_url E) rpc_urls) (\<lambda>vec.
     let nodes = nodes_of (be_iter E) (nodes_from_list vec) in
     bindM (tip_numbers nodes) (\<lambda>tips.
     bindM (expectM UNWRAP (max_of tips)) (\<lambda>max_tip_number.
     bindM (if max_tip_number = 0
            then (case nodes of [] \<Rightarrow> ret () | node # _ \<Rightarrow> mine (be_lib E) (be_clock E) node 1) else ret ()) (\<lambda>_.
     bindM (connect_all (be_clock E) nodes) (\<lambda>_.
     bindM (tip_numbers nodes) (\<lambda>tips.
     bindM (expectM UNWRAP (max_of tips)) (\<lambda>max_tip_number.
     bindM (nodes_sync_loop (be_clock E) nodes max_tip_number) (\<lambda>_.
     mine_loop (be_oc E) (be_lib E) (be_clock E) n_blocks mining_interval_ms nodes 0))))))))"

definition entry_miner :: "'w bench_env \<Rightarrow> arg_matches \<Rightarrow> ('w, unit) cmd" where
  "entry_miner E arguments =
     bindM (values_t_or_exit (parse_url E) arguments ''rpc-urls'') (\<lambda>rpc_urls.
     bindM (value_t_or_exit parse_u64 arguments ''n-blocks'') (\<lambda>n_blocks.
     bindM (value_t_or_exit parse_u64 arguments ''mining-interval-ms'') (\<lambda>mining_interval_ms.
     miner_run E rpc_urls n_blocks mining_interval_ms)))"

section \<open>\<open>dispatch\<close> and \<open>collect\<close>\<close>

definition dispatch_run :: "'w bench_env \<Rightarrow> 'w node list \<Rightarrow> nat \<Rightarrow> nat \<Rightarrow> nat \<Rightarrow> ('w, unit) cmd" where
  "dispatch_run E nodes n_users cells_per_user capacity_per_cell =
     bindM (owner_raw_privkey E) (\<lambda>raw.
     bindM (indexM nodes 0) (\<lambda>node0.
     bindM (get_block_by_number node0 0) (\<lambda>genesis.
     bindM (owner_of E genesis raw) (\<lambda>owner.
     bindM (users_of E genesis raw n_users) (\<lambda>users.
     bindM (wait_for_nodes_sync (be_clock E) nodes) (\<lambda>_.
     bindM (wait_for_indexers_synced (be_lib E) nodes) (\<lambda>_.
     dispatch \<lparr>de_oc = be_oc E, de_crypto = be_crypto E, de_lib = be_lib E, de_clock = be_clock E, de_nodes = nodes,
       de_owner = owner, de_users = users, de_cells_per_user = cells_per_user,
       de_capacity_per_cell = capacity_per_cell\<rparr>)))))))"

definition entry_dispatch :: "'w bench_env \<Rightarrow> arg_matches \<Rightarrow> ('w, unit) cmd" where
  "entry_dispatch E arguments =
     bindM (value_t_or_exit Some arguments ''data-dir'') (\<lambda>data_dir.
     bindM (values_t_or_exit (parse_url E) arguments ''rpc-urls'') (\<lambda>rpc_urls.
     bindM (mapM (node_of_url E data_dir) rpc_urls) (\<lambda>nodes.
     bindM (value_t_or_exit parse_u64 arguments ''n-users'') (\<lambda>n_users.
     bindM (value_t_or_exit parse_u64 arguments ''cells-per-user'') (\<lambda>cells_per_user.
     bindM (value_t_or_exit parse_u64 arguments ''capacity-per-cell'') (\<lambda>capacity_per_cell.
     dispatch_run E nodes n_users cells_per_user capacity_per_cell))))))"

definition collect_run :: "'w bench_env \<Rightarrow> 'w node list \<Rightarrow> nat \<Rightarrow> ('w, unit) cmd" where
  "collect_run E nodes n_users =
     bindM (owner_raw_privkey E) (\<lambda>raw.
     bindM (indexM nodes 0) (\<lambda>node0.
     bindM (get_block_by_number node0 0) (\<lambda>genesis.
     bindM (owner_of E genesis raw) (\<lambda>owner.
     bindM (users_of E genesis raw n_users) (\<lambda>users.
     bindM (wait_for_nodes_sync (be_clock E) nodes) (\<lambda>_.
     bindM (wait_for_indexers_synced (be_lib E) nodes) (\<lambda>_.
     collect (be_oc E) (be_crypto E) (be_lib E) (be_clock E) nodes owner users)))))))"

definition entry_collect :: "'w bench_env \<Rightarrow> arg_matches \<Rightarrow> ('w, unit) cmd" where
  "entry_collect E arguments =
     bindM (value_t_or_exit Some arguments ''data-dir'') (\<lambda>data_dir.
     bindM (values_t_or_exit (parse_url E) arguments ''rpc-urls'') (\<lambda>rpc_urls.
     bindM (mapM (node_of_url E data_dir) rpc_urls) (\<lambda>nodes.
     bindM (value_t_or_exit parse_u64 arguments ''n-users'') (\<lambda>n_users.
     collect_run E nodes n_users))))"

section \<open>\<open>bench\<close> and \<open>stat\<close>\<close>

partial_function (option) zero_load_loop :: "string iter_order \<Rightarrow> 'w clock \<Rightarrow> 'w nodes \<Rightarrow> 'w \<Rightarrow> ((halt + unit) \<times> 'w) option" where
  "zero_load_loop iter clk watched w =
     bindM (is_zero_load iter watched) (\<lambda>idle.
     if idle then ret () else bindM (sleeping clk (secs 10)) (\<lambda>_. zero_load_loop iter clk watched)) w"

text \<open>The sending loop, with \<open>i\<close> and the two counters; it returns the counters.\<close>

partial_function (option) send_loop ::
    "'w bench_env \<Rightarrow> 'w node list \<Rightarrow> nat \<Rightarrow> nat \<Rightarrow> nat \<Rightarrow> nat \<Rightarrow> nat \<Rightarrow> nat \<Rightarrow> 'w \<Rightarrow> ((halt + (nat \<times> nat)) \<times> 'w) option" where
  "send_loop E nodes t_tx_interval t_bench start_time i benched duplicated w =
     bindM (be_recv_transaction E (secs (60 * 3))) (\<lambda>received.
     bindM (expectM ''timeout to wait transaction_receiver'' received) (\<lambda>tx.
     bindM (if as_millis t_tx_interval \<noteq> 0 then sleeping (be_clock E) t_tx_interval else ret ()) (\<lambda>_.
     bindM (u64_add (be_oc E) i 1) (\<lambda>i.
     bindM (u64_rem i (length nodes)) (\<lambda>i.
     bindM (indexM nodes i) (\<lambda>node.
     bindM (maybe_retry_send_transaction (be_clock E) node tx) (\<lambda>result.
     bindM (case result of
         Inr is_accepted \<Rightarrow>
           if is_accepted then bindM (u64_add (be_oc E) benched 1) (\<lambda>b. ret (b, duplicated))
           else bindM (u64_add (be_oc E) duplicated 1) (\<lambda>d. ret (benched, d))
       | Inl err \<Rightarrow> ret (benched, duplicated)) (\<lambda>(benched, duplicated).
     bindM (reading (now (be_clock E))) (\<lambda>t.
     if t - start_time > t_bench then ret (benched, duplicated)
     else send_loop E nodes t_tx_interval t_bench start_time i benched duplicated))))))))) w"

definition bench_run ::
    "'w bench_env \<Rightarrow> 'w node list \<Rightarrow> nat \<Rightarrow> nat \<Rightarrow> nat \<Rightarrow> nat \<Rightarrow> bool \<Rightarrow> ('w, report) cmd" where
  "bench_run E nodes n_users n_inout t_tx_interval t_bench is_smoking_test =
     bindM (owner_raw_privkey E) (\<lambda>raw.
     bindM (indexM nodes 0) (\<lambda>node0.
     bindM (get_block_by_number node0 0) (\<lambda>genesis.
     bindM (users_of E genesis raw n_users) (\<lambda>users.
     bindM (wait_for_nodes_sync (be_clock E) nodes) (\<lambda>_.
     bindM (wait_for_indexers_synced (be_lib E) nodes) (\<lambda>_.
     bindM (be_spawn_live_cells E users (map node_clone nodes)) (\<lambda>_.
     bindM (indexM users 0) (\<lambda>user0.
     bindM (single_secp256k1_cell_dep (be_lib E) user0) (\<lambda>cell_dep.
     bindM (transaction_producer_new (be_crypto E) (be_lib E) users [cell_dep] n_inout) (\<lambda>transaction_producer.
     bindM (be_spawn_transactions E transaction_producer) (\<lambda>_.
     let watched = nodes_from_list (map node_clone nodes) in
     bindM (if \<not> is_smoking_test then zero_load_loop (be_iter E) (be_clock E) watched else ret ()) (\<lambda>_.
     bindM (watcher_get_fixed_header (be_iter E) watched) (\<lambda>zero_load.
     bindM (\<lambda>w. send_loop E nodes t_tx_interval t_bench (now (be_clock E) w) 0 0 0 w) (\<lambda>_.
     bindM (if \<not> is_smoking_test then zero_load_loop (be_iter E) (be_clock E) watched else ret ()) (\<lambda>_.
     bindM (watcher_get_fixed_header (be_iter E) watched) (\<lambda>fixed_tip.
     bindM (u64_add (be_oc E) (hd_number zero_load) 1) (\<lambda>from_number.
     bindM (stat (be_oc E) (be_block_size E) node0 from_number (hd_number fixed_tip) (t_bench div 2)
              (Some t_tx_interval)) (\<lambda>report.
     bindM (expectM ''bench specify delay_time_ms'' (rp_delay_time_ms report)) (\<lambda>_. ret report)))))))))))))))))))"

definition entry_bench :: "'w bench_env \<Rightarrow> arg_matches \<Rightarrow> ('w, report) cmd" where
  "entry_bench E arguments =
     bindM (values_t_or_exit (parse_url E) arguments ''rpc-urls'') (\<lambda>rpc_urls.
     bindM (value_t_or_exit Some arguments ''data-dir'') (\<lambda>data_dir.
     bindM (mapM (node_of_url E data_dir) rpc_urls) (\<lambda>nodes.
     bindM (value_t_or_exit parse_u64 arguments ''n-users'') (\<lambda>n_users.
     bindM (value_t_or_exit parse_u64 arguments ''n-inout'') (\<lambda>n_inout.
     bindM (value_t_or_exit parse_u64 arguments ''tx-interval-ms'') (\<lambda>tx_interval_ms.
     bindM (value_t_or_exit parse_u64 arguments ''bench-time-ms'') (\<lambda>bench_time_ms.
     bench_run E nodes n_users n_inout (millis tx_interval_ms) (millis bench_time_ms)
       (am_is_present arguments ''is-smoking-test''))))))))"

definition stat_run :: "'w bench_env \<Rightarrow> url list \<Rightarrow> nat \<Rightarrow> nat \<Rightarrow> nat \<Rightarrow> ('w, report) cmd" where
  "stat_run E rpc_urls from_number to_number t_stat =
     bindM (indexM rpc_urls 0) (\<lambda>u. bindM (plain_node_of_url E u) (\<lambda>node.
     stat (be_oc E) (be_block_size E) node from_number to_number t_stat None))"

definition entry_stat :: "'w bench_env \<Rightarrow> arg_matches \<Rightarrow> ('w, report) cmd" where
  "entry_stat E arguments =
     bindM (values_t_or_exit (parse_url E) arguments ''rpc-urls'') (\<lambda>rpc_urls.
     bindM (value_t_or_exit parse_u64 arguments ''from-number'') (\<lambda>from_number.
     bindM (value_t_or_exit parse_u64 arguments ''to-number'') (\<lambda>to_number.
     bindM (value_t_or_exit parse_u64 arguments ''stat-period-ms'') (\<lambda>stat_time_ms.
     stat_run E rpc_urls from_number to_number (millis stat_time_ms)))))"

text \<open>
  \<open>entrypoint\<close>: the report of \<open>bench\<close> and \<open>stat\<close>, which the code prints, is the result here.
\<close>

definition entrypoint :: "'w bench_env \<Rightarrow> string \<times> arg_matches \<Rightarrow> ('w, report option) cmd" where
  "entrypoint E = (\<lambda>(subcommand_name, arguments).
     if subcommand_name = ''miner'' then mapC (\<lambda>_. None) (entry_miner E arguments)
     else if subcommand_name = ''dispatch'' then mapC (\<lambda>_. None) (entry_dispatch E arguments)
     else if subcommand_name = ''collect'' then mapC (\<lambda>_. None) (entry_collect E arguments)
     else if subcommand_name = ''bench'' then mapC Some (entry_bench E arguments)
     else if subcommand_name = ''stat'' then mapC Some (entry_stat E arguments)
     else halting (Exit 1))"

text \<open>\<open>init_logger\<close> configures the logger (crate \<open>ckb_logger_service\<close>) with this filter.\<close>

definition logger_filter :: "string option \<Rightarrow> string" where
  "logger_filter rust_log = (case rust_log of
       Some raw \<Rightarrow> if raw = [] then ''info'' else raw
     | None \<Rightarrow> ''info'')"

record logger_config =
  lg_filter :: "string option"
  lg_color :: bool
  lg_log_to_file :: bool
  lg_log_to_stdout :: bool

definition init_logger :: "(string \<Rightarrow> ('w, string option) cmd) \<Rightarrow> (logger_config \<Rightarrow> ('w, string + unit) cmd) \<Rightarrow> ('w, unit) cmd" where
  "init_logger env_var logger_init =
     bindM (env_var ''RUST_LOG'') (\<lambda>rust_log.
     bindM (logger_init \<lparr>lg_filter = Some (logger_filter rust_log), lg_color = False, lg_log_to_file = False,
              lg_log_to_stdout = True\<rparr>) (\<lambda>r.
     unwrapM ''failed to init the logger service'' r))"

definition bench_main ::
    "'w bench_env \<Rightarrow> (logger_config \<Rightarrow> ('w, string + unit) cmd) \<Rightarrow> (subcommand list \<Rightarrow> ('w, string \<times> arg_matches) cmd)
      \<Rightarrow> ('w, report option) cmd" where
  "bench_main E logger_init get_matches =
     bindM (init_logger (be_env_var E) logger_init) (\<lambda>_.
     bindM (get_matches clap_app) (entrypoint E))"


section \<open>Command lines are well typed\<close>

text \<open>
  What \<open>clap\<close> promises of the matches it hands out: an option that is required or has a default has a
  value, only a multiple option has several, and every value has passed the option's validator.
\<close>

definition valid_value :: "'w bench_env \<Rightarrow> arg \<Rightarrow> string \<Rightarrow> bool" where
  "valid_value E a v = (case ar_validator a of
       None \<Rightarrow> True | Some Url_Parse \<Rightarrow> parse_url E v \<noteq> None | Some U64_Parse \<Rightarrow> parse_u64 v \<noteq> None)"

definition accepts :: "'w bench_env \<Rightarrow> subcommand \<Rightarrow> arg_matches \<Rightarrow> bool" where
  "accepts E sub m \<longleftrightarrow> (\<forall>a \<in> set (sc_args sub). ar_takes_value a \<longrightarrow>
     (ar_required a \<or> ar_default_value a \<noteq> None \<longrightarrow> am_values_of m (ar_name a) \<noteq> [])
     \<and> (\<not> ar_multiple a \<longrightarrow> length (am_values_of m (ar_name a)) \<le> 1)
     \<and> (\<forall>v \<in> set (am_values_of m (ar_name a)). valid_value E a v))"

text \<open>The typed form of a command line, and what it does.\<close>

datatype invocation =
    Miner "url list" nat nat
  | Dispatch string "url list" nat nat nat
  | Collect string "url list" nat
  | Benchmark string "url list" nat nat nat nat bool
  | Statistics "url list" nat nat nat

fun run_invocation :: "'w bench_env \<Rightarrow> invocation \<Rightarrow> ('w, report option) cmd" where
  "run_invocation E (Miner us n_blocks interval) = mapC (\<lambda>_. None) (miner_run E us n_blocks interval)"
| "run_invocation E (Dispatch dir us n c cap) =
     mapC (\<lambda>_. None) (bindM (mapM (node_of_url E dir) us) (\<lambda>nodes. dispatch_run E nodes n c cap))"
| "run_invocation E (Collect dir us n) =
     mapC (\<lambda>_. None) (bindM (mapM (node_of_url E dir) us) (\<lambda>nodes. collect_run E nodes n))"
| "run_invocation E (Benchmark dir us n n_inout interval time smoking) =
     mapC Some (bindM (mapM (node_of_url E dir) us)
       (\<lambda>nodes. bench_run E nodes n n_inout (millis interval) (millis time) smoking))"
| "run_invocation E (Statistics us from_number to_number period) =
     mapC Some (stat_run E us from_number to_number (millis period))"

fun invocation_name :: "invocation \<Rightarrow> string" where
  "invocation_name (Miner us n_blocks interval) = ''miner''"
| "invocation_name (Dispatch dir us n c cap) = ''dispatch''"
| "invocation_name (Collect dir us n) = ''collect''"
| "invocation_name (Benchmark dir us n n_inout interval time smoking) = ''bench''"
| "invocation_name (Statistics us from_number to_number period) = ''stat''"

fun well_typed :: "invocation \<Rightarrow> bool" where
  "well_typed (Miner us n_blocks interval) \<longleftrightarrow> us \<noteq> [] \<and> n_blocks < u64_lim \<and> interval < u64_lim"
| "well_typed (Dispatch dir us n c cap) \<longleftrightarrow> us \<noteq> [] \<and> n < u64_lim \<and> c < u64_lim \<and> cap < u64_lim"
| "well_typed (Collect dir us n) \<longleftrightarrow> us \<noteq> [] \<and> n < u64_lim"
| "well_typed (Benchmark dir us n n_inout interval time smoking) \<longleftrightarrow>
     us \<noteq> [] \<and> n < u64_lim \<and> n_inout < u64_lim \<and> interval < u64_lim \<and> time < u64_lim"
| "well_typed (Statistics us from_number to_number period) \<longleftrightarrow>
     us \<noteq> [] \<and> from_number < u64_lim \<and> to_number < u64_lim \<and> period < u64_lim"

lemma parse_digits_bound: "n < u64_lim \<Longrightarrow> parse_digits cs n = Some k \<Longrightarrow> k < u64_lim"
  by (induction cs arbitrary: n) (auto split: option.splits if_splits)

lemma parse_u64_bound: "parse_u64 s = Some n \<Longrightarrow> n < u64_lim"
  using parse_digits_bound[of 0] by (auto simp: parse_u64_def Let_def u64_lim_def split: if_splits list.splits)

lemma arg_selectors [simp]:
  "ar_name (urls_arg name) = name" "ar_takes_value (urls_arg name)" "ar_required (urls_arg name)"
  "ar_validator (urls_arg name) = Some Url_Parse"
  "ar_name (u64_arg name v) = name" "ar_takes_value (u64_arg name v)" "ar_required (u64_arg name v)"
  "ar_validator (u64_arg name v) = Some U64_Parse"
  "ar_name data_dir_arg = ''data-dir''" "ar_takes_value data_dir_arg" "ar_required data_dir_arg"
  by (simp_all add: urls_arg_def u64_arg_def data_dir_arg_def arg_with_name_def)

lemma accepted_values:
  assumes "accepts E sub m" and "a \<in> set (sc_args sub)" and "ar_takes_value a" and "ar_required a"
  shows "\<exists>v vs. am_values_of m (ar_name a) = v # vs \<and> valid_value E a v \<and> (\<forall>v \<in> set vs. valid_value E a v)"
  using assms by (cases "am_values_of m (ar_name a)") (auto simp: accepts_def)

lemma accepted_urls:
  assumes "accepts E sub m" and "urls_arg name \<in> set (sc_args sub)"
  shows "\<exists>us. us \<noteq> [] \<and> values_t_or_exit (parse_url E) m name = ret us"
  using accepted_values[OF assms] by (auto simp: values_t_or_exit_def valid_value_def)

lemma accepted_u64:
  assumes "accepts E sub m" and "a \<in> set (sc_args sub)" and "ar_takes_value a" and "ar_required a"
    and "ar_validator a = Some U64_Parse"
  shows "\<exists>n < u64_lim. value_t_or_exit parse_u64 m (ar_name a) = ret n"
  using accepted_values[OF assms(1-4)] assms(5) parse_u64_bound by (auto simp: value_t_or_exit_def valid_value_def)

lemma accepted_u64_arg:
  assumes "accepts E sub m" and "u64_arg name v \<in> set (sc_args sub)"
  shows "\<exists>n < u64_lim. value_t_or_exit parse_u64 m name = ret n"
  using accepted_u64[OF assms] by simp

lemma accepted_data_dir:
  assumes "accepts E sub m" and "data_dir_arg \<in> set (sc_args sub)"
  shows "\<exists>dir. value_t_or_exit Some m ''data-dir'' = ret dir"
  using accepted_values[OF assms] by (auto simp: value_t_or_exit_def)

definition typed :: "'w bench_env \<Rightarrow> subcommand \<Rightarrow> arg_matches \<Rightarrow> bool" where
  "typed E sub m \<longleftrightarrow> (\<exists>inv. invocation_name inv = sc_name sub \<and> well_typed inv
     \<and> entrypoint E (sc_name sub, m) = run_invocation E inv)"

lemma miner_typed:
  fixes E :: "'w bench_env"
  assumes "accepts E clap_miner m"
  shows "typed E clap_miner m"
proof -
  obtain us :: "url list" where us: "us \<noteq> []" "values_t_or_exit (parse_url E) m ''rpc-urls'' = (ret us :: ('w, url list) cmd)"
    using accepted_urls[OF assms, of "''rpc-urls''"] by (auto simp: clap_miner_def)
  let ?a = "(u64_arg ''n-blocks'' ''NUMBER'')\<lparr>ar_short := Some ''b'', ar_default_value := Some ''0''\<rparr>"
  have "?a \<in> set (sc_args clap_miner)" "ar_takes_value ?a" "ar_required ?a" "ar_validator ?a = Some U64_Parse" "ar_name ?a = ''n-blocks''"
    by (simp_all add: clap_miner_def u64_arg_def arg_with_name_def)
  then obtain n where n: "n < u64_lim" "value_t_or_exit parse_u64 m ''n-blocks'' = (ret n :: ('w, nat) cmd)"
    using accepted_u64[OF assms, of ?a] by auto
  obtain t where t: "t < u64_lim" "value_t_or_exit parse_u64 m ''mining-interval-ms'' = (ret t :: ('w, nat) cmd)"
    using accepted_u64_arg[OF assms, of "''mining-interval-ms''" "''TIME''"] by (auto simp: clap_miner_def)
  show ?thesis
    unfolding typed_def using us n t by (intro exI[of _ "Miner us n t"])
      (simp add: entrypoint_def entry_miner_def clap_miner_def)
qed

lemma bench_typed:
  fixes E :: "'w bench_env"
  assumes "accepts E clap_bench m"
  shows "typed E clap_bench m"
proof -
  obtain us :: "url list" where us: "us \<noteq> []" "values_t_or_exit (parse_url E) m ''rpc-urls'' = (ret us :: ('w, url list) cmd)"
    using accepted_urls[OF assms, of "''rpc-urls''"] by (auto simp: clap_bench_def)
  obtain d where d: "value_t_or_exit Some m ''data-dir'' = (ret d :: ('w, string) cmd)"
    using accepted_data_dir[OF assms] by (auto simp: clap_bench_def)
  obtain n where n: "n < u64_lim" "value_t_or_exit parse_u64 m ''n-users'' = (ret n :: ('w, nat) cmd)"
    using accepted_u64_arg[OF assms, of "''n-users''" "''NUMBER''"] by (auto simp: clap_bench_def)
  obtain k where k: "k < u64_lim" "value_t_or_exit parse_u64 m ''n-inout'' = (ret k :: ('w, nat) cmd)"
    using accepted_u64_arg[OF assms, of "''n-inout''" "''NUMBER''"] by (auto simp: clap_bench_def)
  obtain i where i: "i < u64_lim" "value_t_or_exit parse_u64 m ''tx-interval-ms'' = (ret i :: ('w, nat) cmd)"
    using accepted_u64_arg[OF assms, of "''tx-interval-ms''" "''TIME''"] by (auto simp: clap_bench_def)
  obtain t where t: "t < u64_lim" "value_t_or_exit parse_u64 m ''bench-time-ms'' = (ret t :: ('w, nat) cmd)"
    using accepted_u64_arg[OF assms, of "''bench-time-ms''" "''TIME''"] by (auto simp: clap_bench_def)
  show ?thesis
    unfolding typed_def using us d n k i t by (intro exI[of _ "Benchmark d us n k i t (am_is_present m ''is-smoking-test'')"])
      (simp add: entrypoint_def entry_bench_def clap_bench_def)
qed

lemma dispatch_typed:
  fixes E :: "'w bench_env"
  assumes "accepts E clap_dispatch m"
  shows "typed E clap_dispatch m"
proof -
  obtain us :: "url list" where us: "us \<noteq> []" "values_t_or_exit (parse_url E) m ''rpc-urls'' = (ret us :: ('w, url list) cmd)"
    using accepted_urls[OF assms, of "''rpc-urls''"] by (auto simp: clap_dispatch_def)
  obtain d where d: "value_t_or_exit Some m ''data-dir'' = (ret d :: ('w, string) cmd)"
    using accepted_data_dir[OF assms] by (auto simp: clap_dispatch_def)
  obtain n where n: "n < u64_lim" "value_t_or_exit parse_u64 m ''n-users'' = (ret n :: ('w, nat) cmd)"
    using accepted_u64_arg[OF assms, of "''n-users''" "''NUMBER''"] by (auto simp: clap_dispatch_def)
  obtain k where k: "k < u64_lim" "value_t_or_exit parse_u64 m ''cells-per-user'' = (ret k :: ('w, nat) cmd)"
    using accepted_u64_arg[OF assms, of "''cells-per-user''" "''NUMBER''"] by (auto simp: clap_dispatch_def)
  obtain c where c: "c < u64_lim" "value_t_or_exit parse_u64 m ''capacity-per-cell'' = (ret c :: ('w, nat) cmd)"
    using accepted_u64_arg[OF assms, of "''capacity-per-cell''" "''NUMBER''"] by (auto simp: clap_dispatch_def)
  show ?thesis
    unfolding typed_def using us d n k c by (intro exI[of _ "Dispatch d us n k c"])
      (simp add: entrypoint_def entry_dispatch_def clap_dispatch_def)
qed

lemma collect_typed:
  fixes E :: "'w bench_env"
  assumes "accepts E clap_collect m"
  shows "typed E clap_collect m"
proof -
  obtain us :: "url list" where us: "us \<noteq> []" "values_t_or_exit (parse_url E) m ''rpc-urls'' = (ret us :: ('w, url list) cmd)"
    using accepted_urls[OF assms, of "''rpc-urls''"] by (auto simp: clap_collect_def)
  obtain d where d: "value_t_or_exit Some m ''data-dir'' = (ret d :: ('w, string) cmd)"
    using accepted_data_dir[OF assms] by (auto simp: clap_collect_def)
  obtain n where n: "n < u64_lim" "value_t_or_exit parse_u64 m ''n-users'' = (ret n :: ('w, nat) cmd)"
    using accepted_u64_arg[OF assms, of "''n-users''" "''NUMBER''"] by (auto simp: clap_collect_def)
  show ?thesis
    unfolding typed_def using us d n by (intro exI[of _ "Collect d us n"])
      (simp add: entrypoint_def entry_collect_def clap_collect_def)
qed

lemma stat_typed:
  fixes E :: "'w bench_env"
  assumes "accepts E clap_stat m"
  shows "typed E clap_stat m"
proof -
  obtain us :: "url list" where us: "us \<noteq> []" "values_t_or_exit (parse_url E) m ''rpc-urls'' = (ret us :: ('w, url list) cmd)"
    using accepted_urls[OF assms, of "''rpc-urls''"] by (auto simp: clap_stat_def)
  obtain f where f: "f < u64_lim" "value_t_or_exit parse_u64 m ''from-number'' = (ret f :: ('w, nat) cmd)"
    using accepted_u64_arg[OF assms, of "''from-number''" "''NUMBER''"] by (auto simp: clap_stat_def)
  obtain k where k: "k < u64_lim" "value_t_or_exit parse_u64 m ''to-number'' = (ret k :: ('w, nat) cmd)"
    using accepted_u64_arg[OF assms, of "''to-number''" "''NUMBER''"] by (auto simp: clap_stat_def)
  obtain t where t: "t < u64_lim" "value_t_or_exit parse_u64 m ''stat-period-ms'' = (ret t :: ('w, nat) cmd)"
    using accepted_u64_arg[OF assms, of "''stat-period-ms''" "''TIME''"] by (auto simp: clap_stat_def)
  show ?thesis
    unfolding typed_def using us f k t by (intro exI[of _ "Statistics us f k t"])
      (simp add: entrypoint_def entry_stat_def clap_stat_def)
qed

text \<open>
  C22.  Every command line that \<open>clap\<close> accepts for one of the declared subcommands is a typed
  invocation of it: each argument the code reads is declared, present and of the type it is read at, so
  the process never ends while reading them, and the values are what the subcommand runs with.
\<close>

theorem command_line_typed:
  fixes E :: "'w bench_env"
  assumes "sub \<in> set clap_app" and "accepts E sub m"
  shows "\<exists>inv. invocation_name inv = sc_name sub \<and> well_typed inv \<and> entrypoint E (sc_name sub, m) = run_invocation E inv"
  using assms miner_typed bench_typed dispatch_typed collect_typed stat_typed
  unfolding typed_def[symmetric] by (auto simp: clap_app_def)


text \<open>The line \<open>stat --rpc-urls http://a:1 --from-number 7 --to-number 9 --stat-period-ms 1000\<close>.\<close>

definition cli_env :: "nat bench_env" where
  "cli_env = \<lparr>be_oc = True, be_crypto = toy_crypto, be_lib = toy_lib, be_clock = countdown_clock, be_os = good_os,
     be_iter = sorted_list_of_set, be_env_var = (\<lambda>_. ret None),
     be_parse_url = (\<lambda>s. if s = [] then Inl ''empty'' else Inr \<lparr>url_as_str = s, url_port = Some 1, url_host_str = Some ''a''\<rparr>),
     be_parse_privkey = (\<lambda>_. Inl ''bad''), be_parse_h256 = (\<lambda>_. Inl ''bad''), be_byte32_from_slice = (\<lambda>_. Inl ''bad''),
     be_block_size = (\<lambda>_. 0), be_spawn_live_cells = (\<lambda>_ _. ret ()), be_spawn_transactions = (\<lambda>_. ret ()),
     be_recv_transaction = (\<lambda>_. ret None)\<rparr>"

definition stat_line :: arg_matches where
  "stat_line = \<lparr>am_values_of = (\<lambda>name. if name = ''rpc-urls'' then [''http://a:1''] else if name = ''from-number'' then [''7'']
       else if name = ''to-number'' then [''9''] else if name = ''stat-period-ms'' then [''1000''] else []),
     am_is_present = (\<lambda>_. False)\<rparr>"

lemma digits_parse: "parse_u64 ''7'' = Some 7" "parse_u64 ''9'' = Some 9" "parse_u64 ''1000'' = Some 1000"
  by (simp_all add: parse_u64_def digit_value_def u64_lim_def)

theorem command_line_typed_witness:
  "\<exists>inv. invocation_name inv = ''stat'' \<and> well_typed inv \<and> entrypoint cli_env (''stat'', stat_line) = run_invocation cli_env inv"
proof -
  have "accepts cli_env clap_stat stat_line"
    by (simp add: accepts_def clap_stat_def stat_line_def valid_value_def digits_parse)
      (simp add: urls_arg_def u64_arg_def arg_with_name_def parse_url_def cli_env_def)
  from command_line_typed[OF _ this] show ?thesis by (simp add: clap_app_def clap_stat_def)
qed


section \<open>The miner\<close>

text \<open>
  \<open>blocks w\<close> counts the blocks mined in world \<open>w\<close>; in worlds that are \<open>ok\<close>, mining one more adds
  one and sleeping adds none.
\<close>

definition counts_blocks :: "chain_lib \<Rightarrow> 'w clock \<Rightarrow> ('w \<Rightarrow> nat) \<Rightarrow> ('w \<Rightarrow> bool) \<Rightarrow> 'w node list \<Rightarrow> bool" where
  "counts_blocks L clk blocks ok nodes \<longleftrightarrow> (\<forall>w. ok w \<longrightarrow>
     (\<forall>d. ok (sleep clk d w) \<and> blocks (sleep clk d w) = blocks w)
     \<and> (\<forall>node \<in> set nodes. \<exists>w'. mine L clk node 1 w = Some (Inr (), w') \<and> ok w' \<and> blocks w' = Suc (blocks w)))"

lemma mine_round_step:
  fixes node :: "'w node"
  assumes "counts_blocks L clk blocks ok (node # nodes)" and "ok w" and "Suc mined < u64_lim"
  obtains w1 where "ok w1" "blocks w1 = Suc (blocks w)"
    "mine_round oc L clk n_blocks interval mined (node # nodes) w
       = (if n_blocks \<noteq> 0 \<and> n_blocks \<le> Suc mined then Some (Inr (Inl ()), w1)
          else mine_round oc L clk n_blocks interval (Suc mined) nodes
            (if interval \<noteq> 0 then sleep clk (millis interval) w1 else w1))"
proof -
  have "\<exists>w1. mine L clk node 1 w = Some (Inr (), w1) \<and> ok w1 \<and> blocks w1 = Suc (blocks w)"
    using assms(1,2) unfolding counts_blocks_def by (meson list.set_intros(1))
  then obtain w1 where w1: "mine L clk node 1 w = Some (Inr (), w1)" "ok w1" "blocks w1 = Suc (blocks w)" by blast
  have add: "u64_add oc mined 1 = (ret (Suc mined) :: ('w, nat) cmd)" using assms(3) by (simp add: u64_add_ok)
  show thesis
  proof (rule that[OF w1(2,3)])
    show "mine_round oc L clk n_blocks interval mined (node # nodes) w
       = (if n_blocks \<noteq> 0 \<and> n_blocks \<le> Suc mined then Some (Inr (Inl ()), w1)
          else mine_round oc L clk n_blocks interval (Suc mined) nodes
            (if interval \<noteq> 0 then sleep clk (millis interval) w1 else w1))"
      unfolding mine_round.simps bindM_def[of "mine L clk node 1"] w1(1) add
      by (simp add: bindM_run sleeping_run ret_run)
  qed
qed

lemma mine_round_run:
  assumes "counts_blocks L clk blocks ok nodes" and "ok w" and "mined + length nodes < u64_lim" and "mined < n_blocks"
  shows "\<exists>r w'. mine_round oc L clk n_blocks interval mined nodes w = Some (Inr r, w') \<and> ok w' \<and> (case r of
     Inl u \<Rightarrow> blocks w' + mined = blocks w + n_blocks
   | Inr k \<Rightarrow> k = mined + length nodes \<and> k < n_blocks \<and> blocks w' = blocks w + length nodes)"
  using assms
proof (induction nodes arbitrary: mined w)
  case Nil
  then show ?case by (simp add: ret_run)
next
  case (Cons node nodes)
  have "Suc mined < u64_lim" using Cons.prems(3) by simp
  from mine_round_step[OF Cons.prems(1,2) this] obtain w1 where
    w1: "ok w1" "blocks w1 = Suc (blocks w)" "mine_round oc L clk n_blocks interval mined (node # nodes) w
       = (if n_blocks \<noteq> 0 \<and> n_blocks \<le> Suc mined then Some (Inr (Inl ()), w1)
          else mine_round oc L clk n_blocks interval (Suc mined) nodes
            (if interval \<noteq> 0 then sleep clk (millis interval) w1 else w1))" .
  show ?case
  proof (cases "n_blocks \<le> Suc mined")
    case True
    then show ?thesis using w1 Cons.prems(4) by simp
  next
    case False
    define w2 where "w2 = (if interval \<noteq> 0 then sleep clk (millis interval) w1 else w1)"
    have w2: "ok w2" "blocks w2 = Suc (blocks w)"
      using w1 Cons.prems(1) by (auto simp: w2_def counts_blocks_def)
    have "counts_blocks L clk blocks ok nodes" using Cons.prems(1) by (simp add: counts_blocks_def)
    from Cons.IH[OF this w2(1), of "Suc mined"] Cons.prems(3) False obtain r w' where
      "mine_round oc L clk n_blocks interval (Suc mined) nodes w2 = Some (Inr r, w')" "ok w'" "case r of
         Inl u \<Rightarrow> blocks w' + Suc mined = blocks w2 + n_blocks
       | Inr k \<Rightarrow> k = Suc mined + length nodes \<and> k < n_blocks \<and> blocks w' = blocks w2 + length nodes" by auto
    moreover from this have "mine_round oc L clk n_blocks interval mined (node # nodes) w = Some (Inr r, w')"
      using w1(3) False unfolding w2_def by (simp del: mine_round.simps)
    ultimately show ?thesis
      using w2(2) by (intro exI[of _ r] exI[of _ w']) (cases r, simp_all del: mine_round.simps)
  qed
qed

lemma mine_loop_run:
  assumes "counts_blocks L clk blocks ok nodes" and "n_blocks + length nodes < u64_lim" and "nodes \<noteq> []"
    and "ok w" and "mined < n_blocks"
  shows "\<exists>w'. mine_loop oc L clk n_blocks interval nodes mined w = Some (Inr (), w') \<and> blocks w' + mined = blocks w + n_blocks"
  using assms(4,5)
proof (induction "n_blocks - mined" arbitrary: mined w rule: less_induct)
  case less
  have "mined + length nodes < u64_lim" using less.prems assms(2) by auto
  from mine_round_run[OF assms(1) less.prems(1) this less.prems(2), of oc interval] obtain r w1 where
    r: "mine_round oc L clk n_blocks interval mined nodes w = Some (Inr r, w1)" "ok w1" "case r of
       Inl u \<Rightarrow> blocks w1 + mined = blocks w + n_blocks
     | Inr k \<Rightarrow> k = mined + length nodes \<and> k < n_blocks \<and> blocks w1 = blocks w + length nodes" by blast
  show ?case
  proof (cases r)
    case (Inl u)
    with r show ?thesis by (subst mine_loop.simps) (simp add: bindM_run ret_run)
  next
    case (Inr k)
    have "0 < length nodes" using assms(3) by simp
    moreover have "k = mined + length nodes" "k < n_blocks" using r(3) Inr by auto
    ultimately have "n_blocks - k < n_blocks - mined" "k < n_blocks" using less.prems by linarith+
    from less.hyps[OF this(1) r(2) this(2)] obtain w' where
      "mine_loop oc L clk n_blocks interval nodes k w1 = Some (Inr (), w')" "blocks w' + k = blocks w1 + n_blocks" by blast
    with r Inr show ?thesis by (subst mine_loop.simps) (simp add: bindM_run)
  qed
qed

text \<open>
  C39.  The miner stops after exactly \<open>n_blocks\<close> blocks, mined by the nodes in turn, also when the
  number is no multiple of the number of nodes.
\<close>

theorem miner_mines_exactly:
  assumes "counts_blocks L clk blocks ok nodes" and "n_blocks + length nodes < u64_lim" and "nodes \<noteq> []"
    and "ok w" and "0 < n_blocks"
  shows "\<exists>w'. mine_loop oc L clk n_blocks interval nodes 0 w = Some (Inr (), w') \<and> blocks w' = blocks w + n_blocks"
  using mine_loop_run[OF assms] by simp

theorem miner_mines_exactly_witness:
  "\<exists>w'. mine_loop True toy_lib toy_clock 5 100 [toy_node, toy_node] 0 \<lparr>toy_time = 0, toy_tip = 2, toy_lag = 2\<rparr> = Some (Inr (), w')
     \<and> toy_tip w' = 7"
proof -
  have "counts_blocks toy_lib toy_clock toy_tip (\<lambda>w. toy_lag w \<le> toy_tip w) [toy_node, toy_node]"
    unfolding counts_blocks_def
    using mine_advances[OF toy_pool_follows toy_solo_miner, of _ 1] by (auto simp: toy_clock_def)
  from miner_mines_exactly[OF this, of 5 "\<lparr>toy_time = 0, toy_tip = 2, toy_lag = 2\<rparr>" True 100]
  show ?thesis by (simp add: u64_lim_def)
qed

end
