(* ===== verification/Rfc0028.thy ===== *)
theory Rfc0028
  imports ScriptedLab
begin

text \<open>
  \<open>ckb-integration-test/src/case/rfc0028/\<close>: the start of a relative timestamp lock, before and after the
  hard fork (\<open>rfc0028.rs\<close>), and a chained transaction with a relative lock of zero blocks
  (\<open>chained.rs\<close>).
\<close>

section \<open>The case \<open>RFC0028\<close>\<close>

definition ERROR_IMMATURE :: string where
  "ERROR_IMMATURE = ''Immature''"

definition RFC0028_EPOCH_NUMBER :: nat where
  "RFC0028_EPOCH_NUMBER = 3"

definition rfc0028_options :: "'w case_env \<Rightarrow> case_options" where
  "rfc0028_options E = default_case_options\<lparr>cp_node_options :=
     [case_node_options ''node2021'' (ce_ckb2021 E) ''empty'' ''ckb2021'']\<rparr>"

text \<open>The chain's timestamps: the tip's, plus the number of the block.\<close>

definition construct_chain_instructions :: "'w case_env \<Rightarrow> 'w node \<Rightarrow> nat \<Rightarrow> ('w, build_instruction list) cmd" where
  "construct_chain_instructions E node2021 fork_switch_height =
     bindM (get_tip_block node2021) (\<lambda>tip_block.
     let t = hd_timestamp (bk_header tip_block) in
     bindM (get_tip_block_number node2021) (\<lambda>tip_number.
     bindM (u64_add (ce_oc E) tip_number 1) (\<lambda>start.
     mapM (\<lambda>number. bindM (u64_add (ce_oc E) t number) (\<lambda>timestamp. ret (HeaderTimestamp number timestamp)))
       [start..<fork_switch_height])))"

definition rfc0028_input_tx :: "'w case_env \<Rightarrow> 'w node \<Rightarrow> ('w, transaction) cmd" where
  "rfc0028_input_tx E node2021 =
     bindM (first_spendable E node2021) (\<lambda>input. always_success_transaction (ce_lib E) node2021 input)"

definition rfc0028_build_transaction :: "'w case_env \<Rightarrow> 'w node \<Rightarrow> transaction \<Rightarrow> 64 word \<Rightarrow> ('w, transaction) cmd" where
  "rfc0028_build_transaction E node input_tx since =
     bindM (first_spendable E node) (\<lambda>placeholder_input.
     bindM (always_success_transaction (ce_lib E) node placeholder_input) (\<lambda>tx.
     ret (tx\<lparr>tx_inputs := [cell_input_new \<lparr>op_tx_hash = hash_tx (ce_lib E) input_tx, op_index = 0\<rparr> since]\<rparr>)))"

text \<open>
  A clone commits the spending transaction \<open>back\<close> blocks before the switch.  The instructions it gets: the input's transaction committed at \<open>committed\<close>, the spending one
  at \<open>commit\<close>, each proposed two blocks before.
\<close>

definition spending_instructions ::
    "chain_lib \<Rightarrow> build_instruction list \<Rightarrow> transaction \<Rightarrow> nat \<Rightarrow> nat \<Rightarrow> transaction \<Rightarrow> nat \<Rightarrow> nat \<Rightarrow> build_instruction list" where
  "spending_instructions L chain_ins input_tx input_proposed committed tx tx_proposed commit =
     chain_ins @ [Propose input_proposed (short_id L input_tx), Commit committed input_tx]
       @ [Propose tx_proposed (short_id L tx), Commit commit tx]"

definition rfc0028_answer ::
    "'w case_env \<Rightarrow> nat \<Rightarrow> build_instruction list \<Rightarrow> transaction \<Rightarrow> 64 word \<Rightarrow> nat \<Rightarrow> nat \<Rightarrow> 'w node \<Rightarrow> ('w, string + unit) cmd" where
  "rfc0028_answer E fork_switch_height chain_ins input_tx since committed back node =
     bindM (u64_sub (ce_oc E) committed 2) (\<lambda>input_proposed.
     bindM (rfc0028_build_transaction E node input_tx since) (\<lambda>tx.
     bindM (u64_sub (ce_oc E) fork_switch_height back) (\<lambda>commit.
     bindM (u64_sub (ce_oc E) commit 2) (\<lambda>tx_proposed.
     build_with E node fork_switch_height
       (spending_instructions (ce_lib E) chain_ins input_tx input_proposed committed tx tx_proposed commit)))))"

definition cases_before_switch :: "(nat \<times> nat \<times> (string + unit)) list" where
  "cases_before_switch = [(0, 1998, Inr ()), (1, 1999, Inr ()), (2, 2000, Inl ERROR_IMMATURE)]"

definition cases_after_switch :: "(nat \<times> nat \<times> (string + unit)) list" where
  "cases_after_switch = [(3, 1980, Inr ()), (4, 1981, Inr ()), (5, 1982, Inl ERROR_IMMATURE)]"

definition rfc0028_loop ::
    "'w case_env \<Rightarrow> 'w node \<Rightarrow> nat \<Rightarrow> build_instruction list \<Rightarrow> transaction \<Rightarrow> 64 word \<Rightarrow> nat \<Rightarrow> string
      \<Rightarrow> (nat \<times> nat \<times> (string + unit)) list \<Rightarrow> ('w lab, unit) cmd" where
  "rfc0028_loop E node2021 fork_switch_height chain_ins input_tx since back tag cases =
     forM cases (\<lambda>row.
       with_node (lab_clone_node E node2021 (''case-'' @ to_decimal (fst row) @ tag)) (\<lambda>node.
       bindM (on_node (rfc0028_answer E fork_switch_height chain_ins input_tx since (fst (snd row)) back node))
         (assert_result_eq (snd (snd row)))))"

definition rfc0028_run :: "'w case_env \<Rightarrow> 'w nodes \<Rightarrow> ('w lab, unit) cmd" where
  "rfc0028_run E nodes =
     bindM (on_node (get_node nodes ''node2021'')) (\<lambda>node2021.
     bindM (on_node (estimate_start_number_of_epoch (ce_oc E) node2021 RFC0028_EPOCH_NUMBER)) (\<lambda>fork_switch_height.
     let since = since_from_relative_timestamp 1 in
     bindM (on_node (construct_chain_instructions E node2021 fork_switch_height)) (\<lambda>chain_ins.
     bindM (on_node (rfc0028_input_tx E node2021)) (\<lambda>input_tx.
     bindM (rfc0028_loop E node2021 fork_switch_height chain_ins input_tx since 1 ''-before-switch'' cases_before_switch) (\<lambda>_.
     rfc0028_loop E node2021 fork_switch_height chain_ins input_tx since 0 ''-after-switch'' cases_after_switch)))))"

definition rfc0028 :: "'w integration_case" where
  "rfc0028 = \<lparr>ic_type_name = ''ckb_integration_test::case::rfc0028::rfc0028::RFC0028'',
     ic_options = rfc0028_options, ic_run = rfc0028_run\<rparr>"

section \<open>The case \<open>RFC0028Chained\<close>\<close>

definition rfc0028_chained_options :: "'w case_env \<Rightarrow> case_options" where
  "rfc0028_chained_options E = default_case_options\<lparr>cp_node_options :=
     [case_node_options ''node2021'' (ce_ckb2021 E) ''Epoch2V2TestData'' ''ckb2021'']\<rparr>"

definition chained_instructions ::
    "'w case_env \<Rightarrow> nat \<Rightarrow> transaction \<Rightarrow> transaction \<Rightarrow> ('w, nat \<times> build_instruction list) cmd" where
  "chained_instructions E current_tip_number tx1 tx2 =
     bindM (u64_add (ce_oc E) current_tip_number 1) (\<lambda>proposed.
     bindM (u64_add (ce_oc E) current_tip_number 3) (\<lambda>committed.
     ret (committed, [Propose proposed (short_id (ce_lib E) tx1), Propose proposed (short_id (ce_lib E) tx2),
       Commit committed tx1, Commit committed tx2])))"

definition rfc0028_chained_run :: "'w case_env \<Rightarrow> 'w nodes \<Rightarrow> ('w lab, unit) cmd" where
  "rfc0028_chained_run E nodes = on_node (
     bindM (get_node nodes ''node2021'') (\<lambda>node2021.
     bindM (get_consensus node2021) (\<lambda>consensus.
     bindM (estimate_start_number_of_epoch (ce_oc E) node2021 RFC0028_EPOCH_NUMBER) (\<lambda>start.
     bindM (u64_add (ce_oc E) start (cons_median_time_block_count consensus)) (\<lambda>target.
     bindM (mine_to (ce_lib E) (ce_clock E) node2021 target) (\<lambda>_.
     bindM (first_spendable E node2021) (\<lambda>input.
     bindM (always_success_transaction (ce_lib E) node2021 input) (\<lambda>tx1.
     bindM (fresh_success_transaction E node2021 \<lparr>op_tx_hash = hash_tx (ce_lib E) tx1, op_index = 0\<rparr>
              (since_from_relative_block_number 0)) (\<lambda>tx2.
     bindM (get_tip_block_number node2021) (\<lambda>current_tip_number.
     bindM (chained_instructions E current_tip_number tx1 tx2) (\<lambda>(target, instructions).
     bindM (build_with E node2021 target instructions)
       (unwrapM ''chained transaction with since_from_relative_block_number is ok''))))))))))))"

definition rfc0028_chained :: "'w integration_case" where
  "rfc0028_chained = \<lparr>ic_type_name = ''ckb_integration_test::case::rfc0028::chained::RFC0028Chained'',
     ic_options = rfc0028_chained_options, ic_run = rfc0028_chained_run\<rparr>"

section \<open>What passing means\<close>

text \<open>
  The rule of RFC 28.  A relative timestamp lock starts at the median time of the 37 blocks up to the
  parent of the block the input was committed in, or, by the new rule, at that block's own
  timestamp; it is over when the median time up to the parent of the committing block has passed it.
\<close>

datatype lock_start = Parent_Median | Commit_Time

definition timestamp_in :: "build_instruction list \<Rightarrow> nat \<Rightarrow> nat" where
  "timestamp_in ins number =
     (case List.find (\<lambda>i. case i of HeaderTimestamp n _ \<Rightarrow> n = number | _ \<Rightarrow> False) ins of
        Some (HeaderTimestamp _ timestamp) \<Rightarrow> timestamp | _ \<Rightarrow> 0)"

definition committed_in :: "build_instruction list \<Rightarrow> transaction \<Rightarrow> nat" where
  "committed_in ins tx =
     (case List.find (\<lambda>i. case i of Commit n t \<Rightarrow> t = tx | _ \<Rightarrow> False) ins of Some i \<Rightarrow> template_number i | _ \<Rightarrow> 0)"

definition median_time :: "(nat \<Rightarrow> nat) \<Rightarrow> nat \<Rightarrow> nat" where
  "median_time timestamp number = sort (map timestamp [number - 36..<Suc number]) ! 18"

definition mature :: "lock_start \<Rightarrow> (nat \<Rightarrow> nat) \<Rightarrow> nat \<Rightarrow> nat \<Rightarrow> bool" where
  "mature start timestamp committed commit \<longleftrightarrow>
     (case start of Parent_Median \<Rightarrow> median_time timestamp (committed - 1) | Commit_Time \<Rightarrow> timestamp committed) + 1000
       \<le> median_time timestamp (commit - 1)"

definition lock_rule ::
    "lock_start \<Rightarrow> lock_start \<Rightarrow> nat \<Rightarrow> string \<Rightarrow> transaction \<Rightarrow> transaction \<Rightarrow> build_instruction list \<Rightarrow> string + unit" where
  "lock_rule before after fork err input_tx tx ins =
     (let commit = committed_in ins tx in
      if mature (if commit < fork then before else after) (timestamp_in ins) (committed_in ins input_tx) commit
      then Inr () else Inl err)"

lemma median_of_growing:
  assumes "\<And>n. number - 36 \<le> n \<Longrightarrow> n \<le> number \<Longrightarrow> timestamp n = t + n" and "36 \<le> number"
  shows "median_time timestamp number = t + (number - 18)"
proof -
  have "map timestamp [number - 36..<Suc number] = map ((+) t) [number - 36..<Suc number]"
    using assms(1) by (intro map_cong) auto
  moreover have "sorted (map ((+) t) [number - 36..<Suc number])"
    by (intro sorted_map[THEN iffD2] sorted_wrt_mono_rel[OF _ sorted_upt]) auto
  ultimately have "median_time timestamp number = map ((+) t) [number - 36..<Suc number] ! 18"
    by (simp only: median_time_def sorted_sort_id)
  also have "\<dots> = t + ([number - 36..<Suc number] ! 18)"
    using assms(2) by (intro nth_map) simp
  also have "[number - 36..<Suc number] ! 18 = number - 36 + 18"
    using assms(2) by (intro nth_upt) simp
  finally show ?thesis using assms(2) by simp
qed

text \<open>The timestamps the case sets, and what the rule says about the case's instructions.\<close>

definition case_chain :: "nat \<Rightarrow> nat \<Rightarrow> build_instruction list" where
  "case_chain t tip_number = map (\<lambda>n. HeaderTimestamp n (t + n)) [Suc tip_number..<3000]"

definition case_ins :: "chain_lib \<Rightarrow> nat \<Rightarrow> nat \<Rightarrow> transaction \<Rightarrow> transaction \<Rightarrow> nat \<Rightarrow> nat \<Rightarrow> build_instruction list" where
  "case_ins L t tip_number input_tx tx committed commit =
     spending_instructions L (case_chain t tip_number) input_tx (committed - 2) committed tx (commit - 2) commit"

lemma case_chain_set:
  "i \<in> set (case_chain t tip_number) \<Longrightarrow> tip_number < template_number i \<and> template_number i < 3000 \<and> plain_instruction i"
  unfolding case_chain_def set_map set_upt by (auto simp: plain_instruction_def)

lemma find_timestamp:
  assumes "a \<le> n" and "n < b"
  shows "List.find (\<lambda>i. case i of HeaderTimestamp m _ \<Rightarrow> m = n | _ \<Rightarrow> False)
     (map (\<lambda>n. HeaderTimestamp n (t + n)) [a..<b] @ rest) = Some (HeaderTimestamp n (t + n))"
  using assms
proof (induction "b - a" arbitrary: a)
  case 0
  then show ?case by simp
next
  case (Suc k)
  show ?case
  proof (cases "a = n")
    case True
    with Suc.prems show ?thesis by (simp add: upt_conv_Cons)
  next
    case False
    with Suc.hyps(1)[of "Suc a"] Suc.hyps(2) Suc.prems show ?thesis by (simp add: upt_conv_Cons)
  qed
qed

lemma timestamp_in_case:
  assumes "tip_number < n" and "n < 3000"
  shows "timestamp_in (case_ins L t tip_number input_tx tx committed commit) n = t + n"
  using assms find_timestamp[of "Suc tip_number" n 3000 t]
  by (simp add: timestamp_in_def case_ins_def spending_instructions_def case_chain_def)

lemma find_skips_chain:
  "List.find (\<lambda>i. case i of Commit n u \<Rightarrow> u = x | _ \<Rightarrow> False) (map (\<lambda>n. HeaderTimestamp n (t + n)) ns @ rest)
     = List.find (\<lambda>i. case i of Commit n u \<Rightarrow> u = x | _ \<Rightarrow> False) rest"
  by (induction ns) auto

lemma committed_in_case:
  assumes "input_tx \<noteq> tx"
  shows "committed_in (case_ins L t tip_number input_tx tx committed commit) input_tx = committed"
    and "committed_in (case_ins L t tip_number input_tx tx committed commit) tx = commit"
  using assms by (auto simp: committed_in_def case_ins_def spending_instructions_def case_chain_def find_skips_chain)

lemma mature_in_case:
  assumes "tip_number + 37 < committed" and "committed < commit" and "commit \<le> 3000"
  shows "mature start (timestamp_in (case_ins L t tip_number input_tx tx committed commit)) committed commit \<longleftrightarrow>
     (case start of Parent_Median \<Rightarrow> committed - 19 | Commit_Time \<Rightarrow> committed) + 1000 \<le> commit - 19"
proof -
  let ?ts = "timestamp_in (case_ins L t tip_number input_tx tx committed commit)"
  have m: "median_time ?ts (n - 1) = t + (n - 19)" if "tip_number + 37 < n" "n \<le> 3000" for n
    using that by (subst median_of_growing[where t = t]) (auto intro!: timestamp_in_case)
  have "?ts committed = t + committed" using assms by (intro timestamp_in_case) auto
  then show ?thesis
    using m[of committed] m[of commit] assms by (cases start) (auto simp: mature_def)
qed

lemma lock_rule_case:
  assumes "input_tx \<noteq> tx" and "tip_number + 37 < committed" and "committed < commit" and "commit \<le> 3000"
  shows "lock_rule before after 3000 err input_tx tx (case_ins L t tip_number input_tx tx committed commit) =
     (if (case if commit < 3000 then before else after of Parent_Median \<Rightarrow> committed - 19 | Commit_Time \<Rightarrow> committed) + 1000 \<le> commit - 19
      then Inr () else Inl err)"
  using mature_in_case[OF assms(2-4)] by (simp add: lock_rule_def committed_in_case[OF assms(1)])

lemma before_rows:
  assumes "str_contains ERROR_IMMATURE err" and "input_tx \<noteq> tx" and "tip_number \<le> 1900"
  shows "(\<forall>row \<in> set cases_before_switch. results_match (snd (snd row))
      (lock_rule before after 3000 err input_tx tx (case_ins L t tip_number input_tx tx (fst (snd row)) 2999)))
    \<longleftrightarrow> before = Parent_Median"
  using assms by (cases before) (simp_all add: cases_before_switch_def lock_rule_case)

lemma after_rows:
  assumes "str_contains ERROR_IMMATURE err" and "input_tx \<noteq> tx" and "tip_number \<le> 1900"
  shows "(\<forall>row \<in> set cases_after_switch. results_match (snd (snd row))
      (lock_rule before after 3000 err input_tx tx (case_ins L t tip_number input_tx tx (fst (snd row)) 3000)))
    \<longleftrightarrow> after = Commit_Time"
  using assms by (cases after) (simp_all add: cases_after_switch_def lock_rule_case)

lemma chain_instructions_answer:
  fixes nd :: "'w node"
  assumes "answers_in I (on_node (get_tip_block nd)) tip_block" and "answers_in I (on_node (get_tip_block_number nd)) tip_number"
    and "hd_timestamp (bk_header tip_block) + 3000 < u64_lim" and "tip_number \<le> 1900"
  shows "answers_in I (on_node (construct_chain_instructions E nd 3000)) (case_chain (hd_timestamp (bk_header tip_block)) tip_number)"
proof -
  let ?t = "hd_timestamp (bk_header tip_block)"
  have "list_all2 (\<lambda>number i. bindM (u64_add (ce_oc E) ?t number) (\<lambda>timestamp. ret (HeaderTimestamp number timestamp)) = (ret i :: ('w, _) cmd))
      [Suc tip_number..<3000] (map (\<lambda>n. HeaderTimestamp n (?t + n)) [Suc tip_number..<3000])"
    using assms(3) by (auto simp: list_all2_conv_all_nth u64_add_ok)
  then have "mapM (\<lambda>number. bindM (u64_add (ce_oc E) ?t number) (\<lambda>timestamp. ret (HeaderTimestamp number timestamp)))
      [Suc tip_number..<3000] = (ret (case_chain ?t tip_number) :: ('w, _) cmd)"
    unfolding case_chain_def by (rule mapM_ret)
  moreover have "u64_add (ce_oc E) tip_number 1 = (ret (Suc tip_number) :: ('w, nat) cmd)"
    using assms(4) by (subst u64_add_ok) (auto simp: u64_lim_def)
  ultimately show ?thesis
    unfolding construct_chain_instructions_def Let_def on_node_bindM
    by (intro answers_in_bindM[OF assms(1)] answers_in_bindM[OF assms(2)]) simp
qed

interpretation rfc28_table: table_case
  "\<lambda>row. with_node (lab_clone_node E nd (''case-'' @ to_decimal (fst row) @ tag))
     (\<lambda>node. bindM (on_node (rfc0028_answer E fork chain_ins input_tx since (fst (snd row)) behind node)) (assert_result_eq (snd (snd row))))"
  "\<lambda>row. with_node (lab_clone_node E nd (''case-'' @ to_decimal (fst row) @ tag))
     (\<lambda>node. on_node (rfc0028_answer E fork chain_ins input_tx since (fst (snd row)) behind node))"
  "\<lambda>row. results_match (snd (snd row))"
  for E nd tag fork chain_ins input_tx since behind
  by unfold_locales (rule with_node_compares)


text \<open>
  Nodes that follow the rule with either start, for the witness: which clones refuse, by the number
  and the side in the clone's name.
\<close>

definition clone_dir :: "string \<Rightarrow> nat \<Rightarrow> string" where
  "clone_dir tag i = str_join ''-'' [''ckb-it'', ''cloned_node'', ''case-'' @ to_decimal i @ tag, []]"

definition lock_refuses :: "lock_start \<Rightarrow> lock_start \<Rightarrow> string \<Rightarrow> bool" where
  "lock_refuses start start' p \<longleftrightarrow>
     (p ! 24 = CHR ''2'' \<or> p ! 24 \<in> {CHR ''0'', CHR ''1''} \<and> start = Commit_Time)
     \<or> p ! 24 = CHR ''5'' \<and> start' = Commit_Time"

lemma to_decimal_row: "to_decimal 0 = ''0''" "to_decimal 1 = ''1''" "to_decimal (Suc 0) = ''1''" "to_decimal 2 = ''2''"
  "to_decimal 3 = ''3''" "to_decimal 4 = ''4''" "to_decimal 5 = ''5''"
  by (simp_all add: to_decimal.simps digit_char_def) (simp_all add: char_of_def bit_0)

lemma clone_dir_digit:
  assumes "i < 10"
  shows "clone_dir tag i ! 24 = hd (to_decimal i)"
proof -
  have "to_decimal i \<noteq> []" by (subst to_decimal.simps) simp
  then obtain c cs where "to_decimal i = c # cs" by (cases "to_decimal i") auto
  then show ?thesis by (simp add: clone_dir_def)
qed

lemma lock_refuses_rows:
  "\<forall>row \<in> set cases_before_switch. lock_refuses start start' (clone_dir ''-before-switch'' (fst row)) \<longleftrightarrow>
     (start = Commit_Time \<or> fst (snd row) = 2000)"
  "\<forall>row \<in> set cases_after_switch. lock_refuses start start' (clone_dir ''-after-switch'' (fst row)) \<longleftrightarrow>
     (start' = Commit_Time \<and> fst (snd row) = 1982)"
  by (simp_all add: cases_before_switch_def cases_after_switch_def lock_refuses_def clone_dir_digit to_decimal_row)

definition the_input_tx :: transaction where
  "the_input_tx = empty_transaction\<lparr>tx_inputs := [cell_input_new \<lparr>op_tx_hash = 7, op_index = 0\<rparr> 0],
     tx_outputs := [lc_cell_output the_cell], tx_outputs_data := [[]],
     tx_cell_deps := [\<lparr>cd_out_point = \<lparr>op_tx_hash = 0, op_index = 5\<rparr>, cd_dep_type = Code\<rparr>]\<rparr>"

lemma lock_question:
  fixes start start'
  defines "E \<equiv> script_env (lock_refuses start start') ERROR_IMMATURE 1900"
  assumes "scripted ERROR_IMMATURE 1900 node" and "1910 < committed" and "committed < 2900" and "back \<le> 1"
  shows "rfc0028_answer E 3000 (case_chain 0 1900) the_input_tx since committed back node w
     = Some (Inr (if w = 0 then Inl (''failed to send block, error: '' @ ERROR_IMMATURE) else Inr ()), max 1 w)"
    and "rfc0028_input_tx E node = ret the_input_tx"
proof -
  have E: "ce_lib E = toy_lib" "ce_oc E" by (simp_all add: E_def)
  have cell: "first_spendable E node = ret the_cell_meta" "always_success_transaction toy_lib node the_cell_meta = ret the_input_tx"
    using script_first_spendable[OF assms(2) E(1)] script_spendable(3)[OF assms(2)]
    by (simp_all add: always_success_transaction_def the_input_tx_def the_cell_meta_def)
  then show "rfc0028_input_tx E node = ret the_input_tx" by (simp add: rfc0028_input_tx_def E(1))
  let ?tx = "the_input_tx\<lparr>tx_inputs := [cell_input_new \<lparr>op_tx_hash = hash_tx toy_lib the_input_tx, op_index = 0\<rparr> since]\<rparr>"
  let ?ins = "spending_instructions toy_lib (case_chain 0 1900) the_input_tx (committed - 2) committed ?tx (3000 - back - 2) (3000 - back)"
  have "build_with E node 3000 ?ins w = Some (Inr (if w = 0 then Inl (''failed to send block, error: '' @ ERROR_IMMATURE) else Inr ()), max 1 w)"
  proof (rule script_build[OF assms(2) E(1)])
    show "\<forall>i \<in> set ?ins. 1900 < template_number i \<and> template_number i \<le> 3000" "\<forall>i \<in> set ?ins. plain_instruction i"
      using assms(3-5) case_chain_set[of _ 0 1900] unfolding spending_instructions_def
      by (force simp: plain_instruction_def)+
  qed simp_all
  moreover have "u64_sub (ce_oc E) a b = (ret (a - b) :: (nat, nat) cmd)" if "b \<le> a" "a < u64_lim" for a b
    using that by (rule u64_sub_ok)
  ultimately show "rfc0028_answer E 3000 (case_chain 0 1900) the_input_tx since committed back node w
     = Some (Inr (if w = 0 then Inl (''failed to send block, error: '' @ ERROR_IMMATURE) else Inr ()), max 1 w)"
    using cell assms(3-5) by (simp add: rfc0028_answer_def rfc0028_build_transaction_def E(1) u64_lim_def)
qed

text \<open>One row: the clone's answer is the rule's when the clone refuses exactly where the rule does.\<close>

lemma lock_row:
  fixes start start'
  defines "E \<equiv> script_env (lock_refuses start start') ERROR_IMMATURE 1900"
  assumes nd: "scripted ERROR_IMMATURE 1900 nd" and b: "1937 < committed" "committed < 2900" "back \<le> 1" and tx: "the_input_tx \<noteq> tx"
    and refuse: "lock_refuses start start' (clone_dir tag i) \<longleftrightarrow>
      lock_rule start start' 3000 err the_input_tx tx (case_ins toy_lib 0 1900 the_input_tx tx committed (3000 - back)) \<noteq> Inr ()"
    and err: "err = ''failed to send block, error: '' @ ERROR_IMMATURE"
  shows "answers_in (\<lambda>_. True) (with_node (lab_clone_node E nd (''case-'' @ to_decimal i @ tag))
      (\<lambda>node. on_node (rfc0028_answer E 3000 (case_chain 0 1900) the_input_tx (since_from_relative_timestamp 1) committed back node)))
    (lock_rule start start' 3000 err the_input_tx tx (case_ins toy_lib 0 1900 the_input_tx tx committed (3000 - back)))"
proof -
  have "lock_rule start start' 3000 err the_input_tx tx (case_ins toy_lib 0 1900 the_input_tx tx committed (3000 - back))
     = (if lock_refuses start start' (clone_dir tag i) then Inl err else Inr ())"
    using refuse by (auto simp: lock_rule_def Let_def split: if_splits)
  moreover have "rfc0028_answer E 3000 (case_chain 0 1900) the_input_tx (since_from_relative_timestamp 1) committed back node
      (if lock_refuses start start' (clone_dir tag i) then 0 else 1)
    = Some (Inr (if lock_refuses start start' (clone_dir tag i) then Inl err else Inr ()), 1)" if "scripted ERROR_IMMATURE 1900 node" for node
    using lock_question(1)[OF that _ b(2,3), of start start'] b(1) unfolding E_def err by simp
  ultimately show ?thesis
    unfolding E_def clone_dir_def by (simp only:) (rule script_question[OF nd])
qed


end
