(* ===== verification/Rfc0029.thy ===== *)
theory Rfc0029
  imports ScriptedLab
begin

text \<open>
  \<open>ckb-integration-test/src/case/rfc0029/rfc0029.rs\<close>: scripts that match more than one of a transaction's
  cell dependencies, before and after the hard fork.
\<close>

section \<open>The table\<close>

definition RFC0029_EPOCH_NUMBER :: nat where
  "RFC0029_EPOCH_NUMBER = 3"

definition RFC0029_BLOCK_NUMBER :: nat where
  "RFC0029_BLOCK_NUMBER = 3000"

definition ERROR_MULTIPLE_MATCHES :: string where
  "ERROR_MULTIPLE_MATCHES = ''MultipleMatches''"

definition ERROR_DUPLICATE_CELL_DEPS :: string where
  "ERROR_DUPLICATE_CELL_DEPS = ''DuplicateCellDeps''"

record params_0029 =
  p29_id :: nat
  p29_height :: nat
  p29_script_hash_type :: script_hash_type
  p29_cell_deps :: "string list"
  p29_expected_result :: "string + unit"

definition rfc0029_before_data :: "params_0029 list" where
  "rfc0029_before_data = (let row = (\<lambda>id deps expected. \<lparr>p29_id = id, p29_height = RFC0029_BLOCK_NUMBER - 1, p29_script_hash_type = Data, p29_cell_deps = deps, p29_expected_result = expected\<rparr>) in
    [row 0 [''a1''] (Inr ()),
     row 1 [''a1'', ''a1''] (Inl ERROR_DUPLICATE_CELL_DEPS),
     row 2 [''a1'', ''a2''] (Inr ()),
     row 3 [''a1'', ''b1''] (Inr ()),
     row 4 [''group_a1''] (Inr ()),
     row 5 [''group_a1_a1''] (Inr ()),
     row 6 [''group_a1_a2''] (Inr ()),
     row 7 [''group_a1_b1''] (Inr ()),
     row 8 [''group_a1'', ''a1''] (Inr ()),
     row 9 [''group_a1'', ''a2''] (Inr ()),
     row 10 [''group_a1'', ''b1''] (Inr ()),
     row 11 [''group_a1'', ''group_a2''] (Inr ()),
     row 12 [''group_a1'', ''group_b1''] (Inr ())])"

definition rfc0029_before_type :: "params_0029 list" where
  "rfc0029_before_type = (let row = (\<lambda>id deps expected. \<lparr>p29_id = id, p29_height = RFC0029_BLOCK_NUMBER - 1, p29_script_hash_type = Type, p29_cell_deps = deps, p29_expected_result = expected\<rparr>) in
    [row 13 [''a1''] (Inr ()),
     row 14 [''a1'', ''a1''] (Inl ERROR_DUPLICATE_CELL_DEPS),
     row 15 [''a1'', ''a2''] (Inl ERROR_MULTIPLE_MATCHES),
     row 16 [''a1'', ''b1''] (Inl ERROR_MULTIPLE_MATCHES),
     row 17 [''group_a1''] (Inr ()),
     row 18 [''group_a1_a1''] (Inl ERROR_MULTIPLE_MATCHES),
     row 19 [''group_a1_a2''] (Inl ERROR_MULTIPLE_MATCHES),
     row 20 [''group_a1_b1''] (Inl ERROR_MULTIPLE_MATCHES),
     row 21 [''group_a1'', ''a1''] (Inl ERROR_MULTIPLE_MATCHES),
     row 22 [''group_a1'', ''a2''] (Inl ERROR_MULTIPLE_MATCHES),
     row 23 [''group_a1'', ''b1''] (Inl ERROR_MULTIPLE_MATCHES),
     row 24 [''group_a1'', ''group_a2''] (Inl ERROR_MULTIPLE_MATCHES),
     row 25 [''group_a1'', ''group_b1''] (Inl ERROR_MULTIPLE_MATCHES)])"

definition rfc0029_after_data :: "params_0029 list" where
  "rfc0029_after_data = (let row = (\<lambda>id deps expected. \<lparr>p29_id = id, p29_height = RFC0029_BLOCK_NUMBER, p29_script_hash_type = Data, p29_cell_deps = deps, p29_expected_result = expected\<rparr>) in
    [row 26 [''a1''] (Inr ()),
     row 27 [''a1'', ''a1''] (Inl ERROR_DUPLICATE_CELL_DEPS),
     row 28 [''a1'', ''a2''] (Inr ()),
     row 29 [''a1'', ''b1''] (Inr ()),
     row 30 [''group_a1''] (Inr ()),
     row 31 [''group_a1_a1''] (Inr ()),
     row 32 [''group_a1_a2''] (Inr ()),
     row 33 [''group_a1_b1''] (Inr ()),
     row 34 [''group_a1'', ''a1''] (Inr ()),
     row 35 [''group_a1'', ''a2''] (Inr ()),
     row 36 [''group_a1'', ''b1''] (Inr ()),
     row 37 [''group_a1'', ''group_a2''] (Inr ()),
     row 38 [''group_a1'', ''group_b1''] (Inr ())])"

definition rfc0029_after_type :: "params_0029 list" where
  "rfc0029_after_type = (let row = (\<lambda>id deps expected. \<lparr>p29_id = id, p29_height = RFC0029_BLOCK_NUMBER, p29_script_hash_type = Type, p29_cell_deps = deps, p29_expected_result = expected\<rparr>) in
    [row 39 [''a1''] (Inr ()),
     row 40 [''a1'', ''a1''] (Inl ERROR_DUPLICATE_CELL_DEPS),
     row 41 [''a1'', ''a2''] (Inr ()),
     row 42 [''a1'', ''b1''] (Inl ERROR_MULTIPLE_MATCHES),
     row 43 [''group_a1''] (Inr ()),
     row 44 [''group_a1_a1''] (Inr ()),
     row 45 [''group_a1_a2''] (Inr ()),
     row 46 [''group_a1_b1''] (Inl ERROR_MULTIPLE_MATCHES),
     row 47 [''group_a1'', ''a1''] (Inr ()),
     row 48 [''group_a1'', ''a2''] (Inr ()),
     row 49 [''group_a1'', ''b1''] (Inl ERROR_MULTIPLE_MATCHES),
     row 50 [''group_a1'', ''group_a2''] (Inr ()),
     row 51 [''group_a1'', ''group_b1''] (Inl ERROR_MULTIPLE_MATCHES)])"

definition rfc0029_cases_params :: "params_0029 list" where
  "rfc0029_cases_params = rfc0029_before_data @ rfc0029_before_type @ rfc0029_after_data @ rfc0029_after_type"

section \<open>The case\<close>

definition rfc0029_options :: "'w case_env \<Rightarrow> case_options" where
  "rfc0029_options E = default_case_options\<lparr>cp_node_options :=
     [case_node_options ''node2021'' (ce_ckb2021 E) ''Epoch2V2TestData'' ''ckb2021'']\<rparr>"

text \<open>The cells \<open>a1\<close>, \<open>a2\<close> and \<open>b1\<close>: a compiled script as data, all three under the same type script.\<close>

definition deploy_code :: "'w case_env \<Rightarrow> 'w node \<Rightarrow> script \<Rightarrow> string \<times> string \<Rightarrow> deployer \<Rightarrow> ('w, deployer) cmd" where
  "deploy_code E node type_script = (\<lambda>(cell_name, file) d.
     let output_data = cl_file (ce_types E) (''testdata/spec/ckb2021/cells/'' @ file) in
     bindM (always_success_script (ce_lib E) node) (\<lambda>lock.
     bindM (capacity_of_bytes (length output_data)) (\<lambda>_.
     bindM (exact_output E lock (Some type_script) (length output_data)) (\<lambda>output.
     deploy E d node cell_name output output_data))))"

text \<open>A dependency group: a cell whose data are the out points of its members.\<close>

definition deploy_group :: "'w case_env \<Rightarrow> 'w node \<Rightarrow> string \<times> string list \<Rightarrow> deployer \<Rightarrow> ('w, deployer) cmd" where
  "deploy_group E node = (\<lambda>(cell_name, members) d.
     bindM (mapM (deployed_out_point d) members) (\<lambda>out_points.
     let output_data = cl_out_points (ce_types E) out_points in
     bindM (always_success_script (ce_lib E) node) (\<lambda>lock.
     bindM (capacity_of_bytes (length output_data)) (\<lambda>_.
     bindM (exact_output E lock None (length output_data)) (\<lambda>output.
     deploy E d node cell_name output output_data)))))"

definition rfc0029_codes :: "(string \<times> string) list" where
  "rfc0029_codes = [(''a1'', ''always_success''), (''a2'', ''always_success''), (''b1'', ''another_always_success'')]"

definition rfc0029_groups :: "(string \<times> string list) list" where
  "rfc0029_groups =
    [(''group_a1'', [''a1'']), (''group_a2'', [''a2'']), (''group_b1'', [''b1'']),
     (''group_a1_a1'', [''a1'', ''a1'']), (''group_a1_a2'', [''a1'', ''a2'']), (''group_a1_b1'', [''a1'', ''b1''])]"

definition rfc0029_deploy :: "'w case_env \<Rightarrow> 'w node \<Rightarrow> script \<Rightarrow> ('w, deployer) cmd" where
  "rfc0029_deploy E node2021 type_script =
     bindM (foldM (\<lambda>d c. deploy_code E node2021 type_script c d) deployer_new rfc0029_codes) (\<lambda>d.
     foldM (\<lambda>d g. deploy_group E node2021 g d) d rfc0029_groups)"

record setup_0029 =
  s29_deployer :: deployer
  s29_data_hash :: byte32
  s29_type_hash :: byte32
  s29_input :: cell_meta

definition NO_MATTER :: bytes where \<comment> \<open>\<open>"no-matter".pack()\<close>\<close>
  "NO_MATTER = map (\<lambda>c. of_nat (of_char c)) ''no-matter''"

definition rfc0029_setup :: "'w case_env \<Rightarrow> 'w node \<Rightarrow> ('w, setup_0029) cmd" where
  "rfc0029_setup E node2021 =
     bindM (always_success_script (ce_lib E) node2021) (\<lambda>success.
     let type_script = success\<lparr>script_args := NO_MATTER\<rparr> in
     bindM (rfc0029_deploy E node2021 type_script) (\<lambda>d.
     bindM (deployed_data_hash E node2021 d ''a1'') (\<lambda>code_hash_via_data_hash.
     let code_hash_via_type_hash = hash_script (ce_lib E) type_script in
     bindM (get_tip_block node2021) (\<lambda>tip_block.
     bindM (assertM (ep_number (hd_epoch (bk_header tip_block)) < RFC0029_EPOCH_NUMBER)
        ''assertion failed: node2021.get_tip_block().epoch().number() < RFC0029_EPOCH_NUMBER'') (\<lambda>_.
     bindM (first_spendable E node2021) (\<lambda>input.
     ret \<lparr>s29_deployer = d, s29_data_hash = code_hash_via_data_hash, s29_type_hash = code_hash_via_type_hash,
       s29_input = input\<rparr>))))))"

text \<open>A dependency on a deployed cell: a group when its name says so.\<close>

definition named_cell_dep :: "deployer \<Rightarrow> string \<Rightarrow> ('w, cell_dep) cmd" where
  "named_cell_dep d cell_name =
     bindM (deployed_cell d cell_name) (\<lambda>cell_meta.
     ret \<lparr>cd_out_point = cm_out_point cell_meta, cd_dep_type = (if str_contains ''group'' cell_name then DepGroup else Code)\<rparr>)"

definition rfc0029_build_transaction :: "'w case_env \<Rightarrow> 'w node \<Rightarrow> setup_0029 \<Rightarrow> script_hash_type \<Rightarrow> string list \<Rightarrow> ('w, transaction) cmd" where
  "rfc0029_build_transaction E node s ht str_cell_deps =
     bindM (case ht of Data \<Rightarrow> ret (s29_data_hash s) | Type \<Rightarrow> ret (s29_type_hash s)
         | Data1 \<Rightarrow> panicking ''internal error: entered unreachable code'') (\<lambda>h.
     let type_script = default_script\<lparr>hash_type := ht, code_hash := h\<rparr> in
     bindM (always_success_script (ce_lib E) node) (\<lambda>lock.
     bindM (exact_output E lock (Some type_script) 0) (\<lambda>output.
     bindM (always_success_cell_dep (ce_lib E) node) (\<lambda>dep.
     bindM (mapM (named_cell_dep (s29_deployer s)) str_cell_deps) (\<lambda>deps.
     ret (empty_transaction\<lparr>tx_inputs := [cell_input_new (cm_out_point (s29_input s)) 0], tx_outputs := [output],
       tx_outputs_data := [[]], tx_cell_deps := dep # deps\<rparr>))))))"

definition rfc0029_answer :: "'w case_env \<Rightarrow> 'w node \<Rightarrow> setup_0029 \<Rightarrow> params_0029 \<Rightarrow> 'w node \<Rightarrow> ('w, string + unit) cmd" where
  "rfc0029_answer E node2021 s p node =
     bindM (rfc0029_build_transaction E node2021 s (p29_script_hash_type p) (p29_cell_deps p)) (commit_at E node (p29_height p))"

definition rfc0029_run :: "'w case_env \<Rightarrow> 'w nodes \<Rightarrow> ('w lab, unit) cmd" where
  "rfc0029_run E nodes =
     bindM (on_node (get_node nodes ''node2021'')) (\<lambda>node2021.
     bindM (on_node (rfc0029_setup E node2021)) (\<lambda>s.
     forM rfc0029_cases_params (\<lambda>p.
       with_node (pulled_clone E node2021 (case_node_name (p29_id p))) (\<lambda>node.
         bindM (on_node (rfc0029_answer E node2021 s p node)) (assert_result_eq (p29_expected_result p))))))"

definition rfc0029 :: "'w integration_case" where
  "rfc0029 = \<lparr>ic_type_name = ''ckb_integration_test::case::rfc0029::rfc0029::RFC0029'',
     ic_options = rfc0029_options, ic_run = rfc0029_run\<rparr>"

section \<open>What passing means\<close>

text \<open>
  The rule.  When a type script names its code by type hash, more than one of the cells its dependencies
  resolve to may match; whether that is refused may depend on their number, on how many different cells
  they are, or on how many different codes they hold.  A dependency listed twice is refused in any case.
\<close>

datatype ambiguity = By_Count | By_Cell | By_Data

definition dep_cells :: "string \<Rightarrow> string list" where
  "dep_cells name = (case map_of rfc0029_groups name of Some members \<Rightarrow> members | None \<Rightarrow> [name])"

fun ambiguous :: "ambiguity \<Rightarrow> string list \<Rightarrow> bool" where
  "ambiguous By_Count cells \<longleftrightarrow> 1 < length cells"
| "ambiguous By_Cell cells \<longleftrightarrow> 1 < length (remdups cells)"
| "ambiguous By_Data cells \<longleftrightarrow> 1 < length (remdups (map (map_of rfc0029_codes) cells))"

definition match_rule :: "nat \<Rightarrow> ambiguity \<Rightarrow> ambiguity \<Rightarrow> (string \<Rightarrow> string) \<Rightarrow> params_0029 \<Rightarrow> string + unit" where
  "match_rule h before after say p =
     (if \<not> distinct (p29_cell_deps p) then Inl (say ERROR_DUPLICATE_CELL_DEPS)
      else if p29_script_hash_type p = Type \<and>
        ambiguous (if p29_height p < h then before else after) (concat (map dep_cells (p29_cell_deps p)))
      then Inl (say ERROR_MULTIPLE_MATCHES) else Inr ())"

lemma data_rows:
  assumes "\<And>e. e \<in> {ERROR_MULTIPLE_MATCHES, ERROR_DUPLICATE_CELL_DEPS} \<Longrightarrow> str_contains e (say e)"
  shows "\<forall>p \<in> set (rfc0029_before_data @ rfc0029_after_data). results_match (p29_expected_result p) (match_rule h before after say p)"
  using assms by (simp add: rfc0029_before_data_def rfc0029_after_data_def match_rule_def Let_def)

lemma dep_cells_names:
  "dep_cells ''a1'' = [''a1'']" "dep_cells ''a2'' = [''a2'']" "dep_cells ''b1'' = [''b1'']"
  "dep_cells ''group_a1'' = [''a1'']" "dep_cells ''group_a2'' = [''a2'']" "dep_cells ''group_b1'' = [''b1'']"
  "dep_cells ''group_a1_a1'' = [''a1'', ''a1'']" "dep_cells ''group_a1_a2'' = [''a1'', ''a2'']"
  "dep_cells ''group_a1_b1'' = [''a1'', ''b1'']"
  by (simp_all add: dep_cells_def rfc0029_groups_def)

lemma before_type_rows:
  assumes "\<And>e. e \<in> {ERROR_MULTIPLE_MATCHES, ERROR_DUPLICATE_CELL_DEPS} \<Longrightarrow> str_contains e (say e)"
  shows "(\<forall>p \<in> set rfc0029_before_type. results_match (p29_expected_result p) (match_rule h before after say p)) \<longleftrightarrow>
     (if 2999 < h then before else after) = By_Count"
  using assms
  by (cases before; cases after; cases "2999 < h")
     (simp_all add: rfc0029_before_type_def match_rule_def Let_def RFC0029_BLOCK_NUMBER_def dep_cells_names rfc0029_codes_def)

lemma after_type_rows:
  assumes "\<And>e. e \<in> {ERROR_MULTIPLE_MATCHES, ERROR_DUPLICATE_CELL_DEPS} \<Longrightarrow> str_contains e (say e)"
  shows "(\<forall>p \<in> set rfc0029_after_type. results_match (p29_expected_result p) (match_rule h before after say p)) \<longleftrightarrow>
     (if 3000 < h then before else after) = By_Data"
  using assms
  by (cases before; cases after; cases "3000 < h")
     (simp_all add: rfc0029_after_type_def match_rule_def Let_def RFC0029_BLOCK_NUMBER_def dep_cells_names rfc0029_codes_def)

lemma rfc0029_rows:
  assumes "\<And>e. e \<in> {ERROR_MULTIPLE_MATCHES, ERROR_DUPLICATE_CELL_DEPS} \<Longrightarrow> str_contains e (say e)"
  shows "(\<forall>p \<in> set rfc0029_cases_params. results_match (p29_expected_result p) (match_rule h before after say p)) \<longleftrightarrow>
     h = 3000 \<and> before = By_Count \<and> after = By_Data"
proof -
  have "(\<forall>p \<in> set rfc0029_cases_params. results_match (p29_expected_result p) (match_rule h before after say p)) \<longleftrightarrow>
     (if 2999 < h then before else after) = By_Count \<and> (if 3000 < h then before else after) = By_Data"
    using data_rows[OF assms] before_type_rows[OF assms] after_type_rows[OF assms]
    unfolding rfc0029_cases_params_def set_append ball_Un by blast
  then show ?thesis by auto
qed

text \<open>The transaction of a row depends on the deployed cells the row names, groups as groups.\<close>

lemma named_cell_deps:
  "set names \<subseteq> dom d \<Longrightarrow> mapM (named_cell_dep d) names = ret (map (\<lambda>n. \<lparr>cd_out_point = cm_out_point (the (d n)),
      cd_dep_type = (if str_contains ''group'' n then DepGroup else Code)\<rparr>) names)"
  by (induction names) (auto simp: named_cell_dep_def deployed_cell_Some)

lemma rfc0029_transaction:
  fixes node :: "'w node"
  assumes "always_success_script (ce_lib E) node = ret lock" and "always_success_cell_dep (ce_lib E) node = ret dep"
    and "cl_exact_capacity (ce_types E) \<lparr>co_capacity = 0, co_lock = lock, co_type = Some \<lparr>code_hash = s29_type_hash s,
          hash_type = Type, script_args = []\<rparr>\<rparr> 0 = Inr capacity"
    and "set names \<subseteq> dom (s29_deployer s)"
  shows "rfc0029_build_transaction E node s Type names = (ret (empty_transaction\<lparr>
      tx_inputs := [cell_input_new (cm_out_point (s29_input s)) 0],
      tx_outputs := [\<lparr>co_capacity = capacity, co_lock = lock, co_type = Some \<lparr>code_hash = s29_type_hash s, hash_type = Type, script_args = []\<rparr>\<rparr>],
      tx_outputs_data := [[]],
      tx_cell_deps := dep # map (\<lambda>name. \<lparr>cd_out_point = cm_out_point (the (s29_deployer s name)),
         cd_dep_type = (if str_contains ''group'' name then DepGroup else Code)\<rparr>) names\<rparr>) :: ('w, transaction) cmd)"
  using assms(1-3)
  by (simp add: named_cell_deps[OF assms(4)] rfc0029_build_transaction_def exact_output_def unwrapM_def default_script_def Let_def)

interpretation rfc29_table: table_case
  "\<lambda>p. with_node (pulled_clone E nd (case_node_name (p29_id p)))
     (\<lambda>node. bindM (on_node (rfc0029_answer E nd s p node)) (assert_result_eq (p29_expected_result p)))"
  "\<lambda>p. with_node (pulled_clone E nd (case_node_name (p29_id p))) (\<lambda>node. on_node (rfc0029_answer E nd s p node))"
  "\<lambda>p. results_match (p29_expected_result p)"
  for E nd s
  by unfold_locales (rule with_node_compares)


section \<open>A witness\<close>

lemma rfc0029_ids: "distinct (map p29_id rfc0029_cases_params)"
  "\<forall>p \<in> set rfc0029_cases_params. 2000 < p29_height p \<and> p29_height p < 4000 \<and> p29_script_hash_type p \<noteq> Data1"
  by (simp_all add: rfc0029_cases_params_def rfc0029_before_data_def rfc0029_before_type_def rfc0029_after_data_def
      rfc0029_after_type_def RFC0029_BLOCK_NUMBER_def Let_def)

definition deployed_names :: "string list" where
  "deployed_names = map fst rfc0029_codes @ map fst rfc0029_groups"

lemma rfc0029_names: "\<forall>p \<in> set rfc0029_cases_params. \<forall>name \<in> set (p29_cell_deps p). name \<in> set deployed_names"
  by (simp add: rfc0029_cases_params_def rfc0029_before_data_def rfc0029_before_type_def rfc0029_after_data_def
      rfc0029_after_type_def deployed_names_def rfc0029_codes_def rfc0029_groups_def Let_def)

lemma deploy_all:
  assumes "\<And>d c. c \<in> set cs \<Longrightarrow> D \<subseteq> dom d \<Longrightarrow> d (fst c) = None \<Longrightarrow> \<exists>m. f d c w = Some (Inr (d(fst c \<mapsto> m)), w)"
    and "distinct (map fst cs)" and "D \<subseteq> dom d" and "dom d \<inter> fst ` set cs = {}"
  shows "\<exists>d'. foldM f d cs w = Some (Inr d', w) \<and> dom d' = dom d \<union> fst ` set cs"
  using assms
proof (induction cs arbitrary: d)
  case Nil
  then show ?case by (simp add: ret_run)
next
  case (Cons c cs)
  have none: "d (fst c) = None" using Cons.prems(4) by auto
  then obtain m where m: "f d c w = Some (Inr (d(fst c \<mapsto> m)), w)"
    using Cons.prems(1)[OF _ Cons.prems(3), of c] by (meson list.set_intros(1))
  have "\<exists>d'. foldM f (d(fst c \<mapsto> m)) cs w = Some (Inr d', w) \<and> dom d' = dom (d(fst c \<mapsto> m)) \<union> fst ` set cs"
  proof (rule Cons.IH)
    show "\<exists>m. f d' c' w = Some (Inr (d'(fst c' \<mapsto> m)), w)" if "c' \<in> set cs" "D \<subseteq> dom d'" "d' (fst c') = None" for d' c'
      using Cons.prems(1)[OF _ that(2,3)] that(1) by (meson list.set_intros(2))
    have dom: "dom (d(fst c \<mapsto> m)) = insert (fst c) (dom d)" by simp
    show "D \<subseteq> dom (d(fst c \<mapsto> m))" using Cons.prems(3) unfolding dom by blast
    show "dom (d(fst c \<mapsto> m)) \<inter> fst ` set cs = {}" using Cons.prems(2,4) unfolding dom by auto
  qed (use Cons.prems(2) in simp)
  then obtain d' where "foldM f (d(fst c \<mapsto> m)) cs w = Some (Inr d', w)" "dom d' = dom (d(fst c \<mapsto> m)) \<union> fst ` set cs" by blast
  with m show ?case by (auto simp: bindM_run)
qed

lemma script_deploys:
  assumes "scripted err H nd" and "w \<noteq> 0" and "H < 900000" and "d (fst c) = None"
  shows "\<exists>m. deploy_code (script_env R err H) nd type_script c d w = Some (Inr (d(fst c \<mapsto> m)), w)"
    and "set (snd g) \<subseteq> dom d \<Longrightarrow> length (snd g) < 10 \<Longrightarrow> d (fst g) = None \<Longrightarrow>
      \<exists>m. deploy_group (script_env R err H) nd g d w = Some (Inr (d(fst g \<mapsto> m)), w)"
proof -
  have bytes: "capacity_of_bytes n = (ret (capacity_bytes n) :: (nat, nat) cmd)" if "n < 10" for n
    using that by (simp add: capacity_of_bytes_def expectM_def capacity_bytes_def u64_lim_def)
  have out: "exact_output (script_env R err H) lock t n = ret \<lparr>co_capacity = n + 6100000000, co_lock = lock, co_type = t\<rparr>" for lock t n
    by (simp add: exact_output_def lab_types_def unwrapM_def Let_def)
  show "\<exists>m. deploy_code (script_env R err H) nd type_script c d w = Some (Inr (d(fst c \<mapsto> m)), w)"
    using script_deploy[where d = d and name = "fst c" and R = R, OF assms(1,4,2,3)] script_spendable(2)[OF assms(1)] bytes[of "Suc (Suc (Suc 0))"]
    by (cases c) (simp add: deploy_code_def out lab_types_def)
  assume g: "set (snd g) \<subseteq> dom d" "length (snd g) < 10" "d (fst g) = None"
  have "mapM (deployed_out_point d) (snd g) = (ret (map (\<lambda>n. cm_out_point (the (d n))) (snd g)) :: (nat, _) cmd)"
    using g(1) by (rule deployed_out_points)
  then show "\<exists>m. deploy_group (script_env R err H) nd g d w = Some (Inr (d(fst g \<mapsto> m)), w)"
    using script_deploy[where d = d and name = "fst g" and R = R, OF assms(1) g(3) assms(2,3)] script_spendable(2)[OF assms(1)] bytes g(2)
    by (cases g) (simp add: deploy_group_def out lab_types_def)
qed

lemma script_setup:
  assumes "scripted err 1900 nd" and "w \<noteq> 0"
  shows "\<exists>s. rfc0029_setup (script_env R err 1900) nd w = Some (Inr s, w) \<and> set deployed_names \<subseteq> dom (s29_deployer s)"
proof -
  let ?E = "script_env R err 1900" and ?t = "default_script\<lparr>code_hash := 0, hash_type := Type, script_args := NO_MATTER\<rparr>"
  obtain d1 where d1: "foldM (\<lambda>d c. deploy_code ?E nd ?t c d) deployer_new rfc0029_codes w = Some (Inr d1, w)"
    "dom d1 = fst ` set rfc0029_codes"
    using deploy_all[where f = "\<lambda>d c. deploy_code ?E nd ?t c d" and D = "{}" and cs = rfc0029_codes and d = deployer_new and w = w]
      script_deploys(1)[OF assms]
    by (auto simp: deployer_new_def rfc0029_codes_def)
  obtain d where d: "foldM (\<lambda>d g. deploy_group ?E nd g d) d1 rfc0029_groups w = Some (Inr d, w)"
    "dom d = dom d1 \<union> fst ` set rfc0029_groups"
  proof -
    have "\<exists>d'. foldM (\<lambda>d g. deploy_group ?E nd g d) d1 rfc0029_groups w = Some (Inr d', w) \<and> dom d' = dom d1 \<union> fst ` set rfc0029_groups"
    proof (rule deploy_all[where D = "fst ` set rfc0029_codes"])
      fix d :: deployer and g assume "g \<in> set rfc0029_groups" and D: "fst ` set rfc0029_codes \<subseteq> dom d" and none: "d (fst g) = None"
      then have "set (snd g) \<subseteq> fst ` set rfc0029_codes" "length (snd g) < 10" by (auto simp: rfc0029_groups_def rfc0029_codes_def)
      then show "\<exists>m. deploy_group ?E nd g d w = Some (Inr (d(fst g \<mapsto> m)), w)"
        using script_deploys(2)[OF assms(1,2), where d = d and g = g and c = "(fst g, [])"] D none by auto
    qed (simp_all add: d1(2), simp_all add: rfc0029_groups_def rfc0029_codes_def)
    then show ?thesis using that by blast
  qed
  have names: "set deployed_names = dom d" by (simp add: d(2) d1(2) deployed_names_def)
  have "''a1'' \<in> dom d" by (simp only: d(2) d1(2)) (simp add: rfc0029_codes_def)
  then obtain m where m: "d ''a1'' = Some m" by blast
  have hash: "deployed_data_hash ?E nd d ''a1'' = ret 2"
    using assms(1) m by (simp add: deployed_data_hash_def deployed_content_def deployed_out_point_def deployed_cell_Some mapC_def expectM_def scripted_def lab_types_def
        numeral_2_eq_2)
  have deploy: "rfc0029_deploy ?E nd ?t w = Some (Inr d, w)"
    using d1(1) d(1) by (simp add: rfc0029_deploy_def bindM_run)
  have "rfc0029_setup ?E nd w = Some (Inr \<lparr>s29_deployer = d, s29_data_hash = 2, s29_type_hash = hash_script toy_lib ?t,
      s29_input = the_cell_meta\<rparr>, w)"
    using script_spendable(2)[OF assms(1)] script_tip_block(1)[OF assms(1)] script_first_spendable[OF assms(1), of ?E] deploy hash
    by (simp add: rfc0029_setup_def Let_def bindM_run ret_run script_block_def epoch_ext.make_def
        RFC0029_EPOCH_NUMBER_def assertM_def)
  then show ?thesis by (intro exI conjI) (assumption, simp add: names)
qed

text \<open>A clone's answer to a row, whichever it is made to give.\<close>

lemma script_answer_0029:
  assumes "scripted err 1900 nd" and "scripted err 1900 node" and "p \<in> set rfc0029_cases_params"
    and "set deployed_names \<subseteq> dom (s29_deployer s)"
  shows "rfc0029_answer (script_env R err 1900) nd s p node w
     = Some (Inr (if w = 0 then Inl (''failed to send block, error: '' @ err) else Inr ()), max 1 w)"
proof -
  have p: "2000 < p29_height p" "p29_height p < 4000" "p29_script_hash_type p \<noteq> Data1"
    "set (p29_cell_deps p) \<subseteq> dom (s29_deployer s)"
    using assms(3,4) rfc0029_ids(2) rfc0029_names by blast+
  have "mapM (named_cell_dep (s29_deployer s)) (p29_cell_deps p) = (ret (map (\<lambda>n. \<lparr>cd_out_point = cm_out_point (the (s29_deployer s n)),
      cd_dep_type = (if str_contains ''group'' n then DepGroup else Code)\<rparr>) (p29_cell_deps p)) :: (nat, _) cmd)"
    using p(4) by (rule named_cell_deps)
  then obtain tx where "rfc0029_build_transaction (script_env R err 1900) nd s (p29_script_hash_type p) (p29_cell_deps p) = (ret tx :: (nat, _) cmd)"
    using p(3) script_spendable(2,3)[OF assms(1)]
    by (cases "p29_script_hash_type p") (auto simp: rfc0029_build_transaction_def exact_output_def lab_types_def unwrapM_def Let_def)
  then show ?thesis
    using script_commit_at[OF assms(2), of "p29_height p"] p(1,2) by (simp add: rfc0029_answer_def)
qed


end
