(* ===== verification/Rfc0030.thy ===== *)
theory Rfc0030
  imports ScriptedLab
begin

text \<open>
  \<open>ckb-integration-test/src/case/rfc0030/rfc0030.rs\<close>: transactions whose input is locked until an epoch, with
  well-formed and malformed epochs.
\<close>

section \<open>The table\<close>

definition ERROR_IMMATURE_SINCE :: string where
  "ERROR_IMMATURE_SINCE = ''Immature''"

definition ERROR_INVALID_SINCE :: string where
  "ERROR_INVALID_SINCE = ''InvalidSince''"

record params_0030 =
  p30_id :: nat
  p30_since :: "64 word"
  p30_expected_result :: "string + epoch_ext"

definition rfc0030_rows_a :: "case_lib \<Rightarrow> params_0030 list" where
  "rfc0030_rows_a T = (let row = (\<lambda>id since expected. \<lparr>p30_id = id, p30_since = since, p30_expected_result = expected\<rparr>);
       abs = since_from_absolute_epoch_number_with_fraction (cl_full_value T);
       rel = since_from_relative_epoch_number_with_fraction (cl_full_value T); E = epoch_ext.make in
    [row 0 (abs (E 2 0 0)) (Inr (E 2 0 1000)),
     row 1 (abs (E 2 1 0)) (Inr (E 2 0 1000)),
     row 2 (abs (E 2 0 1)) (Inr (E 2 0 1000)),
     row 3 (abs (E 1 1 1)) (Inr (E 2 0 1000)),
     row 4 (abs (E 1 2 1)) (Inr (E 2 0 1000)),
     row 5 (abs (E 2 1 2)) (Inr (E 2 (1000 * 1 div 2) 1000)),
     row 6 (rel (E 1 0 0)) (Inr (E 2 0 1000)),
     row 7 (rel (E 1 1 0)) (Inr (E 2 0 1000)),
     row 8 (rel (E 1 0 1)) (Inr (E 2 0 1000)),
     row 9 (rel (E 0 1 1)) (Inr (E 2 0 1000)),
     row 10 (rel (E 0 5 4)) (Inr (E 2 250 1000)),
     row 11 (rel (E 0 1 2)) (Inr (E 1 500 1000)),
     row 12 (abs (E 2 999 1000)) (Inr (E 2 999 1000))])"

definition rfc0030_rows_b :: "case_lib \<Rightarrow> params_0030 list" where
  "rfc0030_rows_b T = (let row = (\<lambda>id since expected. \<lparr>p30_id = id, p30_since = since, p30_expected_result = expected\<rparr>);
       abs = since_from_absolute_epoch_number_with_fraction (cl_full_value T);
       rel = since_from_relative_epoch_number_with_fraction (cl_full_value T); E = epoch_ext.make in
    [row 13 (abs (E 3 0 1000)) (Inl ERROR_IMMATURE_SINCE),
     row 14 (abs (E 3 0 0)) (Inl ERROR_IMMATURE_SINCE),
     row 15 (abs (E 3 0 1)) (Inl ERROR_IMMATURE_SINCE),
     row 16 (abs (E 3 1 0)) (Inl ERROR_IMMATURE_SINCE),
     row 17 (abs (E 3 1 1)) (Inl ERROR_IMMATURE_SINCE),
     row 18 (abs (E 3 1001 1000)) (Inl ERROR_IMMATURE_SINCE),
     row 19 (rel (E 1 999 1000)) (Inr (E 2 999 1000)),
     row 20 (rel (E 2 0 1000)) (Inl ERROR_IMMATURE_SINCE),
     row 21 (rel (E 2 0 0)) (Inl ERROR_IMMATURE_SINCE),
     row 22 (rel (E 2 0 1)) (Inl ERROR_IMMATURE_SINCE),
     row 23 (rel (E 2 1 0)) (Inl ERROR_IMMATURE_SINCE),
     row 24 (rel (E 2 1 1)) (Inl ERROR_IMMATURE_SINCE),
     row 25 (rel (E 2 1001 1000)) (Inl ERROR_IMMATURE_SINCE)])"

definition rfc0030_rows_c :: "case_lib \<Rightarrow> params_0030 list" where
  "rfc0030_rows_c T = (let row = (\<lambda>id since expected. \<lparr>p30_id = id, p30_since = since, p30_expected_result = expected\<rparr>);
       abs = since_from_absolute_epoch_number_with_fraction (cl_full_value T);
       rel = since_from_relative_epoch_number_with_fraction (cl_full_value T); E = epoch_ext.make in
    [row 0 (abs (E 2 0 0)) (Inr (E 2 0 1000)),
     row 1 (abs (E 2 1 0)) (Inl ERROR_INVALID_SINCE),
     row 2 (abs (E 2 0 1)) (Inr (E 2 0 1000)),
     row 3 (abs (E 1 1 1)) (Inl ERROR_INVALID_SINCE),
     row 4 (abs (E 1 2 1)) (Inl ERROR_INVALID_SINCE),
     row 5 (abs (E 2 1 2)) (Inr (E 2 (1000 * 1 div 2) 1000)),
     row 6 (rel (E 1 0 0)) (Inr (E 2 0 1000)),
     row 7 (rel (E 1 1 0)) (Inl ERROR_INVALID_SINCE),
     row 8 (rel (E 1 0 1)) (Inr (E 2 0 1000)),
     row 9 (rel (E 0 1 1)) (Inl ERROR_INVALID_SINCE),
     row 10 (rel (E 0 5 4)) (Inl ERROR_INVALID_SINCE),
     row 11 (rel (E 0 1 2)) (Inr (E 1 500 1000)),
     row 12 (abs (E 2 999 1000)) (Inr (E 2 999 1000))])"

definition rfc0030_rows_d :: "case_lib \<Rightarrow> params_0030 list" where
  "rfc0030_rows_d T = (let row = (\<lambda>id since expected. \<lparr>p30_id = id, p30_since = since, p30_expected_result = expected\<rparr>);
       abs = since_from_absolute_epoch_number_with_fraction (cl_full_value T);
       rel = since_from_relative_epoch_number_with_fraction (cl_full_value T); E = epoch_ext.make in
    [row 13 (abs (E 3 0 1000)) (Inr (E 3 0 1000)),
     row 14 (abs (E 3 0 0)) (Inr (E 3 0 1000)),
     row 15 (abs (E 3 0 1)) (Inr (E 3 0 1000)),
     row 16 (abs (E 3 1 0)) (Inl ERROR_INVALID_SINCE),
     row 17 (abs (E 3 1 1)) (Inl ERROR_INVALID_SINCE),
     row 18 (abs (E 3 1001 1000)) (Inl ERROR_INVALID_SINCE),
     row 19 (rel (E 1 999 1000)) (Inr (E 2 999 1000)),
     row 20 (rel (E 2 0 1000)) (Inr (E 3 0 1000)),
     row 21 (rel (E 2 0 0)) (Inr (E 3 0 1000)),
     row 22 (rel (E 2 0 1)) (Inr (E 3 0 1000)),
     row 23 (rel (E 2 1 0)) (Inl ERROR_INVALID_SINCE),
     row 24 (rel (E 2 1 1)) (Inl ERROR_INVALID_SINCE),
     row 25 (rel (E 2 1001 1000)) (Inl ERROR_INVALID_SINCE)])"

definition rfc0030_cases_params :: "case_lib \<Rightarrow> params_0030 list" where
  "rfc0030_cases_params T = rfc0030_rows_a T @ rfc0030_rows_b T @ rfc0030_rows_c T @ rfc0030_rows_d T"

section \<open>The case\<close>

definition rfc0030_options :: "'w case_env \<Rightarrow> case_options" where
  "rfc0030_options E = default_case_options\<lparr>cp_node_options :=
     [case_node_options ''node2021'' (ce_ckb2021 E) ''empty'' ''ckb2021'']\<rparr>"

definition epoch_to_height :: "bool \<Rightarrow> 'w node \<Rightarrow> epoch_ext \<Rightarrow> ('w, nat) cmd" where
  "epoch_to_height oc node epoch =
     bindM (get_consensus node) (\<lambda>c.
     bindM (assertM (cons_permanent_difficulty_in_dummy c) ''assertion failed: node.consensus().permanent_difficulty_in_dummy'') (\<lambda>_.
     bindM (assertM (ep_length epoch = 1000) ''assertion failed: `(left == right)`'') (\<lambda>_.
     bindM (u64_mul oc (ep_number epoch) (ep_length epoch)) (\<lambda>n. u64_add oc n (ep_index epoch)))))"

text \<open>The input: the cellbase of the first block of epoch 1.\<close>

definition rfc0030_input :: "'w case_env \<Rightarrow> 'w node \<Rightarrow> ('w, out_point) cmd" where
  "rfc0030_input E node2021 = (let first = epoch_ext.make 1 0 1000 in
     bindM (get_tip_block node2021) (\<lambda>b.
     bindM (assertM (cl_epoch_le (ce_types E) (hd_epoch (bk_header b)) first)
        ''assertion failed: node2021.get_tip_block().epoch() <= EpochNumberWithFraction::new(1, 0, 1000)'') (\<lambda>_.
     bindM (estimate_start_number_of_epoch (ce_oc E) node2021 1) (\<lambda>height.
     bindM (get_tip_block_number node2021) (\<lambda>tip_number.
     bindM (assertM (tip_number \<le> height) ''assertion failed: node2021.get_tip_block_number() <= height'') (\<lambda>_.
     bindM (mine_to (ce_lib E) (ce_clock E) node2021 height) (\<lambda>_.
     bindM (get_tip_block node2021) (\<lambda>tip_block.
     bindM (assertM (hd_epoch (bk_header tip_block) = first) ''assertion failed: `(left == right)`'') (\<lambda>_.
     bindM (expectM ''cellbase transaction'' (case bk_transactions tip_block of [] \<Rightarrow> None | tx # _ \<Rightarrow> Some tx)) (\<lambda>cellbase.
     ret \<lparr>op_tx_hash = hash_tx (ce_lib E) cellbase, op_index = 0\<rparr>))))))))))"

text \<open>On a clone: refused one block before the epoch, accepted at it.\<close>

definition rfc0030_immature :: "'w case_env \<Rightarrow> transaction \<Rightarrow> epoch_ext \<Rightarrow> 'w node \<Rightarrow> ('w, nat \<times> (string + unit)) cmd" where
  "rfc0030_immature E tx epoch node =
     bindM (epoch_to_height (ce_oc E) node epoch) (\<lambda>mature_height.
     bindM (u64_sub (ce_oc E) mature_height 1) (\<lambda>immature_height.
     bindM (commit_at E node immature_height tx) (\<lambda>immature_result.
     ret (mature_height, immature_result))))"

definition rfc0030_mature :: "'w case_env \<Rightarrow> transaction \<Rightarrow> nat \<Rightarrow> 'w node \<Rightarrow> ('w, string + unit) cmd" where
  "rfc0030_mature E tx mature_height node = build_with E node mature_height [Commit mature_height tx]"

definition rfc0030_check :: "'w case_env \<Rightarrow> transaction \<Rightarrow> epoch_ext \<Rightarrow> 'w node \<Rightarrow> ('w lab, unit) cmd" where
  "rfc0030_check E tx epoch node =
     bindM (on_node (rfc0030_immature E tx epoch node)) (\<lambda>(mature_height, immature_result).
     bindM (assert_result_eq (Inl ERROR_IMMATURE_SINCE) immature_result) (\<lambda>_.
     bindM (on_node (rfc0030_mature E tx mature_height node)) (\<lambda>mature_result.
     assertM (mature_result = Inr ()) ''assertion failed: `(left == right)`'')))"

definition rfc0030_case :: "'w case_env \<Rightarrow> 'w node \<Rightarrow> out_point \<Rightarrow> params_0030 \<Rightarrow> ('w lab, unit) cmd" where
  "rfc0030_case E node2021 input_out_point p =
     bindM (on_node (fresh_success_transaction E node2021 input_out_point (p30_since p))) (\<lambda>tx.
     case p30_expected_result p of
       Inr expected_mature_epoch \<Rightarrow>
         with_node (lab_clone_node E node2021 (''case-'' @ to_decimal (p30_id p) @ ''-node2021''))
           (rfc0030_check E tx expected_mature_epoch)
     | Inl _ \<Rightarrow> ret ())"

definition rfc0030_run :: "'w case_env \<Rightarrow> 'w nodes \<Rightarrow> ('w lab, unit) cmd" where
  "rfc0030_run E nodes =
     bindM (on_node (get_node nodes ''node2021'')) (\<lambda>node2021.
     bindM (on_node (rfc0030_input E node2021)) (\<lambda>input_out_point.
     forM (rfc0030_cases_params (ce_types E)) (rfc0030_case E node2021 input_out_point)))"

definition rfc0030 :: "'w integration_case" where
  "rfc0030 = \<lparr>ic_type_name = ''ckb_integration_test::case::rfc0030::rfc0030::RFC0030'',
     ic_options = rfc0030_options, ic_run = rfc0030_run\<rparr>"

section \<open>What passing means\<close>

text \<open>
  A node that lets the input of since \<open>s\<close> be spent from height \<open>mature s\<close> on, and from height \<open>h\<close> on refuses
  the sinces that are malformed.
\<close>

definition since_rule :: "nat \<Rightarrow> (64 word \<Rightarrow> bool) \<Rightarrow> (64 word \<Rightarrow> nat) \<Rightarrow> (string \<Rightarrow> string) \<Rightarrow> nat \<Rightarrow> 64 word \<Rightarrow> string + unit" where
  "since_rule h malformed mature say k s =
     (if h \<le> k \<and> malformed s then Inl (say ERROR_INVALID_SINCE)
      else if k < mature s then Inl (say ERROR_IMMATURE_SINCE) else Inr ())"

text \<open>The rows the case looks at, with the height each since is expected to mature at.\<close>

definition checked_rows :: "case_lib \<Rightarrow> (64 word \<times> nat) list" where
  "checked_rows T = List.map_filter (\<lambda>p. case p30_expected_result p of Inr e \<Rightarrow> Some (p30_since p, ep_number e * 1000 + ep_index e) | Inl _ \<Rightarrow> None)
     (rfc0030_cases_params T)"

lemma rfc0030_epochs:
  "\<forall>p \<in> set (rfc0030_cases_params T). \<forall>e. p30_expected_result p = Inr e \<longrightarrow>
     ep_length e = 1000 \<and> ep_number e \<le> 3 \<and> ep_index e < 1000 \<and> 1500 \<le> ep_number e * 1000 + ep_index e \<and> ep_number e * 1000 + ep_index e \<le> 3000"
  by (simp add: rfc0030_cases_params_def rfc0030_rows_a_def rfc0030_rows_b_def rfc0030_rows_c_def rfc0030_rows_d_def Let_def epoch_ext.make_def)

lemma epoch_to_height_run:
  fixes node :: "'w node"
  assumes "nd_consensus node = Some c" and "cons_permanent_difficulty_in_dummy c" and "ep_length e = 1000"
    and "ep_number e \<le> 3" and "ep_index e < 1000"
  shows "epoch_to_height oc node e = (ret (ep_number e * 1000 + ep_index e) :: ('w, nat) cmd)"
  using assms by (simp add: epoch_to_height_def get_consensus_def u64_mul_ok u64_add_ok u64_lim_def)

text \<open>
  How a clone answers: it can be made, is asked at the block before the epoch and then at it, and can
  be dropped after either answer.
\<close>

definition clone_answers ::
    "('w lab \<Rightarrow> bool) \<Rightarrow> 'w case_env \<Rightarrow> 'w node \<Rightarrow> string \<Rightarrow> transaction \<Rightarrow> nat \<Rightarrow> string + unit \<Rightarrow> string + unit \<Rightarrow> bool" where
  "clone_answers I E nd name tx k r1 r2 \<longleftrightarrow> (\<forall>w. I w \<longrightarrow> (\<exists>node c w1 w2 w3 w4 w5.
     lab_clone_node E nd name w = Some (Inr node, w1) \<and> nd_consensus node = Some c \<and> cons_permanent_difficulty_in_dummy c
     \<and> on_node (commit_at E node (k - 1) tx) w1 = Some (Inr r1, w2)
     \<and> on_node (drop_guard (nd_guard node)) w2 = Some (Inr (), w3)
     \<and> on_node (build_with E node k [Commit k tx]) w2 = Some (Inr r2, w4)
     \<and> on_node (drop_guard (nd_guard node)) w4 = Some (Inr (), w5) \<and> I w5))"

lemma rfc0030_check_run:
  assumes "clone_answers I E nd name tx k r1 r2" and "I w" and "k = ep_number e * 1000 + ep_index e" and "0 < k"
    and "ep_length e = 1000" and "ep_number e \<le> 3" and "ep_index e < 1000"
  shows "\<exists>r w'. with_node (lab_clone_node E nd name) (rfc0030_check E tx e) w = Some (r, w')
     \<and> (if results_match (Inl ERROR_IMMATURE_SINCE) r1 \<and> r2 = Inr () then r = Inr () \<and> I w' else \<exists>msg. r = Inl (Panic msg))"
proof -
  obtain node c w1 w2 w3 w4 w5 where c: "lab_clone_node E nd name w = Some (Inr node, w1)"
      "nd_consensus node = Some c" "cons_permanent_difficulty_in_dummy c"
    and r1: "on_node (commit_at E node (k - 1) tx) w1 = Some (Inr r1, w2)" "on_node (drop_guard (nd_guard node)) w2 = Some (Inr (), w3)"
    and r2: "on_node (build_with E node k [Commit k tx]) w2 = Some (Inr r2, w4)" "on_node (drop_guard (nd_guard node)) w4 = Some (Inr (), w5)"
    and I: "I w5"
    using assms(1,2) unfolding clone_answers_def by blast
  have height: "epoch_to_height (ce_oc E) node e = (ret k :: ('a, nat) cmd)"
    using epoch_to_height_run[OF c(2,3)] assms(3,5-7) by simp
  have "u64_sub (ce_oc E) k 1 = (ret (k - 1) :: ('a, nat) cmd)"
    using assms(3,4,6,7) by (intro u64_sub_ok) (auto simp: u64_lim_def)
  then have first: "on_node (rfc0030_immature E tx e node) w1 = Some (Inr (k, r1), w2)"
    using height r1(1) by (simp add: rfc0030_immature_def on_node_bindM bindM_run ret_run)
  show ?thesis
  proof (cases "results_match (Inl ERROR_IMMATURE_SINCE) r1")
    case False
    then have "rfc0030_check E tx e node w1 = Some (Inl (Panic ''assertion failed: `(left == right)`''), w2)"
      using first by (simp add: rfc0030_check_def bindM_run assert_result_eq_def assertM_def halting_def bindM_def)
    with False c(1) r1(2) show ?thesis by (cases w3) (auto simp: with_node_def bindM_run finallyM_Panic)
  next
    case True
    then have "rfc0030_check E tx e node w1 = Some (if r2 = Inr () then Inr () else Inl (Panic ''assertion failed: `(left == right)`''), w4)"
      using first r2(1) by (simp add: rfc0030_check_def rfc0030_mature_def bindM_run assert_result_eq_def assertM_def halting_def ret_run)
    with True c(1) r2(2) I show ?thesis
      by (cases w5; cases "r2 = Inr ()") (auto simp: with_node_def bindM_run finallyM_Panic finallyM_Inr)
  qed
qed

lemma since_rule_passes:
  assumes "\<And>e. str_contains e (say e)" and "0 < k"
  shows "results_match (Inl ERROR_IMMATURE_SINCE) (since_rule h malformed mature say (k - 1) s) \<and> since_rule h malformed mature say k s = Inr ()
     \<longleftrightarrow> mature s = k \<and> (malformed s \<longrightarrow> k < h)"
  using assms by (auto simp: since_rule_def)

text \<open>
  C16.  The case of RFC 30 looks at the sinces it expects to mature, and at nothing else: against a node
  that lets a since mature at \<open>mature s\<close> and refuses malformed ones from height \<open>h\<close> on, it passes exactly
  when the sinces of these rows mature at the expected heights and no malformed one among them is
  expected at or after \<open>h\<close>.  All these heights are at most 3000, so a node that never introduces the
  new rule passes like one that does: the rows that expect \<open>InvalidSince\<close> are never put to a node.
\<close>

theorem rfc0030_checks_maturity_only:
  assumes nd: "nodes ''node2021'' = Some nd" and w: "I w" and say: "\<And>e. str_contains e (say e)"
    and input: "answers_in I (on_node (rfc0030_input E nd)) input"
    and tx: "\<And>s. answers_in I (on_node (fresh_success_transaction E nd input s)) (tx s)"
    and rows: "\<forall>p \<in> set (rfc0030_cases_params (ce_types E)). \<forall>e k. p30_expected_result p = Inr e \<and> k = ep_number e * 1000 + ep_index e \<longrightarrow>
       clone_answers I E nd (''case-'' @ to_decimal (p30_id p) @ ''-node2021'') (tx (p30_since p)) k
         (since_rule h malformed mature say (k - 1) (p30_since p)) (since_rule h malformed mature say k (p30_since p))"
  shows "\<exists>r w'. rfc0030_run E nodes w = Some (r, w')
     \<and> (if \<forall>(s, k) \<in> set (checked_rows (ce_types E)). mature s = k \<and> (malformed s \<longrightarrow> k < h)
         then r = Inr () else \<exists>msg. r = Inl (Panic msg))
     \<and> (3000 < h \<and> (\<forall>(s, k) \<in> set (checked_rows (ce_types E)). mature s = k) \<longrightarrow> r = Inr ())"
proof -
  obtain w1 where w1: "on_node (rfc0030_input E nd) w = Some (Inr input, w1)" "I w1"
    using input w by (rule answers_inE)
  define ok :: "params_0030 \<Rightarrow> bool" where "ok p = (\<forall>e. p30_expected_result p = Inr e \<longrightarrow> mature (p30_since p) = ep_number e * 1000 + ep_index e
      \<and> (malformed (p30_since p) \<longrightarrow> ep_number e * 1000 + ep_index e < h))" for p
  have ok: "(\<forall>(s, k) \<in> set (checked_rows (ce_types E)). mature s = k \<and> (malformed s \<longrightarrow> k < h))
      \<longleftrightarrow> (\<forall>p \<in> set (rfc0030_cases_params (ce_types E)). ok p)"
    by (force simp: checked_rows_def map_filter_def ok_def split: sum.splits)
  have row: "\<exists>r w'. rfc0030_case E nd input p w = Some (r, w') \<and> (if ok p then r = Inr () \<and> I w' else \<exists>msg. r = Inl (Panic msg))"
    if p: "p \<in> set (rfc0030_cases_params (ce_types E))" and "I w" for p w
  proof -
    obtain w2 where w2: "on_node (fresh_success_transaction E nd input (p30_since p)) w = Some (Inr (tx (p30_since p)), w2)" "I w2"
      using tx \<open>I w\<close> by (rule answers_inE)
    show ?thesis
    proof (cases "p30_expected_result p")
      case (Inl e)
      with w2 show ?thesis by (simp add: rfc0030_case_def ok_def bindM_run ret_run)
    next
      case (Inr e)
      define k where "k = ep_number e * 1000 + ep_index e"
      have e: "ep_length e = 1000" "ep_number e \<le> 3" "ep_index e < 1000" "0 < k"
        using rfc0030_epochs p Inr unfolding k_def by fastforce+
      have "clone_answers I E nd (''case-'' @ to_decimal (p30_id p) @ ''-node2021'') (tx (p30_since p)) k
         (since_rule h malformed mature say (k - 1) (p30_since p)) (since_rule h malformed mature say k (p30_since p))"
        using rows p Inr unfolding k_def by blast
      from rfc0030_check_run[OF this w2(2) k_def e(4,1-3)] show ?thesis
        using Inr w2(1) since_rule_passes[OF say e(4), of h malformed mature "p30_since p"]
        by (auto simp: rfc0030_case_def bindM_run ok_def k_def)
    qed
  qed
  have run: "rfc0030_run E nodes w = forM (rfc0030_cases_params (ce_types E)) (rfc0030_case E nd input) w1"
    using nd w1(1) by (simp add: rfc0030_run_def bindM_run)
  have "\<exists>r w'. rfc0030_run E nodes w = Some (r, w')
     \<and> (if \<forall>p \<in> set (rfc0030_cases_params (ce_types E)). ok p then r = Inr () \<and> I w' else \<exists>msg. r = Inl (Panic msg))"
    unfolding run by (rule forM_passes) (use row w1(2) in auto)
  then obtain r w' where r: "rfc0030_run E nodes w = Some (r, w')"
    "if \<forall>p \<in> set (rfc0030_cases_params (ce_types E)). ok p then r = Inr () \<and> I w' else \<exists>msg. r = Inl (Panic msg)"
    by blast
  have "\<forall>(s, k) \<in> set (checked_rows (ce_types E)). k \<le> 3000"
    using rfc0030_epochs by (auto simp: checked_rows_def map_filter_def split: sum.splits)
  then have "(\<forall>(s, k) \<in> set (checked_rows (ce_types E)). mature s = k \<and> (malformed s \<longrightarrow> k < h))"
    if "3000 < h" "\<forall>(s, k) \<in> set (checked_rows (ce_types E)). mature s = k"
    using that by fastforce
  with r ok show ?thesis by (intro exI[of _ r] exI[of _ w']) auto
qed


section \<open>A witness\<close>

text \<open>A node that never refuses malformed sinces, and lets every since mature when the case expects it.\<close>

definition expected_maturity :: "64 word \<Rightarrow> nat" where
  "expected_maturity s = (case map_of (remdups (checked_rows lab_types)) s of Some k \<Rightarrow> k | None \<Rightarrow> 0)"

lemma checked_rows_function: "distinct (map fst (remdups (checked_rows lab_types)))"
  by (simp add: checked_rows_def map_filter_def rfc0030_cases_params_def rfc0030_rows_a_def rfc0030_rows_b_def rfc0030_rows_c_def
      rfc0030_rows_d_def Let_def epoch_ext.make_def since_from_absolute_epoch_number_with_fraction_def
      since_from_relative_epoch_number_with_fraction_def lab_types_def FLAG_SINCE_RELATIVE_def
      FLAG_SINCE_EPOCH_NUMBER_WITH_FRACTION_def)

lemma expected_maturity_row: "(s, k) \<in> set (checked_rows lab_types) \<Longrightarrow> expected_maturity s = k"
  using map_of_is_SomeI[OF checked_rows_function, of s k] by (simp add: expected_maturity_def)

lemma script_clone_answers:
  assumes "scripted err 1000 nd" and "1500 \<le> k" and "k \<le> 3000"
  shows "clone_answers (\<lambda>_. True) (script_env (\<lambda>_. True) err 1000) nd name tx k (Inl (''failed to send block, error: '' @ err)) (Inr ())"
  unfolding clone_answers_def
proof (intro allI impI)
  fix w0 :: "nat lab"
  obtain p s w where w0: "w0 = (p, s, w)" by (cases w0)
  obtain nd' p' where c: "lab_clone_node (script_env (\<lambda>_. True) err 1000) nd name (p, s, w) = Some (Inr nd', (p', s, 0))" "scripted err 1000 nd'"
    using script_clone[OF assms(1), of "\<lambda>_. True" name p s w] by auto
  then obtain c where "nd_consensus nd' = Some c" "cons_permanent_difficulty_in_dummy c" "nd_guard nd' = Some good_child"
    by (auto simp: scripted_def)
  moreover have "commit_at (script_env (\<lambda>_. True) err 1000) nd' (k - 1) tx 0 = Some (Inr (Inl (''failed to send block, error: '' @ err)), 1)"
    using script_commit_at[OF c(2), of "k - 1" "\<lambda>_. True" tx 0] assms(2,3) by simp
  moreover have "build_with (script_env (\<lambda>_. True) err 1000) nd' k [Commit k tx] 1 = Some (Inr (Inr ()), 1)"
    using assms(2,3) by (subst script_build[OF c(2)]) (auto simp: plain_instruction_def)
  ultimately show "\<exists>node c w1 w2 w3 w4 w5. lab_clone_node (script_env (\<lambda>_. True) err 1000) nd name w0 = Some (Inr node, w1)
     \<and> nd_consensus node = Some c \<and> cons_permanent_difficulty_in_dummy c
     \<and> on_node (commit_at (script_env (\<lambda>_. True) err 1000) node (k - 1) tx) w1 = Some (Inr (Inl (''failed to send block, error: '' @ err)), w2)
     \<and> on_node (drop_guard (nd_guard node)) w2 = Some (Inr (), w3)
     \<and> on_node (build_with (script_env (\<lambda>_. True) err 1000) node k [Commit k tx]) w2 = Some (Inr (Inr ()), w4)
     \<and> on_node (drop_guard (nd_guard node)) w4 = Some (Inr (), w5) \<and> True"
    unfolding w0 using c(1) on_node_run[of "commit_at (script_env (\<lambda>_. True) err 1000) nd' (k - 1) tx" 0 _ 1 p' s]
      on_node_run[of "build_with (script_env (\<lambda>_. True) err 1000) nd' k [Commit k tx]" 1 _ 1 p' s]
    by (intro exI[of _ nd'] exI[of _ c] exI[of _ "(p', s, 0)"] exI[of _ "(p', s, 1)"]) (simp add: ret_run)
qed

theorem rfc0030_checks_maturity_only_witness:
  "\<exists>w'. rfc0030_run (script_env (\<lambda>_. True) ERROR_IMMATURE_SINCE 1000) [''node2021'' \<mapsto> script_node ERROR_IMMATURE_SINCE 1000]
     (9000, new_shared, 0) = Some (Inr (), w')"
proof -
  define nd where "nd = script_node ERROR_IMMATURE_SINCE 1000"
  have nd: "scripted ERROR_IMMATURE_SINCE 1000 nd" by (simp add: nd_def scripted_script_node)
  let ?E = "script_env (\<lambda>_. True) ERROR_IMMATURE_SINCE 1000"
  define say where "say e = ''failed to send block, error: '' @ e" for e :: string
  define input where "input = \<lparr>op_tx_hash = hash_tx toy_lib empty_transaction, op_index = 0\<rparr>"
  define tx where "tx s = empty_transaction\<lparr>tx_inputs := [cell_input_new input s], tx_outputs := [\<lparr>co_capacity = 6100000000,
     co_lock = default_script\<lparr>code_hash := 0, hash_type := Type\<rparr>, co_type = None\<rparr>], tx_outputs_data := [[]],
     tx_cell_deps := [\<lparr>cd_out_point = \<lparr>op_tx_hash = 0, op_index = 5\<rparr>, cd_dep_type = Code\<rparr>]\<rparr>" for s
  have "\<exists>r w'. rfc0030_run ?E [''node2021'' \<mapsto> nd] (9000, new_shared, 0) = Some (r, w')
     \<and> (if \<forall>(s, k) \<in> set (checked_rows (ce_types ?E)). expected_maturity s = k \<and> (True \<longrightarrow> k < 5000) then r = Inr () else \<exists>msg. r = Inl (Panic msg))
     \<and> (3000 < (5000 :: nat) \<and> (\<forall>(s, k) \<in> set (checked_rows (ce_types ?E)). expected_maturity s = k) \<longrightarrow> r = Inr ())"
  proof (rule rfc0030_checks_maturity_only[where I = "\<lambda>_. True" and nd = nd and say = say and input = input and tx = tx])
    have "rfc0030_input ?E nd = ret input"
      using script_tip_block[OF nd] script_estimate[OF nd, of 1]
      by (simp add: rfc0030_input_def input_def Let_def mine_to_def script_block_def block_at_def epoch_ext.make_def lab_types_def u64_lim_def)
    then show "answers_in (\<lambda>_. True) (on_node (rfc0030_input ?E nd)) input" by simp
    show "answers_in (\<lambda>_. True) (on_node (fresh_success_transaction ?E nd input s)) (tx s)" for s
      using script_spendable(2,3)[OF nd]
      by (simp add: fresh_success_transaction_def exact_output_def lab_types_def unwrapM_def tx_def Let_def)
    show "\<forall>p \<in> set (rfc0030_cases_params (ce_types ?E)). \<forall>e k. p30_expected_result p = Inr e \<and> k = ep_number e * 1000 + ep_index e \<longrightarrow>
       clone_answers (\<lambda>_. True) ?E nd (''case-'' @ to_decimal (p30_id p) @ ''-node2021'') (tx (p30_since p)) k
         (since_rule 5000 (\<lambda>_. True) expected_maturity say (k - 1) (p30_since p)) (since_rule 5000 (\<lambda>_. True) expected_maturity say k (p30_since p))"
    proof (intro ballI allI impI)
      fix p e k assume p: "p \<in> set (rfc0030_cases_params (ce_types ?E))"
        and e: "p30_expected_result p = Inr e \<and> k = ep_number e * 1000 + ep_index e"
      then have "(p30_since p, k) \<in> set (checked_rows lab_types)"
        by (force simp: checked_rows_def map_filter_def)
      then have "expected_maturity (p30_since p) = k" by (rule expected_maturity_row)
      moreover have "1500 \<le> k" "k \<le> 3000" using p e rfc0030_epochs by fastforce+
      note k = this
      ultimately have "since_rule 5000 (\<lambda>_. True) expected_maturity say (k - 1) (p30_since p) = Inl (say ERROR_IMMATURE_SINCE)"
        "since_rule 5000 (\<lambda>_. True) expected_maturity say k (p30_since p) = Inr ()" by (auto simp: since_rule_def)
      then show "clone_answers (\<lambda>_. True) ?E nd (''case-'' @ to_decimal (p30_id p) @ ''-node2021'') (tx (p30_since p)) k
         (since_rule 5000 (\<lambda>_. True) expected_maturity say (k - 1) (p30_since p)) (since_rule 5000 (\<lambda>_. True) expected_maturity say k (p30_since p))"
        using script_clone_answers[OF nd k] by (simp only: say_def)
    qed
  qed (simp_all add: say_def)
  then show ?thesis using expected_maturity_row unfolding nd_def by auto
qed

end
