(* ===== verification/Rfc0031.thy ===== *)
theory Rfc0031
  imports LabWorld
begin

text \<open>
  \<open>ckb-integration-test/src/case/rfc0031/\<close>: the extension field of blocks, before and after the
  hard fork, and what the case says about a node that passes it.
\<close>

section \<open>The case\<close>

definition ERROR_EMPTY_EXT :: string where
  "ERROR_EMPTY_EXT = ''Invalid: Block(EmptyBlockExtension(''"

definition ERROR_MAX_LIMIT :: string where
  "ERROR_MAX_LIMIT = ''Invalid: Block(ExceededMaximumBlockExtensionBytes(''"

definition ERROR_UNKNOWN_FIELDS :: string where
  "ERROR_UNKNOWN_FIELDS = ''Invalid: Block(UnknownFields(''"

definition RFC0031_EPOCH_NUMBER :: nat where
  "RFC0031_EPOCH_NUMBER = 3"

definition RFC0031_BLOCK_NUMBER :: nat where
  "RFC0031_BLOCK_NUMBER = 3000"

record params_0031 =
  p31_id :: nat
  p31_extension_size :: "nat option"
  p31_height :: nat
  p31_expected_result :: "string + unit"

definition rfc0031_options :: "'w case_env \<Rightarrow> case_options" where
  "rfc0031_options E = default_case_options\<lparr>cp_node_options :=
     [case_node_options ''node2021'' (ce_ckb2021 E) ''Epoch2V2TestData'' ''ckb2021'']\<rparr>"

definition rfc0031_cases_params :: "params_0031 list" where
  "rfc0031_cases_params =
     (let before = RFC0031_BLOCK_NUMBER - 1; after = RFC0031_BLOCK_NUMBER in
     [\<lparr>p31_id = 0, p31_extension_size = None, p31_height = before, p31_expected_result = Inr ()\<rparr>,
      \<lparr>p31_id = 1, p31_extension_size = Some 0, p31_height = before, p31_expected_result = Inl ERROR_UNKNOWN_FIELDS\<rparr>,
      \<lparr>p31_id = 2, p31_extension_size = Some 1, p31_height = before, p31_expected_result = Inl ERROR_UNKNOWN_FIELDS\<rparr>,
      \<lparr>p31_id = 3, p31_extension_size = Some 16, p31_height = before, p31_expected_result = Inl ERROR_UNKNOWN_FIELDS\<rparr>,
      \<lparr>p31_id = 4, p31_extension_size = Some 32, p31_height = before, p31_expected_result = Inl ERROR_UNKNOWN_FIELDS\<rparr>,
      \<lparr>p31_id = 5, p31_extension_size = Some 64, p31_height = before, p31_expected_result = Inl ERROR_UNKNOWN_FIELDS\<rparr>,
      \<lparr>p31_id = 6, p31_extension_size = Some 96, p31_height = before, p31_expected_result = Inl ERROR_UNKNOWN_FIELDS\<rparr>,
      \<lparr>p31_id = 7, p31_extension_size = Some 97, p31_height = before, p31_expected_result = Inl ERROR_UNKNOWN_FIELDS\<rparr>,
      \<lparr>p31_id = 8, p31_extension_size = None, p31_height = after, p31_expected_result = Inr ()\<rparr>,
      \<lparr>p31_id = 9, p31_extension_size = Some 0, p31_height = after, p31_expected_result = Inl ERROR_EMPTY_EXT\<rparr>,
      \<lparr>p31_id = 10, p31_extension_size = Some 1, p31_height = after, p31_expected_result = Inr ()\<rparr>,
      \<lparr>p31_id = 11, p31_extension_size = Some 16, p31_height = after, p31_expected_result = Inr ()\<rparr>,
      \<lparr>p31_id = 12, p31_extension_size = Some 32, p31_height = after, p31_expected_result = Inr ()\<rparr>,
      \<lparr>p31_id = 13, p31_extension_size = Some 64, p31_height = after, p31_expected_result = Inr ()\<rparr>,
      \<lparr>p31_id = 14, p31_extension_size = Some 96, p31_height = after, p31_expected_result = Inr ()\<rparr>,
      \<lparr>p31_id = 15, p31_extension_size = Some 97, p31_height = after, p31_expected_result = Inl ERROR_MAX_LIMIT\<rparr>])"

definition rfc0031_build_block :: "'w case_env \<Rightarrow> 'w node \<Rightarrow> nat option \<Rightarrow> ('w, block) cmd" where
  "rfc0031_build_block E node extension_size =
     bindM (rpc_get_block_template (nd_rpc_client node) None None None) (\<lambda>template.
     ret ((template_block (ce_lib E) template)\<lparr>bk_extension := map_option (\<lambda>s. replicate s 0) extension_size\<rparr>))"

text \<open>The body of the loop on the cloned node, up to the comparison.\<close>

definition rfc0031_answer :: "'w case_env \<Rightarrow> params_0031 \<Rightarrow> 'w node \<Rightarrow> ('w, string + unit) cmd" where
  "rfc0031_answer E p node =
     bindM (u64_sub (ce_oc E) (p31_height p) 1) (\<lambda>target.
     bindM (mine_to (ce_lib E) (ce_clock E) node target) (\<lambda>_.
     bindM (rfc0031_build_block E node (p31_extension_size p)) (\<lambda>block.
     mapC (map_sum id (\<lambda>_. ())) (rpc_submit_block (nd_rpc_client node) [] block))))"

definition rfc0031_run :: "'w case_env \<Rightarrow> 'w nodes \<Rightarrow> ('w lab, unit) cmd" where
  "rfc0031_run E nodes =
     bindM (on_node (get_node nodes ''node2021'')) (\<lambda>node2021.
     bindM (on_node (bindM (estimate_start_number_of_epoch (ce_oc E) node2021 RFC0031_EPOCH_NUMBER) (\<lambda>fork_switch_height.
                     bindM (u64_sub (ce_oc E) fork_switch_height 6) (\<lambda>target.
                     mine_to (ce_lib E) (ce_clock E) node2021 target)))) (\<lambda>_.
     forM rfc0031_cases_params (\<lambda>p.
       with_node (lab_clone_node E node2021 (case_node_name (p31_id p))) (\<lambda>node.
         bindM (on_node (rfc0031_answer E p node)) (assert_result_eq (p31_expected_result p))))))"

definition rfc0031 :: "'w integration_case" where
  "rfc0031 = \<lparr>ic_type_name = ''ckb_integration_test::case::rfc0031::rfc0031::RFC0031'',
     ic_options = rfc0031_options, ic_run = rfc0031_run\<rparr>"

section \<open>What passing means\<close>

text \<open>
  The rule a node follows that activates the fork at height \<open>h\<close> and allows extensions of up to
  \<open>k\<close> bytes; \<open>say\<close> is the text it puts around an error's name.
\<close>

definition extension_rule :: "nat \<Rightarrow> nat \<Rightarrow> (string \<Rightarrow> string) \<Rightarrow> params_0031 \<Rightarrow> string + unit" where
  "extension_rule h k say p = (case p31_extension_size p of
       None \<Rightarrow> Inr ()
     | Some n \<Rightarrow>
         if p31_height p < h then Inl (say ERROR_UNKNOWN_FIELDS)
         else if n = 0 then Inl (say ERROR_EMPTY_EXT)
         else if n \<le> k then Inr ()
         else Inl (say ERROR_MAX_LIMIT))"

lemma rfc0031_right_rule:
  assumes "\<And>e. str_contains e (say e)"
  shows "\<forall>p \<in> set rfc0031_cases_params. results_match (p31_expected_result p) (extension_rule 3000 96 say p)"
  using assms by (simp add: rfc0031_cases_params_def RFC0031_BLOCK_NUMBER_def extension_rule_def Let_def)

lemma rfc0031_wrong_rule:
  assumes "\<forall>p \<in> set rfc0031_cases_params. results_match (p31_expected_result p) (extension_rule h k say p)"
  shows "h = 3000 \<and> k = 96"
  using assms
  by (simp add: rfc0031_cases_params_def RFC0031_BLOCK_NUMBER_def extension_rule_def Let_def split: if_splits)

interpretation rfc31_table: table_case
  "\<lambda>p. with_node (lab_clone_node E nd (case_node_name (p31_id p)))
     (\<lambda>node. bindM (on_node (rfc0031_answer E p node)) (assert_result_eq (p31_expected_result p)))"
  "\<lambda>p. with_node (lab_clone_node E nd (case_node_name (p31_id p))) (\<lambda>node. on_node (rfc0031_answer E p node))"
  "\<lambda>p. results_match (p31_expected_result p)"
  for E nd
  by unfold_locales (rule with_node_compares)


text \<open>A node that follows the rule, for the witness.\<close>

definition extension_verdict :: "nat \<Rightarrow> nat \<Rightarrow> block \<Rightarrow> string + unit" where
  "extension_verdict h k b = extension_rule h k (\<lambda>e. e) \<lparr>p31_id = 0,
     p31_extension_size = map_option length (bk_extension b), p31_height = hd_number (bk_header b), p31_expected_result = Inr ()\<rparr>"

lemma extension_verdict_plain [simp]: "extension_verdict h k (block_at n) = Inr ()"
  by (simp add: extension_verdict_def extension_rule_def block_at_def)

lemma extension_node_answer:
  assumes "nd_rpc_client node = lab_client (extension_verdict h k)" and "base < p31_height p" and "p31_height p \<le> 3000"
  shows "\<exists>w'. rfc0031_answer (lab_env (extension_verdict h k) base) p node base = Some (Inr (extension_rule h k (\<lambda>e. e) p), w') \<and> True"
proof -
  let ?V = "extension_verdict h k"
  let ?b = "(block_at (p31_height p))\<lparr>bk_extension := map_option (\<lambda>s. replicate s 0) (p31_extension_size p)\<rparr>"
  have tgt: "max base (p31_height p - 1) = p31_height p - 1" "Suc (p31_height p - 1) = p31_height p"
    using assms(2) by auto
  have sub: "u64_sub True (p31_height p) 1 = (ret (p31_height p - 1) :: (nat, nat) cmd)"
    using assms(2,3) by (intro u64_sub_ok) (auto simp: u64_lim_def)
  have mine: "mine_to toy_lib lab_clock node (p31_height p - 1) base = Some (Inr (), p31_height p - 1)"
    using lab_mine_to[OF assms(1), of "p31_height p - 1" base] tgt by simp
  have build: "rfc0031_build_block (lab_env ?V base) node (p31_extension_size p) (p31_height p - 1)
      = Some (Inr ?b, p31_height p - 1)"
    using assms(1) tgt(2) by (simp add: rfc0031_build_block_def bindM_run reading_run ret_run toy_lib_def template_at_def)
  have "map_option (length \<circ> (\<lambda>s. replicate s (0::8 word))) (p31_extension_size p) = p31_extension_size p"
    by (cases "p31_extension_size p") simp_all
  then have V: "?V ?b = extension_rule h k (\<lambda>e. e) p"
    by (simp add: extension_verdict_def extension_rule_def block_at_def header_at_def option.map_comp split: option.split)
  show ?thesis
    using assms(1) mine build V
    by (cases "extension_rule h k (\<lambda>e. e) p") (simp_all add: rfc0031_answer_def sub[simplified] bindM_run mapC_run)
qed


end
