(* ===== verification/Rfc0032.thy ===== *)
theory Rfc0032
  imports LabWorld
begin

text \<open>
  \<open>ckb-integration-test/src/case/rfc0032/rfc0032.rs\<close>: which version of the virtual machine a node selects
  for a script, told from the cycles its transaction pool counts.
\<close>

section \<open>The case\<close>

definition VM0_CYCLES :: nat where
  "VM0_CYCLES = 537 + 537"

definition VM1_CYCLES :: nat where
  "VM1_CYCLES = 537 + 539"

definition RFC0032_BLOCK_NUMBER :: nat where
  "RFC0032_BLOCK_NUMBER = 3000"

definition HARDFORK_DELAY_WINDOW :: nat where
  "HARDFORK_DELAY_WINDOW = 10"

definition ERROR_INVALID_VM_VERSION :: string where
  "ERROR_INVALID_VM_VERSION = ''Invalid VM Version''"

record params_0032 =
  p32_id :: nat
  p32_type_script_hash_type :: script_hash_type
  p32_height :: nat
  p32_expected_result :: "string + nat"

definition rfc0032_cases_params :: "params_0032 list" where
  "rfc0032_cases_params = (let before = RFC0032_BLOCK_NUMBER - HARDFORK_DELAY_WINDOW - 1;
       after = RFC0032_BLOCK_NUMBER + HARDFORK_DELAY_WINDOW + 1 in
    [\<lparr>p32_id = 0, p32_type_script_hash_type = Data, p32_height = before, p32_expected_result = Inr VM0_CYCLES\<rparr>,
     \<lparr>p32_id = 1, p32_type_script_hash_type = Type, p32_height = before, p32_expected_result = Inr VM0_CYCLES\<rparr>,
     \<lparr>p32_id = 2, p32_type_script_hash_type = Data1, p32_height = before, p32_expected_result = Inl ERROR_INVALID_VM_VERSION\<rparr>,
     \<lparr>p32_id = 3, p32_type_script_hash_type = Data, p32_height = after, p32_expected_result = Inr VM0_CYCLES\<rparr>,
     \<lparr>p32_id = 4, p32_type_script_hash_type = Type, p32_height = after, p32_expected_result = Inr VM1_CYCLES\<rparr>,
     \<lparr>p32_id = 5, p32_type_script_hash_type = Data1, p32_height = after, p32_expected_result = Inr VM1_CYCLES\<rparr>])"

definition rfc0032_type_name :: string where
  "rfc0032_type_name = ''ckb_integration_test::case::rfc0032::rfc0032::RFC0032''"

definition rfc0032_node_options :: "'w case_env \<Rightarrow> string \<Rightarrow> params_0032 \<Rightarrow> node_options" where
  "rfc0032_node_options E name p =
     \<lparr>no_node_name = name @ ''-case-'' @ to_decimal (p32_id p), no_ckb_binary = ce_ckb2021 E,
      no_initial_database = ''testdata/db/Epoch2V2TestData'', no_chain_spec = ''testdata/spec/ckb2021'',
      no_app_config = ''testdata/config/ckb2021_block_assembler_hash_type_is_data''\<rparr>"

definition rfc0032_setup_node :: "'w case_env \<Rightarrow> params_0032 \<Rightarrow> ('w lab, 'w node) cmd" where
  "rfc0032_setup_node E p =
     bindM (case_name_of rfc0032_type_name) (\<lambda>name.
     bindM (on_ports (node_init (ce_os E) name (rfc0032_node_options E name p) True)) (\<lambda>node.
     bindM (on_node (node_start (ce_os E) node)) (\<lambda>node.
     bindM (unwindM (on_node (mine_to (ce_lib E) (ce_clock E) node (p32_height p))) (on_node (drop_guard (nd_guard node)))) (\<lambda>_.
     ret node))))"

text \<open>The input: the cellbase of the tip, which the index must hold; its lock is bound to the machine by data hash.\<close>

definition rfc0032_input :: "'w case_env \<Rightarrow> 'w node \<Rightarrow> ('w, cell_meta) cmd" where
  "rfc0032_input E node =
     bindM (get_tip_block node) (\<lambda>tip_block.
     bindM (expectM UNWRAP (case bk_transactions tip_block of [] \<Rightarrow> None | tx # _ \<Rightarrow> Some tx)) (\<lambda>tip_cellbase.
     bindM (synced_indexer (ce_lib E) node) (\<lambda>_.
     bindM (get_cell_meta node \<lparr>op_tx_hash = hash_tx (ce_lib E) tip_cellbase, op_index = 0\<rparr>) (\<lambda>input.
     bindM (expectM UNWRAP input) (\<lambda>input.
     bindM (assertM (hash_type (co_lock (cm_cell_output input)) = Data) ''assertion failed: `(left == right)`'') (\<lambda>_.
     ret input))))))"

text \<open>The data of the genesis always-success cell names the code by its data hash.\<close>

definition always_script_data_hash :: "'w case_env \<Rightarrow> 'w node \<Rightarrow> ('w, byte32) cmd" where
  "always_script_data_hash E node =
     bindM (genesis_cellbase_hash (ce_lib E) node) (\<lambda>hash.
     bindM (rpc_get_live_cell (nd_rpc_client node) \<lparr>op_tx_hash = hash, op_index = SYSTEM_CELL_ALWAYS_SUCCESS_INDEX\<rparr> True) (\<lambda>cell.
     bindM (expectM ''genesis always cell must be live'' (cws_cell cell)) (\<lambda>cell_info.
     bindM (expectM UNWRAP (cinfo_data cell_info)) (\<lambda>data. ret (cdata_hash data)))))"

definition rfc0032_type_script :: "'w case_env \<Rightarrow> 'w node \<Rightarrow> script_hash_type \<Rightarrow> ('w, script) cmd" where
  "rfc0032_type_script E node ht = (case ht of
       Type \<Rightarrow> bindM (always_success_script (ce_lib E) node) (\<lambda>script.
         bindM (assertM (hash_type script = Type) ''assertion failed: script.hash_type() == ScriptHashType::Type.into()'') (\<lambda>_.
         ret (default_script\<lparr>hash_type := ht, code_hash := code_hash script\<rparr>)))
     | _ \<Rightarrow> bindM (always_script_data_hash E node) (\<lambda>h. ret (default_script\<lparr>hash_type := ht, code_hash := h\<rparr>)))"

definition rfc0032_build_transaction :: "'w case_env \<Rightarrow> 'w node \<Rightarrow> params_0032 \<Rightarrow> ('w, transaction) cmd" where
  "rfc0032_build_transaction E node p =
     bindM (rfc0032_input E node) (\<lambda>input.
     bindM (rfc0032_type_script E node (p32_type_script_hash_type p)) (\<lambda>type_script.
     bindM (exact_output E (co_lock (cm_cell_output input)) (Some type_script) 0) (\<lambda>output.
     bindM (always_success_cell_dep (ce_lib E) node) (\<lambda>dep.
     ret (empty_transaction\<lparr>tx_inputs := [cell_input_new (cm_out_point input) 0], tx_outputs := [output],
       tx_outputs_data := [[]], tx_cell_deps := [dep]\<rparr>)))))"

text \<open>The cycles of a transaction: how much the pool's total grows by it.\<close>

definition rfc0032_run_case :: "'w case_env \<Rightarrow> 'w node \<Rightarrow> transaction \<Rightarrow> ('w, string + nat) cmd" where
  "rfc0032_run_case E node tx =
     bindM (get_tip_tx_pool_info (ce_clock E) node) (\<lambda>old_info.
     bindM (rpc_send_transaction_result (ce_clock E) (nd_rpc_client node) tx) (\<lambda>sent. case sent of
         Inl err \<Rightarrow> ret (Inl err)
       | Inr _ \<Rightarrow>
           bindM (get_tip_tx_pool_info (ce_clock E) node) (\<lambda>new_info.
           bindM (u64_sub (ce_oc E) (tpi_total_tx_cycles new_info) (tpi_total_tx_cycles old_info)) (\<lambda>cycles.
           ret (Inr cycles)))))"

definition rfc0032_answer :: "'w case_env \<Rightarrow> params_0032 \<Rightarrow> 'w node \<Rightarrow> ('w, string + nat) cmd" where
  "rfc0032_answer E p node = bindM (rfc0032_build_transaction E node p) (rfc0032_run_case E node)"

definition rfc0032_run :: "'w case_env \<Rightarrow> 'w nodes \<Rightarrow> ('w lab, unit) cmd" where
  "rfc0032_run E nodes =
     forM rfc0032_cases_params (\<lambda>p.
       with_node (rfc0032_setup_node E p) (\<lambda>node.
         bindM (on_node (rfc0032_answer E p node)) (assert_result_eq (p32_expected_result p))))"

definition rfc0032 :: "'w integration_case" where
  "rfc0032 = \<lparr>ic_type_name = rfc0032_type_name, ic_options = (\<lambda>_. default_case_options), ic_run = rfc0032_run\<rparr>"

section \<open>What passing means\<close>

text \<open>
  The rule of RFC 32 with the fork at height \<open>h\<close>: a script named by data hash keeps the old machine, one
  named by type hash follows the height, and the new kind of data hash needs the new machine.  The
  machines take \<open>v0\<close> and \<open>v1\<close> cycles.
\<close>

definition vm_rule :: "nat \<Rightarrow> nat \<Rightarrow> nat \<Rightarrow> (string \<Rightarrow> string) \<Rightarrow> params_0032 \<Rightarrow> string + nat" where
  "vm_rule h v0 v1 say p = (case p32_type_script_hash_type p of
       Data \<Rightarrow> Inr v0
     | Type \<Rightarrow> Inr (if p32_height p < h then v0 else v1)
     | Data1 \<Rightarrow> if p32_height p < h then Inl (say ERROR_INVALID_VM_VERSION) else Inr v1)"

lemma vm_rows:
  assumes "\<And>e. str_contains e (say e)"
  shows "(\<forall>p \<in> set rfc0032_cases_params. results_match (p32_expected_result p) (vm_rule h v0 v1 say p))
     \<longleftrightarrow> 2989 < h \<and> h \<le> 3011 \<and> v0 = VM0_CYCLES \<and> v1 = VM1_CYCLES"
  using assms
  by (auto simp: rfc0032_cases_params_def RFC0032_BLOCK_NUMBER_def HARDFORK_DELAY_WINDOW_def vm_rule_def
      VM0_CYCLES_def VM1_CYCLES_def Let_def split: if_splits)

interpretation rfc32_table: table_case
  "\<lambda>p. with_node (rfc0032_setup_node E p)
     (\<lambda>node. bindM (on_node (rfc0032_answer E p node)) (assert_result_eq (p32_expected_result p)))"
  "\<lambda>p. with_node (rfc0032_setup_node E p) (\<lambda>node. on_node (rfc0032_answer E p node))"
  "\<lambda>p. results_match (p32_expected_result p)"
  for E
  by unfold_locales (rule with_node_compares)

text \<open>
  The case of RFC 32 passes exactly against nodes that select the machine by the rule, with the fork
  somewhere between heights 2990 and 3011 and machines that take 1074 and 1076 cycles.
\<close>

lemma rfc0032_pins_rule:
  assumes say: "\<And>e. str_contains e (say e)" and "I w"
    and "\<forall>p \<in> set rfc0032_cases_params. answers_in I
           (with_node (rfc0032_setup_node E p) (\<lambda>node. on_node (rfc0032_answer E p node))) (vm_rule h v0 v1 say p)"
  shows "\<exists>r w'. rfc0032_run E nodes w = Some (r, w')
     \<and> (if 2989 < h \<and> h \<le> 3011 \<and> v0 = VM0_CYCLES \<and> v1 = VM1_CYCLES then r = Inr () else \<exists>msg. r = Inl (Panic msg))"
  using rfc32_table.outcome[OF assms(3) assms(2)] vm_rows[OF say, of h v0 v1]
  unfolding rfc0032_run_def by (simp split: if_splits) blast

text \<open>What the answer of a node to one row is made of: the growth of the pool's total.\<close>

lemma rfc0032_run_case_cycles:
  assumes "get_tip_tx_pool_info (ce_clock E) node w = Some (Inr old_info, w1)"
    and "rpc_send_transaction_result (ce_clock E) (nd_rpc_client node) tx w1 = Some (Inr sent, w2)"
    and "get_tip_tx_pool_info (ce_clock E) node w2 = Some (Inr new_info, w3)"
    and "tpi_total_tx_cycles new_info = tpi_total_tx_cycles old_info + n" and "tpi_total_tx_cycles new_info < u64_lim"
  shows "\<exists>w'. rfc0032_run_case E node tx w = Some (Inr (case sent of Inl err \<Rightarrow> Inl err | Inr _ \<Rightarrow> Inr n), w')"
  using assms by (cases sent) (simp_all add: rfc0032_run_case_def bindM_run u64_sub_ok ret_run)

end
