(* ===== verification/Rfc0034.thy ===== *)
theory Rfc0034
  imports ScriptedLab
begin

text \<open>
  \<open>ckb-integration-test/src/case/rfc0034/rfc0034.rs\<close>: the \<open>exec\<close> system call, which runs code found in a cell
  or a witness of the transaction, by the old and the new virtual machine.
\<close>

section \<open>The table\<close>

definition RFC0034_EPOCH_NUMBER :: nat where
  "RFC0034_EPOCH_NUMBER = 3"

definition ERROR_INVALID_ECALL :: string where
  "ERROR_INVALID_ECALL = ''InvalidEcall''"

datatype exec_source = Source_Input | Source_Output | Source_Cell_Dep

primrec exec_source_code :: "exec_source \<Rightarrow> nat" where
  "exec_source_code Source_Input = 1"
| "exec_source_code Source_Output = 2"
| "exec_source_code Source_Cell_Dep = 3"

datatype exec_place = Place_Cell_Data | Place_Witness

primrec exec_place_code :: "exec_place \<Rightarrow> nat" where
  "exec_place_code Place_Cell_Data = 0"
| "exec_place_code Place_Witness = 1"

record params_0034 =
  p34_id :: nat
  p34_exec_source :: exec_source
  p34_exec_place :: exec_place
  p34_script_hash_type :: script_hash_type
  p34_expected_result :: "string + unit"

definition rfc0034_cases_params :: "params_0034 list" where
  "rfc0034_cases_params = (let row = (\<lambda>id source place ht expected. \<lparr>p34_id = id, p34_exec_source = source, p34_exec_place = place,
       p34_script_hash_type = ht, p34_expected_result = expected\<rparr>) in
    [row 0 Source_Input Place_Cell_Data Data (Inl ERROR_INVALID_ECALL),
     row 1 Source_Input Place_Witness Data (Inl ERROR_INVALID_ECALL),
     row 2 Source_Output Place_Cell_Data Data (Inl ERROR_INVALID_ECALL),
     row 3 Source_Output Place_Witness Data (Inl ERROR_INVALID_ECALL),
     row 4 Source_Cell_Dep Place_Cell_Data Data (Inl ERROR_INVALID_ECALL),
     row 5 Source_Cell_Dep Place_Witness Data (Inl ERROR_INVALID_ECALL),
     row 6 Source_Input Place_Cell_Data Data1 (Inr ()),
     row 7 Source_Input Place_Witness Data1 (Inr ()),
     row 8 Source_Output Place_Cell_Data Data1 (Inr ()),
     row 9 Source_Output Place_Witness Data1 (Inr ()),
     row 10 Source_Cell_Dep Place_Cell_Data Data1 (Inr ()),
     row 11 Source_Cell_Dep Place_Witness Data1 (Inl ''TransactionScriptError'')])"

section \<open>The transactions of a case\<close>

text \<open>\<open>Vec::split_off\<close> at a hundred from the end.\<close>

definition split_last_100 :: "bool \<Rightarrow> 'a list \<Rightarrow> ('w, 'a list \<times> 'a list) cmd" where
  "split_last_100 oc xs =
     bindM (u64_sub oc (length xs) 100) (\<lambda>at.
     if at \<le> length xs then ret (take at xs, drop at xs)
     else panicking (''`at` split index (is '' @ to_decimal at @ '') should be <= len (is '' @ to_decimal (length xs) @ '')''))"

text \<open>The output whose type script is the caller, with what to execute as its arguments.\<close>

definition exec_caller_output :: "'w case_env \<Rightarrow> 'w node \<Rightarrow> deployer \<Rightarrow> params_0034 \<Rightarrow> bytes \<Rightarrow> ('w, cell_output) cmd" where
  "exec_caller_output E node d p exec_callee_data =
     (let exec_params = cl_exec_params (ce_types E) (exec_source_code (p34_exec_source p)) (exec_place_code (p34_exec_place p)) 0 0 in
      bindM (deployed_data_hash E node d ''exec_caller'') (\<lambda>exec_caller_data_hash.
      bindM (always_success_script (ce_lib E) node) (\<lambda>lock.
      bindM (assertM (p34_script_hash_type p = Data \<or> p34_script_hash_type p = Data1)
         ''assertion failed: case.script_hash_type == ScriptHashType::Data || case.script_hash_type == ScriptHashType::Data1'') (\<lambda>_.
      let type_script = \<lparr>code_hash = exec_caller_data_hash, hash_type = p34_script_hash_type p, script_args = exec_params\<rparr> in
      bindM (capacity_of_bytes (length exec_callee_data)) (\<lambda>_.
      exact_output E lock (Some type_script) (length exec_callee_data))))))"

text \<open>The transaction that puts the callee into a cell: a hundred cells melted into one, with the callee as its data.\<close>

definition exec_dep_tx :: "'w case_env \<Rightarrow> 'w node \<Rightarrow> cell_meta list \<Rightarrow> bytes \<Rightarrow> ('w, transaction) cmd" where
  "exec_dep_tx E node inputs exec_callee_data =
     bindM (foldM (\<lambda>sum input. u64_add (ce_oc E) sum (co_capacity (cm_cell_output input))) 0 inputs) (\<lambda>capacity.
     bindM (indexM inputs 0) (\<lambda>first.
     bindM (always_success_cell_dep (ce_lib E) node) (\<lambda>dep.
     ret (empty_transaction\<lparr>tx_inputs := map (\<lambda>input. cell_input_new (cm_out_point input) 0) inputs,
       tx_outputs := [(cm_cell_output first)\<lparr>co_capacity := capacity\<rparr>],
       tx_outputs_data := [exec_callee_data], tx_cell_deps := [dep]\<rparr>))))"

definition code_dep :: "out_point \<Rightarrow> cell_dep" where
  "code_dep p = \<lparr>cd_out_point = p, cd_dep_type = Code\<rparr>"

text \<open>The transaction that calls \<open>exec\<close>.\<close>

definition exec_call_tx ::
    "'w case_env \<Rightarrow> 'w node \<Rightarrow> params_0034 \<Rightarrow> cell_meta list \<Rightarrow> bytes \<Rightarrow> cell_dep \<Rightarrow> cell_output \<Rightarrow> transaction \<Rightarrow> ('w, transaction) cmd" where
  "exec_call_tx E node p spendable exec_callee_data caller_dep caller_output dep_tx =
     (let dep_cell = \<lparr>op_tx_hash = hash_tx (ce_lib E) dep_tx, op_index = 0\<rparr> in
      if p34_exec_source p = Source_Input \<and> p34_exec_place p = Place_Cell_Data
      then bindM (always_success_cell_dep (ce_lib E) node) (\<lambda>dep.
           ret (empty_transaction\<lparr>tx_inputs := [cell_input_new dep_cell 0], tx_outputs := [caller_output],
             tx_outputs_data := [[]], tx_cell_deps := [caller_dep, dep]\<rparr>))
      else bindM (split_last_100 (ce_oc E) spendable) (\<lambda>(_, inputs).
           let cell_inputs = map (\<lambda>input. cell_input_new (cm_out_point input) 0) inputs in
           bindM (always_success_cell_dep (ce_lib E) node) (\<lambda>dep.
           if p34_exec_source p = Source_Cell_Dep \<and> p34_exec_place p = Place_Cell_Data
           then ret (empty_transaction\<lparr>tx_inputs := cell_inputs, tx_outputs := [caller_output], tx_outputs_data := [[]],
                  tx_cell_deps := [code_dep dep_cell, caller_dep, dep]\<rparr>)
           else ret (empty_transaction\<lparr>tx_inputs := cell_inputs, tx_outputs := [caller_output], tx_cell_deps := [caller_dep, dep],
                  tx_outputs_data := [if p34_exec_place p = Place_Cell_Data then exec_callee_data else []],
                  tx_witnesses := (if p34_exec_place p = Place_Witness then [exec_callee_data] else [])\<rparr>))))"

definition rfc0034_build_transactions :: "'w case_env \<Rightarrow> 'w node \<Rightarrow> deployer \<Rightarrow> params_0034 \<Rightarrow> ('w, transaction list) cmd" where
  "rfc0034_build_transactions E node d p =
     bindM (get_spendable_always_success_cells (ce_lib E) node) (\<lambda>spendable.
     bindM (deployed_content node d ''exec_callee'') (\<lambda>exec_callee_data.
     bindM (deployed_out_point d ''exec_caller'') (\<lambda>exec_caller_out_point.
     bindM (exec_caller_output E node d p exec_callee_data) (\<lambda>caller_output.
     bindM (split_last_100 (ce_oc E) spendable) (\<lambda>(spendable, inputs).
     bindM (exec_dep_tx E node inputs exec_callee_data) (\<lambda>dep_tx.
     bindM (exec_call_tx E node p spendable exec_callee_data (code_dep exec_caller_out_point) caller_output dep_tx) (\<lambda>tx.
     ret [dep_tx, tx])))))))"

section \<open>The case\<close>

definition rfc0034_options :: "'w case_env \<Rightarrow> case_options" where
  "rfc0034_options E = default_case_options\<lparr>cp_node_options :=
     [case_node_options ''node2021'' (ce_ckb2021 E) ''Epoch2V2TestData'' ''ckb2021'']\<rparr>"

definition rfc0034_deploy_script :: "'w case_env \<Rightarrow> 'w node \<Rightarrow> deployer \<Rightarrow> string \<Rightarrow> ('w, deployer) cmd" where
  "rfc0034_deploy_script E node d script_name =
     (let script_data = cl_file (ce_types E) (''testdata/script/'' @ script_name) in
      bindM (always_success_script (ce_lib E) node) (\<lambda>lock.
      bindM (capacity_of_bytes (length script_data)) (\<lambda>_.
      bindM (exact_output E lock None (length script_data)) (\<lambda>output.
      deploy E d node script_name output script_data))))"

definition rfc0034_setup :: "'w case_env \<Rightarrow> 'w node \<Rightarrow> ('w, deployer) cmd" where
  "rfc0034_setup E node2021 =
     bindM (estimate_start_number_of_epoch (ce_oc E) node2021 RFC0034_EPOCH_NUMBER) (\<lambda>fork_switch_height.
     bindM (u64_add (ce_oc E) fork_switch_height 10) (\<lambda>target.
     bindM (mine_to (ce_lib E) (ce_clock E) node2021 target) (\<lambda>_.
     foldM (rfc0034_deploy_script E node2021) deployer_new [''exec_callee'', ''exec_caller''])))"

text \<open>The transactions are sent in order, up to the first that is refused.\<close>

primrec rfc0034_run_case :: "'w case_env \<Rightarrow> 'w node \<Rightarrow> transaction list \<Rightarrow> ('w, string + unit) cmd" where
  "rfc0034_run_case E node [] = ret (Inr ())"
| "rfc0034_run_case E node (tx # txs) =
     tryM (rpc_send_transaction_result (ce_clock E) (nd_rpc_client node) tx) (\<lambda>_. rfc0034_run_case E node txs)"

definition rfc0034_case :: "'w case_env \<Rightarrow> 'w node \<Rightarrow> deployer \<Rightarrow> params_0034 \<Rightarrow> ('w lab, unit) cmd" where
  "rfc0034_case E node2021 d p =
     bindM (on_node (rfc0034_build_transactions E node2021 d p)) (\<lambda>txs.
     with_node (pulled_clone E node2021 (''case-'' @ to_decimal (p34_id p))) (\<lambda>node.
       bindM (on_node (rfc0034_run_case E node txs)) (assert_result_eq (p34_expected_result p))))"

definition rfc0034_run :: "'w case_env \<Rightarrow> 'w nodes \<Rightarrow> ('w lab, unit) cmd" where
  "rfc0034_run E nodes =
     bindM (on_node (get_node nodes ''node2021'')) (\<lambda>node2021.
     bindM (on_node (rfc0034_setup E node2021)) (\<lambda>d.
     forM rfc0034_cases_params (rfc0034_case E node2021 d)))"

definition rfc0034 :: "'w integration_case" where
  "rfc0034 = \<lparr>ic_type_name = ''ckb_integration_test::case::rfc0034::rfc0034::RFC0034'',
     ic_options = rfc0034_options, ic_run = rfc0034_run\<rparr>"

section \<open>What the cases try\<close>

text \<open>
  Where \<open>exec\<close> looks for code with index 0: in the cell of the first input, output or cell dependency,
  or in the first witness; a dependency has no witness.  The cells known are those of the transaction
  before and of the outputs themselves.
\<close>

definition cell_data_at :: "chain_lib \<Rightarrow> transaction \<Rightarrow> out_point \<Rightarrow> bytes option" where
  "cell_data_at L dep_tx p = (if op_tx_hash p = hash_tx L dep_tx \<and> op_index p < length (tx_outputs_data dep_tx)
     then Some (tx_outputs_data dep_tx ! op_index p) else None)"

fun exec_target :: "chain_lib \<Rightarrow> transaction \<Rightarrow> transaction \<Rightarrow> exec_source \<Rightarrow> exec_place \<Rightarrow> bytes option" where
  "exec_target L dep_tx tx Source_Input Place_Cell_Data =
     (case tx_inputs tx of [] \<Rightarrow> None | i # _ \<Rightarrow> cell_data_at L dep_tx (ci_previous_output i))"
| "exec_target L dep_tx tx Source_Output Place_Cell_Data = (case tx_outputs_data tx of [] \<Rightarrow> None | d # _ \<Rightarrow> Some d)"
| "exec_target L dep_tx tx Source_Cell_Dep Place_Cell_Data =
     (case tx_cell_deps tx of [] \<Rightarrow> None | c # _ \<Rightarrow> cell_data_at L dep_tx (cd_out_point c))"
| "exec_target L dep_tx tx Source_Cell_Dep Place_Witness = None"
| "exec_target L dep_tx tx _ Place_Witness = (case tx_witnesses tx of [] \<Rightarrow> None | w # _ \<Rightarrow> Some w)"

text \<open>The verdict of RFC 34: the old machine has no \<open>exec\<close>, the new one runs the code when there is some.\<close>

definition exec_rule :: "script_hash_type \<Rightarrow> bytes option \<Rightarrow> string + unit" where
  "exec_rule ht target = (if ht = Data then Inl ERROR_INVALID_ECALL else if target = None then Inl ''TransactionScriptError'' else Inr ())"

lemma split_last_100_run:
  assumes "100 \<le> length xs" and "length xs < u64_lim"
  shows "split_last_100 oc xs = (ret (take (length xs - 100) xs, drop (length xs - 100) xs) :: ('w, _) cmd)"
proof -
  have "u64_sub oc (length xs) 100 = (ret (length xs - 100) :: ('w, nat) cmd)" using assms by (rule u64_sub_ok)
  then show ?thesis by (simp add: split_last_100_def)
qed

lemma sum_capacities:
  assumes "n + worth cells < u64_lim"
  shows "foldM (\<lambda>sum cell. u64_add oc sum (co_capacity (cm_cell_output cell))) n cells = (ret (n + worth cells) :: ('w, nat) cmd)"
  using assms
proof (induction cells arbitrary: n)
  case Nil
  then show ?case by simp
next
  case (Cons cell cells)
  have "u64_add oc n (co_capacity (cm_cell_output cell)) = (ret (n + co_capacity (cm_cell_output cell)) :: ('w, nat) cmd)"
    using Cons.prems by (intro u64_add_ok) simp
  then show ?case using Cons.IH[of "n + co_capacity (cm_cell_output cell)"] Cons.prems by (simp add: add.assoc)
qed

lemma rfc0034_expected:
  assumes "p \<in> set rfc0034_cases_params"
  shows "p34_expected_result p = exec_rule (p34_script_hash_type p)
     (if p34_exec_source p = Source_Cell_Dep \<and> p34_exec_place p = Place_Witness then None else Some callee)"
    and "p34_script_hash_type p = Data \<or> p34_script_hash_type p = Data1"
  using assms by (auto simp: rfc0034_cases_params_def exec_rule_def Let_def)

lemma worth_drop: "worth (drop n cells) \<le> worth cells"
proof -
  have "worth cells = worth (take n cells) + worth (drop n cells)"
    by (simp add: sum_list_append[symmetric] map_append[symmetric] del: map_append)
  then show ?thesis by simp
qed

lemma deployed_content_run:
  assumes "d name = Some m" and "rpc_get_live_cell (nd_rpc_client node) (cm_out_point m) True = ret c"
    and "cws_cell c = Some info" and "cinfo_data info = Some data"
  shows "deployed_content node d name = ret (cdata_content data)"
  using assms by (simp add: deployed_content_def deployed_out_point_def deployed_cell_Some mapC_def expectM_def)


lemma script_cells:
  "length script_out_points = 250" "worth (map (\<lambda>p. the_cell_meta\<lparr>cm_out_point := p\<rparr>) ps) = length ps * 100000000000"
  "distinct script_out_points" "p \<in> set script_out_points \<Longrightarrow> op_tx_hash p = 7"
  by (induction ps) (auto simp: script_out_points_def the_cell_meta_def the_cell_def distinct_map inj_on_def)


end
