(* ===== verification/CaseNetworking.thy ===== *)
theory CaseNetworking
  imports CaseRunner
begin

text \<open>
  The cases in which several nodes talk to each other: \<open>case/basic/networking.rs\<close> and, of
  \<open>case/rfc0035/\<close>, \<open>connection.rs\<close>, \<open>discovery.rs\<close> and \<open>v2019.rs\<close>.
\<close>

definition expect_synced :: "'w case_env \<Rightarrow> 'w nodes \<Rightarrow> string \<Rightarrow> ('w, unit) cmd" where
  "expect_synced E nodes msg =
     bindM (waiting_for_sync (ce_lib E) (ce_names E) (ce_hashes E) (ce_clock E) nodes) (unwrapM msg)"

abbreviation mine_blocks :: "'w case_env \<Rightarrow> 'w node \<Rightarrow> nat \<Rightarrow> ('w, unit) cmd" where
  "mine_blocks E node n \<equiv> mine (ce_lib E) (ce_clock E) node n"

section \<open>\<open>BasicNetworking\<close>\<close>

definition basic_networking_options :: "'w case_env \<Rightarrow> case_options" where
  "basic_networking_options E = default_case_options\<lparr>cp_node_options :=
     [case_node_options ''node2019'' (ce_ckb2019 E) ''Height13TestData'' ''ckb2019'',
      case_node_options ''node2021'' (ce_ckb2021 E) ''Height13TestData'' ''ckb2021'']\<rparr>"

definition basic_networking_run :: "'w case_env \<Rightarrow> 'w nodes \<Rightarrow> ('w lab, unit) cmd" where
  "basic_networking_run E nodes = on_node (
     bindM (get_node nodes ''node2019'') (\<lambda>node2019.
     bindM (get_node nodes ''node2021'') (\<lambda>node2021.
     bindM (mine_blocks E node2019 10) (\<lambda>_.
     bindM (mine_blocks E node2021 10) (\<lambda>_.
     bindM (p2p_connect (ce_clock E) node2019 node2021) (\<lambda>_.
     bindM (mine_blocks E node2019 10) (\<lambda>_.
     bindM (expect_synced E nodes ''waiting for sync'') (\<lambda>_.
     bindM (mine_blocks E node2021 10) (\<lambda>_.
     expect_synced E nodes ''waiting for sync'')))))))))"

definition basic_networking :: "'w integration_case" where
  "basic_networking = \<lparr>ic_type_name = ''ckb_integration_test::case::basic::networking::BasicNetworking'',
     ic_options = basic_networking_options, ic_run = basic_networking_run\<rparr>"

section \<open>\<open>RFC0035V2021Connection\<close>\<close>

definition rfc0035_connection_options :: "'w case_env \<Rightarrow> case_options" where
  "rfc0035_connection_options E = \<lparr>cp_make_all_nodes_connected = True, cp_make_all_nodes_synced = True,
     cp_make_all_nodes_connected_and_synced = True, cp_node_options =
     [case_node_options ''node2019'' (ce_ckb2019 E) ''Epoch2V1TestData'' ''ckb2019'',
      case_node_options ''node2019_2'' (ce_ckb2019 E) ''Epoch2V1TestData'' ''ckb2019'',
      case_node_options ''node2021'' (ce_ckb2021 E) ''Epoch2V2TestData'' ''ckb2021'',
      case_node_options ''node2021_2'' (ce_ckb2021 E) ''Epoch2V2TestData'' ''ckb2021'']\<rparr>"

definition RFC0035_BLOCK_NUMBER :: nat where
  "RFC0035_BLOCK_NUMBER = 3000"

text \<open>Every peer of a node runs the node's own version.\<close>

definition same_version_peers :: "'w node \<Rightarrow> ('w, bool) cmd" where
  "same_version_peers node =
     bindM (rpc_local_node_info (nd_rpc_client node)) (\<lambda>local_node_info.
     bindM (rpc_get_peers (nd_rpc_client node)) (\<lambda>peers.
     ret (list_all (\<lambda>peer. ln_version local_node_info = rn_version peer) peers)))"

definition assert_same_version :: "'w node \<Rightarrow> ('w, unit) cmd" where
  "assert_same_version node =
     bindM (rpc_local_node_info (nd_rpc_client node)) (\<lambda>local_node_info.
     bindM (rpc_get_peers (nd_rpc_client node)) (\<lambda>peers.
     forM peers (\<lambda>peer. if ln_version local_node_info \<noteq> rn_version peer
       then panicking (''nodes with different fork versions should be disconnected, but '' @ node_name node @ ''('' @ ln_version local_node_info
         @ '') still connect with '' @ rn_node_id peer @ ''('' @ rn_version peer @ '')'')
       else ret ())))"

definition await_disconnected :: "'w case_env \<Rightarrow> 'w nodes \<Rightarrow> ('w, unit) cmd" where
  "await_disconnected E nodes =
     bindM (wait_until (ce_clock E) 20 (allM same_version_peers (nodes_of (ce_names E) nodes))) (\<lambda>disconnect_different_version_nodes.
     if \<not> disconnect_different_version_nodes then forM (nodes_of (ce_names E) nodes) assert_same_version else ret ())"

definition same_height :: "'w node \<Rightarrow> 'w node \<Rightarrow> ('w, bool) cmd" where
  "same_height a b = bindM (get_tip_block_number a) (\<lambda>n. bindM (get_tip_block_number b) (\<lambda>m. ret (n = m)))"

definition sync_fresh_node :: "'w case_env \<Rightarrow> 'w node \<Rightarrow> 'w node \<Rightarrow> ('w, unit) cmd" where
  "sync_fresh_node E node2021 fresh_node2021 =
     bindM (p2p_connect (ce_clock E) fresh_node2021 node2021) (\<lambda>_.
     bindM (wait_until (ce_clock E) 180 (same_height fresh_node2021 node2021)) (\<lambda>synced.
     assertM synced ''fresh_node2021 should sync from node2021s''))"

definition rfc0035_connection_type_name :: string where
  "rfc0035_connection_type_name = ''ckb_integration_test::case::rfc0035::connection::RFC0035V2021Connection''"

definition start_fresh_node :: "'w case_env \<Rightarrow> ('w lab, 'w node) cmd" where
  "start_fresh_node E =
     bindM (case_name_of rfc0035_connection_type_name) (\<lambda>name.
     bindM (on_ports (node_init (ce_os E) name (case_node_options ''fresh_node2021'' (ce_ckb2021 E) ''empty'' ''ckb2021'') True)) (\<lambda>node.
     on_node (node_start (ce_os E) node)))"

definition rfc0035_connection_run :: "'w case_env \<Rightarrow> 'w nodes \<Rightarrow> ('w lab, unit) cmd" where
  "rfc0035_connection_run E nodes =
     (let rfc0035_activated_number = RFC0035_BLOCK_NUMBER - 1;
          rfc0035_non_activated_number = rfc0035_activated_number - 1 in
      bindM (on_node (get_node nodes ''node2021'')) (\<lambda>node2021.
      bindM (on_node (mine_to (ce_lib E) (ce_clock E) node2021 rfc0035_non_activated_number)) (\<lambda>_.
      bindM (on_node (expect_synced E nodes ''nodes should be synced before rfc0035 activated'')) (\<lambda>_.
      bindM (on_node (mine_to (ce_lib E) (ce_clock E) node2021 rfc0035_activated_number)) (\<lambda>_.
      bindM (on_node (await_disconnected E nodes)) (\<lambda>_.
      with_node (start_fresh_node E) (\<lambda>fresh_node2021. on_node (sync_fresh_node E node2021 fresh_node2021))))))))"

definition rfc0035_connection :: "'w integration_case" where
  "rfc0035_connection = \<lparr>ic_type_name = rfc0035_connection_type_name,
     ic_options = rfc0035_connection_options, ic_run = rfc0035_connection_run\<rparr>"

section \<open>\<open>RFC0035V2021Discovery\<close>\<close>

definition RFC0035_EPOCH_NUMBER :: nat where
  "RFC0035_EPOCH_NUMBER = 3"

definition outbound_node_options :: "'w case_env \<Rightarrow> string \<Rightarrow> node_options" where
  "outbound_node_options E name = \<lparr>no_node_name = name, no_ckb_binary = ce_ckb2021 E,
     no_initial_database = ''testdata/db/Epoch2V2TestData'', no_chain_spec = ''testdata/spec/ckb2021'',
     no_app_config = ''testdata/config/connect_outbound_interval_secs''\<rparr>"

definition rfc0035_discovery_options :: "'w case_env \<Rightarrow> case_options" where
  "rfc0035_discovery_options E = default_case_options\<lparr>cp_node_options :=
     [outbound_node_options E ''node2021_1'', outbound_node_options E ''node2021_2'', outbound_node_options E ''node2021_3'']\<rparr>"

definition rfc0035_discovery_run :: "'w case_env \<Rightarrow> 'w nodes \<Rightarrow> ('w lab, unit) cmd" where
  "rfc0035_discovery_run E nodes = on_node (let ns = nodes_of (ce_names E) nodes in
     bindM (forM ns (\<lambda>node. bindM (estimate_start_number_of_epoch (ce_oc E) node RFC0035_EPOCH_NUMBER)
                              (mine_to (ce_lib E) (ce_clock E) node))) (\<lambda>_.
     bindM (forM ns (\<lambda>node. bindM (rpc_get_peers (nd_rpc_client node)) (\<lambda>peers.
              assertM (peers = []) ''assertion failed: node.rpc_client().get_peers().is_empty()''))) (\<lambda>_.
     bindM (get_node nodes ''node2021_1'') (\<lambda>node2021_1.
     bindM (get_node nodes ''node2021_2'') (\<lambda>node2021_2.
     bindM (get_node nodes ''node2021_3'') (\<lambda>node2021_3.
     bindM (p2p_connect (ce_clock E) node2021_2 node2021_1) (\<lambda>_.
     bindM (p2p_connect (ce_clock E) node2021_3 node2021_1) (\<lambda>_.
     bindM (wait_until (ce_clock E) 20 (bindM (rpc_get_peers (nd_rpc_client node2021_2))
              (anyM (\<lambda>peer. bindM (node_id node2021_3) (\<lambda>i. ret (rn_node_id peer = i)))))) (\<lambda>is_connected.
     assertM is_connected ''node2021_1 should propagate other 2021's info, so node2021_2 can connect to node2021_3'')))))))))"

definition rfc0035_discovery :: "'w integration_case" where
  "rfc0035_discovery = \<lparr>ic_type_name = ''ckb_integration_test::case::rfc0035::discovery::RFC0035V2021Discovery'',
     ic_options = rfc0035_discovery_options, ic_run = rfc0035_discovery_run\<rparr>"

section \<open>\<open>RFC0035V2019\<close>\<close>

definition rfc0035_v2019_options :: "'w case_env \<Rightarrow> case_options" where
  "rfc0035_v2019_options E = default_case_options\<lparr>cp_node_options :=
     [case_node_options ''node2019'' (ce_ckb2019 E) ''Epoch2V1TestData'' ''ckb2019'',
      case_node_options ''node2019_2'' (ce_ckb2019 E) ''Epoch2V1TestData'' ''ckb2019'',
      case_node_options ''node2021'' (ce_ckb2021 E) ''Epoch2V2TestData'' ''ckb2021'',
      case_node_options ''node2021_2'' (ce_ckb2021 E) ''Epoch2V2TestData'' ''ckb2021'']\<rparr>"

definition is_rfc0234_switched :: "'w node \<Rightarrow> ('w, bool) cmd" where
  "is_rfc0234_switched node =
     bindM (rpc_get_current_epoch (nd_rpc_client node)) (\<lambda>e. ret (RFC0035_EPOCH_NUMBER \<le> ev_number e))"

text \<open>One step of the case: the nodes are (dis)connected, one of them mines, and the others follow.\<close>

definition grow_and_sync :: "'w case_env \<Rightarrow> 'w nodes \<Rightarrow> 'w node \<Rightarrow> nat \<Rightarrow> string \<Rightarrow> ('w, unit) cmd" where
  "grow_and_sync E nodes node n assertion =
     bindM (mine_blocks E node n) (\<lambda>_.
     bindM (is_rfc0234_switched node) (\<lambda>switched.
     assertM (\<not> switched) assertion))"

definition apart_then_sync :: "'w case_env \<Rightarrow> 'w nodes \<Rightarrow> 'w node \<Rightarrow> string \<Rightarrow> ('w, unit) cmd" where
  "apart_then_sync E nodes node assertion =
     bindM (nodes_p2p_disconnect (ce_names E) (ce_clock E) nodes) (\<lambda>_.
     bindM (grow_and_sync E nodes node 10 assertion) (\<lambda>_.
     bindM (nodes_p2p_connect (ce_names E) (ce_clock E) nodes) (\<lambda>_.
     expect_synced E nodes ''nodes should be synced'')))"

definition together_then_sync :: "'w case_env \<Rightarrow> 'w nodes \<Rightarrow> 'w node \<Rightarrow> string \<Rightarrow> ('w, unit) cmd" where
  "together_then_sync E nodes node assertion =
     bindM (nodes_p2p_connect (ce_names E) (ce_clock E) nodes) (\<lambda>_.
     bindM (grow_and_sync E nodes node 1 assertion) (\<lambda>_.
     expect_synced E nodes ''nodes should be synced''))"

definition rfc0035_v2019_run :: "'w case_env \<Rightarrow> 'w nodes \<Rightarrow> ('w lab, unit) cmd" where
  "rfc0035_v2019_run E nodes = on_node (
     bindM (get_node nodes ''node2019'') (\<lambda>node2019.
     bindM (get_node nodes ''node2021'') (\<lambda>node2021.
     bindM (apart_then_sync E nodes node2019 ''assertion failed: !is_rfc0234_switched(node2019)'') (\<lambda>_.
     bindM (apart_then_sync E nodes node2021 ''assertion failed: !is_rfc0234_switched(node2021)'') (\<lambda>_.
     bindM (together_then_sync E nodes node2019 ''assertion failed: !is_rfc0234_switched(node2019)'') (\<lambda>_.
     together_then_sync E nodes node2021 ''assertion failed: !is_rfc0234_switched(node2021)''))))))"

definition rfc0035_v2019 :: "'w integration_case" where
  "rfc0035_v2019 = \<lparr>ic_type_name = ''ckb_integration_test::case::rfc0035::v2019::RFC0035V2019'',
     ic_options = rfc0035_v2019_options, ic_run = rfc0035_v2019_run\<rparr>"

section \<open>What passing shows\<close>

text \<open>An observation of a node in which all its peers run its own version.\<close>

definition seen_uniform :: "'w node \<Rightarrow> bool" where
  "seen_uniform node \<longleftrightarrow> (\<exists>v info v1 peers v2. rpc_local_node_info (nd_rpc_client node) v = Some (Inr info, v1)
     \<and> rpc_get_peers (nd_rpc_client node) v1 = Some (Inr peers, v2) \<and> (\<forall>peer \<in> set peers. ln_version info = rn_version peer))"

lemma same_version_seen:
  assumes "same_version_peers node v = Some (Inr True, v')"
  shows "seen_uniform node"
proof -
  obtain info v1 peers v2 where "rpc_local_node_info (nd_rpc_client node) v = Some (Inr info, v1)"
    "rpc_get_peers (nd_rpc_client node) v1 = Some (Inr peers, v2)" "list_all (\<lambda>peer. ln_version info = rn_version peer) peers"
    using assms unfolding same_version_peers_def by (elim bindM_InrE) (simp add: ret_def)
  then show ?thesis unfolding seen_uniform_def list_all_iff by blast
qed

lemma no_other_version:
  "forM peers (\<lambda>peer. if version \<noteq> rn_version peer then panicking (msg peer) else ret ()) w = Some (Inr (), w')
    \<Longrightarrow> \<forall>peer \<in> set peers. version = rn_version peer"
proof (induction peers arbitrary: w)
  case Nil
  then show ?case by simp
next
  case (Cons peer peers)
  show ?case
  proof (cases "version = rn_version peer")
    case True
    then have "forM peers (\<lambda>peer. if version \<noteq> rn_version peer then panicking (msg peer) else ret ()) w = Some (Inr (), w')"
      using Cons.prems by simp
    then have "\<forall>peer \<in> set peers. version = rn_version peer" by (rule Cons.IH)
    with True show ?thesis by simp
  next
    case False
    then show ?thesis using Cons.prems by (simp add: bindM_halt halting_def)
  qed
qed

lemma assert_same_version_seen:
  assumes "assert_same_version node v = Some (Inr (), v')"
  shows "seen_uniform node"
proof -
  obtain info v1 peers v2 where "rpc_local_node_info (nd_rpc_client node) v = Some (Inr info, v1)"
    "rpc_get_peers (nd_rpc_client node) v1 = Some (Inr peers, v2)"
    and peers: "forM peers (\<lambda>peer. if ln_version info \<noteq> rn_version peer
       then panicking (''nodes with different fork versions should be disconnected, but '' @ node_name node @ ''('' @ ln_version info
         @ '') still connect with '' @ rn_node_id peer @ ''('' @ rn_version peer @ '')'')
       else ret ()) v2 = Some (Inr (), v')"
    using assms unfolding assert_same_version_def bindM_Inr_iff by blast
  moreover from peers have "\<forall>peer \<in> set peers. ln_version info = rn_version peer" by (rule no_other_version)
  ultimately show ?thesis unfolding seen_uniform_def by blast
qed

lemma allM_each:
  assumes "allM f xs w = Some (Inr True, w')" and "x \<in> set xs"
  shows "\<exists>v v'. f x v = Some (Inr True, v')"
  using assms
proof (induction xs arbitrary: w)
  case (Cons y ys)
  obtain b w1 where b: "f y w = Some (Inr b, w1)" "(if b then allM f ys else ret False) w1 = Some (Inr True, w')"
    using Cons.prems(1) unfolding allM.simps forM.simps bindM_Inr_iff by blast
  then have b by (cases b) (simp_all add: ret_def)
  with b Cons show ?case by auto
qed simp

lemma forM_each:
  assumes "forM xs f w = Some (Inr (), w')" and "x \<in> set xs"
  shows "\<exists>v v'. f x v = Some (Inr (), v')"
  using assms
proof (induction xs arbitrary: w)
  case (Cons y ys)
  obtain u w1 where "f y w = Some (Inr u, w1)" "forM ys f w1 = Some (Inr (), w')"
    using Cons.prems(1) unfolding allM.simps forM.simps bindM_Inr_iff by blast
  with Cons show ?case by auto
qed simp

lemma await_disconnected_seen:
  assumes "await_disconnected E nodes w = Some (Inr (), w')" and "node \<in> set (nodes_of (ce_names E) nodes)"
  shows "seen_uniform node"
proof -
  obtain b w1 where b: "wait_until (ce_clock E) 20 (allM same_version_peers (nodes_of (ce_names E) nodes)) w = Some (Inr b, w1)"
    "(if \<not> b then forM (nodes_of (ce_names E) nodes) assert_same_version else ret ()) w1 = Some (Inr (), w')"
    using assms(1) unfolding await_disconnected_def bindM_Inr_iff by blast
  show ?thesis
  proof (cases b)
    case True
    with b(1) have "wait_until (ce_clock E) 20 (allM same_version_peers (nodes_of (ce_names E) nodes)) w = Some (Inr True, w1)"
      by simp
    from wait_until_True[OF this] obtain v
      where "allM same_version_peers (nodes_of (ce_names E) nodes) v = Some (Inr True, w1)" ..
    from allM_each[OF this assms(2)] obtain v v' where "same_version_peers node v = Some (Inr True, v')" by blast
    then show ?thesis by (rule same_version_seen)
  next
    case False
    then have "forM (nodes_of (ce_names E) nodes) assert_same_version w1 = Some (Inr (), w')" using b(2) by simp
    from forM_each[OF this assms(2)] obtain v v' where "assert_same_version node v = Some (Inr (), v')" by blast
    then show ?thesis by (rule assert_same_version_seen)
  qed
qed

text \<open>
  When the connection case of RFC 35 passes, every node has been seen, after the block before the fork was
  mined, with no peer of the other version.
\<close>

lemma rfc0035_connection_disconnects:
  assumes "rfc0035_connection_run E nodes w = Some (Inr (), w')" and "node \<in> set (nodes_of (ce_names E) nodes)"
  shows "seen_uniform node"
proof -
  obtain u w1 w2 where "on_node (await_disconnected E nodes) w1 = Some (Inr u, w2)"
    using assms(1) unfolding rfc0035_connection_run_def Let_def bindM_Inr_iff by blast
  then obtain v v' where "await_disconnected E nodes v = Some (Inr (), v')"
    by (cases w1) (auto simp: on_node_def on_env_def split: option.splits)
  then show ?thesis using assms(2) by (rule await_disconnected_seen)
qed

end
