(* ===== verification/Rfc0035Relay.thy ===== *)
theory Rfc0035Relay
  imports Rfc0032 CaseNetworking
begin

text \<open>
  \<open>ckb-integration-test/src/case/rfc0035/relay_transaction.rs\<close>: how a node takes transactions that a fake
  peer relays over either protocol with the cycles of either virtual machine.
\<close>

section \<open>The table\<close>

datatype relay_error = ConnectionTimeout | RelayTransactionHashFailed | RelayTransactionFailed

record params_relay =
  prl_id :: nat
  prl_height :: nat
  prl_peer_version :: string
  prl_protocol :: support_protocols
  prl_tx_script_hash_type :: script_hash_type
  prl_relayed_cycles :: script_hash_type
  prl_expected_result :: "relay_error + unit"

abbreviation relay_row :: "nat \<Rightarrow> nat \<Rightarrow> string \<Rightarrow> support_protocols \<Rightarrow> script_hash_type \<Rightarrow> script_hash_type
    \<Rightarrow> relay_error + unit \<Rightarrow> params_relay" where
  "relay_row i height peer_version protocol tx_script_hash_type relayed_cycles expected_result \<equiv>
     \<lparr>prl_id = i, prl_height = height, prl_peer_version = peer_version, prl_protocol = protocol,
      prl_tx_script_hash_type = tx_script_hash_type, prl_relayed_cycles = relayed_cycles,
      prl_expected_result = expected_result\<rparr>"

text \<open>The rows below the fork, and those above it, for the two versions of the executable.\<close>

definition relay_rows_before :: "string \<Rightarrow> string \<Rightarrow> params_relay list" where
  "relay_rows_before v43 v100 = (let before = RFC0035_BLOCK_NUMBER - HARDFORK_DELAY_WINDOW - 1 in
    [relay_row 1 before v43 Relay Data Data (Inr ()),
     relay_row 2 before v43 Relay Data Data1 (Inl RelayTransactionFailed),
     relay_row 3 before v43 Relay Type Data (Inr ()),
     relay_row 4 before v43 Relay Type Data1 (Inl RelayTransactionFailed),
     relay_row 5 before v43 Relay Data1 Data (Inl RelayTransactionFailed),
     relay_row 6 before v43 Relay Data1 Data1 (Inl RelayTransactionFailed),
     relay_row 7 before v43 RelayV2 Data Data (Inl RelayTransactionHashFailed),
     relay_row 8 before v100 Relay Data Data (Inr ()),
     relay_row 9 before v100 Relay Data Data1 (Inl RelayTransactionFailed),
     relay_row 10 before v100 Relay Type Data (Inr ()),
     relay_row 11 before v100 Relay Type Data1 (Inl RelayTransactionFailed),
     relay_row 12 before v100 Relay Data1 Data (Inl RelayTransactionFailed),
     relay_row 13 before v100 Relay Data1 Data1 (Inl RelayTransactionFailed),
     relay_row 14 before v100 RelayV2 Data Data (Inl RelayTransactionHashFailed)])"

definition relay_rows_after :: "string \<Rightarrow> string \<Rightarrow> params_relay list" where
  "relay_rows_after v43 v100 = (let after = RFC0035_BLOCK_NUMBER + HARDFORK_DELAY_WINDOW + 1 in
    [relay_row 15 after v43 RelayV2 Data Data (Inr ()),
     relay_row 16 after v43 RelayV2 Data Data1 (Inl RelayTransactionFailed),
     relay_row 17 after v43 RelayV2 Type Data (Inl RelayTransactionFailed),
     relay_row 18 after v43 RelayV2 Type Data1 (Inr ()),
     relay_row 19 after v43 RelayV2 Data1 Data (Inl RelayTransactionFailed),
     relay_row 20 after v43 RelayV2 Data1 Data1 (Inr ()),
     relay_row 21 after v100 Relay Data Data (Inl RelayTransactionHashFailed),
     relay_row 22 after v100 RelayV2 Data Data (Inr ()),
     relay_row 23 after v100 RelayV2 Data Data1 (Inl RelayTransactionFailed),
     relay_row 24 after v100 RelayV2 Type Data (Inl RelayTransactionFailed),
     relay_row 25 after v100 RelayV2 Type Data1 (Inr ()),
     relay_row 26 after v100 RelayV2 Data1 Data (Inl RelayTransactionFailed),
     relay_row 27 after v100 RelayV2 Data1 Data1 (Inr ())])"

definition relay_cases_params :: "'w case_env \<Rightarrow> ('w, params_relay list) cmd" where
  "relay_cases_params E =
     bindM (v0_43 E) (\<lambda>v43.
     bindM (v0_100 E) (\<lambda>v100.
     ret (relay_rows_before v43 v100 @ relay_rows_after v43 v100)))"

section \<open>The case\<close>

definition relay_type_name :: string where
  "relay_type_name = ''ckb_integration_test::case::rfc0035::relay_transaction::RFC0035RelayTransaction''"

definition relay_options :: "'w case_env \<Rightarrow> case_options" where
  "relay_options E = default_case_options\<lparr>cp_node_options :=
     [\<lparr>no_node_name = ''node2021'', no_ckb_binary = ce_ckb2021 E, no_initial_database = ''testdata/db/Epoch2V2TestData'',
       no_chain_spec = ''testdata/spec/ckb2021'', no_app_config = ''testdata/config/ckb2021_block_assembler_hash_type_is_data''\<rparr>]\<rparr>"

text \<open>The input is the cellbase of the tip, whose lock is bound to the machine by data hash.\<close>

definition relay_input :: "'w case_env \<Rightarrow> 'w node \<Rightarrow> ('w, cell_meta) cmd" where
  "relay_input E node2021 =
     bindM (get_tip_block node2021) (\<lambda>tip_block.
     bindM (expectM UNWRAP (case bk_transactions tip_block of [] \<Rightarrow> None | tx # _ \<Rightarrow> Some tx)) (\<lambda>tip_cellbase.
     bindM (synced_indexer (ce_lib E) node2021) (\<lambda>_.
     bindM (get_cell_meta node2021 \<lparr>op_tx_hash = hash_tx (ce_lib E) tip_cellbase, op_index = 0\<rparr>) (\<lambda>input.
     expectM UNWRAP input))))"

definition relay_check_input :: "cell_meta \<Rightarrow> ('w, unit) cmd" where
  "relay_check_input input =
     bindM (assertM (hash_type (co_lock (cm_cell_output input)) = Data)
              ''Ensure the input's scripts are cycles-consistency'') (\<lambda>_.
     bindM (expectM UNWRAP (cm_transaction_info input)) (\<lambda>info.
     assertM (ti_block_number info < RFC0035_BLOCK_NUMBER - 20) ''Ensure the input is valid for all cases scenarioes''))"

definition build_always_success_script :: "'w case_env \<Rightarrow> 'w node \<Rightarrow> script_hash_type \<Rightarrow> ('w, script) cmd" where
  "build_always_success_script E node script_hash_type =
     bindM (always_script_data_hash E node) (\<lambda>always_script_data_hash.
     bindM (always_success_script (ce_lib E) node) (\<lambda>script.
     bindM (assertM (hash_type script = Type) ''assertion failed: script.hash_type() == ScriptHashType::Type.into()'') (\<lambda>_.
     ret (case script_hash_type of
         Type \<Rightarrow> default_script\<lparr>code_hash := code_hash script, hash_type := Type\<rparr>
       | ht \<Rightarrow> default_script\<lparr>code_hash := always_script_data_hash, hash_type := ht\<rparr>))))"

definition relay_build_transaction :: "'w case_env \<Rightarrow> 'w node \<Rightarrow> cell_meta \<Rightarrow> script_hash_type \<Rightarrow> ('w, transaction) cmd" where
  "relay_build_transaction E node input type_script_hash_type =
     bindM (assertM (hash_type (co_lock (cm_cell_output input)) = Data)
              ''assertion failed: input.cell_output.lock().hash_type() == ScriptHashType::Data.into()'') (\<lambda>_.
     bindM (build_always_success_script E node type_script_hash_type) (\<lambda>type_script.
     bindM (always_success_cell_dep (ce_lib E) node) (\<lambda>dep.
     ret (empty_transaction\<lparr>tx_inputs := [cell_input_new (cm_out_point input) 0],
       tx_outputs := [\<lparr>co_capacity = co_capacity (cm_cell_output input), co_lock = co_lock (cm_cell_output input),
                       co_type = Some type_script\<rparr>],
       tx_outputs_data := [[]], tx_cell_deps := [dep]\<rparr>))))"

text \<open>
  The three transactions, and the cycles that the two machines take: a node that has passed the fork
  executes the transactions with the old and with the new kind of data hash.
\<close>

record relay_setup =
  rs_data0_tx :: transaction
  rs_data1_tx :: transaction
  rs_type_tx :: transaction
  rs_vm0_cycles :: nat
  rs_vm1_cycles :: nat

definition relay_prepare :: "'w case_env \<Rightarrow> 'w node \<Rightarrow> cell_meta \<Rightarrow> 'w node \<Rightarrow> ('w, relay_setup) cmd" where
  "relay_prepare E node2021 input node_used_to_dry_run_txs =
     bindM (bindM (pull_node node_used_to_dry_run_txs node2021) (unwrapM UNWRAP)) (\<lambda>_.
     bindM (mine_to (ce_lib E) (ce_clock E) node_used_to_dry_run_txs (RFC0035_BLOCK_NUMBER + HARDFORK_DELAY_WINDOW + 1)) (\<lambda>_.
     bindM (relay_build_transaction E node2021 input Data) (\<lambda>data0_tx.
     bindM (relay_build_transaction E node2021 input Data1) (\<lambda>data1_tx.
     bindM (relay_build_transaction E node2021 input Type) (\<lambda>type_tx.
     bindM (get_transaction_cycles node_used_to_dry_run_txs data0_tx) (\<lambda>vm0_cycles.
     bindM (get_transaction_cycles node_used_to_dry_run_txs data1_tx) (\<lambda>vm1_cycles.
     ret \<lparr>rs_data0_tx = data0_tx, rs_data1_tx = data1_tx, rs_type_tx = type_tx,
          rs_vm0_cycles = vm0_cycles, rs_vm1_cycles = vm1_cycles\<rparr>)))))))"

text \<open>A node for one row: started afresh, given the chain of the base node, and mined up to the row's height.\<close>

definition relay_node_options :: "'w case_env \<Rightarrow> params_relay \<Rightarrow> node_options" where
  "relay_node_options E p = case_node_options (''case-'' @ to_decimal (prl_id p)) (ce_ckb2021 E) ''empty'' ''ckb2021''"

definition relay_setup_node :: "'w case_env \<Rightarrow> 'w node \<Rightarrow> params_relay \<Rightarrow> ('w lab, 'w node) cmd" where
  "relay_setup_node E base_chain_node p =
     bindM (case_name_of relay_type_name) (\<lambda>name.
     bindM (on_ports (node_init (ce_os E) name (relay_node_options E p) True)) (\<lambda>node.
     bindM (on_node (node_start (ce_os E) node)) (\<lambda>node.
     bindM (unwindM (on_node (
         bindM (bindM (pull_node node base_chain_node) (unwrapM UNWRAP)) (\<lambda>_.
         bindM (mine_to (ce_lib E) (ce_clock E) node (prl_height p)) (\<lambda>_.
         sleeping (ce_clock E) (secs 2)))))
       (on_node (drop_guard (nd_guard node)))) (\<lambda>_.
     ret node))))"

definition relay_setup_connector :: "'w case_env \<Rightarrow> params_relay \<Rightarrow> ('w lab, 'w connector) cmd" where
  "relay_setup_connector E p = new_connector E [(prl_protocol p, True), (Sync, True)]"

text \<open>One poll for the node's request: a timeout counts as none, an unreadable message is a panic.\<close>

definition received_get_relay_txs :: "'w case_env \<Rightarrow> params_relay \<Rightarrow> 'w node \<Rightarrow> ('w net, bool) cmd" where
  "received_get_relay_txs E p node =
     bindM (recv_timeout (ce_net E) (ce_await E) (secs 20) node (prl_protocol p)) (\<lambda>r. case r of
         Inr data \<Rightarrow> bindM (unwrapM UNWRAP (cl_relay_item_name (ce_types E) data)) (\<lambda>item_name.
           ret (item_name = ''GetRelayTransactions''))
       | Inl _ \<Rightarrow> ret False)"

definition relay_verdict :: "'w case_env \<Rightarrow> 'w node \<Rightarrow> transaction \<Rightarrow> ('w, relay_error + unit) cmd" where
  "relay_verdict E node tx =
     bindM (wait_until (ce_clock E) 5 (is_transaction_pending (ce_lib E) node tx)) (\<lambda>tx_relayed.
     bindM (wait_until (ce_clock E) 5
              (bindM (rpc_get_banned_addresses (nd_rpc_client node)) (\<lambda>banned_addresses. ret (banned_addresses \<noteq> [])))) (\<lambda>banned.
     ret (if tx_relayed \<and> \<not> banned then Inr () else Inl RelayTransactionFailed)))"

definition relay_run_case ::
    "'w case_env \<Rightarrow> params_relay \<Rightarrow> 'w connector \<Rightarrow> 'w node \<Rightarrow> transaction \<Rightarrow> nat \<Rightarrow> ('w net, relay_error + unit) cmd" where
  "relay_run_case E p connector node tx relayed_cycles =
     bindM (connect (ce_net E) connector node) (\<lambda>connected. case connected of
         Inl _ \<Rightarrow> ret (Inl ConnectionTimeout)
       | Inr _ \<Rightarrow>
           bindM (bindM (send_relay_transaction_hash (ce_net E) (ce_wire E) connector node (prl_protocol p) [hash_tx (ce_lib E) tx])
                    (unwrapM UNWRAP)) (\<lambda>_.
           bindM (wait_until (ne_clock (ce_net E)) 20 (received_get_relay_txs E p node)) (\<lambda>received.
           if \<not> received then ret (Inl RelayTransactionHashFailed)
           else
             bindM (bindM (send_relay_transaction (ce_net E) (ce_wire E) connector node (prl_protocol p) tx relayed_cycles)
                      (unwrapM UNWRAP)) (\<lambda>_.
             on_env (relay_verdict E node tx)))))"

definition tx_of_row :: "relay_setup \<Rightarrow> params_relay \<Rightarrow> transaction" where
  "tx_of_row s p = (case prl_tx_script_hash_type p of Data \<Rightarrow> rs_data0_tx s | Type \<Rightarrow> rs_type_tx s | Data1 \<Rightarrow> rs_data1_tx s)"

definition cycles_of_row :: "relay_setup \<Rightarrow> params_relay \<Rightarrow> ('w, nat) cmd" where
  "cycles_of_row s p = (case prl_relayed_cycles p of
       Data \<Rightarrow> ret (rs_vm0_cycles s)
     | Type \<Rightarrow> panicking ''internal error: entered unreachable code''
     | Data1 \<Rightarrow> ret (rs_vm1_cycles s))"

definition relay_answer :: "'w case_env \<Rightarrow> relay_setup \<Rightarrow> params_relay \<Rightarrow> nat \<Rightarrow> 'w node \<Rightarrow> ('w lab, relay_error + unit) cmd" where
  "relay_answer E s p relayed_cycles node =
     bindM (relay_setup_connector E p) (\<lambda>connector.
     on_net (relay_run_case E p connector node (tx_of_row s p) relayed_cycles))"

definition relay_row_run :: "'w case_env \<Rightarrow> 'w node \<Rightarrow> relay_setup \<Rightarrow> params_relay \<Rightarrow> ('w lab, unit) cmd" where
  "relay_row_run E node2021 s p =
     bindM (cycles_of_row s p) (\<lambda>relayed_cycles.
     with_node (relay_setup_node E node2021 p) (\<lambda>node.
       bindM (relay_answer E s p relayed_cycles node) (\<lambda>actual_result.
       assertM (prl_expected_result p = actual_result) ''assertion failed: `(left == right)`'')))"

definition relay_run :: "'w case_env \<Rightarrow> 'w nodes \<Rightarrow> ('w lab, unit) cmd" where
  "relay_run E nodes =
     bindM (on_node (get_node nodes ''node2021'')) (\<lambda>node2021.
     bindM (on_node (mine (ce_lib E) (ce_clock E) node2021 13)) (\<lambda>_.
     bindM (on_node (relay_input E node2021)) (\<lambda>input.
     bindM (relay_check_input input) (\<lambda>_.
     bindM (with_node (lab_clone_node E node2021 ''used_to_dry_run_txs'')
              (\<lambda>node. on_node (relay_prepare E node2021 input node))) (\<lambda>s.
     bindM (on_node (relay_cases_params E)) (\<lambda>ps.
     forM ps (relay_row_run E node2021 s)))))))"

definition rfc0035_relay_transaction :: "'w integration_case" where
  "rfc0035_relay_transaction = \<lparr>ic_type_name = relay_type_name, ic_options = relay_options, ic_run = relay_run\<rparr>"

section \<open>What the table shows\<close>

text \<open>
  The rule of RFC 35 with the fork at height \<open>h\<close> and machines that take \<open>v0\<close> and \<open>v1\<close> cycles: before the
  fork a node listens to the old protocol only, after it to the new one only; it takes a transaction whose
  cycles are those it counts itself, and no script with the new kind of data hash before the fork.
\<close>

definition relay_rule :: "nat \<Rightarrow> nat \<Rightarrow> nat \<Rightarrow> params_relay \<Rightarrow> relay_error + unit" where
  "relay_rule h v0 v1 p =
     (let activated = h \<le> prl_height p;
          counted = (case prl_tx_script_hash_type p of
              Data \<Rightarrow> Some v0
            | Type \<Rightarrow> Some (if activated then v1 else v0)
            | Data1 \<Rightarrow> if activated then Some v1 else None);
          relayed = (if prl_relayed_cycles p = Data then v0 else v1)
      in if prl_protocol p \<noteq> (if activated then RelayV2 else Relay) then Inl RelayTransactionHashFailed
         else if counted = Some relayed then Inr () else Inl RelayTransactionFailed)"

lemma relay_rows:
  "(\<forall>p \<in> set (relay_rows_before v43 v100 @ relay_rows_after v43 v100). prl_expected_result p = relay_rule h v0 v1 p)
     \<longleftrightarrow> 2989 < h \<and> h \<le> 3011 \<and> v0 \<noteq> v1"
  by (auto simp: relay_rows_before_def relay_rows_after_def RFC0035_BLOCK_NUMBER_def HARDFORK_DELAY_WINDOW_def
      relay_rule_def Let_def split: if_splits)

text \<open>
  A row, put to a node: the run over the rows passes exactly against nodes that follow the rule with the
  fork between the heights 2990 and 3011, and only if the two machines can be told apart by their cycles.
\<close>

definition relay_question :: "'w case_env \<Rightarrow> 'w node \<Rightarrow> relay_setup \<Rightarrow> params_relay \<Rightarrow> ('w lab, relay_error + unit) cmd" where
  "relay_question E node2021 s p = with_node (relay_setup_node E node2021 p)
     (relay_answer E s p (if prl_relayed_cycles p = Data then rs_vm0_cycles s else rs_vm1_cycles s))"

lemma relay_row_run_eq:
  assumes "prl_relayed_cycles p \<noteq> Type"
  shows "relay_row_run E node2021 s p = bindM (relay_question E node2021 s p)
       (\<lambda>r. assertM (prl_expected_result p = r) ''assertion failed: `(left == right)`'')"
  using assms
  by (cases "prl_relayed_cycles p")
     (simp_all add: relay_row_run_def relay_question_def cycles_of_row_def with_node_assert[of _ _ "\<lambda>r. prl_expected_result p = r"])

lemma relay_rows_cycles:
  "\<forall>p \<in> set (relay_rows_before v43 v100 @ relay_rows_after v43 v100). prl_relayed_cycles p \<noteq> Type"
  by (simp add: relay_rows_before_def relay_rows_after_def Let_def)

lemma relay_pins_rule:
  fixes node2021 :: "'w node" and v43 v100 :: string
  defines "rows \<equiv> relay_rows_before v43 v100 @ relay_rows_after v43 v100"
  assumes "I w" and "\<forall>p \<in> set rows. answers_in I (relay_question E node2021 s p)
      (relay_rule h (rs_vm0_cycles s) (rs_vm1_cycles s) p)"
  shows "\<exists>w'. forM rows (relay_row_run E node2021 s) w = Some
     (if 2989 < h \<and> h \<le> 3011 \<and> rs_vm0_cycles s \<noteq> rs_vm1_cycles s then Inr () else Inl (Panic ''assertion failed: `(left == right)`''), w')"
proof -
  have loop: "forM rows (relay_row_run E node2021 s) = forM rows (\<lambda>p. bindM (relay_question E node2021 s p)
       (\<lambda>r. assertM (prl_expected_result p = r) ''assertion failed: `(left == right)`''))"
    using relay_rows_cycles unfolding rows_def by (intro forM_cong relay_row_run_eq) blast
  have rule: "(\<forall>p \<in> set rows. prl_expected_result p = relay_rule h (rs_vm0_cycles s) (rs_vm1_cycles s) p)
      \<longleftrightarrow> 2989 < h \<and> h \<le> 3011 \<and> rs_vm0_cycles s \<noteq> rs_vm1_cycles s"
    unfolding rows_def by (rule relay_rows)
  show ?thesis
    using forM_checks[OF assms(3,2), of "\<lambda>p r. prl_expected_result p = r" "''assertion failed: `(left == right)`''"]
    unfolding loop rule by blast
qed

text \<open>
  Nothing that happens in a row depends on the version of the peer: the rows 8 to 14 and 22 to 27 ask the
  questions of the rows 1 to 7 and 15 to 20 again.
\<close>

lemma relay_peer_version_unused:
  "relay_setup_node E node2021 (p\<lparr>prl_peer_version := v\<rparr>) = relay_setup_node E node2021 p"
  "relay_answer E s (p\<lparr>prl_peer_version := v\<rparr>) = relay_answer E s p"
  "relay_row_run E node2021 s (p\<lparr>prl_peer_version := v\<rparr>) = relay_row_run E node2021 s p"
proof -
  show a: "relay_setup_node E node2021 (p\<lparr>prl_peer_version := v\<rparr>) = relay_setup_node E node2021 p"
    by (simp add: relay_setup_node_def relay_node_options_def)
  have fields: "prl_protocol (p\<lparr>prl_peer_version := v\<rparr>) = prl_protocol p" "tx_of_row s (p\<lparr>prl_peer_version := v\<rparr>) = tx_of_row s p"
    by (simp_all add: tx_of_row_def)
  show b: "relay_answer E s (p\<lparr>prl_peer_version := v\<rparr>) = relay_answer E s p"
    unfolding relay_answer_def relay_setup_connector_def relay_run_case_def received_get_relay_txs_def fields ..
  show "relay_row_run E node2021 s (p\<lparr>prl_peer_version := v\<rparr>) = relay_row_run E node2021 s p"
    by (simp add: relay_row_run_def cycles_of_row_def a b)
qed

end
