(* ===== verification/Rfc0036.thy ===== *)
theory Rfc0036
  imports LabWorld
begin

text \<open>
  \<open>ckb-integration-test/src/case/rfc0036/rfc0036.rs\<close>: the maturity of a header dependency, required before
  the hard fork and not after it.
\<close>

section \<open>The case\<close>

definition RFC0036_EPOCH_NUMBER :: nat where
  "RFC0036_EPOCH_NUMBER = 3"

definition ERROR_IMMATURE_HEADER :: string where
  "ERROR_IMMATURE_HEADER = ''ImmatureHeader''"

definition RFC0036_BLOCK_NUMBER :: nat where
  "RFC0036_BLOCK_NUMBER = 3000"

definition rfc0036_options :: "'w case_env \<Rightarrow> case_options" where
  "rfc0036_options E = default_case_options\<lparr>cp_node_options := [\<lparr>no_node_name = ''node2021'', no_ckb_binary = ce_ckb2021 E,
     no_initial_database = ''testdata/db/Epoch2V2TestData'', no_chain_spec = ''testdata/spec/cellbase_maturity_not_zero_2021'',
     no_app_config = ''testdata/config/ckb2021''\<rparr>]\<rparr>"

record params_0036 =
  p36_id :: nat
  p36_height :: nat
  p36_expected_result :: "string + unit"

definition rfc0036_cases_params :: "params_0036 list" where
  "rfc0036_cases_params =
    [\<lparr>p36_id = 0, p36_height = RFC0036_BLOCK_NUMBER - 1, p36_expected_result = Inl ERROR_IMMATURE_HEADER\<rparr>,
     \<lparr>p36_id = 1, p36_height = RFC0036_BLOCK_NUMBER, p36_expected_result = Inr ()\<rparr>]"

text \<open>The transaction depends on the header of the node's tip.\<close>

definition rfc0036_build_transaction :: "'w case_env \<Rightarrow> 'w node \<Rightarrow> ('w, transaction) cmd" where
  "rfc0036_build_transaction E node =
     bindM (get_tip_block node) (\<lambda>tip_block.
     bindM (first_spendable E node) (\<lambda>input.
     bindM (always_success_transaction (ce_lib E) node input) (\<lambda>tx.
     ret (tx\<lparr>tx_header_deps := tx_header_deps tx @ [hash_block (ce_lib E) tip_block]\<rparr>))))"

definition rfc0036_answer :: "'w case_env \<Rightarrow> params_0036 \<Rightarrow> 'w node \<Rightarrow> ('w, string + unit) cmd" where
  "rfc0036_answer E p node =
     bindM (rfc0036_build_transaction E node) (\<lambda>tx.
     commit_at E node (p36_height p) tx)"

definition assert_maturity :: "'w node \<Rightarrow> ('w, unit) cmd" where
  "assert_maturity node = bindM (get_consensus node) (\<lambda>c.
     assertM (0 < cons_cellbase_maturity c) ''assertion failed: node.consensus().cellbase_maturity.value() > 0'')"

definition rfc0036_run :: "'w case_env \<Rightarrow> 'w nodes \<Rightarrow> ('w lab, unit) cmd" where
  "rfc0036_run E nodes =
     bindM (on_node (get_node nodes ''node2021'')) (\<lambda>node2021.
     bindM (on_node (forM (nodes_of (ce_names E) nodes) assert_maturity)) (\<lambda>_.
     bindM (on_node (bindM (estimate_start_number_of_epoch (ce_oc E) node2021 RFC0036_EPOCH_NUMBER) (\<lambda>fork_switch_height.
                     bindM (u64_sub (ce_oc E) fork_switch_height 6) (\<lambda>target.
                     mine_to (ce_lib E) (ce_clock E) node2021 target)))) (\<lambda>_.
     forM rfc0036_cases_params (\<lambda>p.
       with_node (pulled_clone E node2021 (case_node_name (p36_id p))) (\<lambda>node.
         bindM (on_node (rfc0036_answer E p node)) (assert_result_eq (p36_expected_result p)))))))"

definition rfc0036 :: "'w integration_case" where
  "rfc0036 = \<lparr>ic_type_name = ''ckb_integration_test::case::rfc0036::rfc0036::RFC0036'',
     ic_options = rfc0036_options, ic_run = rfc0036_run\<rparr>"

section \<open>What passing means\<close>

text \<open>The rule: a header dependency that is not mature is refused below height \<open>h\<close>.\<close>

definition header_dep_rule :: "nat \<Rightarrow> (string \<Rightarrow> string) \<Rightarrow> params_0036 \<Rightarrow> string + unit" where
  "header_dep_rule h say p = (if p36_height p < h then Inl (say ERROR_IMMATURE_HEADER) else Inr ())"

lemma header_dep_rows:
  assumes "\<And>e. str_contains e (say e)"
  shows "(\<forall>p \<in> set rfc0036_cases_params. results_match (p36_expected_result p) (header_dep_rule h say p)) \<longleftrightarrow> h = 3000"
  using assms by (auto simp: rfc0036_cases_params_def header_dep_rule_def RFC0036_BLOCK_NUMBER_def split: if_splits)

lemma immature_node_fails:
  assumes "nodes ''node2021'' = Some nd" and "nd_consensus nd = Some c" and "cons_cellbase_maturity c = 0"
    and "\<forall>node \<in> set (nodes_of (ce_names E) nodes). node = nd"  and "nodes_of (ce_names E) nodes \<noteq> []"
  shows "\<exists>msg. rfc0036_run E nodes w = Some (Inl (Panic msg), w)"
proof -
  obtain ns where "nodes_of (ce_names E) nodes = nd # ns" using assms(4,5) by (cases "nodes_of (ce_names E) nodes") auto
  with assms(1-3) show ?thesis
    by (cases w) (auto simp: rfc0036_run_def assert_maturity_def get_consensus_def bindM_def assertM_def on_node_def on_env_def
        halting_def ret_def)
qed

interpretation rfc36_table: table_case
  "\<lambda>p. with_node (pulled_clone E nd (case_node_name (p36_id p)))
     (\<lambda>node. bindM (on_node (rfc0036_answer E p node)) (assert_result_eq (p36_expected_result p)))"
  "\<lambda>p. with_node (pulled_clone E nd (case_node_name (p36_id p))) (\<lambda>node. on_node (rfc0036_answer E p node))"
  "\<lambda>p. results_match (p36_expected_result p)"
  for E nd
  by unfold_locales (rule with_node_compares)

text \<open>
  The case passes exactly against nodes that stop requiring mature header dependencies at height
  3000, provided the chain has a maturity at all.
\<close>

lemma rfc0036_pins_rule:
  assumes "nodes ''node2021'' = Some nd" and "I w" and say: "\<And>e. str_contains e (say e)"
    and "answers_in I (on_node (forM (nodes_of (ce_names E) nodes) assert_maturity)) ()"
    and "answers_in I (on_node (bindM (estimate_start_number_of_epoch (ce_oc E) nd RFC0036_EPOCH_NUMBER) (\<lambda>n.
            bindM (u64_sub (ce_oc E) n 6) (mine_to (ce_lib E) (ce_clock E) nd)))) ()"
    and "\<forall>p \<in> set rfc0036_cases_params. answers_in I
            (with_node (pulled_clone E nd (case_node_name (p36_id p))) (\<lambda>node. on_node (rfc0036_answer E p node)))
            (header_dep_rule h say p)"
  shows "\<exists>r w'. rfc0036_run E nodes w = Some (r, w') \<and> (if h = 3000 then r = Inr () else \<exists>msg. r = Inl (Panic msg))"
proof -
  obtain w1 where w1: "on_node (forM (nodes_of (ce_names E) nodes) assert_maturity) w = Some (Inr (), w1)" "I w1"
    using assms(4,2) by (rule answers_inE)
  obtain w2 where w2: "on_node (bindM (estimate_start_number_of_epoch (ce_oc E) nd RFC0036_EPOCH_NUMBER) (\<lambda>n.
      bindM (u64_sub (ce_oc E) n 6) (mine_to (ce_lib E) (ce_clock E) nd))) w1 = Some (Inr (), w2)" "I w2"
    using assms(5) w1(2) by (rule answers_inE)
  have run: "rfc0036_run E nodes w = forM rfc0036_cases_params (\<lambda>p.
      with_node (pulled_clone E nd (case_node_name (p36_id p))) (\<lambda>node.
        bindM (on_node (rfc0036_answer E p node)) (assert_result_eq (p36_expected_result p)))) w2"
    using assms(1) w1(1) w2(1) by (simp add: rfc0036_run_def bindM_run)
  show ?thesis
    using rfc36_table.outcome[OF assms(6) w2(2)] header_dep_rows[OF say]
    unfolding run by (simp split: if_splits) blast
qed

end
