(* ===== verification/CasePeers.thy ===== *)
theory CasePeers
  imports LabWorld
begin

text \<open>
  The cases with a fake peer that talks to a node: \<open>case/identify/\<close> (\<open>connection.rs\<close>,
  \<open>identical_key_pair.rs\<close>) and \<open>case/discovery/\<close> (\<open>flood_attack.rs\<close>, \<open>manipulated_addresses.rs\<close>).
\<close>

section \<open>What the four cases have in common\<close>

definition peer_case_options :: "'w case_env \<Rightarrow> case_options" where
  "peer_case_options E = default_case_options\<lparr>cp_node_options :=
     [case_node_options ''node2021'' (ce_ckb2021 E) ''empty'' ''ckb2021'']\<rparr>"

text \<open>A list of rows, each put to a clone of the node, which has mined one block.\<close>

definition peer_case_run ::
    "string \<Rightarrow> ('w case_env \<Rightarrow> ('w, 'p list) cmd) \<Rightarrow> ('p \<Rightarrow> nat) \<Rightarrow> ('p \<Rightarrow> string + unit)
      \<Rightarrow> ('w case_env \<Rightarrow> 'p \<Rightarrow> 'w node \<Rightarrow> ('w lab, string + unit) cmd) \<Rightarrow> 'w case_env \<Rightarrow> 'w nodes \<Rightarrow> ('w lab, unit) cmd" where
  "peer_case_run type_name cases_params id_of expected run_row E nodes =
     bindM (on_node (get_node nodes ''node2021'')) (\<lambda>template_node.
     bindM (on_node (mine (ce_lib E) (ce_clock E) template_node 1)) (\<lambda>_.
     bindM (on_node (cases_params E)) (\<lambda>ps.
     forM ps (\<lambda>p.
       bindM (case_name_of type_name) (\<lambda>name.
       with_node (lab_clone_node E template_node (name @ ''-case-'' @ to_decimal (id_of p))) (\<lambda>node.
         bindM (run_row E p node) (assert_result_eq (expected p))))))))"

text \<open>The node's reaction to an attack: within five seconds it bans the peer, or else disconnects it.\<close>

definition nonempty_bans :: "'w node \<Rightarrow> ('w, bool) cmd" where
  "nonempty_bans node = bindM (rpc_get_banned_addresses (nd_rpc_client node)) (\<lambda>bans. ret (bans \<noteq> []))"

definition no_peers :: "'w node \<Rightarrow> ('w, bool) cmd" where
  "no_peers node = bindM (rpc_get_peers (nd_rpc_client node)) (\<lambda>peers. ret (peers = []))"

definition observe_reaction :: "'w case_env \<Rightarrow> 'w node \<Rightarrow> string + unit \<Rightarrow> ('w, string + unit) cmd" where
  "observe_reaction E node final_result =
     bindM (wait_until (ce_clock E) 5 (nonempty_bans node)) (\<lambda>banned.
     if banned then ret (Inl ''banned'')
     else bindM (wait_until (ce_clock E) 5 (no_peers node)) (\<lambda>disconnected.
       if disconnected then ret (Inl ''disconnected'') else ret final_result))"

section \<open>\<open>IdentifyConnection\<close>\<close>

record params_identify =
  pid_id :: nat
  pid_client_version :: string
  pid_expected_result :: "string + unit"

definition identify_cases_params :: "'w case_env \<Rightarrow> ('w, params_identify list) cmd" where
  "identify_cases_params E =
     bindM (v0_43 E) (\<lambda>v43.
     bindM (v0_100 E) (\<lambda>v100.
     ret [\<lparr>pid_id = 0, pid_client_version = v43, pid_expected_result = Inr ()\<rparr>,
          \<lparr>pid_id = 1, pid_client_version = v100, pid_expected_result = Inr ()\<rparr>,
          \<lparr>pid_id = 2, pid_client_version = [], pid_expected_result = Inr ()\<rparr>]))"

definition network_identifier_of :: "'w case_env \<Rightarrow> 'w node \<Rightarrow> ('w, string) cmd" where
  "network_identifier_of E node =
     bindM (get_consensus node) (\<lambda>consensus.
     let genesis_hash = cl_hex (ce_types E) (cons_genesis_hash consensus) in
     if 8 \<le> length genesis_hash then ret (''/'' @ cons_id consensus @ ''/'' @ take 8 genesis_hash)
     else panicking ''byte index 8 is out of bounds'')"

text \<open>
  The receive runs while the read lock of the shared state is held: the other threads run, but none of
  the callbacks, which take the write lock, can change the state.
\<close>

definition under_read_lock :: "('w net \<Rightarrow> 'w net) \<Rightarrow> 'w net \<Rightarrow> 'w net" where
  "under_read_lock await sw = (fst sw, snd (await sw))"

definition receive_identify :: "'w case_env \<Rightarrow> session_context \<Rightarrow> ('w net, string + unit) cmd" where
  "receive_identify E session = (\<lambda>(s, w).
     if poisoned s then ret (Inr ()) (s, w)
     else case get_protocol_receiver s (sc_id session) (protocol_id Identify) of
       None \<Rightarrow> ret (Inr ()) (s, w)
     | Some receiver \<Rightarrow>
         bindM (\<lambda>sw. channel_recv_until (ce_net E) (under_read_lock (ce_await E)) (now (ne_clock (ce_net E)) sw + secs 10) receiver sw) (\<lambda>r.
         bindM (unwrapM ''receive IdentifyMessage'' r) (\<lambda>data.
         ret (cl_identify_message (ce_types E) data))) (s, w))"

definition identify_exchange :: "'w case_env \<Rightarrow> 'w connector \<Rightarrow> params_identify \<Rightarrow> string \<Rightarrow> 'w node \<Rightarrow> ('w net, string + unit) cmd" where
  "identify_exchange E cn p network_identifier node =
     tryM (connect (ce_net E) cn node) (\<lambda>_.
     bindM (session_to (ce_net E) node) (\<lambda>session. case session of
       None \<Rightarrow> ret (Inr ())
     | Some session \<Rightarrow>
         tryM (send_identify_message (ce_net E) (ce_wire E) cn node (pid_client_version p) network_identifier [] (sc_address session)) (\<lambda>_.
         receive_identify E session)))"

definition identify_run_case :: "'w case_env \<Rightarrow> params_identify \<Rightarrow> 'w node \<Rightarrow> ('w lab, string + unit) cmd" where
  "identify_run_case E p node =
     bindM (on_node (network_identifier_of E node)) (\<lambda>network_identifier.
     bindM (new_connector E [(Sync, True), (Identify, False)]) (\<lambda>connector.
     on_net (identify_exchange E connector p network_identifier node)))"

definition identify_connection_type_name :: string where
  "identify_connection_type_name = ''ckb_integration_test::case::identify::connection::IdentifyConnection''"

definition identify_connection_run :: "'w case_env \<Rightarrow> 'w nodes \<Rightarrow> ('w lab, unit) cmd" where
  "identify_connection_run = peer_case_run identify_connection_type_name identify_cases_params pid_id pid_expected_result identify_run_case"

definition identify_connection :: "'w integration_case" where
  "identify_connection = \<lparr>ic_type_name = identify_connection_type_name, ic_options = peer_case_options, ic_run = identify_connection_run\<rparr>"

section \<open>\<open>IdentifyIdenticalKeyPair\<close>\<close>

text \<open>
  Two fake peers with one key pair.  Each has a shared state of its own: the other one's is put aside
  while it connects.
\<close>

definition take_shared :: "('w lab, shared_world) cmd" where
  "take_shared = (\<lambda>(p, s, w). Some (Inr s, (p, s, w)))"

definition put_shared :: "shared_world \<Rightarrow> ('w lab, unit) cmd" where
  "put_shared s = (\<lambda>(p, _, w). Some (Inr (), (p, s, w)))"

definition connector_with_key :: "'w case_env \<Rightarrow> nat \<Rightarrow> ('w lab, 'w connector) cmd" where
  "connector_with_key E key_pair =
     bindM (on_node (connector_builder_new E)) (\<lambda>b.
     on_net (connector_build (ce_spawn E)
       (with_key_pair key_pair
         (with_protocol_meta (handler_build (ce_snap E) Identify False)
           (with_protocol_meta (handler_build (ce_snap E) Sync True) b)))))"

definition identical_key_pair_run_case :: "'w case_env \<Rightarrow> 'w node \<Rightarrow> ('w lab, string + unit) cmd" where
  "identical_key_pair_run_case E node =
     bindM (on_node (ce_new_key E)) (\<lambda>key_pair.
     bindM fresh_shared (\<lambda>_.
     bindM (connector_with_key E key_pair) (\<lambda>connector1.
     bindM take_shared (\<lambda>shared1.
     bindM fresh_shared (\<lambda>_.
     bindM (connector_with_key E key_pair) (\<lambda>connector2.
     bindM take_shared (\<lambda>shared2.
     bindM (put_shared shared1) (\<lambda>_.
     tryM (on_net (connect (ce_net E) connector1 node)) (\<lambda>_.
     bindM (put_shared shared2) (\<lambda>_.
     on_net (connect (ce_net E) connector2 node)))))))))))"

definition identical_key_pair_type_name :: string where
  "identical_key_pair_type_name = ''ckb_integration_test::case::identify::identical_key_pair::IdentifyIdenticalKeyPair''"

definition identical_key_pair_cases_params :: "(nat \<times> (string + unit)) list" where
  "identical_key_pair_cases_params = [(0, Inl ''timeout'')]"

definition identical_key_pair_run :: "'w case_env \<Rightarrow> 'w nodes \<Rightarrow> ('w lab, unit) cmd" where
  "identical_key_pair_run =
     peer_case_run identical_key_pair_type_name (\<lambda>_. ret identical_key_pair_cases_params) fst snd (\<lambda>E _. identical_key_pair_run_case E)"

definition identical_key_pair :: "'w integration_case" where
  "identical_key_pair = \<lparr>ic_type_name = identical_key_pair_type_name, ic_options = peer_case_options, ic_run = identical_key_pair_run\<rparr>"

section \<open>\<open>DiscoveryFloodAttack\<close>\<close>

definition DISCOVERY_FLAG_V1 :: "32 word" where
  "DISCOVERY_FLAG_V1 = 0"

record params_flood =
  pfa_id :: nat
  pfa_times :: nat
  pfa_message :: discovery_message
  pfa_expected_result :: "string + unit"

definition flood_cases_params :: "params_flood list" where
  "flood_cases_params = (let get_nodes_message = GetNodes None 100 DISCOVERY_FLAG_V1;
       nodes_message_announce_true = DiscoveryNodes True [];
       nodes_message_announce_false = DiscoveryNodes False [] in
    [\<lparr>pfa_id = 0, pfa_times = 1, pfa_message = get_nodes_message, pfa_expected_result = Inr ()\<rparr>,
     \<lparr>pfa_id = 1, pfa_times = 100, pfa_message = get_nodes_message, pfa_expected_result = Inl ''disconnected''\<rparr>,
     \<lparr>pfa_id = 2, pfa_times = 1, pfa_message = nodes_message_announce_true, pfa_expected_result = Inr ()\<rparr>,
     \<lparr>pfa_id = 3, pfa_times = 100, pfa_message = nodes_message_announce_true, pfa_expected_result = Inr ()\<rparr>,
     \<lparr>pfa_id = 4, pfa_times = 1, pfa_message = nodes_message_announce_false, pfa_expected_result = Inr ()\<rparr>,
     \<lparr>pfa_id = 5, pfa_times = 100, pfa_message = nodes_message_announce_false, pfa_expected_result = Inl ''disconnected''\<rparr>])"

text \<open>The message is sent again and again until a send fails.\<close>

primrec flood :: "'w case_env \<Rightarrow> 'w connector \<Rightarrow> 'w node \<Rightarrow> bytes \<Rightarrow> nat \<Rightarrow> ('w net, string + unit) cmd" where
  "flood E cn node data 0 = ret (Inr ())"
| "flood E cn node data (Suc n) = tryM (send (ce_net E) cn node Discovery data) (\<lambda>_. flood E cn node data n)"

definition discovery_connector :: "'w case_env \<Rightarrow> ('w lab, 'w connector) cmd" where
  "discovery_connector E = new_connector E [(Discovery, False), (Sync, True)]"

definition flood_run_case :: "'w case_env \<Rightarrow> params_flood \<Rightarrow> 'w node \<Rightarrow> ('w lab, string + unit) cmd" where
  "flood_run_case E p node =
     bindM (discovery_connector E) (\<lambda>connector.
     tryM (on_net (connect (ce_net E) connector node)) (\<lambda>_.
     bindM (on_net (flood E connector node (wr_as_bytes (ce_wire E) (DiscoveryMsg (pfa_message p))) (pfa_times p))) (\<lambda>final_result.
     on_node (observe_reaction E node final_result))))"

definition flood_attack_type_name :: string where
  "flood_attack_type_name = ''ckb_integration_test::case::discovery::flood_attack::DiscoveryFloodAttack''"

definition flood_attack_run :: "'w case_env \<Rightarrow> 'w nodes \<Rightarrow> ('w lab, unit) cmd" where
  "flood_attack_run = peer_case_run flood_attack_type_name (\<lambda>_. ret flood_cases_params) pfa_id pfa_expected_result flood_run_case"

definition flood_attack :: "'w integration_case" where
  "flood_attack = \<lparr>ic_type_name = flood_attack_type_name, ic_options = peer_case_options, ic_run = flood_attack_run\<rparr>"

section \<open>\<open>ManipulatedAddresses\<close>\<close>

record params_manipulated =
  pma_id :: nat
  pma_message :: discovery_message
  pma_expected_result :: "string + unit"

definition make_nodes :: "'w case_env \<Rightarrow> nat \<Rightarrow> ('w, bytes list list) cmd" where
  "make_nodes E count = mapM (\<lambda>port.
     bindM (unwrapM UNWRAP (ne_parse (ce_net E) (''/ip4/127.0.0.1/tcp/'' @ to_decimal port))) (\<lambda>address.
     ret [wr_to_vec (ce_wire E) address])) [0..<count]"

definition manipulated_cases_params :: "'w case_env \<Rightarrow> ('w, params_manipulated list) cmd" where
  "manipulated_cases_params E =
     bindM (make_nodes E 1000) (\<lambda>nodes_1000.
     bindM (make_nodes E 5000) (\<lambda>nodes_5000_true.
     bindM (make_nodes E 5000) (\<lambda>nodes_5000_false.
     ret [\<lparr>pma_id = 0, pma_message = DiscoveryNodes False nodes_1000, pma_expected_result = Inr ()\<rparr>,
          \<lparr>pma_id = 1, pma_message = DiscoveryNodes True nodes_5000_true, pma_expected_result = Inl ''disconnected''\<rparr>,
          \<lparr>pma_id = 2, pma_message = DiscoveryNodes False nodes_5000_false, pma_expected_result = Inl ''disconnected''\<rparr>])))"

definition manipulated_run_case :: "'w case_env \<Rightarrow> params_manipulated \<Rightarrow> 'w node \<Rightarrow> ('w lab, string + unit) cmd" where
  "manipulated_run_case E p node =
     bindM (discovery_connector E) (\<lambda>connector.
     tryM (on_net (connect (ce_net E) connector node)) (\<lambda>_.
     tryM (on_net (send (ce_net E) connector node Discovery (wr_as_bytes (ce_wire E) (DiscoveryMsg (pma_message p))))) (\<lambda>_.
     on_node (observe_reaction E node (Inr ())))))"

definition manipulated_addresses_type_name :: string where
  "manipulated_addresses_type_name = ''ckb_integration_test::case::discovery::manipulated_addresses::ManipulatedAddresses''"

definition manipulated_addresses_run :: "'w case_env \<Rightarrow> 'w nodes \<Rightarrow> ('w lab, unit) cmd" where
  "manipulated_addresses_run =
     peer_case_run manipulated_addresses_type_name manipulated_cases_params pma_id pma_expected_result manipulated_run_case"

definition manipulated_addresses :: "'w integration_case" where
  "manipulated_addresses = \<lparr>ic_type_name = manipulated_addresses_type_name, ic_options = peer_case_options,
     ic_run = manipulated_addresses_run\<rparr>"

section \<open>What the identify case can observe\<close>

text \<open>The payload it sends has the two texts in each other's place: the node reads a network named like a version.\<close>

lemma identify_payload_swapped:
  "identify_exchange E cn p network_identifier node =
     tryM (connect (ce_net E) cn node) (\<lambda>_.
     bindM (session_to (ce_net E) node) (\<lambda>session. case session of
       None \<Rightarrow> ret (Inr ())
     | Some session \<Rightarrow>
         tryM (send (ce_net E) cn node Identify (wr_as_bytes (ce_wire E) (IdentifyMsg
             \<lparr>im_identify = wr_payload_bytes (ce_wire E) \<lparr>id_name = pid_client_version p, id_client_version = network_identifier,
                id_flag = FLAG_FULL_NODE\<rparr>,
              im_listen_addrs = [], im_observed_addr = \<lparr>pa_bytes = wr_to_vec (ce_wire E) (sc_address session)\<rparr>\<rparr>))) (\<lambda>_.
         receive_identify E session)))"
  by (simp add: identify_exchange_def send_identify_message_def build_identify_message_def cong: option.case_cong)

lemma wait_under_lock:
  assumes clock: "\<And>w. now (ne_clock E) (s, w) < now (ne_clock E) (s, snd (await (s, w)))"
    and empty: "queues s ch = []"
  shows "\<exists>e w'. channel_recv_until E (under_read_lock await) deadline ch (s, w) = Some (Inr (Inl e), (s, w'))"
proof (induction "deadline - now (ne_clock E) (s, w)" arbitrary: w rule: less_induct)
  case less
  have pop: "channel_pop ch s = (None, s)" by (simp add: channel_pop_def empty)
  show ?case
  proof (cases "disconnected_channel (ne_iter E) s ch \<or> deadline \<le> now (ne_clock E) (s, w)")
    case True
    then show ?thesis by (subst channel_recv_until.simps) (auto simp: pop)
  next
    case False
    let ?w1 = "snd (await (s, w))"
    have "deadline - now (ne_clock E) (s, ?w1) < deadline - now (ne_clock E) (s, w)"
      using clock[of w] False by linarith
    from less.hyps[OF this] obtain e w' where
      "channel_recv_until E (under_read_lock await) deadline ch (s, ?w1) = Some (Inr (Inl e), (s, w'))" by blast
    with False show ?thesis by (subst channel_recv_until.simps) (simp add: pop under_read_lock_def)
  qed
qed

text \<open>
  C15.  The identify case sees only what the node has sent before the case starts to wait: it waits with
  the read lock of the shared state held, and the callback that delivers a message needs the write lock.
  A message that is there already is received and checked; if none is there, the case panics,
  whatever the other threads do meanwhile, as soon as the ten seconds have passed.
\<close>

theorem identify_waits_in_vain:
  assumes "wf_shared s" and "\<not> poisoned s"
    and "inbox_of s (sc_id session, protocol_id Identify) = Some q"
    and "\<And>w. now (ne_clock (ce_net E)) (s, w) < now (ne_clock (ce_net E)) (s, snd (ce_await E (s, w)))"
  shows "case q of
     [] \<Rightarrow> \<exists>msg w'. receive_identify E session (s, w) = Some (Inl (Panic msg), (s, w'))
   | d # _ \<Rightarrow> \<exists>s'. receive_identify E session (s, w) = Some (Inr (cl_identify_message (ce_types E) d), (s', w))"
proof -
  obtain ch where ch: "get_protocol_receiver s (sc_id session) (protocol_id Identify) = Some ch" "queues s ch = q"
    using assms(1,3) by (auto simp: inbox_of_def get_protocol_receiver_chan)
  show ?thesis
  proof (cases q)
    case Nil
    with wait_under_lock[OF assms(4), of ch "now (ne_clock (ce_net E)) (s, w) + secs 10" w] ch(2)
    obtain e w' where "channel_recv_until (ce_net E) (under_read_lock (ce_await E)) (now (ne_clock (ce_net E)) (s, w) + secs 10) ch (s, w)
        = Some (Inr (Inl e), (s, w'))" by blast
    with Nil ch(1) assms(2) show ?thesis
      by (simp add: receive_identify_def bindM_def unwrapM_def halting_def)
  next
    case (Cons d rest)
    have "channel_recv_until (ce_net E) (under_read_lock (ce_await E)) (now (ne_clock (ce_net E)) (s, w) + secs 10) ch (s, w)
        = Some (Inr (Inr d), (s\<lparr>queues := (queues s)(ch := rest)\<rparr>, w))"
      using ch(2) Cons by (subst channel_recv_until.simps) (simp add: channel_pop_def)
    with Cons ch(1) assms(2) show ?thesis
      by (simp add: receive_identify_def bindM_def unwrapM_def ret_def)
  qed
qed


text \<open>A node whose identify message arrives while the case waits: received without the lock, not with it.\<close>

definition waiting_mailbox :: shared_world where
  "waiting_mailbox = add_protocol \<lparr>sc_id = 1, sc_address = ''n''\<rparr> (protocol_id Identify) new_shared"

definition prompt_peer_env :: "nat case_env" where
  "prompt_peer_env = (lab_env (\<lambda>_. Inr ()) 0)\<lparr>ce_await := (\<lambda>(s, w). (deliver_msg (1, protocol_id Identify) [7] s, w + 1))\<rparr>"

theorem identify_waits_in_vain_witness:
  "(\<exists>msg w'. receive_identify prompt_peer_env \<lparr>sc_id = 1, sc_address = ''n''\<rparr> (waiting_mailbox, 0) = Some (Inl (Panic msg), (waiting_mailbox, w')))
   \<and> (\<exists>s' w'. channel_recv_until quiet_env (ce_await prompt_peer_env) (secs 10) 0 (waiting_mailbox, 0) = Some (Inr (Inr [7]), (s', w')))"
proof
  have inv: "wf_shared waiting_mailbox \<and> \<not> poisoned waiting_mailbox"
    by (simp add: waiting_mailbox_def wf_add_protocol wf_new_shared)
  have box: "inbox_of waiting_mailbox (1, protocol_id Identify) = Some []"
    by (simp add: waiting_mailbox_def inbox_ops wf_new_shared)
  show "\<exists>msg w'. receive_identify prompt_peer_env \<lparr>sc_id = 1, sc_address = ''n''\<rparr> (waiting_mailbox, 0) = Some (Inl (Panic msg), (waiting_mailbox, w'))"
    using identify_waits_in_vain[of waiting_mailbox "\<lparr>sc_id = 1, sc_address = ''n''\<rparr>" "[]" prompt_peer_env 0] inv box
    by (simp add: prompt_peer_env_def lab_env_def quiet_env_def)
  show "\<exists>s' w'. channel_recv_until quiet_env (ce_await prompt_peer_env) (secs 10) 0 (waiting_mailbox, 0) = Some (Inr (Inr [7]), (s', w'))"
    by (subst channel_recv_until.simps, subst channel_recv_until.simps)
      (simp add: waiting_mailbox_def prompt_peer_env_def quiet_env_def deliver_msg_def received_def channel_pop_def
        disconnected_channel_def get_protocol_sender_def add_protocol_def new_shared_def channel_send_def ret_def secs_def hm_values_def)
qed

end
