(* ===== verification/CaseMain.thy ===== *)
theory CaseMain
  imports BenchMain Rfc0028 Rfc0029 Rfc0030 Rfc0031 Rfc0032 Rfc0034 Rfc0035Relay Rfc0036 CaseNetworking CasePeers
begin

text \<open>
  \<open>ckb-integration-test/src/main.rs\<close>, \<open>all_cases\<close> of \<open>case/mod.rs\<close> and \<open>testdata/\<close>: the command line,
  which cases it runs, and how the databases the cases start from are made.
\<close>

section \<open>The command line\<close>

text \<open>
  What \<open>clap_app\<close> declares of an argument, its help text apart; the long option has the argument's name.
\<close>

record case_arg =
  ca_name :: string
  ca_required :: bool
  ca_takes_value :: bool
  ca_multiple :: bool
  ca_hidden :: bool
  ca_value_name :: "string option"
  ca_conflicts_with :: "string list"

record case_subcommand =
  csc_name :: string
  csc_about :: string
  csc_args :: "case_arg list"

definition flag_arg :: "string \<Rightarrow> string list \<Rightarrow> case_arg" where
  "flag_arg name conflicts = \<lparr>ca_name = name, ca_required = False, ca_takes_value = False, ca_multiple = False,
     ca_hidden = False, ca_value_name = None, ca_conflicts_with = conflicts\<rparr>"

definition value_arg :: "string \<Rightarrow> string \<Rightarrow> case_arg" where
  "value_arg name value_name = (flag_arg name [])\<lparr>ca_takes_value := True, ca_value_name := Some value_name\<rparr>"

definition case_app_args :: "case_arg list" where
  "case_app_args = [flag_arg ''trace'' [''info'', ''debug''], flag_arg ''debug'' [''trace'', ''info'']]"

definition case_app_subcommands :: "case_subcommand list" where
  "case_app_subcommands =
     [\<lparr>csc_name = ''run'', csc_about = ''Run test cases'', csc_args =
        [(value_arg ''ckb2019'' ''PATH'')\<lparr>ca_hidden := True\<rparr>, value_arg ''ckb2021'' ''PATH'',
         (value_arg ''cases'' ''CASE_NAME'')\<lparr>ca_multiple := True\<rparr>]\<rparr>,
      \<lparr>csc_name = ''generate-testdata'', csc_about = ''Run testdata generators'', csc_args =
        [(value_arg ''ckb2019'' ''PATH'')\<lparr>ca_hidden := True\<rparr>, value_arg ''ckb2021'' ''PATH'']\<rparr>]"

definition case_init_logger :: "(logger_config \<Rightarrow> ('w, string + unit) cmd) \<Rightarrow> arg_matches \<Rightarrow> ('w, unit) cmd" where
  "case_init_logger logger_init matches =
     (let log_filter = (if am_is_present matches ''debug'' then ''debug''
                    else if am_is_present matches ''trace'' then ''trace'' else ''info'')
      in bindM (logger_init \<lparr>lg_filter = Some log_filter, lg_color = False, lg_log_to_file = False, lg_log_to_stdout = True\<rparr>)
           (unwrapM ''failed to init the logger service''))"

section \<open>The executables\<close>

datatype os_type = Macos | Windows | Other_Os

text \<open>What the program asks of the file system and the environment, beyond what a node needs.\<close>

record 'w host =
  ho_os_type :: os_type \<comment> \<open>crate \<open>os_info\<close>\<close>
  ho_exists :: "string \<Rightarrow> ('w, bool) cmd"
  ho_is_file :: "string \<Rightarrow> ('w, bool) cmd"
  ho_current_dir :: "('w, string + string) cmd"
  ho_set_var :: "string \<Rightarrow> string \<Rightarrow> ('w, unit) cmd"
  ho_remove_dir_all :: "string \<Rightarrow> ('w, string + unit) cmd"
  ho_rename :: "string \<Rightarrow> string \<Rightarrow> ('w, string + unit) cmd"

definition absolutize :: "'w host \<Rightarrow> string \<Rightarrow> ('w, string) cmd" where
  "absolutize H path =
     (if is_relative path
      then bindM (bindM (ho_current_dir H) (unwrapM ''getting current dir should be ok'')) (\<lambda>dir. ret (path_join dir path))
      else ret path)"

definition default_ckb2019 :: "os_type \<Rightarrow> string" where
  "default_ckb2019 os = (case os of
       Macos \<Rightarrow> ''testdata/bin/ckb_v0.43.2-macOS''
     | Windows \<Rightarrow> ''testdata/bin/ckb_v0.43.2-Windows''
     | Other_Os \<Rightarrow> ''testdata/bin/ckb_v0.43.2-Linux'')"

definition check_executable :: "'w host \<Rightarrow> string \<Rightarrow> string \<Rightarrow> ('w, unit) cmd" where
  "check_executable H path msg =
     bindM (ho_exists H path) (\<lambda>there.
     if \<not> there then panicking msg
     else bindM (ho_is_file H path) (\<lambda>file. if \<not> file then panicking msg else ret ()))"

definition init_ckb_binaries :: "'w host \<Rightarrow> arg_matches \<Rightarrow> ('w, string \<times> string) cmd" where
  "init_ckb_binaries H matches =
     (let ckb2019 = (case am_values_of matches ''ckb2019'' of p # _ \<Rightarrow> p | [] \<Rightarrow> default_ckb2019 (ho_os_type H)) in
      bindM (value_t_or_exit Some matches ''ckb2021'') (\<lambda>ckb2021.
      bindM (check_executable H ckb2019 ''--ckb2019 points to non-executable'') (\<lambda>_.
      bindM (check_executable H ckb2021 ''--ckb2021 points to non-executable'') (\<lambda>_.
      bindM (absolutize H ckb2019) (\<lambda>abs2019.
      bindM (absolutize H ckb2021) (\<lambda>abs2021.
      ret (abs2019, abs2021)))))))"

definition with_binaries :: "'w case_env \<Rightarrow> string \<times> string \<Rightarrow> 'w case_env" where
  "with_binaries E = (\<lambda>(ckb2019, ckb2021). E\<lparr>ce_ckb2019 := ckb2019, ce_ckb2021 := ckb2021\<rparr>)"

section \<open>The cases\<close>

definition all_cases :: "'w integration_case list" where
  "all_cases = [basic_networking, rfc0028_chained, rfc0028, rfc0029, rfc0030, rfc0031, rfc0036, rfc0032, rfc0034,
     rfc0035_v2019, rfc0035_relay_transaction, rfc0035_connection, rfc0035_discovery, identify_connection,
     identical_key_pair, flood_attack, manipulated_addresses]"

primrec find_case :: "string \<Rightarrow> 'w integration_case list \<Rightarrow> ('w lab, 'w integration_case) cmd" where
  "find_case name [] = panicking (''unknown case \"'' @ name @ ''\"'')"
| "find_case name (c # cs) = bindM (case_name c) (\<lambda>n. if n = name then ret c else find_case name cs)"

definition filter_cases :: "arg_matches \<Rightarrow> ('w lab, 'w integration_case list) cmd" where
  "filter_cases matches = (case am_values_of matches ''cases'' of
       [] \<Rightarrow> ret all_cases
     | filtering_cases \<Rightarrow> mapM (\<lambda>name. find_case name all_cases) filtering_cases)"

section \<open>\<open>testdata/\<close>\<close>

definition TESTDATA_DIR :: string where
  "TESTDATA_DIR = ''./testdata''"

text \<open>The node is moved in; it is stopped before anything can panic, so nothing is left to drop.\<close>

definition dump_testdata :: "'w case_env \<Rightarrow> 'w host \<Rightarrow> 'w node \<Rightarrow> string \<Rightarrow> ('w, unit) cmd" where
  "dump_testdata E H node testdata_name =
     (let source_dir = nd_working_dir node @ ''/data/db'';
          target_dir = TESTDATA_DIR @ ''/db/'' @ testdata_name in
      bindM (node_stop node) (\<lambda>_.
      bindM (ho_exists H TESTDATA_DIR) (\<lambda>there.
      bindM (if \<not> there
             then bindM (os_create_dir_all (ce_os E) TESTDATA_DIR) (unwrapM (''failed to create TESTDATA_DIR \"'' @ TESTDATA_DIR @ ''\"''))
             else ret ()) (\<lambda>_.
      bindM (ho_exists H target_dir) (\<lambda>old.
      bindM (if old
             then bindM (ho_remove_dir_all H target_dir) (unwrapM (''failed to remove dir \"'' @ target_dir @ ''\"''))
             else ret ()) (\<lambda>_.
      bindM (ho_rename H source_dir target_dir)
        (unwrapM (''failed to rename directory from \"'' @ source_dir @ ''\" to \"'' @ target_dir @ ''\"''))))))))"

definition generator_node :: "'w case_env \<Rightarrow> string \<Rightarrow> string \<Rightarrow> string \<Rightarrow> string \<Rightarrow> bool \<Rightarrow> ('w lab, 'w node) cmd" where
  "generator_node E testdata_name name binary version is_ckb2021 =
     on_ports (node_init (ce_os E) testdata_name (case_node_options name binary ''empty'' version) is_ckb2021)"

definition drop_if_panics :: "'w node \<Rightarrow> ('w, 'a) cmd \<Rightarrow> ('w lab, 'a) cmd" where
  "drop_if_panics node m = unwindM (on_node m) (on_node (drop_guard (nd_guard node)))"

definition height13_type_name :: string where
  "height13_type_name = ''ckb_integration_test::testdata::height13::Height13TestData''"

definition height13_generate :: "'w case_env \<Rightarrow> 'w host \<Rightarrow> ('w lab, unit) cmd" where
  "height13_generate E H =
     bindM (case_name_of height13_type_name) (\<lambda>name.
     bindM (generator_node E name ''node2019'' (ce_ckb2019 E) ''ckb2019'' False) (\<lambda>node.
     bindM (on_node (node_start (ce_os E) node)) (\<lambda>node.
     bindM (drop_if_panics node (mine (ce_lib E) (ce_clock E) node 13)) (\<lambda>_.
     on_node (dump_testdata E H node name)))))"

text \<open>Each block of the one node is given to the other, until a block of the second epoch is reached.\<close>

partial_function (option) grow_to_epoch_2 ::
    "'w case_env \<Rightarrow> 'w node \<Rightarrow> 'w node \<Rightarrow> 'w \<Rightarrow> ((halt + unit) \<times> 'w) option" where
  "grow_to_epoch_2 E node2019 node2021 w =
     bindM (mine (ce_lib E) (ce_clock E) node2019 1) (\<lambda>_.
     bindM (get_tip_block node2019) (\<lambda>tip.
     bindM (submit_block (ce_clock E) node2021 tip) (\<lambda>_.
     if 2 \<le> ep_number (hd_epoch (bk_header tip)) then ret () else grow_to_epoch_2 E node2019 node2021))) w"

definition epoch2_generate :: "'w case_env \<Rightarrow> 'w host \<Rightarrow> ('w lab, unit) cmd" where
  "epoch2_generate E H =
     bindM (generator_node E ''Epoch2V1TestData'' ''node2019'' (ce_ckb2019 E) ''ckb2019'' False) (\<lambda>node2019.
     bindM (generator_node E ''Epoch2V2TestData'' ''node2021'' (ce_ckb2021 E) ''ckb2021'' True) (\<lambda>node2021.
     bindM (on_node (node_start (ce_os E) node2019)) (\<lambda>node2019.
     bindM (drop_if_panics node2019 (node_start (ce_os E) node2021)) (\<lambda>node2021.
     bindM (unwindM (drop_if_panics node2021 (grow_to_epoch_2 E node2019 node2021)) (on_node (drop_guard (nd_guard node2019)))) (\<lambda>_.
     bindM (drop_if_panics node2021 (dump_testdata E H node2019 ''Epoch2V1TestData'')) (\<lambda>_.
     on_node (dump_testdata E H node2021 ''Epoch2V2TestData'')))))))"

definition height100000_generate :: "'w case_env \<Rightarrow> 'w host \<Rightarrow> ('w lab, unit) cmd" where
  "height100000_generate E H =
     bindM (generator_node E ''Height1000002V2TestData'' ''node2021'' (ce_ckb2021 E) ''ckb2021'' True) (\<lambda>node2021.
     bindM (on_node (node_start (ce_os E) node2021)) (\<lambda>node2021.
     bindM (drop_if_panics node2021 (mine_to (ce_lib E) (ce_clock E) node2021 100000)) (\<lambda>_.
     on_node (dump_testdata E H node2021 ''Height1000002V2TestData''))))"

definition all_testdata_generators :: "('w case_env \<Rightarrow> 'w host \<Rightarrow> ('w lab, unit) cmd) list" where
  "all_testdata_generators = [height13_generate, epoch2_generate]"

section \<open>\<open>main\<close>\<close>

definition run_cases :: "'w case_env \<Rightarrow> 'w host \<Rightarrow> arg_matches \<Rightarrow> ('w lab, unit) cmd" where
  "run_cases E H matches =
     bindM (on_node (init_ckb_binaries H matches)) (\<lambda>binaries.
     bindM (filter_cases matches) (\<lambda>cases.
     forM cases (run_case (with_binaries E binaries))))"

definition generate_testdata :: "'w case_env \<Rightarrow> 'w host \<Rightarrow> arg_matches \<Rightarrow> ('w lab, unit) cmd" where
  "generate_testdata E H matches =
     bindM (on_node (init_ckb_binaries H matches)) (\<lambda>binaries.
     forM all_testdata_generators (\<lambda>generate. generate (with_binaries E binaries) H))"

definition case_main ::
    "'w case_env \<Rightarrow> 'w host \<Rightarrow> (logger_config \<Rightarrow> ('w, string + unit) cmd)
      \<Rightarrow> (case_arg list \<Rightarrow> case_subcommand list \<Rightarrow> ('w, arg_matches \<times> (string \<times> arg_matches)) cmd) \<Rightarrow> ('w lab, unit) cmd" where
  "case_main E H logger_init get_matches =
     bindM (on_node (ho_set_var H ''RUST_BACKTRACE'' ''full'')) (\<lambda>_.
     bindM (on_node (get_matches case_app_args case_app_subcommands)) (\<lambda>(matches, subcommand_name, arg_matches).
     bindM (on_node (case_init_logger logger_init matches)) (\<lambda>_.
     if subcommand_name = ''run'' then run_cases E H arg_matches
     else if subcommand_name = ''generate-testdata'' then generate_testdata E H arg_matches
     else halting (Exit 1))))"

section \<open>Which cases run\<close>

definition case_names :: "string list" where
  "case_names = [''BasicNetworking'', ''RFC0028Chained'', ''RFC0028'', ''RFC0029'', ''RFC0030'', ''RFC0031'', ''RFC0036'',
     ''RFC0032'', ''RFC0034'', ''RFC0035V2019'', ''RFC0035RelayTransaction'', ''RFC0035V2021Connection'',
     ''RFC0035V2021Discovery'', ''IdentifyConnection'', ''IdentifyIdenticalKeyPair'', ''DiscoveryFloodAttack'',
     ''ManipulatedAddresses'']"

lemmas type_names = basic_networking_def rfc0028_chained_def rfc0028_def rfc0029_def rfc0030_def rfc0031_def rfc0032_def
  rfc0034_def rfc0036_def rfc0035_v2019_def rfc0035_relay_transaction_def relay_type_name_def rfc0032_type_name_def
  rfc0035_connection_def rfc0035_connection_type_name_def rfc0035_discovery_def identify_connection_def
  identify_connection_type_name_def identical_key_pair_def identical_key_pair_type_name_def flood_attack_def
  flood_attack_type_name_def manipulated_addresses_def manipulated_addresses_type_name_def

lemma case_names_all: "map case_name all_cases = map ret case_names"
  by (simp add: all_cases_def case_names_def case_name_def case_name_of_def split_terminator_def Let_def expectM_def type_names)

lemma case_names_distinct: "distinct case_names"
  by (simp add: case_names_def)


lemma find_case_named:
  assumes "map case_name cs = (map ret ns :: ('w lab, string) cmd list)"
  shows "case find_case name cs w of None \<Rightarrow> False | Some (r, w') \<Rightarrow> w' = (w :: 'w lab) \<and>
     (if name \<in> set ns then \<exists>c \<in> set cs. r = Inr c \<and> case_name c = (ret name :: ('w lab, string) cmd)
      else r = Inl (Panic (''unknown case \"'' @ name @ ''\"'')))"
  using assms
proof (induction cs arbitrary: ns)
  case Nil
  then show ?case by (simp add: halting_def)
next
  case (Cons c cs)
  then obtain n ns' where ns: "ns = n # ns'" "case_name c = (ret n :: ('w lab, string) cmd)"
    "map case_name cs = (map ret ns' :: ('w lab, string) cmd list)"
    by (cases ns) auto
  show ?case
  proof (cases "n = name")
    case True
    with ns show ?thesis by (simp add: bindM_run ret_run)
  next
    case False
    with Cons.IH[OF ns(3)] ns show ?thesis by (auto simp: bindM_run ret_run split: option.splits)
  qed
qed

lemma find_case_known:
  assumes "name \<in> set case_names"
  obtains c where "find_case name all_cases (w :: 'w lab) = Some (Inr c, w)" "c \<in> set all_cases"
    "case_name c = (ret name :: ('w lab, string) cmd)"
  using find_case_named[OF case_names_all, where name = name and w = w] assms by (auto split: option.splits)

lemma find_case_unknown:
  "name \<notin> set case_names \<Longrightarrow> find_case name all_cases w = Some (Inl (Panic (''unknown case \"'' @ name @ ''\"'')), w)"
  using find_case_named[OF case_names_all, where name = name and w = w] by (auto split: option.splits)

lemma find_cases:
  fixes w :: "'w lab"
  shows "case List.find (\<lambda>name. name \<notin> set case_names) names of
     Some name \<Rightarrow> mapM (\<lambda>name. find_case name all_cases) names w
       = Some (Inl (Panic (''unknown case \"'' @ name @ ''\"'')), w)
   | None \<Rightarrow> \<exists>cs. mapM (\<lambda>name. find_case name all_cases) names w = Some (Inr cs, w)
       \<and> set cs \<subseteq> set all_cases \<and> map case_name cs = (map ret names :: ('w lab, string) cmd list)"
proof (induction names)
  case Nil
  then show ?case by (simp add: ret_run)
next
  case (Cons name names)
  show ?case
  proof (cases "name \<in> set case_names")
    case True
    then obtain c where "find_case name all_cases w = Some (Inr c, w)" "c \<in> set all_cases"
      "case_name c = (ret name :: ('w lab, string) cmd)" by (rule find_case_known)
    with Cons True show ?thesis
      by (cases "List.find (\<lambda>name. name \<notin> set case_names) names") (auto simp: bindM_run bindM_halt ret_run)
  next
    case False
    then show ?thesis by (simp add: bindM_halt find_case_unknown)
  qed
qed

text \<open>
  C17.  \<open>filter_cases\<close> selects what the command line says: without \<open>--cases\<close> every case, in the order of
  \<open>all_cases\<close>; otherwise exactly the named cases, in the order of the names, or, if a name is unknown, none:
  the first unknown name is reported by a panic.  The seventeen names are distinct, so that each of them
  stands for one case.  No case has run when it panics.
\<close>

theorem filter_cases_exact:
  fixes w :: "'w lab"
  shows "distinct case_names \<and> map case_name all_cases = (map ret case_names :: ('w lab, string) cmd list) \<and>
    (case List.find (\<lambda>name. name \<notin> set case_names) (am_values_of matches ''cases'') of
       Some name \<Rightarrow> filter_cases matches w = Some (Inl (Panic (''unknown case \"'' @ name @ ''\"'')), w)
     | None \<Rightarrow> \<exists>cs. filter_cases matches w = Some (Inr cs, w) \<and> set cs \<subseteq> set all_cases
         \<and> map case_name cs = (map ret (if am_values_of matches ''cases'' = [] then case_names else am_values_of matches ''cases'') :: ('w lab, string) cmd list))"
proof (intro conjI case_names_distinct case_names_all)
  define named where "named = am_values_of matches ''cases''"
  have "case List.find (\<lambda>name. name \<notin> set case_names) named of
       Some name \<Rightarrow> filter_cases matches w = Some (Inl (Panic (''unknown case \"'' @ name @ ''\"'')), w)
     | None \<Rightarrow> \<exists>cs. filter_cases matches w = Some (Inr cs, w) \<and> set cs \<subseteq> set all_cases
         \<and> map case_name cs = (map ret (if named = [] then case_names else named) :: ('w lab, string) cmd list)"
  proof (cases named)
    case Nil
    then have "filter_cases matches w = Some (Inr all_cases, w)" by (simp add: filter_cases_def named_def ret_run)
    with Nil case_names_all show ?thesis by auto
  next
    case (Cons name names)
    then have ne: "named \<noteq> []" by simp
    from Cons have eq: "filter_cases matches = (mapM (\<lambda>name. find_case name all_cases) named :: ('w lab, 'w integration_case list) cmd)"
      by (simp add: filter_cases_def named_def)
    show ?thesis unfolding eq if_not_P[OF ne] by (rule find_cases)
  qed
  then show "case List.find (\<lambda>name. name \<notin> set case_names) (am_values_of matches ''cases'') of
       Some name \<Rightarrow> filter_cases matches w = Some (Inl (Panic (''unknown case \"'' @ name @ ''\"'')), w)
     | None \<Rightarrow> \<exists>cs. filter_cases matches w = Some (Inr cs, w) \<and> set cs \<subseteq> set all_cases
         \<and> map case_name cs = (map ret (if am_values_of matches ''cases'' = [] then case_names else am_values_of matches ''cases'')
             :: ('w lab, string) cmd list)"
    unfolding named_def .
qed

end
