(* ===== verification/Spec2Isabelle.thy ===== *)
theory Spec2Isabelle
  imports NodeIndexer Builder PubSub ScriptedLab CaseMain
begin

text \<open>
  A verification development of \<open>ckb-integration-test\<close>: the test kit that drives nodes of the CKB
  blockchain (\<open>ckb-testkit\<close>), the integration tests of its 2021 hard fork (\<open>ckb-integration-test\<close>), and
  the benchmark (\<open>ckb-bench\<close>).

  \<^bold>\<open>The program.\<close>  A \<open>Node\<close> is a \<open>ckb\<close> process that the test kit configures, starts, waits for and kills,
  and that it talks to in two ways.  Over JSON-RPC (\<open>rpc/\<close>) it reads the chain, submits blocks and
  transactions and manages peers; everything above (mining, waiting for the pool, building chains,
  indexing live cells, connecting collections of nodes) is made of such calls and of polling with a
  deadline.  Over the p2p network a \<open>Connector\<close> plays a fake peer: the p2p library calls its handlers
  from another thread, the handlers file messages in a shared state behind a lock, and the connector
  takes them out.  A third channel delivers notifications (\<open>subscribe/\<close>).  The integration tests are
  seventeen cases: each starts nodes of the old and the new version, asks them questions from a table and
  asserts that the answers are the expected ones.  The benchmark spreads an owner's capacity over
  users, sends their cells around as fast as the nodes accept transactions, and reports the rates.

  \<^bold>\<open>How it is modelled.\<close>  A command of type \<open>('w, 'a) cmd\<close> (theory \<open>Prelude\<close>) is a function of an abstract
  world that returns, panics, exits, or (\<open>None\<close>) never returns.  What lies outside the repository (the
  operating system, HTTP, the node itself, the p2p library, snappy, secp256k1, blake2b, the cell
  index) is a record of the operations the code calls, an argument of the definitions; its documented
  behaviour is a hypothesis where a property relies on it, and every such property has a witness that
  runs it on concrete functions.  Errors are \<open>Inl\<close>.  Machine integers are words where their width
  matters, or naturals whose arithmetic panics or wraps at \<open>2 ^ 64\<close> as the build profile (\<open>oc\<close>, overflow
  checks) says.  Loops are structural recursion where the code's are bounded, and
  \<open>partial_function (option)\<close> otherwise, so that a loop that never ends is \<open>None\<close> and every statement
  \<open>f w = Some _\<close> includes termination; no fuel is used.  The iteration order of hash maps is a parameter.

  \<^bold>\<open>Theories, test kit.\<close>
  \<^item> \<open>Prelude\<close>, \<open>RustStr\<close>, \<open>CkbTypes\<close>: commands and their laws, checked arithmetic, clocks; string
    operations; the chain's data as records.
  \<^item> \<open>Util\<close> (\<open>util/mod.rs\<close>): \<open>wait_until\<close>, the port allocator, the \<open>since\<close> encodings.  It is shown when
    polling ends and with what, and which values the encodings keep.
  \<^item> \<open>Rpc\<close> (\<open>rpc/\<close>): the macro's clients, request identifiers, the conversion between the two versions'
    items, sending with confirmation.
  \<^item> \<open>Node\<close>, \<open>NodeFacts\<close> (\<open>node/\<close>): life cycle, mining, pool, peers; the facts cover each outcome of
    waiting, and that mining reaches its height.
  \<^item> \<open>NodeIndexer\<close>, \<open>Builder\<close>, \<open>Nodes\<close>, \<open>User\<close>: the index of live cells catches up with any fork; chains
    are built from instructions, each executed once at its height; collections of nodes; the cells a
    key can spend, exactly.
  \<^item> \<open>Compress\<close>, \<open>SupportProtocols\<close>, \<open>Messages\<close>, \<open>SharedState\<close>, \<open>Mailboxes\<close>, \<open>Connector\<close> (\<open>connector/\<close>):
    message framing with its round trip and its bound; the handlers as steps on the shared state, which
    refine a map of queues as long as no message arrives for a closed protocol; the interface between
    the two threads is the locale \<open>mailboxes\<close>, that between a protocol and its codec \<open>wire_transform\<close>.
  \<^item> \<open>StreamCodec\<close>, \<open>PubSub\<close> (\<open>subscribe/\<close>): cutting a byte stream into JSON messages however the bytes
    arrive; a subscription handle refines one queue of frames.

  \<^bold>\<open>Theories, benchmark.\<close>
  \<^item> \<open>Bench\<close> (\<open>bench.rs\<close>, \<open>utils.rs\<close>, \<open>watcher.rs\<close>), \<open>Prepare\<close> (\<open>prepare.rs\<close>), \<open>Stat\<close> (\<open>stat.rs\<close>, with the
    rounding of \<open>f64\<close>), \<open>BenchMain\<close> (\<open>main.rs\<close>): producers, dispatch and collect, the report, and the
    command line, of which it is shown that every line \<open>clap\<close> accepts is well typed.

  \<^bold>\<open>Theories, integration tests.\<close>
  \<^item> \<open>CaseRunner\<close> (\<open>case/mod.rs\<close>, \<open>case_options.rs\<close>, \<open>util/\<close>): what a case is, the arrangement of its
    nodes, destructors (a node is killed when its scope ends, also by a panic), and the locale
    \<open>table_case\<close>: a case whose rows are questions with accepted answers passes or panics as the answers
    say.  \<open>Deployer\<close> (\<open>util/deployer.rs\<close>) deploys cells.
  \<^item> \<open>Rfc0028\<close>, \<open>Rfc0029\<close>, \<open>Rfc0030\<close>, \<open>Rfc0031\<close>, \<open>Rfc0032\<close>, \<open>Rfc0034\<close>, \<open>Rfc0035Relay\<close>, \<open>Rfc0036\<close>
    (\<open>case/rfc00xx/\<close>): each case with its whole table.  The abstract specification of such a case is the
    rule of the RFC with its parameters open (the height of the fork, a limit, which start of a lock);
    the theorems say that the case passes exactly against nodes that follow the rule with the right
    parameters, so that the tables test what they are meant to test, or (\<open>Rfc0030\<close>) that a part of the
    table is never put to a node.  \<open>CaseNetworking\<close> and \<open>CasePeers\<close> hold the cases in which nodes or a
    fake peer talk to a node.
  \<^item> \<open>CaseMain\<close> (\<open>main.rs\<close>, \<open>testdata/\<close>): the command line, which cases it selects, and the generators of
    the databases.
  \<^item> \<open>LabWorld\<close>, \<open>ScriptedLab\<close>: small concrete worlds in which the witnesses run whole cases.

  \<^bold>\<open>Bounds.\<close>  Heights are assumed far below \<open>2 ^ 64\<close> where a theorem adds to them, and the theorems say so
  (\<open>< u64_lim\<close>); the rounding in \<open>Stat\<close> is exact for the magnitudes stated there; payloads above 8 MB
  are outside the round trip of \<open>Compress\<close>, and the theorem on its bound says what becomes of them.

  \<^bold>\<open>Not modelled.\<close>  Log output (\<open>logger.rs\<close>, the log macros and the per-case log target), help texts and
  version strings of the command lines, the unit tests of the benchmark (\<open>ckb-bench/src/tests\<close>), module
  declarations and re-exports, and everything that is not Rust code (deployment scripts, node
  configurations).  Of assertion messages the text is kept and the values computed only for it are left
  out, with the requests some of them make.  Caches that only save a repeated computation (the
  versions in \<open>shortcuts.rs\<close>, the shared HTTP client) are computed once where they are used.  Of the
  destructors, those of the nodes are modelled in the integration tests; the process of a node whose
  \<open>start\<close> panics has no owner yet and survives, as in the code.
\<close>

end
